(* ===== verification/Go_Prelude.thy ===== *)
theory Go_Prelude
  imports Main "HOL-Library.Finite_Map" "HOL-Library.List_Lexorder" "HOL-Library.Char_ord"
    "HOL-Library.Sublist"
begin

text \<open>
  The part of Go the controller is written in, as HOL: a computation that may panic and that
  changes a state (\<open>go\<close>), Go maps as finite maps with their \<open>range\<close> loops, the standard
  library's string helpers, and the proof collections the component theories share.

  \<^item> A computation of type \<open>('w, 'a) go\<close> takes the state of the program and returns either a
    value or a panic, and the state at that moment (what was done before a panic stays done).
  \<^item> A Go map is an \<open>fmap\<close>: finite, and equal exactly when it has the same entries.  A
    \<open>range\<close> loop runs over the entries in some order the language does not fix; the loop is a
    function on the list of entries it visits, and \<open>is_range\<close> says which lists are possible.
  \<^item> \<open>step_relation\<close> is the contract of a relation between the states before and after a
    computation that holds of every program made of steps for which it holds.
\<close>

section \<open>Computations that may panic\<close>

named_theorems go_run \<open>equations that run one step of a computation\<close>
named_theorems frame \<open>rules that push a before/after relation through a computation\<close>
named_theorems gomap \<open>equations of Go map operations and loops\<close>

datatype 'a outcome = Ret 'a | Panic string

type_synonym ('w, 'a) go = "'w \<Rightarrow> 'a outcome \<times> 'w"

definition ret :: "'a \<Rightarrow> ('w, 'a) go" where
  "ret x = (\<lambda>w. (Ret x, w))"

definition panic :: "string \<Rightarrow> ('w, 'a) go" where
  "panic msg = (\<lambda>w. (Panic msg, w))"

definition bind_go :: "('w, 'a) go \<Rightarrow> ('a \<Rightarrow> ('w, 'b) go) \<Rightarrow> ('w, 'b) go" where
  "bind_go m f = (\<lambda>w. case m w of (Ret x, w') \<Rightarrow> f x w' | (Panic p, w') \<Rightarrow> (Panic p, w'))"

text \<open>The runtime errors the language itself raises.\<close>

definition nil_deref :: string where
  "nil_deref = ''runtime error: invalid memory address or nil pointer dereference''"

definition nil_conversion :: string where
  "nil_conversion = ''interface conversion: interface is nil, not *cluster.resource''"

lemma ret_run [go_run]: "ret x w = (Ret x, w)"
  by (simp add: ret_def)

lemma panic_run [go_run]: "panic msg w = (Panic msg, w)"
  by (simp add: panic_def)

lemma bind_go_run [go_run]:
  "bind_go m f w = (case m w of (Ret x, w') \<Rightarrow> f x w' | (Panic p, w') \<Rightarrow> (Panic p, w'))"
  by (simp add: bind_go_def)

lemma bind_ret [simp]: "bind_go (ret x) f = f x"
  by (simp add: bind_go_def ret_def)

lemma bind_ret_right [simp]: "bind_go m ret = m"
  by (rule ext) (simp add: bind_go_def ret_def split: prod.split outcome.split)

lemma bind_panic [simp]: "bind_go (panic msg) f = panic msg"
  by (simp add: bind_go_def panic_def)

lemma bind_assoc: "bind_go (bind_go m f) g = bind_go m (\<lambda>x. bind_go (f x) g)"
  by (rule ext) (simp add: bind_go_def split: prod.split outcome.split)

lemma bind_go_RetD:
  assumes "bind_go m f w = (Ret y, w')"
  obtains x v where "m w = (Ret x, v)" and "f x v = (Ret y, w')"
  using assms by (auto simp: bind_go_def split: prod.splits outcome.splits)

text \<open>Computations that never panic.\<close>

named_theorems no_panic \<open>rules that show a computation returns\<close>

definition returns :: "('w, 'a) go \<Rightarrow> bool" where
  "returns m \<longleftrightarrow> (\<forall>w. \<exists>x w'. m w = (Ret x, w'))"

lemma returns_ret [no_panic]: "returns (ret x)"
  by (simp add: returns_def ret_run)

lemma returns_bind [no_panic]:
  assumes "returns m" and "\<And>x. returns (f x)"
  shows "returns (bind_go m f)"
  unfolding returns_def
proof
  fix w
  from assms(1) obtain x v where "m w = (Ret x, v)" unfolding returns_def by blast
  with assms(2) [of x] show "\<exists>y w'. bind_go m f w = (Ret y, w')"
    by (simp add: returns_def bind_go_def)
qed

lemma returns_if [no_panic]: "returns m \<Longrightarrow> returns n \<Longrightarrow> returns (if b then m else n)"
  by simp

lemma returns_option [no_panic]:
  "returns m \<Longrightarrow> (\<And>x. returns (f x)) \<Longrightarrow> returns (case v of None \<Rightarrow> m | Some x \<Rightarrow> f x)"
  by (cases v) simp_all

lemma returns_sum [no_panic]:
  "(\<And>x. returns (f x)) \<Longrightarrow> (\<And>y. returns (g y)) \<Longrightarrow> returns (case v of Inl x \<Rightarrow> f x | Inr y \<Rightarrow> g y)"
  by (cases v) simp_all

lemma returns_prod [no_panic]:
  "(\<And>x y. returns (f x y)) \<Longrightarrow> returns (case v of (x, y) \<Rightarrow> f x y)"
  by (cases v) simp

lemma returnsE:
  assumes "returns m" obtains x w' where "m w = (Ret x, w')"
  using assms unfolding returns_def by blast

text \<open>Where a computation panics, by its parts.\<close>

definition panics :: "('w, 'a) go \<Rightarrow> 'w \<Rightarrow> bool" where
  "panics m w \<longleftrightarrow> (case fst (m w) of Panic p \<Rightarrow> True | Ret x \<Rightarrow> False)"

lemma panics_simps [simp]:
  "\<not> panics (ret x) w"
  "panics (panic msg) w"
  by (simp_all add: panics_def go_run)

lemma returns_panics: "returns m \<Longrightarrow> \<not> panics m w"
  unfolding returns_def panics_def by (metis fst_conv outcome.case(1))

lemma panics_bind:
  "panics (bind_go m f) w \<longleftrightarrow>
     (case m w of (Ret x, v) \<Rightarrow> panics (f x) v | (Panic p, v) \<Rightarrow> True)"
  by (simp add: panics_def bind_go_def split: prod.split outcome.split)

lemma panics_bind_returns:
  assumes "\<And>x. returns (f x)" shows "panics (bind_go m f) w \<longleftrightarrow> panics m w"
  using returns_panics [OF assms]
  by (simp add: panics_bind) (simp add: panics_def split: prod.split outcome.split)

section \<open>Relations between the state before and after\<close>

definition keeps :: "('w \<Rightarrow> 'w \<Rightarrow> bool) \<Rightarrow> ('w, 'a) go \<Rightarrow> bool" where
  "keeps R m \<longleftrightarrow> (\<forall>w. R w (snd (m w)))"

lemma keepsI: "(\<And>w. R w (snd (m w))) \<Longrightarrow> keeps R m"
  by (simp add: keeps_def)

lemma keepsD: "keeps R m \<Longrightarrow> m w = (x, w') \<Longrightarrow> R w w'"
  by (metis keeps_def snd_conv)

lemma keeps_mono: "keeps R m \<Longrightarrow> (\<And>w w'. R w w' \<Longrightarrow> S w w') \<Longrightarrow> keeps S m"
  by (simp add: keeps_def)

text \<open>Case distinctions need nothing of the relation.\<close>

lemma keeps_if [frame]: "keeps R m \<Longrightarrow> keeps R n \<Longrightarrow> keeps R (if b then m else n)"
  by simp

lemma keeps_option [frame]:
  "keeps R m \<Longrightarrow> (\<And>x. keeps R (f x)) \<Longrightarrow> keeps R (case v of None \<Rightarrow> m | Some x \<Rightarrow> f x)"
  by (cases v) simp_all

lemma keeps_sum [frame]:
  "(\<And>x. keeps R (f x)) \<Longrightarrow> (\<And>y. keeps R (g y)) \<Longrightarrow> keeps R (case v of Inl x \<Rightarrow> f x | Inr y \<Rightarrow> g y)"
  by (cases v) simp_all

lemma keeps_prod [frame]:
  "(\<And>x y. keeps R (f x y)) \<Longrightarrow> keeps R (case v of (x, y) \<Rightarrow> f x y)"
  by (cases v) simp

lemma keeps_let [frame]: "keeps R (f v) \<Longrightarrow> keeps R (let x = v in f x)"
  by simp

text \<open>Sequencing needs a preorder.\<close>

locale step_relation =
  fixes R :: "'w \<Rightarrow> 'w \<Rightarrow> bool"
  assumes R_refl: "R w w"
    and R_trans: "R u v \<Longrightarrow> R v w \<Longrightarrow> R u w"
begin

lemma keeps_ret [frame]: "keeps R (ret x)"
  by (simp add: keeps_def ret_def R_refl)

lemma keeps_panic [frame]: "keeps R (panic msg)"
  by (simp add: keeps_def panic_def R_refl)

lemma keeps_pure: "(\<And>w. snd (m w) = w) \<Longrightarrow> keeps R m"
  by (simp add: keeps_def R_refl)

lemma bind_from:
  assumes m: "R w (snd (m w))" and f: "\<And>x. keeps R (f x)"
  shows "R w (snd (bind_go m f w))"
proof -
  obtain x v where mw: "m w = (x, v)" by (cases "m w")
  with m have wv: "R w v" by simp
  show ?thesis
  proof (cases x)
    case (Ret a)
    have "R v (snd (f a v))" using f [of a] by (simp add: keeps_def)
    with wv have "R w (snd (f a v))" by (rule R_trans)
    with mw Ret show ?thesis by (simp add: bind_go_def)
  next
    case (Panic p)
    with mw wv show ?thesis by (simp add: bind_go_def)
  qed
qed

lemma keeps_bind [frame]: "keeps R m \<Longrightarrow> (\<And>x. keeps R (f x)) \<Longrightarrow> keeps R (bind_go m f)"
  by (rule keepsI, rule bind_from) (simp_all add: keeps_def)

end

section \<open>Go maps\<close>

type_synonym 'v gomap = "(string, 'v) fmap"

text \<open>The lists of entries a \<open>range\<close> loop over \<open>m\<close> may visit, and one of them.\<close>

definition is_range :: "(string \<times> 'v) list \<Rightarrow> 'v gomap \<Rightarrow> bool" where
  "is_range es m \<longleftrightarrow> distinct (map fst es) \<and> fmap_of_list es = m"

definition go_range :: "'v gomap \<Rightarrow> (string \<times> 'v) list" where
  "go_range m = map (\<lambda>k. (k, the (fmlookup m k))) (sorted_list_of_fset (fmdom m))"

definition go_len :: "'v gomap \<Rightarrow> nat" where
  "go_len m = fcard (fmdom m)"

lemma go_len_0 [gomap, simp]: "go_len m = 0 \<longleftrightarrow> m = fmempty"
proof
  assume "go_len m = 0"
  then have "fmdom m = {||}" by (simp add: go_len_def)
  then show "m = fmempty" by (intro fmap_ext) (simp add: fmdom_notD)
qed (simp add: go_len_def)

lemma go_len_pos [gomap, simp]: "0 < go_len m \<longleftrightarrow> m \<noteq> fmempty"
  using go_len_0 [of m] by (metis neq0_conv)

lemma map_fst_go_range: "map fst (go_range m) = sorted_list_of_fset (fmdom m)"
  by (simp add: go_range_def comp_def)

lemma go_range_is_range: "is_range (go_range m) m"
proof -
  have d: "distinct (map fst (go_range m))"
    by (simp add: map_fst_go_range sorted_list_of_fset.rep_eq)
  have "fmlookup (fmap_of_list (go_range m)) k = fmlookup m k" for k
  proof (cases "k |\<in>| fmdom m")
    case True
    then have "(k, the (fmlookup m k)) \<in> set (go_range m)"
      by (auto simp: go_range_def)
    with d have "map_of (go_range m) k = Some (the (fmlookup m k))"
      by (simp add: map_of_eq_Some_iff)
    with True show ?thesis by (auto simp: fmlookup_of_list fmlookup_dom_iff)
  next
    case False
    then have "map_of (go_range m) k = None"
      by (simp add: map_of_eq_None_iff go_range_def image_image)
    with False show ?thesis by (simp add: fmlookup_of_list fmdom_notD)
  qed
  with d show ?thesis by (auto simp: is_range_def intro: fmap_ext)
qed

lemma is_range_lookup: "is_range es m \<Longrightarrow> map_of es k = fmlookup m k"
  by (auto simp: is_range_def fmlookup_of_list)

lemma is_range_keys: "is_range es m \<Longrightarrow> set (map fst es) = fset (fmdom m)"
  by (force simp: is_range_def fset_of_list.rep_eq image_iff)

text \<open>
  A loop that writes \<open>f v\<close> at each key it visits: the result is the map with every entry
  transformed, on top of what the target held, in whatever order the entries are visited.
\<close>

fun store_entries :: "('v \<Rightarrow> 'u) \<Rightarrow> (string \<times> 'v) list \<Rightarrow> 'u gomap \<Rightarrow> 'u gomap" where
  "store_entries f [] acc = acc"
| "store_entries f ((k, v) # es) acc = store_entries f es (fmupd k (f v) acc)"

lemma store_entries_lookup:
  "distinct (map fst es) \<Longrightarrow>
   fmlookup (store_entries f es acc) k =
     (case map_of es k of None \<Rightarrow> fmlookup acc k | Some v \<Rightarrow> Some (f v))"
proof (induction f es acc rule: store_entries.induct)
  case (2 f k' v es acc)
  then have "map_of es k' = None" by (simp add: map_of_eq_None_iff)
  with 2 show ?case by (cases "k = k'") (simp_all split: option.split)
qed simp

lemma store_entries_range [gomap]:
  assumes "is_range es m"
  shows "store_entries f es acc = acc ++\<^sub>f fmmap f m"
proof (rule fmap_ext)
  fix k
  have "fmlookup (store_entries f es acc) k =
      (case fmlookup m k of None \<Rightarrow> fmlookup acc k | Some v \<Rightarrow> Some (f v))"
    using assms by (simp add: store_entries_lookup is_range_lookup [symmetric]) (simp add: is_range_def
      store_entries_lookup)
  then show "fmlookup (store_entries f es acc) k = fmlookup (acc ++\<^sub>f fmmap f m) k"
    by (cases "fmlookup m k") (simp_all add: fmdom_notI fmdomI)
qed

text \<open>A loop that deletes the visited keys that satisfy a test.\<close>

fun delete_keys :: "(string \<Rightarrow> bool) \<Rightarrow> string list \<Rightarrow> 'v gomap \<Rightarrow> 'v gomap" where
  "delete_keys P [] acc = acc"
| "delete_keys P (k # ks) acc = delete_keys P ks (if P k then fmdrop k acc else acc)"

lemma delete_keys_filter:
  "delete_keys P ks acc = fmfilter (\<lambda>k. \<not> (P k \<and> k \<in> set ks)) acc"
proof (induction P ks acc rule: delete_keys.induct)
  case (2 P k ks acc)
  then show ?case by (intro fmap_ext) auto
qed simp

text \<open>Membership and overriding, by lookup.\<close>

lemma fmdom_lookup [gomap]: "k |\<in>| fmdom m \<longleftrightarrow> fmlookup m k \<noteq> None"
  by (auto simp: fmlookup_dom_iff)

lemma fmadd_lookup [gomap]:
  "fmlookup (m ++\<^sub>f n) k = (case fmlookup n k of None \<Rightarrow> fmlookup m k | Some v \<Rightarrow> Some v)"
  by (cases "fmlookup n k") (simp_all add: fmdom_notI fmdomI)

section \<open>Standard library strings\<close>

definition strings_HasPrefix :: "string \<Rightarrow> string \<Rightarrow> bool" where
  "strings_HasPrefix s p = prefix p s"

definition slices_Contains :: "string list \<Rightarrow> string \<Rightarrow> bool" where
  "slices_Contains xs x = (x \<in> set xs)"

text \<open>\<open>*p\<close> of a string pointer the code has tested, and the string of a pointer that may be nil.\<close>

definition str_or_empty :: "string option \<Rightarrow> string" where
  "str_or_empty p = (case p of None \<Rightarrow> '''' | Some s \<Rightarrow> s)"

lemma str_or_empty_simps [simp]: "str_or_empty None = ''''" "str_or_empty (Some s) = s"
  by (simp_all add: str_or_empty_def)

end
