(* ===== verification/Go_Errors.thy ===== *)
theory Go_Errors
  imports Go_Prelude
begin

text \<open>
  Go error values, as the controller looks at them: the dynamic type of the value, its message,
  and the errors it wraps.  \<open>errors_As\<close> is \<open>errors.As\<close> of the standard library: the value
  itself, then the errors it wraps, depth first; the first whose type matches is the result.

  A sentinel (a package-level error variable, compared with \<open>==\<close>) is known by the name of its
  variable.  An error that answers \<open>smithy.APIError\<close> carries its \<open>ErrorCode()\<close>; the typed
  \<open>ResourceNotFoundException\<close> of the SDK answers it too.
\<close>

datatype go_type =
    SentinelT string
  | APIErrorT string
  | ResourceNotFoundT string
  | TerminalErrorT
  | OtherT string

datatype error = Error (dyn_type: go_type) (Error_text: string) (unwrapped: "error list")

fun errors_As :: "(go_type \<Rightarrow> bool) \<Rightarrow> error \<Rightarrow> error option"
  and errors_As_any :: "(go_type \<Rightarrow> bool) \<Rightarrow> error list \<Rightarrow> error option" where
  "errors_As P (Error t msg es) = (if P t then Some (Error t msg es) else errors_As_any P es)"
| "errors_As_any P [] = None"
| "errors_As_any P (e # es) =
     (case errors_As P e of None \<Rightarrow> errors_As_any P es | Some x \<Rightarrow> Some x)"

text \<open>The targets of \<open>errors.As\<close> in the code.\<close>

fun is_APIError :: "go_type \<Rightarrow> bool" where
  "is_APIError (APIErrorT _) = True"
| "is_APIError (ResourceNotFoundT _) = True"
| "is_APIError _ = False"

fun is_ResourceNotFoundException :: "go_type \<Rightarrow> bool" where
  "is_ResourceNotFoundException (ResourceNotFoundT _) = True"
| "is_ResourceNotFoundException _ = False"

fun is_TerminalError :: "go_type \<Rightarrow> bool" where
  "is_TerminalError TerminalErrorT = True"
| "is_TerminalError _ = False"

fun ErrorCode :: "error \<Rightarrow> string" where
  "ErrorCode (Error (APIErrorT c) _ _) = c"
| "ErrorCode (Error (ResourceNotFoundT c) _ _) = c"
| "ErrorCode (Error _ _ _) = ''''"

text \<open>\<open>fmt.Errorf\<close> without a \<open>%w\<close> verb: a fresh error that wraps nothing.\<close>

definition fmt_Errorf :: "string \<Rightarrow> error" where
  "fmt_Errorf msg = Error (OtherT ''*fmt.fmtError'') msg []"

lemma errors_As_fmt_Errorf [simp]:
  "errors_As is_APIError (fmt_Errorf msg) = None"
  "errors_As is_TerminalError (fmt_Errorf msg) = None"
  "errors_As is_ResourceNotFoundException (fmt_Errorf msg) = None"
  by (simp_all add: fmt_Errorf_def)

text \<open>What \<open>errors.As\<close> finds matches, and it finds something exactly when some error of the
  tree matches.\<close>

lemma errors_As_matches:
  "errors_As P e = Some x \<Longrightarrow> P (dyn_type x)"
  "errors_As_any P es = Some x \<Longrightarrow> P (dyn_type x)"
  by (induction P e and P es rule: errors_As_errors_As_any.induct)
     (auto split: if_splits option.splits)

lemma errors_As_mono:
  "(\<And>t. P t \<Longrightarrow> Q t) \<Longrightarrow> errors_As P e \<noteq> None \<Longrightarrow> errors_As Q e \<noteq> None"
  "(\<And>t. P t \<Longrightarrow> Q t) \<Longrightarrow> errors_As_any P es \<noteq> None \<Longrightarrow> errors_As_any Q es \<noteq> None"
  by (induction P e and P es rule: errors_As_errors_As_any.induct)
     (auto split: if_splits option.splits)

lemma errors_As_self: "P (dyn_type e) \<Longrightarrow> errors_As P e = Some e"
  by (cases e) simp

end
