(* ===== verification/Api_Types.thy ===== *)
theory Api_Types
  imports Go_Errors
begin

text \<open>
  The data of the custom resource: \<open>apis/v1alpha1/cluster.go\<close>, \<open>types.go\<close> and
  \<open>enums.go\<close>, with the fields of the ACK and Kubernetes types they embed that the controller
  reads or writes.  A Go pointer is an \<open>option\<close> (\<open>None\<close> is nil), a slice or map that the code
  tells apart from nil is an option of a list or map.  Record fields carry the name of the Go
  field with a prefix for its struct.
\<close>

section \<open>Enumerations\<close>

text \<open>\<open>ClusterStatus_SDK\<close>: the states of a cluster the service reports.\<close>

datatype ClusterStatus_SDK =
    ACTIVE | CREATING | DELETED | DELETING | FAILED | IDLE | INACTIVE | PENDING_DELETE
  | PENDING_SETUP | UPDATING

fun ClusterStatus_SDK_string :: "ClusterStatus_SDK \<Rightarrow> string" where
  "ClusterStatus_SDK_string ACTIVE = ''ACTIVE''"
| "ClusterStatus_SDK_string CREATING = ''CREATING''"
| "ClusterStatus_SDK_string DELETED = ''DELETED''"
| "ClusterStatus_SDK_string DELETING = ''DELETING''"
| "ClusterStatus_SDK_string FAILED = ''FAILED''"
| "ClusterStatus_SDK_string IDLE = ''IDLE''"
| "ClusterStatus_SDK_string INACTIVE = ''INACTIVE''"
| "ClusterStatus_SDK_string PENDING_DELETE = ''PENDING_DELETE''"
| "ClusterStatus_SDK_string PENDING_SETUP = ''PENDING_SETUP''"
| "ClusterStatus_SDK_string UPDATING = ''UPDATING''"

instantiation ClusterStatus_SDK :: enum
begin

definition enum_ClusterStatus_SDK :: "ClusterStatus_SDK list" where
  "enum_ClusterStatus_SDK =
     [ACTIVE, CREATING, DELETED, DELETING, FAILED, IDLE, INACTIVE, PENDING_DELETE, PENDING_SETUP,
      UPDATING]"

definition enum_all_ClusterStatus_SDK :: "(ClusterStatus_SDK \<Rightarrow> bool) \<Rightarrow> bool" where
  "enum_all_ClusterStatus_SDK P \<longleftrightarrow> list_all P enum_class.enum"

definition enum_ex_ClusterStatus_SDK :: "(ClusterStatus_SDK \<Rightarrow> bool) \<Rightarrow> bool" where
  "enum_ex_ClusterStatus_SDK P \<longleftrightarrow> list_ex P enum_class.enum"

instance
proof
  show univ: "(UNIV :: ClusterStatus_SDK set) = set enum_class.enum"
  proof (rule set_eqI)
    fix x :: ClusterStatus_SDK
    show "x \<in> UNIV \<longleftrightarrow> x \<in> set enum_class.enum"
      by (cases x) (simp_all add: enum_ClusterStatus_SDK_def)
  qed
  show "distinct (enum_class.enum :: ClusterStatus_SDK list)"
    by (simp add: enum_ClusterStatus_SDK_def)
  show "enum_class.enum_all P \<longleftrightarrow> Ball UNIV P" for P :: "ClusterStatus_SDK \<Rightarrow> bool"
    by (simp add: enum_all_ClusterStatus_SDK_def list_all_iff univ)
  show "enum_class.enum_ex P \<longleftrightarrow> Bex UNIV P" for P :: "ClusterStatus_SDK \<Rightarrow> bool"
    by (simp add: enum_ex_ClusterStatus_SDK_def list_ex_iff univ)
qed

end

lemma ClusterStatus_SDK_string_inj: "inj ClusterStatus_SDK_string"
  unfolding inj_def by code_simp

text \<open>
  The condition types the code names (constants of the ACK API; any other string is
  \<open>OtherCondition\<close>), and \<open>corev1.ConditionStatus\<close>, a string whose zero value is empty.
\<close>

datatype condition_type =
    ConditionTypeTerminal | ConditionTypeRecoverable | ConditionTypeResourceSynced
  | OtherCondition string

datatype condition_status = ConditionTrue | ConditionFalse | OtherStatus string

section \<open>Records\<close>

type_synonym time = int
type_synonym addr = nat

record Condition =
  cond_Type :: condition_type
  cond_Status :: condition_status
  cond_LastTransitionTime :: "time option"
  cond_Reason :: "string option"
  cond_Message :: "string option"

text \<open>A condition literal that gives the type alone: every other field is its zero value.\<close>

definition new_condition :: "condition_type \<Rightarrow> Condition" where
  "new_condition t =
     \<lparr>cond_Type = t, cond_Status = OtherStatus '''', cond_LastTransitionTime = None,
      cond_Reason = None, cond_Message = None\<rparr>"

type_synonym conditions = "Condition option list option"

record ResourceMetadata =
  meta_ARN :: "string option"
  meta_OwnerAccountID :: "string option"
  meta_Region :: "string option"
  meta_Partition :: "string option"

definition empty_ResourceMetadata :: ResourceMetadata where
  "empty_ResourceMetadata =
     \<lparr>meta_ARN = None, meta_OwnerAccountID = None, meta_Region = None, meta_Partition = None\<rparr>"

record AWSResourceReference =
  ref_Name :: "string option"
  ref_Namespace :: "string option"

record AWSResourceReferenceWrapper =
  ref_From :: "AWSResourceReference option"

record MultiRegionProperties =
  mrp_Clusters :: "string option list option"
  mrp_WitnessRegion :: "string option"

record EncryptionDetails =
  enc_EncryptionStatus :: "string option"
  enc_EncryptionType :: "string option"
  enc_KMSKeyARN :: "string option"

type_synonym tagmap = "string option gomap option"

record ClusterSpec =
  spec_DeletionProtectionEnabled :: "bool option"
  spec_KMSEncryptionKey :: "string option"
  spec_KMSEncryptionKeyRef :: "AWSResourceReferenceWrapper option"
  spec_MultiRegionProperties :: "MultiRegionProperties option"
  spec_Policy :: "string option"
  spec_Tags :: tagmap

record ClusterStatus =
  status_ACKResourceMetadata :: "ResourceMetadata option"
  status_Conditions :: conditions
  status_CreationTime :: "time option"
  status_EncryptionDetails :: "EncryptionDetails option"
  status_Endpoint :: "string option"
  status_Identifier :: "string option"
  status_Status :: "string option"

text \<open>The fields of the Kubernetes \<open>TypeMeta\<close> and \<open>ObjectMeta\<close> in use.\<close>

record TypeMeta =
  tm_Kind :: string
  tm_APIVersion :: string

record ObjectMeta =
  om_Name :: string
  om_Namespace :: string
  om_DeletionTimestamp :: "time option"
  om_Annotations :: "string gomap option"
  om_Finalizers :: "string list"

record Cluster =
  TypeMeta :: TypeMeta
  ObjectMeta :: ObjectMeta
  Spec :: ClusterSpec
  Status :: ClusterStatus

text \<open>
  \<open>type resource struct { ko *svcapitypes.Cluster }\<close>.  A \<open>*resource\<close> that may be nil is a
  \<open>resource option\<close>; an interface value \<open>acktypes.AWSResource\<close> is \<open>None\<close> when the interface
  is nil and \<open>Some p\<close> when it holds the pointer \<open>p\<close>, which may be nil in turn.
\<close>

record resource =
  ko :: "addr option"

type_synonym AWSResource = "resource option option"

end
