(* ===== verification/Sdk_Types.thy ===== *)
theory Sdk_Types
  imports Api_Types
begin

text \<open>
  The AWS SDK as the controller sees it: the request and response shapes of the DSQL client with
  the fields the code reads or writes, and the client itself, a record of one function per API.
  The client is a parameter of the model: a call takes the request and the state of the service
  and returns an error or a response and the new state, about which nothing is assumed.  (The
  state of the service also stands for everything else that changes it between two calls.)
  On success the SDK returns a response that is not nil.
\<close>

record SdkMultiRegionProperties =
  smrp_Clusters :: "string list option"
  smrp_WitnessRegion :: "string option"

record SdkEncryptionDetails =
  senc_EncryptionStatus :: string
  senc_EncryptionType :: string
  senc_KmsKeyArn :: "string option"

record GetClusterInput =
  gci_Identifier :: "string option"

record GetClusterOutput =
  gco_Arn :: "string option"
  gco_CreationTime :: "time option"
  gco_DeletionProtectionEnabled :: "bool option"
  gco_EncryptionDetails :: "SdkEncryptionDetails option"
  gco_Endpoint :: "string option"
  gco_Identifier :: "string option"
  gco_MultiRegionProperties :: "SdkMultiRegionProperties option"
  gco_Status :: string
  gco_Tags :: "string gomap option"

record CreateClusterInput =
  cci_DeletionProtectionEnabled :: "bool option"
  cci_KmsEncryptionKey :: "string option"
  cci_MultiRegionProperties :: "SdkMultiRegionProperties option"
  cci_Policy :: "string option"
  cci_Tags :: "string gomap option"

record CreateClusterOutput =
  cco_Arn :: "string option"
  cco_CreationTime :: "time option"
  cco_DeletionProtectionEnabled :: "bool option"
  cco_EncryptionDetails :: "SdkEncryptionDetails option"
  cco_Endpoint :: "string option"
  cco_Identifier :: "string option"
  cco_MultiRegionProperties :: "SdkMultiRegionProperties option"
  cco_Status :: string

record UpdateClusterInput =
  uci_DeletionProtectionEnabled :: "bool option"
  uci_Identifier :: "string option"
  uci_KmsEncryptionKey :: "string option"
  uci_MultiRegionProperties :: "SdkMultiRegionProperties option"

record UpdateClusterOutput =
  uco_Arn :: "string option"
  uco_CreationTime :: "time option"
  uco_Identifier :: "string option"
  uco_Status :: string

record DeleteClusterInput =
  dci_Identifier :: "string option"

record GetClusterPolicyInput =
  gcpi_Identifier :: "string option"

record GetClusterPolicyOutput =
  gcpo_Policy :: "string option"

record PutClusterPolicyInput =
  pcpi_Identifier :: "string option"
  pcpi_Policy :: "string option"

record DeleteClusterPolicyInput =
  dcpi_Identifier :: "string option"

record TagResourceInput =
  tri_ResourceArn :: "string option"
  tri_Tags :: "string gomap"

record UntagResourceInput =
  uri_ResourceArn :: "string option"
  uri_TagKeys :: "string list"

record 's sdkapi =
  api_GetCluster :: "GetClusterInput \<Rightarrow> 's \<Rightarrow> (error + GetClusterOutput) \<times> 's"
  api_CreateCluster :: "CreateClusterInput \<Rightarrow> 's \<Rightarrow> (error + CreateClusterOutput) \<times> 's"
  api_UpdateCluster :: "UpdateClusterInput \<Rightarrow> 's \<Rightarrow> (error + UpdateClusterOutput) \<times> 's"
  api_DeleteCluster :: "DeleteClusterInput \<Rightarrow> 's \<Rightarrow> (error + unit) \<times> 's"
  api_GetClusterPolicy :: "GetClusterPolicyInput \<Rightarrow> 's \<Rightarrow> (error + GetClusterPolicyOutput) \<times> 's"
  api_PutClusterPolicy :: "PutClusterPolicyInput \<Rightarrow> 's \<Rightarrow> (error + unit) \<times> 's"
  api_DeleteClusterPolicy :: "DeleteClusterPolicyInput \<Rightarrow> 's \<Rightarrow> (error + unit) \<times> 's"
  api_TagResource :: "TagResourceInput \<Rightarrow> 's \<Rightarrow> (error + unit) \<times> 's"
  api_UntagResource :: "UntagResourceInput \<Rightarrow> 's \<Rightarrow> (error + unit) \<times> 's"

text \<open>A request as it leaves the controller.\<close>

datatype request =
    GetClusterReq GetClusterInput
  | CreateClusterReq CreateClusterInput
  | UpdateClusterReq UpdateClusterInput
  | DeleteClusterReq DeleteClusterInput
  | GetClusterPolicyReq GetClusterPolicyInput
  | PutClusterPolicyReq PutClusterPolicyInput
  | DeleteClusterPolicyReq DeleteClusterPolicyInput
  | TagResourceReq TagResourceInput
  | UntagResourceReq UntagResourceInput

text \<open>Requests that only read.\<close>

fun is_read :: "request \<Rightarrow> bool" where
  "is_read (GetClusterReq _) = True"
| "is_read (GetClusterPolicyReq _) = True"
| "is_read _ = False"

end
