(* ===== verification/Ack_Lib.thy ===== *)
theory Ack_Lib
  imports Sdk_Types
begin

text \<open>
  The third-party Go packages the controller calls (the ACK runtime, the AWS SDK's pointer
  helpers, Kubernetes' object helpers).  Their code is not in this repository: every function is
  a field of the record \<open>acklib\<close>, a parameter of the definitions that use it.  What a property
  relies on is one of the laws below, which state the documented behaviour of the package; the
  theory \<open>Reference_Lib\<close> gives one library that obeys them all.
\<close>

section \<open>Values handed to the delta\<close>

text \<open>The \<open>interface{}\<close> arguments of \<open>Delta.Add\<close> and \<open>HasNilDifference\<close>.\<close>

datatype go_value =
    BoolV "bool option"
  | StringV "string option"
  | RefV "AWSResourceReferenceWrapper option"
  | MultiRegionV "MultiRegionProperties option"
  | StringsV "string option list option"
  | TagsV tagmap
  | ResourceV "resource option"

fun is_nil :: "go_value \<Rightarrow> bool" where
  "is_nil (BoolV v) = (v = None)"
| "is_nil (StringV v) = (v = None)"
| "is_nil (RefV v) = (v = None)"
| "is_nil (MultiRegionV v) = (v = None)"
| "is_nil (StringsV v) = (v = None)"
| "is_nil (TagsV v) = (v = None)"
| "is_nil (ResourceV v) = (v = None)"

text \<open>A delta is the list of the differences that were added to it: path, first and second value.\<close>

type_synonym delta = "(string \<times> go_value \<times> go_value) list"

section \<open>Configuration\<close>

text \<open>
  The controller's configuration and build metadata, with the fields this code reads; a Go object
  the code only passes on (a logger, a client configuration) is a number that identifies it.
\<close>

type_synonym handle = nat

record Config =
  cfg_EnableCrossNamespace :: bool
  cfg_Partition :: string
  cfg_ResourceTags :: "string list"

record ServiceControllerMetadata =
  md_GitCommit :: string
  md_GitVersion :: string
  md_BuildDate :: string
  md_ServiceAlias :: string
  md_ServiceAPIGroup :: string

type_synonym tags = "string gomap"

section \<open>The library\<close>

record acklib =
  \<comment> \<open>\<open>ackerr\<close>, \<open>ackrequeue\<close>\<close>
  ackerr_NotFound :: error
  ackerr_Terminal :: error
  ackerr_SecretTypeNotSupported :: error
  ackerr_SecretNotFound :: error
  ackerr_MissingNameIdentifier :: error
  ackerr_AWSError :: "error \<Rightarrow> error option"
  ackerr_WrapPostCreateError :: "error \<Rightarrow> error"
  ackerr_NewTerminalError :: "error \<Rightarrow> error"
  ackerr_ResourceReferenceAndIDNotSupportedFor :: "string \<Rightarrow> string \<Rightarrow> error"
  ackerr_ResourceReferenceTerminalFor :: "string \<Rightarrow> string \<Rightarrow> string \<Rightarrow> error"
  ackerr_ResourceReferenceNotSyncedFor :: "string \<Rightarrow> string \<Rightarrow> string \<Rightarrow> error"
  ackerr_ResourceReferenceMissingTargetFieldFor ::
    "string \<Rightarrow> string \<Rightarrow> string \<Rightarrow> string \<Rightarrow> error"
  ackrequeue_NeededAfter :: "error option \<Rightarrow> int \<Rightarrow> error"
  ackrequeue_DefaultRequeueAfterDuration :: int
  \<comment> \<open>\<open>ackcompare\<close>, \<open>equality\<close>\<close>
  ackcompare_NewDelta :: delta
  delta_Add :: "delta \<Rightarrow> string \<Rightarrow> go_value \<Rightarrow> go_value \<Rightarrow> delta"
  delta_DifferentAt :: "delta \<Rightarrow> string \<Rightarrow> bool"
  delta_DifferentExcept :: "delta \<Rightarrow> string list \<Rightarrow> bool"
  ackcompare_HasNilDifference :: "go_value \<Rightarrow> go_value \<Rightarrow> bool"
  ackcompare_SliceStringPEqual :: "string option list \<Rightarrow> string option list \<Rightarrow> bool"
  ackcompare_IAMPolicyDocumentEqual :: "string \<Rightarrow> string \<Rightarrow> error + bool"
  ackcompare_MapStringStringEqual :: "tags \<Rightarrow> tags \<Rightarrow> bool"
  ackcompare_GetTagsDifference :: "tags \<Rightarrow> tags \<Rightarrow> tags \<times> tags \<times> tags"
  equality_DeepEqual ::
    "AWSResourceReferenceWrapper option \<Rightarrow> AWSResourceReferenceWrapper option \<Rightarrow> bool"
  \<comment> \<open>\<open>acktags\<close>, \<open>ackrt\<close>, \<open>ackutil\<close>, \<open>ackcondition\<close>\<close>
  acktags_NewTags :: tags
  acktags_Merge :: "tags \<Rightarrow> tags \<Rightarrow> tags"
  ackrt_GetDefaultTags :: "Config \<Rightarrow> Cluster \<Rightarrow> ServiceControllerMetadata \<Rightarrow> tags"
  ackrt_ValidateCrossNamespaceReference ::
    "bool \<Rightarrow> string \<Rightarrow> string option \<Rightarrow> string \<Rightarrow> error + string"
  ackutil_InStrings :: "string \<Rightarrow> string list \<Rightarrow> bool"
  ackcondition_SetLateInitialized ::
    "conditions \<Rightarrow> condition_status \<Rightarrow> string option \<Rightarrow> string option \<Rightarrow> conditions"
  ackcondition_SetSynced ::
    "conditions \<Rightarrow> condition_status \<Rightarrow> string option \<Rightarrow> string option \<Rightarrow> conditions"
  \<comment> \<open>\<open>aws\<close>: pointer helpers on values that are not nil\<close>
  aws_String :: "string \<Rightarrow> string option"
  aws_StringSlice :: "string list \<Rightarrow> string option list"
  aws_ToStringSlice :: "string option list \<Rightarrow> string list"
  aws_StringMap :: "string gomap \<Rightarrow> string option gomap"
  aws_ToStringMap :: "string option gomap \<Rightarrow> string gomap"
  \<comment> \<open>Kubernetes: \<open>metav1\<close>, \<open>controllerutil\<close>, the ACK annotation\<close>
  metav1_Time_IsZero :: "time option \<Rightarrow> bool"
  k8sctrlutil_AddFinalizer :: "string list \<Rightarrow> string \<Rightarrow> string list"
  k8sctrlutil_RemoveFinalizer :: "string list \<Rightarrow> string \<Rightarrow> string list"
  ackv1alpha1_AnnotationAdopted :: string
  \<comment> \<open>the order in which the Go runtime visits the entries of a map\<close>
  go_map_order :: "tags \<Rightarrow> (string \<times> string) list"

section \<open>Documented behaviour\<close>

text \<open>\<open>NewTags\<close> is empty; \<open>Merge(a, b)\<close> holds the tags of both, and a tag of \<open>a\<close> wins.\<close>

definition new_tags_law :: "acklib \<Rightarrow> bool" where
  "new_tags_law L \<longleftrightarrow> acktags_NewTags L = fmempty"

definition merge_law :: "acklib \<Rightarrow> bool" where
  "merge_law L \<longleftrightarrow> (\<forall>a b. acktags_Merge L a b = b ++\<^sub>f a)"

text \<open>
  \<open>GetTagsDifference(from, to)\<close>: the pairs of \<open>to\<close> that are not in \<open>from\<close>, the pairs in both,
  and the pairs of \<open>from\<close> that are not in \<open>to\<close> (a tag whose value changed is in the first and
  in the last).
\<close>

definition tags_difference_law :: "acklib \<Rightarrow> bool" where
  "tags_difference_law L \<longleftrightarrow>
     (\<forall>from to added same removed.
        ackcompare_GetTagsDifference L from to = (added, same, removed) \<longrightarrow>
        (\<forall>k. fmlookup added k = (if fmlookup from k = fmlookup to k then None else fmlookup to k) \<and>
             fmlookup removed k =
               (if fmlookup from k = fmlookup to k then None else fmlookup from k)))"

text \<open>
  Paths: \<open>p\<close> contains \<open>q\<close> when the parts of \<open>q\<close>, split at the dots, are the first parts of
  \<open>p\<close>.  A delta is different at a path when a difference was added at a path that contains it,
  and different except at some paths when a difference was added at a path that contains none.
\<close>

fun split_dots :: "string \<Rightarrow> string \<Rightarrow> string list" where
  "split_dots part [] = [part]"
| "split_dots part (c # cs) =
     (if c = CHR ''.'' then part # split_dots '''' cs else split_dots (part @ [c]) cs)"

definition path_contains :: "string \<Rightarrow> string \<Rightarrow> bool" where
  "path_contains p q \<longleftrightarrow> prefix (split_dots '''' q) (split_dots '''' p)"

definition delta_law :: "acklib \<Rightarrow> bool" where
  "delta_law L \<longleftrightarrow>
     (\<forall>q. \<not> delta_DifferentAt L (ackcompare_NewDelta L) q) \<and>
     (\<forall>qs. \<not> delta_DifferentExcept L (ackcompare_NewDelta L) qs) \<and>
     (\<forall>d p a b q. delta_DifferentAt L (delta_Add L d p a b) q =
        (delta_DifferentAt L d q \<or> path_contains p q)) \<and>
     (\<forall>d p a b qs. delta_DifferentExcept L (delta_Add L d p a b) qs =
        (delta_DifferentExcept L d qs \<or> \<not> list_ex (path_contains p) qs))"

text \<open>\<open>HasNilDifference\<close>: one is nil and the other is not; the comparisons are equalities.\<close>

definition compare_law :: "acklib \<Rightarrow> bool" where
  "compare_law L \<longleftrightarrow>
     (\<forall>a b. ackcompare_HasNilDifference L a b = (is_nil a \<noteq> is_nil b)) \<and>
     (\<forall>a b. ackcompare_MapStringStringEqual L a b = (a = b)) \<and>
     (\<forall>a b. equality_DeepEqual L a b = (a = b)) \<and>
     (\<forall>a. ackcompare_SliceStringPEqual L a a)"

text \<open>\<open>AWSError\<close> finds the API error in the chain; a terminal error is one for \<open>errors.As\<close>.\<close>

definition error_law :: "acklib \<Rightarrow> bool" where
  "error_law L \<longleftrightarrow>
     (\<forall>e. ackerr_AWSError L e = errors_As is_APIError e) \<and>
     (\<forall>e. errors_As is_TerminalError (ackerr_NewTerminalError L e) \<noteq> None)"

text \<open>
  \<open>SetLateInitialized\<close> and \<open>SetSynced\<close> set the condition of their type, adding it when there is none,
  and leave the conditions of every other type alone; they add neither a nil nor a second condition.
\<close>

definition has_type :: "condition_type \<Rightarrow> Condition option \<Rightarrow> bool" where
  "has_type t c = (case c of None \<Rightarrow> False | Some c \<Rightarrow> cond_Type c = t)"

definition of_type :: "condition_type \<Rightarrow> conditions \<Rightarrow> Condition option list" where
  "of_type t cs = (case cs of None \<Rightarrow> [] | Some l \<Rightarrow> filter (has_type t) l)"

definition has_nil :: "conditions \<Rightarrow> bool" where
  "has_nil cs = (case cs of None \<Rightarrow> False | Some l \<Rightarrow> None \<in> set l)"

lemma has_nil_simps [simp]: "\<not> has_nil None" "has_nil (Some l) = (None \<in> set l)"
  by (simp_all add: has_nil_def)

lemma has_type_simps [simp]: "has_type t None = False" "has_type t (Some c) = (cond_Type c = t)"
  by (simp_all add: has_type_def)

lemma of_type_simps [simp]: "of_type t None = []" "of_type t (Some l) = filter (has_type t) l"
  by (simp_all add: of_type_def)

definition set_condition_law ::
  "(conditions \<Rightarrow> condition_status \<Rightarrow> string option \<Rightarrow> string option \<Rightarrow> conditions) \<Rightarrow>
   condition_type \<Rightarrow> bool" where
  "set_condition_law f t \<longleftrightarrow>
     (\<forall>cs s m r. (\<exists>c. c \<in> set (of_type t (f cs s m r))) \<and>
        (\<forall>c. Some c \<in> set (of_type t (f cs s m r)) \<longrightarrow>
           cond_Status c = s \<and> cond_Message c = m \<and> cond_Reason c = r) \<and>
        (\<forall>t'. t' \<noteq> t \<longrightarrow> of_type t' (f cs s m r) = of_type t' cs) \<and>
        length (of_type t (f cs s m r)) \<le> max 1 (length (of_type t cs)) \<and>
        (has_nil (f cs s m r) \<longrightarrow> has_nil cs))"

definition condition_law :: "acklib \<Rightarrow> bool" where
  "condition_law L \<longleftrightarrow>
     set_condition_law (ackcondition_SetLateInitialized L) (OtherCondition ''ACK.LateInitialized'') \<and>
     set_condition_law (ackcondition_SetSynced L) ConditionTypeResourceSynced"

text \<open>The AWS pointer helpers.\<close>

definition aws_law :: "acklib \<Rightarrow> bool" where
  "aws_law L \<longleftrightarrow>
     (\<forall>s. aws_String L s = Some s) \<and>
     (\<forall>ss. aws_StringSlice L ss = map Some ss) \<and>
     (\<forall>ps. aws_ToStringSlice L ps = map str_or_empty ps) \<and>
     (\<forall>m. aws_StringMap L m = fmmap Some m) \<and>
     (\<forall>m. aws_ToStringMap L m = fmmap str_or_empty m)"

definition util_law :: "acklib \<Rightarrow> bool" where
  "util_law L \<longleftrightarrow> (\<forall>s xs. ackutil_InStrings L s xs = (s \<in> set xs))"

text \<open>A \<open>range\<close> loop visits every entry once.\<close>

definition map_order_law :: "acklib \<Rightarrow> bool" where
  "map_order_law L \<longleftrightarrow> (\<forall>m. is_range (go_map_order L m) m)"

text \<open>
  \<open>AddFinalizer\<close> adds the finalizer if it is not present, \<open>RemoveFinalizer\<close> removes it if it
  is; both keep the others.
\<close>

definition finalizer_law :: "acklib \<Rightarrow> bool" where
  "finalizer_law L \<longleftrightarrow>
     (\<forall>fs f. k8sctrlutil_AddFinalizer L fs f = (if f \<in> set fs then fs else fs @ [f])) \<and>
     (\<forall>fs f. k8sctrlutil_RemoveFinalizer L fs f = filter (\<lambda>g. g \<noteq> f) fs)"

end
