(* ===== verification/World.thy ===== *)
theory World
  imports Ack_Lib
begin

text \<open>
  The state a computation of the controller changes: the custom resources in memory, the AWS
  service behind the client, the requests sent to it so far (in order) and the API calls recorded
  as metrics.  A \<open>*svcapitypes.Cluster\<close> is an address; two resources that hold the same address
  are the same object, so an assignment through one is seen through the other.  The objects
  \<open>DeepCopy\<close> returns are new: they live at \<open>brk\<close>, where nothing was allocated before.
\<close>

record 's world =
  svc :: 's
  heap :: "addr \<Rightarrow> Cluster"
  brk :: addr
  requests :: "request list"
  metrics :: "(string \<times> string \<times> error option) list"

text \<open>
  \<open>resourceManager\<close> (\<open>manager.go\<close>): configuration, identity of the account, region and partition
  it serves, and the client.  The logger, the metrics and the reconciler are only passed on.
\<close>

record 's resourceManager =
  rm_cfg :: Config
  rm_clientcfg :: handle
  rm_log :: handle
  rm_metrics :: handle
  rm_rr :: handle
  rm_awsAccountID :: string
  rm_awsRegion :: string
  rm_awsPartition :: string
  rm_sdkapi :: "'s sdkapi"

section \<open>Objects\<close>

definition deref :: "addr option \<Rightarrow> ('s world, Cluster) go" where
  "deref p = (\<lambda>w. case p of None \<Rightarrow> (Panic nil_deref, w) | Some a \<Rightarrow> (Ret (heap w a), w))"

definition modify_obj :: "(Cluster \<Rightarrow> Cluster) \<Rightarrow> addr option \<Rightarrow> ('s world, unit) go" where
  "modify_obj f p = (\<lambda>w. case p of None \<Rightarrow> (Panic nil_deref, w)
     | Some a \<Rightarrow> (Ret (), w\<lparr>heap := (heap w)(a := f (heap w a))\<rparr>))"

definition new_obj :: "Cluster \<Rightarrow> ('s world, addr option) go" where
  "new_obj c = (\<lambda>w. (Ret (Some (brk w)), w\<lparr>heap := (heap w)(brk w := c), brk := Suc (brk w)\<rparr>))"

text \<open>\<open>(*Cluster).DeepCopy\<close>: nil for nil, else a new object with the same content.\<close>

definition Cluster_DeepCopy :: "addr option \<Rightarrow> ('s world, addr option) go" where
  "Cluster_DeepCopy p =
     (case p of None \<Rightarrow> ret None | Some a \<Rightarrow> bind_go (deref p) (\<lambda>c. new_obj c))"

text \<open>\<open>r.ko\<close> of a \<open>*resource\<close>, and the type assertion of \<open>concreteResource\<close>.\<close>

definition resource_ko :: "resource option \<Rightarrow> ('s world, addr option) go" where
  "resource_ko r = (case r of None \<Rightarrow> panic nil_deref | Some r \<Rightarrow> ret (ko r))"

definition deref_resource :: "resource option \<Rightarrow> ('s world, Cluster) go" where
  "deref_resource r = bind_go (resource_ko r) deref"

definition concreteResource :: "AWSResource \<Rightarrow> ('s world, resource option) go" where
  "concreteResource res = (case res of None \<Rightarrow> panic nil_conversion | Some r \<Rightarrow> ret r)"

section \<open>The service and the metrics\<close>

definition invoke ::
  "('i \<Rightarrow> 's \<Rightarrow> (error + 'o) \<times> 's) \<Rightarrow> ('i \<Rightarrow> request) \<Rightarrow> 'i \<Rightarrow> ('s world, error + 'o) go" where
  "invoke op req input = (\<lambda>w. case op input (svc w) of
     (r, s) \<Rightarrow> (Ret r, w\<lparr>svc := s, requests := requests w @ [req input]\<rparr>))"

definition err_of :: "error + 'o \<Rightarrow> error option" where
  "err_of r = (case r of Inl e \<Rightarrow> Some e | Inr _ \<Rightarrow> None)"

definition RecordAPICall :: "string \<Rightarrow> string \<Rightarrow> error option \<Rightarrow> ('s world, unit) go" where
  "RecordAPICall opType opID err =
     (\<lambda>w. (Ret (), w\<lparr>metrics := metrics w @ [(opType, opID, err)]\<rparr>))"

text \<open>An API call and the metric recorded right after it, as every call site has them.\<close>

definition call_api ::
  "('i \<Rightarrow> 's \<Rightarrow> (error + 'o) \<times> 's) \<Rightarrow> ('i \<Rightarrow> request) \<Rightarrow> string \<Rightarrow> string \<Rightarrow> 'i \<Rightarrow>
   ('s world, error + 'o) go" where
  "call_api op req opType opID input =
     bind_go (invoke op req input) (\<lambda>r.
     bind_go (RecordAPICall opType opID (err_of r)) (\<lambda>_. ret r))"

lemma deref_run [go_run]:
  "deref None w = (Panic nil_deref, w)"
  "deref (Some a) w = (Ret (heap w a), w)"
  by (simp_all add: deref_def)

lemma modify_obj_run [go_run]:
  "modify_obj f None w = (Panic nil_deref, w)"
  "modify_obj f (Some a) w = (Ret (), w\<lparr>heap := (heap w)(a := f (heap w a))\<rparr>)"
  by (simp_all add: modify_obj_def)

lemma new_obj_run [go_run]:
  "new_obj c w = (Ret (Some (brk w)), w\<lparr>heap := (heap w)(brk w := c), brk := Suc (brk w)\<rparr>)"
  by (simp add: new_obj_def)

lemma DeepCopy_run [go_run]:
  "Cluster_DeepCopy None w = (Ret None, w)"
  "Cluster_DeepCopy (Some a) w =
     (Ret (Some (brk w)), w\<lparr>heap := (heap w)(brk w := heap w a), brk := Suc (brk w)\<rparr>)"
  by (simp_all add: Cluster_DeepCopy_def go_run)

lemma resource_run [go_run]:
  "resource_ko None w = (Panic nil_deref, w)"
  "resource_ko (Some r) w = (Ret (ko r), w)"
  "concreteResource None w = (Panic nil_conversion, w)"
  "concreteResource (Some p) w = (Ret p, w)"
  "deref_resource None w = (Panic nil_deref, w)"
  "deref_resource (Some r) w = deref (ko r) w"
  by (simp_all add: resource_ko_def concreteResource_def deref_resource_def go_run)

lemma invoke_run [go_run]:
  "invoke op req input w =
     (Ret (fst (op input (svc w))),
      w\<lparr>svc := snd (op input (svc w)), requests := requests w @ [req input]\<rparr>)"
  by (simp add: invoke_def split: prod.split)

lemma RecordAPICall_run [go_run]:
  "RecordAPICall t i err w = (Ret (), w\<lparr>metrics := metrics w @ [(t, i, err)]\<rparr>)"
  by (simp add: RecordAPICall_def)

lemma call_api_run [go_run]:
  "call_api op req t i input w =
     (Ret (fst (op input (svc w))),
      w\<lparr>svc := snd (op input (svc w)), requests := requests w @ [req input],
        metrics := metrics w @ [(t, i, err_of (fst (op input (svc w))))]\<rparr>)"
  by (simp add: call_api_def go_run)

lemma objects_return [no_panic]:
  "returns (deref (Some a))"
  "returns (modify_obj f (Some a))"
  "returns (new_obj c)"
  "returns (Cluster_DeepCopy p)"
  "returns (call_api op req t i input)"
  by (simp_all add: returns_def go_run Cluster_DeepCopy_def split: option.split)

lemma err_of_simps [simp]: "err_of (Inl e) = Some e" "err_of (Inr x) = None"
  by (simp_all add: err_of_def)

section \<open>What a computation leaves alone\<close>

text \<open>
  \<open>writes A\<close>: of the objects that exist before, only those in \<open>A\<close> may change, and no object
  goes away.  \<open>sends Q\<close>: the requests sent are appended to those sent before, and each satisfies
  \<open>Q\<close>.  \<open>silent\<close>: nothing is sent, the service is not touched and no metric is recorded.
\<close>

definition writes :: "addr set \<Rightarrow> 's world \<Rightarrow> 's world \<Rightarrow> bool" where
  "writes A w w' \<longleftrightarrow> brk w \<le> brk w' \<and> (\<forall>a < brk w. a \<notin> A \<longrightarrow> heap w' a = heap w a)"

definition sends :: "(request \<Rightarrow> bool) \<Rightarrow> 's world \<Rightarrow> 's world \<Rightarrow> bool" where
  "sends Q w w' \<longleftrightarrow> (\<exists>rs. requests w' = requests w @ rs \<and> list_all Q rs)"

definition silent :: "'s world \<Rightarrow> 's world \<Rightarrow> bool" where
  "silent w w' \<longleftrightarrow> svc w' = svc w \<and> requests w' = requests w \<and> metrics w' = metrics w"

interpretation writes: step_relation "writes A" for A
  by unfold_locales (fastforce simp: writes_def)+

interpretation sends: step_relation "sends Q" for Q
proof
  show "sends Q w w" for w :: "'s world" by (simp add: sends_def)
  show "sends Q u w" if "sends Q u v" and "sends Q v w" for u v w :: "'s world"
    using that by (fastforce simp: sends_def)
qed

interpretation silent: step_relation silent
  by unfold_locales (auto simp: silent_def)

lemma writes_mono: "writes A w w' \<Longrightarrow> A \<subseteq> B \<Longrightarrow> writes B w w'"
  by (auto simp: writes_def)

lemma keeps_objects [frame]:
  "keeps (writes A) (deref p)"
  "keeps (writes A) (new_obj c)"
  "keeps (writes A) (Cluster_DeepCopy p)"
  "keeps (writes A) (resource_ko r)"
  "keeps (writes A) (deref_resource r)"
  "keeps (writes A) (concreteResource res)"
  "keeps (writes A) (call_api op req t i input)"
  by (rule keepsI, auto simp: writes_def go_run deref_def Cluster_DeepCopy_def resource_ko_def
        deref_resource_def concreteResource_def split: option.split)+

lemma keeps_modify [frame]:
  "set_option p \<subseteq> A \<Longrightarrow> keeps (writes A) (modify_obj f p)"
  by (rule keepsI) (auto simp: writes_def modify_obj_def split: option.split)

text \<open>What is done to a fresh copy is not done to any object that was there before.\<close>

lemma keeps_copy [frame]:
  assumes copy: "\<And>k. keeps (writes (insert k A)) (f (Some k))" and none: "keeps (writes A) (f None)"
  shows "keeps (writes A) (bind_go (Cluster_DeepCopy p) f)"
proof (rule keepsI)
  fix w
  show "writes A w (snd (bind_go (Cluster_DeepCopy p) f w))"
  proof (cases p)
    case None
    with none show ?thesis by (simp add: go_run keeps_def)
  next
    case (Some a)
    let ?v = "w\<lparr>heap := (heap w)(brk w := heap w a), brk := Suc (brk w)\<rparr>"
    have "writes (insert (brk w) A) ?v (snd (f (Some (brk w)) ?v))"
      using copy [of "brk w"] by (simp add: keeps_def)
    then have "writes A w (snd (f (Some (brk w)) ?v))"
      by (auto simp: writes_def less_Suc_eq)
    with Some show ?thesis by (simp add: go_run)
  qed
qed

lemma keeps_silent [frame]:
  "keeps silent (deref p)"
  "keeps silent (modify_obj f p)"
  "keeps silent (new_obj c)"
  "keeps silent (Cluster_DeepCopy p)"
  "keeps silent (resource_ko r)"
  "keeps silent (deref_resource r)"
  "keeps silent (concreteResource res)"
  by (rule keepsI, auto simp: silent_def go_run deref_def modify_obj_def Cluster_DeepCopy_def
        resource_ko_def deref_resource_def concreteResource_def split: option.split)+

lemma silent_sends: "silent w w' \<Longrightarrow> sends Q w w'"
  by (simp add: silent_def sends_def)

lemma keeps_sends_silent: "keeps silent m \<Longrightarrow> keeps (sends Q) m"
  by (erule keeps_mono) (rule silent_sends)

lemma keeps_sends [frame]:
  "Q (req input) \<Longrightarrow> keeps (sends Q) (call_api op req t i input)"
  by (rule keepsI) (simp add: sends_def go_run)

lemmas keeps_sends_objects [frame] = keeps_silent [THEN keeps_sends_silent]

end
