(* ===== verification/Tags.thy ===== *)
theory Tags
  imports World
begin

text \<open>
  \<open>pkg/resource/cluster/tags.go\<close>: the conversion between the tags of the resource (a map to
  string pointers) and the ACK runtime's tags (a map to strings), and the two functions that keep
  the tags AWS manages (keys that start with \<open>aws:\<close>) out of the controller's hands.
\<close>

definition aws_prefix :: string where
  "aws_prefix = ''aws:''"

section \<open>Conversions\<close>

definition convertToOrderedACKTags :: "acklib \<Rightarrow> tagmap \<Rightarrow> tags \<times> string list" where
  "convertToOrderedACKTags L tagm =
     (let result = acktags_NewTags L; keyOrder = [] in
      case tagm of
        None \<Rightarrow> (result, keyOrder)
      | Some m \<Rightarrow>
          if go_len m = 0 then (result, keyOrder)
          else (store_entries
                  (\<lambda>v. case v of None \<Rightarrow> '''' | Some s \<Rightarrow> s) (go_range m) result, keyOrder))"

definition fromACKTags :: "tags \<Rightarrow> string list \<Rightarrow> tagmap" where
  "fromACKTags tagm keyOrder = Some (store_entries (\<lambda>v. Some v) (go_range tagm) fmempty)"

text \<open>What a tag map of the resource means to the ACK runtime: nil is no tags, a nil value ''.\<close>

definition tag_view :: "tagmap \<Rightarrow> tags" where
  "tag_view t = (case t of None \<Rightarrow> fmempty | Some m \<Rightarrow> fmmap str_or_empty m)"

lemma tag_view_simps [simp]:
  "tag_view None = fmempty" "tag_view (Some m) = fmmap str_or_empty m"
  by (simp_all add: tag_view_def)

lemma str_or_empty_fun: "(\<lambda>v. case v of None \<Rightarrow> '''' | Some s \<Rightarrow> s) = str_or_empty"
  by (simp add: fun_eq_iff str_or_empty_def)

lemma convert_view:
  "convertToOrderedACKTags L t = (acktags_NewTags L ++\<^sub>f tag_view t, [])"
  using store_entries_range [OF go_range_is_range]
  by (auto simp: convertToOrderedACKTags_def str_or_empty_fun Let_def split: option.split)

lemma from_view: "fromACKTags t ks = Some (fmmap Some t)"
  by (simp add: fromACKTags_def store_entries_range [OF go_range_is_range])

lemma fmmap_str_or_empty_Some [simp]: "fmmap str_or_empty (fmmap Some t) = t"
  by (rule fmap_ext) (simp add: option.map_comp comp_def option.map_ident)

lemma tag_view_from [simp]: "tag_view (fromACKTags t ks) = t"
  by (simp add: from_view)

lemma convert_view_law: "new_tags_law L \<Longrightarrow> convertToOrderedACKTags L t = (tag_view t, [])"
  by (simp add: convert_view new_tags_law_def)

text \<open>
  C40.  The two conversions are inverse to each other as far as that is possible.  Tags of the runtime
  survive the way into the resource and back.  Tags of the resource keep their keys on the way out and
  back, a value keeps its string, a nil value comes back as the empty string and a nil map as an empty
  one; so a second turn changes nothing.  The order of the keys, which the caller may pass on, is not
  recorded and does not matter.
\<close>

theorem tag_conversion_roundtrip:
  assumes "new_tags_law L"
  shows "convertToOrderedACKTags L (fromACKTags acktags order) = (acktags, []) \<and>
    (\<exists>again. fromACKTags (fst (convertToOrderedACKTags L tagm)) (snd (convertToOrderedACKTags L tagm)) = Some again \<and>
      (\<forall>k. fmlookup again k = (case tagm of None \<Rightarrow> None | Some m \<Rightarrow>
         (case fmlookup m k of None \<Rightarrow> None | Some None \<Rightarrow> Some (Some '''') | Some (Some v) \<Rightarrow> Some (Some v)))) \<and>
      fromACKTags (fst (convertToOrderedACKTags L (Some again))) order = Some again)"
  by (auto simp: convert_view_law [OF assms] from_view str_or_empty_def split: option.split)

lemma example_tags_law: "new_tags_law (L\<lparr>acktags_NewTags := fmempty\<rparr>)"
  by (simp add: new_tags_law_def)

definition example_tags :: tagmap where
  "example_tags = Some (fmap_of_list [(''team'', None), (''env'', Some ''dev'')])"

theorem tag_conversion_roundtrip_witness:
  "\<forall>L. \<exists>again. fromACKTags (fst (convertToOrderedACKTags (L\<lparr>acktags_NewTags := fmempty\<rparr>) example_tags))
      (snd (convertToOrderedACKTags (L\<lparr>acktags_NewTags := fmempty\<rparr>) example_tags)) = Some again \<and>
    fmlookup again ''team'' = Some (Some '''') \<and> fmlookup again ''env'' = Some (Some ''dev'')"
proof
  fix L :: acklib
  obtain again where again: "fromACKTags (fst (convertToOrderedACKTags (L\<lparr>acktags_NewTags := fmempty\<rparr>) example_tags))
      (snd (convertToOrderedACKTags (L\<lparr>acktags_NewTags := fmempty\<rparr>) example_tags)) = Some again"
    and all: "\<forall>k. fmlookup again k = (case example_tags of None \<Rightarrow> None | Some m \<Rightarrow>
      (case fmlookup m k of None \<Rightarrow> None | Some None \<Rightarrow> Some (Some '''') | Some (Some v) \<Rightarrow> Some (Some v)))"
    using tag_conversion_roundtrip [OF example_tags_law [of L], where tagm = example_tags] by blast
  have "fmlookup again ''team'' = Some (Some '''')" "fmlookup again ''env'' = Some (Some ''dev'')"
    by (simp_all add: all example_tags_def)
  with again show "\<exists>again. fromACKTags (fst (convertToOrderedACKTags (L\<lparr>acktags_NewTags := fmempty\<rparr>) example_tags))
      (snd (convertToOrderedACKTags (L\<lparr>acktags_NewTags := fmempty\<rparr>) example_tags)) = Some again \<and>
    fmlookup again ''team'' = Some (Some '''') \<and> fmlookup again ''env'' = Some (Some ''dev'')"
    by blast
qed

section \<open>Tags the controller does not manage\<close>

definition ignoreSystemTags :: "tags \<Rightarrow> string list \<Rightarrow> tags" where
  "ignoreSystemTags tagm systemTags =
     delete_keys
       (\<lambda>k. strings_HasPrefix k aws_prefix \<or> slices_Contains systemTags k)
       (map fst (go_range tagm)) tagm"

fun syncAWSTags_loop :: "tags \<Rightarrow> string list \<Rightarrow> tags \<Rightarrow> tags" where
  "syncAWSTags_loop b [] a = a"
| "syncAWSTags_loop b (k # ks) a =
     syncAWSTags_loop b ks
       (if strings_HasPrefix k aws_prefix
        then fmupd k (case fmlookup b k of None \<Rightarrow> '''' | Some v \<Rightarrow> v) a else a)"

definition syncAWSTags :: "tags \<Rightarrow> tags \<Rightarrow> tags" where
  "syncAWSTags a b = syncAWSTags_loop b (map fst (go_range b)) a"

lemma ignoreSystemTags_filter:
  "ignoreSystemTags t systemTags =
     fmfilter (\<lambda>k. \<not> strings_HasPrefix k aws_prefix \<and> k \<notin> set systemTags) t"
proof -
  have "set (map fst (go_range t)) = fset (fmdom t)"
    by (rule is_range_keys [OF go_range_is_range])
  then show ?thesis
    by (intro fmap_ext)
       (auto simp: ignoreSystemTags_def delete_keys_filter slices_Contains_def fmdom_notD)
qed

lemma syncAWSTags_loop_lookup:
  "set ks \<subseteq> fset (fmdom b) \<Longrightarrow>
   fmlookup (syncAWSTags_loop b ks a) k =
     (if k \<in> set ks \<and> strings_HasPrefix k aws_prefix then fmlookup b k else fmlookup a k)"
proof (induction b ks a rule: syncAWSTags_loop.induct)
  case (2 b k' ks a)
  then obtain v where "fmlookup b k' = Some v" by (auto simp: fmlookup_dom_iff)
  with 2 show ?case by auto
qed simp

lemma syncAWSTags_lookup:
  "fmlookup (syncAWSTags a b) k =
     (if strings_HasPrefix k aws_prefix \<and> k |\<in>| fmdom b then fmlookup b k else fmlookup a k)"
  using is_range_keys [OF go_range_is_range [of b]]
  by (auto simp: syncAWSTags_def syncAWSTags_loop_lookup)

text \<open>
  \<open>ignoreSystemTags\<close> removes exactly the tags whose key starts with \<open>aws:\<close> or is one of the
  system tags: every other tag keeps its value, and none of those is left.
\<close>

lemma ignoreSystemTags_exact:
  "fmlookup (ignoreSystemTags t systemTags) k =
     (if prefix ''aws:'' k \<or> k \<in> set systemTags then None else fmlookup t k)"
  by (simp add: ignoreSystemTags_filter strings_HasPrefix_def aws_prefix_def)

text \<open>
  \<open>syncAWSTags\<close> copies to the first map every \<open>aws:\<close> tag of the second, with its value
  there, and changes nothing else; afterwards the two agree on the \<open>aws:\<close> tags of the second.
\<close>

lemma syncAWSTags_exact:
  "fmlookup (syncAWSTags a b) k =
     (if prefix ''aws:'' k \<and> fmlookup b k \<noteq> None then fmlookup b k else fmlookup a k)"
  by (simp add: syncAWSTags_lookup strings_HasPrefix_def aws_prefix_def fmdom_lookup)

end
