(* ===== verification/Reference_Lib.thy ===== *)
theory Reference_Lib
  imports Tags
begin

text \<open>
  One library that behaves as the laws of \<open>Ack_Lib\<close> document, and one small service behind the
  client.  They model nothing of the repository: the witnesses of the properties run the model on
  them, which shows that the hypotheses of the properties can hold together.
\<close>

section \<open>A library\<close>

definition sentinel :: "string \<Rightarrow> error" where
  "sentinel name = Error (SentinelT name) name []"

definition ref_difference :: "tags \<Rightarrow> tags \<Rightarrow> tags \<times> tags \<times> tags" where
  "ref_difference from to =
     (fmfilter (\<lambda>k. fmlookup from k \<noteq> fmlookup to k) to,
      fmfilter (\<lambda>k. fmlookup from k = fmlookup to k) to,
      fmfilter (\<lambda>k. fmlookup from k \<noteq> fmlookup to k) from)"

definition ref_set_condition ::
  "condition_type \<Rightarrow> conditions \<Rightarrow> condition_status \<Rightarrow> string option \<Rightarrow> string option \<Rightarrow>
   conditions" where
  "ref_set_condition t cs s m r =
     Some (filter (\<lambda>c. case c of None \<Rightarrow> True | Some c \<Rightarrow> cond_Type c \<noteq> t)
             (case cs of None \<Rightarrow> [] | Some l \<Rightarrow> l) @
           [Some \<lparr>cond_Type = t, cond_Status = s, cond_LastTransitionTime = None,
                  cond_Reason = r, cond_Message = m\<rparr>])"

definition late_initialized :: condition_type where
  "late_initialized = OtherCondition ''ACK.LateInitialized''"

definition ref_lib :: acklib where
  "ref_lib =
     \<lparr>ackerr_NotFound = sentinel ''NotFound'',
      ackerr_Terminal = sentinel ''Terminal'',
      ackerr_SecretTypeNotSupported = sentinel ''SecretTypeNotSupported'',
      ackerr_SecretNotFound = sentinel ''SecretNotFound'',
      ackerr_MissingNameIdentifier = sentinel ''MissingNameIdentifier'',
      ackerr_AWSError = errors_As is_APIError,
      ackerr_WrapPostCreateError = (\<lambda>e. Error (OtherT ''PostCreateError'') (Error_text e) [e]),
      ackerr_NewTerminalError = (\<lambda>e. Error TerminalErrorT (Error_text e) [e]),
      ackerr_ResourceReferenceAndIDNotSupportedFor = (\<lambda>a b. sentinel (''both '' @ a @ b)),
      ackerr_ResourceReferenceTerminalFor = (\<lambda>a b c. sentinel (''terminal '' @ a @ b @ c)),
      ackerr_ResourceReferenceNotSyncedFor = (\<lambda>a b c. sentinel (''not synced '' @ a @ b @ c)),
      ackerr_ResourceReferenceMissingTargetFieldFor =
        (\<lambda>a b c d. sentinel (''missing '' @ a @ b @ c @ d)),
      ackrequeue_NeededAfter = (\<lambda>e d. Error (OtherT ''RequeueNeededAfter'') ''requeue''
        (case e of None \<Rightarrow> [] | Some e \<Rightarrow> [e])),
      ackrequeue_DefaultRequeueAfterDuration = 30000000000,
      ackcompare_NewDelta = [],
      delta_Add = (\<lambda>d p a b. d @ [(p, a, b)]),
      delta_DifferentAt = (\<lambda>d q. list_ex (\<lambda>(p, _, _). path_contains p q) d),
      delta_DifferentExcept = (\<lambda>d qs. list_ex (\<lambda>(p, _, _). \<not> list_ex (path_contains p) qs) d),
      ackcompare_HasNilDifference = (\<lambda>a b. is_nil a \<noteq> is_nil b),
      ackcompare_SliceStringPEqual = (\<lambda>a b. a = b),
      ackcompare_IAMPolicyDocumentEqual = (\<lambda>a b. Inr (a = b)),
      ackcompare_MapStringStringEqual = (\<lambda>a b. a = b),
      ackcompare_GetTagsDifference = ref_difference,
      equality_DeepEqual = (\<lambda>a b. a = b),
      acktags_NewTags = fmempty,
      acktags_Merge = (\<lambda>a b. b ++\<^sub>f a),
      ackrt_GetDefaultTags = (\<lambda>cfg c md. fmupd ''controller'' (md_ServiceAlias md) fmempty),
      ackrt_ValidateCrossNamespaceReference = (\<lambda>enabled ns ref name. case ref of
        None \<Rightarrow> Inr ns | Some n \<Rightarrow> if n = ns \<or> enabled then Inr n else Inl (sentinel ''cross'')),
      ackutil_InStrings = (\<lambda>s xs. s \<in> set xs),
      ackcondition_SetLateInitialized = ref_set_condition late_initialized,
      ackcondition_SetSynced = ref_set_condition ConditionTypeResourceSynced,
      aws_String = Some,
      aws_StringSlice = map Some,
      aws_ToStringSlice = map str_or_empty,
      aws_StringMap = fmmap Some,
      aws_ToStringMap = fmmap str_or_empty,
      metav1_Time_IsZero = (\<lambda>t. case t of None \<Rightarrow> True | Some t \<Rightarrow> t = 0),
      k8sctrlutil_AddFinalizer = (\<lambda>fs f. if f \<in> set fs then fs else fs @ [f]),
      k8sctrlutil_RemoveFinalizer = (\<lambda>fs f. filter (\<lambda>g. g \<noteq> f) fs),
      ackv1alpha1_AnnotationAdopted = ''services.k8s.aws/adopted'',
      go_map_order = go_range\<rparr>"

lemma ref_new_tags: "new_tags_law ref_lib"
  by (simp add: new_tags_law_def ref_lib_def)

lemma ref_merge: "merge_law ref_lib"
  by (simp add: merge_law_def ref_lib_def)

lemma ref_tags_difference: "tags_difference_law ref_lib"
  by (auto simp: tags_difference_law_def ref_lib_def ref_difference_def)

lemma ref_delta: "delta_law ref_lib"
  by (simp add: delta_law_def ref_lib_def)

lemma ref_compare: "compare_law ref_lib"
  by (simp add: compare_law_def ref_lib_def)

lemma ref_error: "error_law ref_lib"
  by (simp add: error_law_def ref_lib_def)

lemma ref_set_condition_law: "set_condition_law (ref_set_condition t) t"
  by (auto simp: set_condition_law_def ref_set_condition_def of_type_def has_type_def has_nil_def
      split: option.splits intro!: filter_cong)

lemma ref_condition: "condition_law ref_lib"
  using ref_set_condition_law by (simp add: condition_law_def ref_lib_def late_initialized_def)

lemma ref_aws: "aws_law ref_lib"
  by (simp add: aws_law_def ref_lib_def)

lemma ref_util: "util_law ref_lib"
  by (simp add: util_law_def ref_lib_def)

lemma ref_finalizer: "finalizer_law ref_lib"
  by (simp add: finalizer_law_def ref_lib_def)

lemma ref_map_order: "map_order_law ref_lib"
  by (simp add: map_order_law_def ref_lib_def go_range_is_range)

lemmas ref_laws = ref_new_tags ref_merge ref_tags_difference ref_delta ref_compare ref_error
  ref_aws ref_util ref_finalizer ref_map_order

section \<open>A service\<close>

text \<open>A service that holds at most one cluster and its policy.\<close>

record ref_svc =
  rs_cluster :: "GetClusterOutput option"
  rs_policy :: "string option"

definition ref_not_found :: error where
  "ref_not_found =
     Error (OtherT ''*smithy.OperationError'') ''operation error''
       [Error (ResourceNotFoundT ''ResourceNotFoundException'') ''not found'' []]"

definition ref_validation :: error where
  "ref_validation =
     Error (OtherT ''*smithy.OperationError'') ''operation error''
       [Error (APIErrorT ''ValidationException'') ''ValidationException: protected'' []]"

definition ref_conflict :: error where
  "ref_conflict =
     Error (OtherT ''*smithy.OperationError'') ''operation error''
       [Error (APIErrorT ''ConflictException'') ''ConflictException: busy'' []]"

definition ref_tags_at :: "ref_svc \<Rightarrow> tags" where
  "ref_tags_at s = (case rs_cluster s of None \<Rightarrow> fmempty
     | Some c \<Rightarrow> (case gco_Tags c of None \<Rightarrow> fmempty | Some t \<Rightarrow> t))"

definition ref_set_tags :: "tags \<Rightarrow> ref_svc \<Rightarrow> (error + unit) \<times> ref_svc" where
  "ref_set_tags t s = (case rs_cluster s of None \<Rightarrow> (Inl ref_not_found, s)
     | Some c \<Rightarrow> (Inr (), s\<lparr>rs_cluster := Some (c\<lparr>gco_Tags := Some t\<rparr>)\<rparr>))"

definition ref_created :: "CreateClusterInput \<Rightarrow> GetClusterOutput" where
  "ref_created i =
     \<lparr>gco_Arn = Some ''arn:aws:dsql:r:1:cluster/c1'', gco_CreationTime = Some 1,
      gco_DeletionProtectionEnabled =
        Some (case cci_DeletionProtectionEnabled i of None \<Rightarrow> True | Some b \<Rightarrow> b),
      gco_EncryptionDetails = None, gco_Endpoint = Some ''c1.dsql'',
      gco_Identifier = Some ''c1'', gco_MultiRegionProperties = cci_MultiRegionProperties i,
      gco_Status = ''CREATING'', gco_Tags = cci_Tags i\<rparr>"

definition ref_api :: "ref_svc sdkapi" where
  "ref_api =
     \<lparr>api_GetCluster = (\<lambda>i s. case rs_cluster s of None \<Rightarrow> (Inl ref_not_found, s)
        | Some c \<Rightarrow> (Inr c, s)),
      api_CreateCluster = (\<lambda>i s. let c = ref_created i in
        (Inr \<lparr>cco_Arn = gco_Arn c, cco_CreationTime = gco_CreationTime c,
              cco_DeletionProtectionEnabled = gco_DeletionProtectionEnabled c,
              cco_EncryptionDetails = None, cco_Endpoint = gco_Endpoint c,
              cco_Identifier = gco_Identifier c,
              cco_MultiRegionProperties = gco_MultiRegionProperties c,
              cco_Status = gco_Status c\<rparr>,
         \<lparr>rs_cluster = Some c, rs_policy = cci_Policy i\<rparr>)),
      api_UpdateCluster = (\<lambda>i s. case rs_cluster s of None \<Rightarrow> (Inl ref_not_found, s)
        | Some c \<Rightarrow>
          (Inr \<lparr>uco_Arn = gco_Arn c, uco_CreationTime = gco_CreationTime c,
                uco_Identifier = gco_Identifier c, uco_Status = ''UPDATING''\<rparr>,
           s\<lparr>rs_cluster := Some (c\<lparr>gco_Status := ''UPDATING'',
               gco_DeletionProtectionEnabled := (case uci_DeletionProtectionEnabled i of
                 None \<Rightarrow> gco_DeletionProtectionEnabled c | Some b \<Rightarrow> Some b),
               gco_MultiRegionProperties := (case uci_MultiRegionProperties i of
                 None \<Rightarrow> gco_MultiRegionProperties c | Some m \<Rightarrow> Some m)\<rparr>)\<rparr>)),
      api_DeleteCluster = (\<lambda>i s. case rs_cluster s of None \<Rightarrow> (Inl ref_not_found, s)
        | Some c \<Rightarrow> if gco_Status c = ''CREATING'' \<or> gco_Status c = ''UPDATING'' then (Inl ref_conflict, s)
                    else if gco_DeletionProtectionEnabled c = Some True then (Inl ref_validation, s)
                    else (Inr (), s\<lparr>rs_cluster := None\<rparr>)),
      api_GetClusterPolicy = (\<lambda>i s. case rs_policy s of None \<Rightarrow> (Inl ref_not_found, s)
        | Some p \<Rightarrow> (Inr \<lparr>gcpo_Policy = Some p\<rparr>, s)),
      api_PutClusterPolicy = (\<lambda>i s. (Inr (), s\<lparr>rs_policy := pcpi_Policy i\<rparr>)),
      api_DeleteClusterPolicy = (\<lambda>i s. case rs_policy s of None \<Rightarrow> (Inl ref_not_found, s)
        | Some p \<Rightarrow> (Inr (), s\<lparr>rs_policy := None\<rparr>)),
      api_TagResource = (\<lambda>i s. ref_set_tags (ref_tags_at s ++\<^sub>f tri_Tags i) s),
      api_UntagResource = (\<lambda>i s.
        ref_set_tags (fmfilter (\<lambda>k. k \<notin> set (uri_TagKeys i)) (ref_tags_at s)) s)\<rparr>"

text \<open>A running cluster, and a program state with that service and one resource at address 0.\<close>

definition ref_output :: GetClusterOutput where
  "ref_output =
     \<lparr>gco_Arn = Some ''arn:aws:dsql:r:1:cluster/c1'', gco_CreationTime = Some 1,
      gco_DeletionProtectionEnabled = Some True, gco_EncryptionDetails = None,
      gco_Endpoint = Some ''c1.dsql'', gco_Identifier = Some ''c1'',
      gco_MultiRegionProperties = None, gco_Status = ''ACTIVE'',
      gco_Tags = Some (fmap_of_list [(''team'', ''a''), (''aws:stack'', ''s'')])\<rparr>"

definition ref_cluster :: Cluster where
  "ref_cluster =
     \<lparr>TypeMeta = \<lparr>tm_Kind = ''Cluster'', tm_APIVersion = ''dsql.services.k8s.aws/v1alpha1''\<rparr>,
      ObjectMeta = \<lparr>om_Name = ''c'', om_Namespace = ''default'', om_DeletionTimestamp = None,
        om_Annotations = None, om_Finalizers = []\<rparr>,
      Spec = \<lparr>spec_DeletionProtectionEnabled = None, spec_KMSEncryptionKey = None,
        spec_KMSEncryptionKeyRef = None, spec_MultiRegionProperties = None, spec_Policy = None,
        spec_Tags = Some (fmap_of_list [(''team'', Some ''b'')])\<rparr>,
      Status = \<lparr>status_ACKResourceMetadata = None, status_Conditions = None,
        status_CreationTime = None, status_EncryptionDetails = None, status_Endpoint = None,
        status_Identifier = Some ''c1'', status_Status = None\<rparr>\<rparr>"

definition ref_world :: "ref_svc world" where
  "ref_world =
     \<lparr>svc = \<lparr>rs_cluster = Some ref_output, rs_policy = None\<rparr>, heap = (\<lambda>_. ref_cluster),
      brk = 1, requests = [], metrics = []\<rparr>"

definition ref_resource :: resource where
  "ref_resource = \<lparr>ko = Some 0\<rparr>"

definition ref_rm :: "ref_svc resourceManager" where
  "ref_rm =
     \<lparr>rm_cfg = \<lparr>cfg_EnableCrossNamespace = False, cfg_Partition = ''aws'', cfg_ResourceTags = []\<rparr>,
      rm_clientcfg = 0, rm_log = 0, rm_metrics = 0, rm_rr = 0, rm_awsAccountID = ''1'',
      rm_awsRegion = ''r'', rm_awsPartition = ''aws'', rm_sdkapi = ref_api\<rparr>"

end
