(* ===== verification/Sync.thy ===== *)
theory Sync
  imports Reference_Lib
begin

text \<open>
  \<open>pkg/sync/tags.go\<close>: bring the tags of the AWS resource from the observed to the desired ones
  with one \<open>TagResource\<close> and one \<open>UntagResource\<close> call.  The package knows nothing of the
  resource: it is handed the conversion to ACK tags.  \<open>tag_conversion\<close> is what it relies on,
  and \<open>convertToOrderedACKTags\<close> provides it.
\<close>

section \<open>The code\<close>

text \<open>The list of keys a loop over the tags appends, in the order of the visit.\<close>

fun append_keys :: "(string \<times> string) list \<Rightarrow> string list \<Rightarrow> string list" where
  "append_keys [] toRemove = toRemove"
| "append_keys ((k, v) # es) toRemove = append_keys es (toRemove @ [k])"

definition remove_added :: "tags \<Rightarrow> tags \<Rightarrow> tags" where
  "remove_added added removed =
     delete_keys (\<lambda>k. fmlookup added k \<noteq> None) (map fst (go_range removed)) removed"

definition sync_add ::
  "acklib \<Rightarrow> 's sdkapi \<Rightarrow> string option \<Rightarrow> tags \<Rightarrow> ('s world, error option) go" where
  "sync_add L sdkapi arn added =
     (if 0 < go_len added then
        let toAdd = store_entries (\<lambda>v. v) (go_map_order L added) fmempty in
        bind_go (call_api (api_TagResource sdkapi) TagResourceReq ''UPDATE'' ''TagResource''
          \<lparr>tri_ResourceArn = arn, tri_Tags = toAdd\<rparr>) (\<lambda>r. ret (err_of r))
      else ret None)"

definition sync_remove ::
  "acklib \<Rightarrow> 's sdkapi \<Rightarrow> string option \<Rightarrow> tags \<Rightarrow> ('s world, error option) go" where
  "sync_remove L sdkapi arn removed =
     (if 0 < go_len removed then
        let toRemove = append_keys (go_map_order L removed) [] in
        bind_go (call_api (api_UntagResource sdkapi) UntagResourceReq ''UPDATE'' ''UntagResource''
          \<lparr>uri_ResourceArn = arn, uri_TagKeys = toRemove\<rparr>) (\<lambda>r. ret (err_of r))
      else ret None)"

definition sync_Tags ::
  "acklib \<Rightarrow> tagmap \<Rightarrow> tagmap \<Rightarrow> string option \<Rightarrow> (acklib \<Rightarrow> tagmap \<Rightarrow> tags \<times> string list) \<Rightarrow>
   's sdkapi \<Rightarrow> ('s world, error option) go" where
  "sync_Tags L desiredTags latestTags arn toACKTags sdkapi =
     (let from = fst (toACKTags L latestTags);
          to = fst (toACKTags L desiredTags);
          (added, same, removed) = ackcompare_GetTagsDifference L from to;
          removed = remove_added added removed in
      bind_go (sync_add L sdkapi arn added) (\<lambda>err.
      case err of
        Some e \<Rightarrow> ret (Some e)
      | None \<Rightarrow> sync_remove L sdkapi arn removed))"

section \<open>The differences it sends\<close>

text \<open>The new or changed tags, and the keys that are gone.\<close>

definition tags_to_add :: "tags \<Rightarrow> tags \<Rightarrow> tags" where
  "tags_to_add from to = fmfilter (\<lambda>k. fmlookup from k \<noteq> fmlookup to k) to"

definition tags_to_remove :: "tags \<Rightarrow> tags \<Rightarrow> tags" where
  "tags_to_remove from to = fmfilter (\<lambda>k. fmlookup to k = None) from"

lemma append_keys_eq: "append_keys es ks = ks @ map fst es"
  by (induction es ks rule: append_keys.induct) simp_all

lemma remove_added_filter: "remove_added added removed = fmfilter (\<lambda>k. fmlookup added k = None) removed"
proof -
  have "set (map fst (go_range removed)) = fset (fmdom removed)"
    by (rule is_range_keys [OF go_range_is_range])
  then show ?thesis
    by (intro fmap_ext) (auto simp: remove_added_def delete_keys_filter fmdom_notD)
qed

lemma difference_eq:
  assumes "tags_difference_law L"
  shows "\<exists>same removed. ackcompare_GetTagsDifference L from to = (tags_to_add from to, same, removed) \<and>
    remove_added (tags_to_add from to) removed = tags_to_remove from to"
proof -
  obtain added same removed where
    d: "ackcompare_GetTagsDifference L from to = (added, same, removed)"
    by (cases "ackcompare_GetTagsDifference L from to")
  have added: "added = tags_to_add from to"
    using assms d by (intro fmap_ext) (simp add: tags_difference_law_def tags_to_add_def)
  have rem: "fmlookup removed k = (if fmlookup from k = fmlookup to k then None else fmlookup from k)" for k
    using assms d by (simp add: tags_difference_law_def)
  have "remove_added (tags_to_add from to) removed = tags_to_remove from to"
    by (rule fmap_ext) (auto simp: remove_added_filter rem tags_to_add_def tags_to_remove_def)
  with d added show ?thesis by auto
qed

lemma apply_difference: "fmfilter (\<lambda>k. k |\<notin>| fmdom (tags_to_remove from to)) (from ++\<^sub>f tags_to_add from to) = to"
  by (rule fmap_ext) (simp add: tags_to_add_def tags_to_remove_def gomap split: option.split)

lemma tags_to_add_same [simp]: "tags_to_add t t = fmempty"
  by (rule fmap_ext) (simp add: tags_to_add_def)

lemma tags_to_remove_same [simp]: "tags_to_remove t t = fmempty"
  by (rule fmap_ext) (simp add: tags_to_remove_def)

section \<open>The service's side of the contract\<close>

text \<open>
  \<open>tags_at s\<close> reads the tags of the resource with the ARN \<open>arn\<close> off the state of the service.
  \<open>TagResource\<close> for that ARN adds the given tags or overwrites them, \<open>UntagResource\<close> removes the given
  keys, and a call that fails changes nothing.  Of calls for another ARN nothing is known.
\<close>

definition tag_service_law :: "'s sdkapi \<Rightarrow> string option \<Rightarrow> ('s \<Rightarrow> tags) \<Rightarrow> bool" where
  "tag_service_law sdkapi arn tags_at \<longleftrightarrow>
     (\<forall>t s. case api_TagResource sdkapi \<lparr>tri_ResourceArn = arn, tri_Tags = t\<rparr> s of (r, s') \<Rightarrow>
        tags_at s' = (case r of Inl e \<Rightarrow> tags_at s | Inr _ \<Rightarrow> tags_at s ++\<^sub>f t)) \<and>
     (\<forall>ks s. case api_UntagResource sdkapi \<lparr>uri_ResourceArn = arn, uri_TagKeys = ks\<rparr> s of (r, s') \<Rightarrow>
        tags_at s' = (case r of Inl e \<Rightarrow> tags_at s | Inr _ \<Rightarrow> fmfilter (\<lambda>k. k \<notin> set ks) (tags_at s)))"

lemma tag_serviceD:
  assumes "tag_service_law api arn tags_at"
  shows "fst (api_TagResource api \<lparr>tri_ResourceArn = arn, tri_Tags = t\<rparr> s) = Inr x \<Longrightarrow>
      tags_at (snd (api_TagResource api \<lparr>tri_ResourceArn = arn, tri_Tags = t\<rparr> s)) = tags_at s ++\<^sub>f t"
    and "fst (api_TagResource api \<lparr>tri_ResourceArn = arn, tri_Tags = t\<rparr> s) = Inl e \<Longrightarrow>
      tags_at (snd (api_TagResource api \<lparr>tri_ResourceArn = arn, tri_Tags = t\<rparr> s)) = tags_at s"
    and "fst (api_UntagResource api \<lparr>uri_ResourceArn = arn, uri_TagKeys = ks\<rparr> s) = Inr x \<Longrightarrow>
      tags_at (snd (api_UntagResource api \<lparr>uri_ResourceArn = arn, uri_TagKeys = ks\<rparr> s)) =
        fmfilter (\<lambda>k. k \<notin> set ks) (tags_at s)"
    and "fst (api_UntagResource api \<lparr>uri_ResourceArn = arn, uri_TagKeys = ks\<rparr> s) = Inl e \<Longrightarrow>
      tags_at (snd (api_UntagResource api \<lparr>uri_ResourceArn = arn, uri_TagKeys = ks\<rparr> s)) = tags_at s"
  using assms by (simp_all add: tag_service_law_def case_prod_beta)

lemma err_of_None [simp]: "err_of r = None \<longleftrightarrow> (\<exists>x. r = Inr x)"
  by (simp add: err_of_def split: sum.split)

lemma order_range: "map_order_law L \<Longrightarrow> is_range (go_map_order L m) m"
  by (simp add: map_order_law_def)

lemma store_id: "is_range es m \<Longrightarrow> store_entries (\<lambda>v. v) es fmempty = (m :: tags)"
  by (simp add: store_entries_range fmap.map_ident)

lemma sync_add_run [go_run]:
  assumes "map_order_law L"
  shows "sync_add L api arn added w =
    (if added = fmempty then (Ret None, w)
     else bind_go (call_api (api_TagResource api) TagResourceReq ''UPDATE'' ''TagResource''
          \<lparr>tri_ResourceArn = arn, tri_Tags = added\<rparr>) (\<lambda>r. ret (err_of r)) w)"
  using store_id [OF order_range [OF assms]] by (simp add: sync_add_def go_run)

lemma sync_remove_run [go_run]:
  "sync_remove L api arn removed w =
    (if removed = fmempty then (Ret None, w)
     else bind_go (call_api (api_UntagResource api) UntagResourceReq ''UPDATE'' ''UntagResource''
          \<lparr>uri_ResourceArn = arn, uri_TagKeys = map fst (go_map_order L removed)\<rparr>)
          (\<lambda>r. ret (err_of r)) w)"
  by (simp add: sync_remove_def append_keys_eq go_run)

lemma order_keys: "map_order_law L \<Longrightarrow> set (map fst (go_map_order L m)) = fset (fmdom m)"
  by (rule is_range_keys [OF order_range])

section \<open>The interface to the resource\<close>

locale tag_conversion =
  fixes toACKTags :: "acklib \<Rightarrow> tagmap \<Rightarrow> tags \<times> string list"
  assumes view: "new_tags_law L \<Longrightarrow> fst (toACKTags L t) = tag_view t"
begin

lemma sync_Tags_eq:
  assumes "new_tags_law L" "tags_difference_law L"
  shows "sync_Tags L desired latest arn toACKTags api =
    bind_go (sync_add L api arn (tags_to_add (tag_view latest) (tag_view desired))) (\<lambda>err.
      case err of Some e \<Rightarrow> ret (Some e)
      | None \<Rightarrow> sync_remove L api arn (tags_to_remove (tag_view latest) (tag_view desired)))"
  using difference_eq [OF assms(2), of "tag_view latest" "tag_view desired"]
  by (auto simp: sync_Tags_def view [OF assms(1)])

lemma sync_Tags_noop:
  assumes "new_tags_law L" "tags_difference_law L" "map_order_law L"
    and "tag_view desired = tag_view latest"
  shows "sync_Tags L desired latest arn toACKTags api w = (Ret None, w)"
  using assms(3,4) by (simp add: sync_Tags_eq [OF assms(1,2)] go_run)

lemma sync_Tags_reaches:
  assumes "new_tags_law L" "tags_difference_law L" "map_order_law L"
    and svc: "tag_service_law api arn tags_at" and obs: "tags_at (svc w) = tag_view latest"
    and run: "sync_Tags L desired latest arn toACKTags api w = (Ret None, w')"
  shows "tags_at (svc w') = tag_view desired"
proof -
  let ?add = "tags_to_add (tag_view latest) (tag_view desired)"
  let ?rem = "tags_to_remove (tag_view latest) (tag_view desired)"
  obtain v where add: "sync_add L api arn ?add w = (Ret None, v)"
    and rem: "sync_remove L api arn ?rem v = (Ret None, w')"
    using run by (auto simp: sync_Tags_eq [OF assms(1,2)] ret_run elim!: bind_go_RetD split: option.splits)
  have v: "tags_at (svc v) = tag_view latest ++\<^sub>f ?add"
    using add obs by (cases "?add = fmempty")
      (auto simp: sync_add_run [OF assms(3)] go_run tag_serviceD(1) [OF svc])
  have "tags_at (svc w') = fmfilter (\<lambda>k. k |\<notin>| fmdom ?rem) (tags_at (svc v))"
    using rem order_keys [OF assms(3), of ?rem] by (cases "?rem = fmempty")
      (auto simp: go_run tag_serviceD(3) [OF svc])
  also have "\<dots> = tag_view desired" unfolding v by (rule apply_difference)
  finally show ?thesis .
qed

lemma sync_Tags_fails:
  assumes "new_tags_law L" "tags_difference_law L" "map_order_law L"
    and svc: "tag_service_law api arn tags_at" and obs: "tags_at (svc w) = tag_view latest"
    and run: "sync_Tags L desired latest arn toACKTags api w = (Ret (Some e), w')"
  shows "tags_at (svc w') = tag_view latest \<or>
    tags_at (svc w') = tag_view latest ++\<^sub>f tags_to_add (tag_view latest) (tag_view desired)"
  using run obs unfolding sync_Tags_eq [OF assms(1,2)]
  by (auto simp: sync_add_run [OF assms(3)] go_run err_of_def tag_serviceD [OF svc]
      split: if_splits sum.splits option.splits)

lemma sync_Tags_requests:
  assumes "new_tags_law L" "tags_difference_law L" "map_order_law L"
  shows "requests (snd (sync_Tags L desired latest arn toACKTags api w)) = requests w @
    (let add = tags_to_add (tag_view latest) (tag_view desired);
         rem = tags_to_remove (tag_view latest) (tag_view desired);
         tag = \<lparr>tri_ResourceArn = arn, tri_Tags = add\<rparr>;
         untag = \<lparr>uri_ResourceArn = arn, uri_TagKeys = map fst (go_map_order L rem)\<rparr> in
     (if add = fmempty then [] else [TagResourceReq tag]) @
     (if rem = fmempty \<or> add \<noteq> fmempty \<and> err_of (fst (api_TagResource api tag (svc w))) \<noteq> None
      then [] else [UntagResourceReq untag]))"
  unfolding sync_Tags_eq [OF assms(1,2)]
  by (simp add: sync_add_run [OF assms(3)] go_run Let_def err_of_def split: sum.split)

lemma sync_Tags_returns:
  assumes "new_tags_law L" "tags_difference_law L" "map_order_law L"
  shows "\<exists>err. fst (sync_Tags L desired latest arn toACKTags api w) = Ret err"
  unfolding sync_Tags_eq [OF assms(1,2)]
  by (simp add: sync_add_run [OF assms(3)] go_run split: option.split)

end

interpretation cluster_tags: tag_conversion convertToOrderedACKTags
  by unfold_locales (simp add: convert_view_law)

section \<open>Properties\<close>

text \<open>
  C4.  Tag synchronisation reaches the desired tags: against a service that adds, overwrites and
  removes the tags of the given ARN as documented and holds the observed ones, a run that returns no error leaves the
  resource with exactly the desired tags (nil values as ''); a run that returns an error leaves
  either the observed tags or those with the additions made, never a tag removed; it never panics.
\<close>

theorem sync_Tags_converges:
  assumes "new_tags_law L" "tags_difference_law L" "map_order_law L"
    and "tag_service_law api arn tags_at" and "tags_at (svc w) = tag_view latest"
  shows "case sync_Tags L desired latest arn convertToOrderedACKTags api w of
      (Ret None, w') \<Rightarrow> tags_at (svc w') = tag_view desired
    | (Ret (Some e), w') \<Rightarrow> tags_at (svc w') = tag_view latest \<or>
        tags_at (svc w') = tag_view latest ++\<^sub>f tags_to_add (tag_view latest) (tag_view desired)
    | (Panic p, w') \<Rightarrow> False"
  using cluster_tags.sync_Tags_returns [OF assms(1-3), of desired latest arn api w]
  by (auto dest: cluster_tags.sync_Tags_reaches [OF assms] cluster_tags.sync_Tags_fails [OF assms]
      split: prod.split outcome.split option.split)

lemma ref_tag_service: "tag_service_law ref_api arn ref_tags_at"
  by (auto simp: tag_service_law_def ref_api_def ref_set_tags_def ref_tags_at_def
      split: option.splits)

lemma ref_world_tags: "ref_tags_at (svc ref_world) = tag_view (fromACKTags (ref_tags_at (svc ref_world)) [])"
  by simp

theorem sync_Tags_converges_witness:
  "new_tags_law ref_lib \<and> tag_service_law ref_api (Some ''arn'') ref_tags_at \<and>
   (case sync_Tags ref_lib (Some (fmap_of_list [(''team'', Some ''b'')]))
           (fromACKTags (ref_tags_at (svc ref_world)) []) (Some ''arn'') convertToOrderedACKTags
           ref_api ref_world of
      (Ret None, w') \<Rightarrow> ref_tags_at (svc w') = fmap_of_list [(''team'', ''b'')]
    | (Ret (Some e), w') \<Rightarrow> True
    | (Panic p, w') \<Rightarrow> False)"
  using sync_Tags_converges [OF ref_new_tags ref_tags_difference ref_map_order ref_tag_service
      ref_world_tags, of "Some (fmap_of_list [(''team'', Some ''b'')])" "Some ''arn''"]
  by (auto simp: ref_new_tags ref_tag_service fmmap_fmupd split: prod.splits outcome.splits option.splits)

text \<open>
  What goes over the wire: at most one \<open>TagResource\<close> with exactly the tags that are new or
  whose value changed, then at most one \<open>UntagResource\<close> with exactly the keys the desired tags do
  not have (a changed tag is never untagged); neither is sent when there is nothing to send, and
  nothing is untagged when the \<open>TagResource\<close> call failed.
\<close>

lemma sync_Tags_trace:
  assumes "new_tags_law L" "tags_difference_law L" "map_order_law L"
  shows "requests (snd (sync_Tags L desired latest arn convertToOrderedACKTags api w)) =
    requests w @
    (let from = tag_view latest; to = tag_view desired;
         add = fmfilter (\<lambda>k. fmlookup from k \<noteq> fmlookup to k) to;
         rem = fmfilter (\<lambda>k. fmlookup to k = None) from;
         tag = \<lparr>tri_ResourceArn = arn, tri_Tags = add\<rparr>;
         untag = \<lparr>uri_ResourceArn = arn, uri_TagKeys = map fst (go_map_order L rem)\<rparr> in
     (if add = fmempty then [] else [TagResourceReq tag]) @
     (if rem = fmempty \<or> add \<noteq> fmempty \<and> err_of (fst (api_TagResource api tag (svc w))) \<noteq> None
      then [] else [UntagResourceReq untag]))"
  using cluster_tags.sync_Tags_requests [OF assms, of desired latest arn api w]
  unfolding tags_to_add_def tags_to_remove_def by (simp only: Let_def)

end
