(* ===== verification/Conditions.thy ===== *)
theory Conditions
  imports Sync
begin

text \<open>
  The conditions of a resource: \<open>setStatusDefaults\<close>, \<open>terminalAWSError\<close> and \<open>updateConditions\<close> of
  \<open>sdk.go\<close>, and \<open>onError\<close> and \<open>onSuccess\<close> of \<open>manager.go\<close>.  The Go code holds pointers to
  conditions of the list it has just copied (\<open>DeepCopy\<close> makes each a new object) and assigns
  through them; here a pointer is the index of the condition in the list.
\<close>

section \<open>Status defaults\<close>

definition setStatusDefaults :: "'s resourceManager \<Rightarrow> Cluster \<Rightarrow> Cluster" where
  "setStatusDefaults rm k =
     (let st = Status k;
          md = (case status_ACKResourceMetadata st of
                  None \<Rightarrow> empty_ResourceMetadata | Some m \<Rightarrow> m);
          md = (if meta_Region md = None then md\<lparr>meta_Region := Some (rm_awsRegion rm)\<rparr> else md);
          md = (if meta_Partition md = None
                then md\<lparr>meta_Partition := Some (rm_awsPartition rm)\<rparr> else md);
          md = (if meta_OwnerAccountID md = None
                then md\<lparr>meta_OwnerAccountID := Some (rm_awsAccountID rm)\<rparr> else md);
          conds = (case status_Conditions st of None \<Rightarrow> Some [] | Some l \<Rightarrow> Some l)
      in k\<lparr>Status := st\<lparr>status_ACKResourceMetadata := Some md, status_Conditions := conds\<rparr>\<rparr>)"

definition condition_list :: "Cluster \<Rightarrow> Condition option list" where
  "condition_list k = (case status_Conditions (Status k) of None \<Rightarrow> [] | Some l \<Rightarrow> l)"

definition set_conditions :: "Condition option list \<Rightarrow> Cluster \<Rightarrow> Cluster" where
  "set_conditions cs k = k\<lparr>Status := (Status k)\<lparr>status_Conditions := Some cs\<rparr>\<rparr>"

lemma setStatusDefaults_frame [simp]:
  "Spec (setStatusDefaults rm k) = Spec k"
  "ObjectMeta (setStatusDefaults rm k) = ObjectMeta k"
  "TypeMeta (setStatusDefaults rm k) = TypeMeta k"
  "status_Identifier (Status (setStatusDefaults rm k)) = status_Identifier (Status k)"
  "status_Status (Status (setStatusDefaults rm k)) = status_Status (Status k)"
  "status_Endpoint (Status (setStatusDefaults rm k)) = status_Endpoint (Status k)"
  "status_CreationTime (Status (setStatusDefaults rm k)) = status_CreationTime (Status k)"
  "status_EncryptionDetails (Status (setStatusDefaults rm k)) =
     status_EncryptionDetails (Status k)"
  "condition_list (setStatusDefaults rm k) = condition_list k"
  "status_Conditions (Status (setStatusDefaults rm k)) = Some (condition_list k)"
  by (simp_all add: setStatusDefaults_def Let_def condition_list_def split: option.split)

lemma setStatusDefaults_idem: "setStatusDefaults rm (setStatusDefaults rm k) = setStatusDefaults rm k"
  by (simp add: setStatusDefaults_def Let_def split: option.split)

lemma setStatusDefaults_metadata:
  "\<exists>md. status_ACKResourceMetadata (Status (setStatusDefaults rm k)) = Some md"
  by (simp add: setStatusDefaults_def Let_def)

lemma set_conditions_frame [simp]:
  "Spec (set_conditions cs k) = Spec k"
  "ObjectMeta (set_conditions cs k) = ObjectMeta k"
  "TypeMeta (set_conditions cs k) = TypeMeta k"
  "status_Identifier (Status (set_conditions cs k)) = status_Identifier (Status k)"
  "status_Status (Status (set_conditions cs k)) = status_Status (Status k)"
  "status_ACKResourceMetadata (Status (set_conditions cs k)) =
     status_ACKResourceMetadata (Status k)"
  "condition_list (set_conditions cs k) = cs"
  "status_Conditions (Status (set_conditions cs k)) = Some cs"
  by (simp_all add: set_conditions_def condition_list_def)

section \<open>Errors that are terminal\<close>

definition terminalAWSError :: "error option \<Rightarrow> bool" where
  "terminalAWSError err =
     (case err of
        None \<Rightarrow> False
      | Some e \<Rightarrow>
          (case errors_As is_APIError e of
             None \<Rightarrow> False
           | Some terminalErr \<Rightarrow> ErrorCode terminalErr = ''ValidationException''))"

text \<open>The condition of the second \<open>if\<close> of \<open>updateConditions\<close>, and of the one around it.\<close>

definition own_terminal_error :: "acklib \<Rightarrow> error option \<Rightarrow> bool" where
  "own_terminal_error L err =
     (err = Some (ackerr_SecretTypeNotSupported L) \<or> err = Some (ackerr_SecretNotFound L) \<or>
      (case err of None \<Rightarrow> False | Some e \<Rightarrow> errors_As is_TerminalError e \<noteq> None))"

definition is_terminal :: "acklib \<Rightarrow> error option \<Rightarrow> bool" where
  "is_terminal L err = (terminalAWSError err \<or> own_terminal_error L err)"

text \<open>\<open>err.Error()\<close> of an error that may be nil.\<close>

definition error_message :: "error option \<Rightarrow> ('w, string) go" where
  "error_message err = (case err of None \<Rightarrow> panic nil_deref | Some e \<Rightarrow> ret (Error_text e))"

definition terminal_message :: "acklib \<Rightarrow> error option \<Rightarrow> ('w, string) go" where
  "terminal_message L err =
     (if own_terminal_error L err then error_message err
      else (case err of
              None \<Rightarrow> panic nil_deref
            | Some e \<Rightarrow> error_message (ackerr_AWSError L e)))"

definition recoverable_message :: "acklib \<Rightarrow> error \<Rightarrow> string" where
  "recoverable_message L e =
     (case ackerr_AWSError L e of None \<Rightarrow> Error_text e | Some awsErr \<Rightarrow> Error_text awsErr)"

section \<open>The update\<close>

record slots =
  slot_terminal :: "nat option"
  slot_recoverable :: "nat option"
  slot_sync :: "nat option"

definition no_slots :: slots where
  "no_slots = \<lparr>slot_terminal = None, slot_recoverable = None, slot_sync = None\<rparr>"

fun scan_conditions :: "nat \<Rightarrow> Condition option list \<Rightarrow> slots \<Rightarrow> ('w, slots) go" where
  "scan_conditions i [] s = ret s"
| "scan_conditions i (None # cs) s = panic nil_deref"
| "scan_conditions i (Some c # cs) s =
     (let s = (if cond_Type c = ConditionTypeTerminal then s\<lparr>slot_terminal := Some i\<rparr> else s);
          s = (if cond_Type c = ConditionTypeRecoverable
               then s\<lparr>slot_recoverable := Some i\<rparr> else s);
          s = (if cond_Type c = ConditionTypeResourceSynced then s\<lparr>slot_sync := Some i\<rparr> else s)
      in scan_conditions (Suc i) cs s)"

text \<open>Assigning \<open>Status\<close> and \<open>Message\<close> through a pointer, and through one made if it is nil.\<close>

definition write_condition ::
  "nat \<Rightarrow> condition_status \<Rightarrow> string option \<Rightarrow> Condition option list \<Rightarrow> Condition option list" where
  "write_condition i st msg cs =
     cs[i := map_option (\<lambda>c. c\<lparr>cond_Status := st, cond_Message := msg\<rparr>) (cs ! i)]"

definition clear_slot :: "nat option \<Rightarrow> Condition option list \<Rightarrow> Condition option list" where
  "clear_slot slot cs =
     (case slot of None \<Rightarrow> cs | Some i \<Rightarrow> write_condition i ConditionFalse None cs)"

definition raise_slot ::
  "condition_type \<Rightarrow> nat option \<Rightarrow> string \<Rightarrow> Condition option list \<Rightarrow> Condition option list" where
  "raise_slot t slot msg cs =
     (case slot of
        None \<Rightarrow> write_condition (length cs) ConditionTrue (Some msg) (cs @ [Some (new_condition t)])
      | Some i \<Rightarrow> write_condition i ConditionTrue (Some msg) cs)"

text \<open>The new list, and whether the terminal and the recoverable condition are there at the end.\<close>

definition new_conditions ::
  "acklib \<Rightarrow> slots \<Rightarrow> error option \<Rightarrow> Condition option list \<Rightarrow>
   ('w, Condition option list \<times> bool \<times> bool) go" where
  "new_conditions L s err cs =
     (if is_terminal L err then
        bind_go (terminal_message L err) (\<lambda>errorMessage.
        ret (raise_slot ConditionTypeTerminal (slot_terminal s) errorMessage cs,
             True, slot_recoverable s \<noteq> None))
      else
        let cs = clear_slot (slot_terminal s) cs in
        case err of
          Some e \<Rightarrow>
            ret (raise_slot ConditionTypeRecoverable (slot_recoverable s)
                   (recoverable_message L e) cs,
                 slot_terminal s \<noteq> None, True)
        | None \<Rightarrow>
            ret (clear_slot (slot_recoverable s) cs,
                 slot_terminal s \<noteq> None, slot_recoverable s \<noteq> None))"

definition updateConditions ::
  "acklib \<Rightarrow> 's resourceManager \<Rightarrow> resource \<Rightarrow> bool \<Rightarrow> error option \<Rightarrow>
   ('s world, resource option \<times> bool) go" where
  "updateConditions L rm r onSuccess err =
     bind_go (Cluster_DeepCopy (ko r)) (\<lambda>k.
     bind_go (modify_obj (setStatusDefaults rm) k) (\<lambda>_.
     bind_go (deref k) (\<lambda>c.
     bind_go (scan_conditions 0 (condition_list c) no_slots) (\<lambda>s.
     bind_go (new_conditions L s err (condition_list c)) (\<lambda>(cs, terminal, recoverable).
     bind_go (modify_obj (set_conditions cs) k) (\<lambda>_.
     if terminal \<or> recoverable \<or> slot_sync s \<noteq> None then ret (Some \<lparr>ko = k\<rparr>, True)
     else ret (None, False)))))))"

section \<open>Outcome of an operation\<close>

fun any_terminal :: "Condition option list \<Rightarrow> ('w, bool) go" where
  "any_terminal [] = ret False"
| "any_terminal (None # cs) = panic nil_deref"
| "any_terminal (Some c # cs) =
     (if cond_Type c = ConditionTypeTerminal \<and> cond_Status c = ConditionTrue then ret True
      else any_terminal cs)"

definition onError ::
  "acklib \<Rightarrow> 's resourceManager \<Rightarrow> resource option \<Rightarrow> error option \<Rightarrow>
   ('s world, AWSResource \<times> error option) go" where
  "onError L rm r err =
     (case r of
        None \<Rightarrow> ret (None, err)
      | Some r0 \<Rightarrow>
          bind_go (updateConditions L rm r0 False err) (\<lambda>(r1, updated).
          if \<not> updated then ret (Some r, err)
          else
            bind_go (deref_resource r1) (\<lambda>c.
            bind_go (any_terminal (condition_list c)) (\<lambda>terminal.
            if terminal then ret (Some r1, Some (ackerr_Terminal L)) else ret (Some r1, err)))))"

definition onSuccess ::
  "acklib \<Rightarrow> 's resourceManager \<Rightarrow> resource option \<Rightarrow> ('s world, AWSResource \<times> error option) go"
where
  "onSuccess L rm r =
     (case r of
        None \<Rightarrow> ret (None, None)
      | Some r0 \<Rightarrow>
          bind_go (updateConditions L rm r0 True None) (\<lambda>(r1, updated).
          if \<not> updated then ret (Some r, None) else ret (Some r1, None)))"

section \<open>The slots the loop finds\<close>

fun last_slot :: "condition_type \<Rightarrow> nat \<Rightarrow> Condition option list \<Rightarrow> nat option \<Rightarrow> nat option" where
  "last_slot t i [] acc = acc"
| "last_slot t i (c # cs) acc = last_slot t (Suc i) cs (if has_type t c then Some i else acc)"

definition slots_of :: "Condition option list \<Rightarrow> slots" where
  "slots_of cs =
     \<lparr>slot_terminal = last_slot ConditionTypeTerminal 0 cs None,
      slot_recoverable = last_slot ConditionTypeRecoverable 0 cs None,
      slot_sync = last_slot ConditionTypeResourceSynced 0 cs None\<rparr>"

lemma scan_conditions_run:
  "None \<notin> set cs \<Longrightarrow> scan_conditions i cs s w =
     (Ret \<lparr>slot_terminal = last_slot ConditionTypeTerminal i cs (slot_terminal s),
           slot_recoverable = last_slot ConditionTypeRecoverable i cs (slot_recoverable s),
           slot_sync = last_slot ConditionTypeResourceSynced i cs (slot_sync s)\<rparr>, w)"
  by (induction i cs s rule: scan_conditions.induct) (auto simp: go_run Let_def)

lemma scan_conditions_slots [go_run]:
  "None \<notin> set cs \<Longrightarrow> scan_conditions 0 cs no_slots w = (Ret (slots_of cs), w)"
  by (simp add: scan_conditions_run slots_of_def no_slots_def)

lemma last_slot_snoc:
  "last_slot t i (cs @ [c]) acc =
     (if has_type t c then Some (i + length cs) else last_slot t i cs acc)"
  by (induction cs arbitrary: i acc) auto

lemma last_slot_None: "last_slot t i cs None = None \<longleftrightarrow> filter (has_type t) cs = []"
  by (induction cs rule: rev_induct) (auto simp: last_slot_snoc)

lemma last_slot_Some:
  "last_slot t 0 cs None = Some j \<Longrightarrow>
   \<exists>xs c ys. cs = xs @ Some c # ys \<and> j = length xs \<and> cond_Type c = t \<and>
     filter (has_type t) ys = []"
proof (induction cs rule: rev_induct)
  case (snoc c cs)
  show ?case
  proof (cases "has_type t c")
    case True
    then obtain d where "c = Some d" "cond_Type d = t" by (cases c) auto
    with True snoc.prems show ?thesis
      by (intro exI [of _ cs] exI [of _ d] exI [of _ "[]"]) (simp add: last_slot_snoc)
  next
    case False
    with snoc obtain xs d ys where
      "cs = xs @ Some d # ys" "j = length xs" "cond_Type d = t" "filter (has_type t) ys = []"
      by (auto simp: last_slot_snoc)
    with False show ?thesis
      by (intro exI [of _ xs] exI [of _ d] exI [of _ "ys @ [c]"]) simp
  qed
qed simp

text \<open>Writing at the slot of a type replaces the last condition of that type and no other.\<close>

lemma write_at [simp]:
  "write_condition (length xs) st msg (xs @ Some c # ys) =
     xs @ Some (c\<lparr>cond_Status := st, cond_Message := msg\<rparr>) # ys"
  by (simp add: write_condition_def)

lemma slot_cases:
  assumes "slot = last_slot t 0 cs None"
  obtains (absent) "slot = None" and "filter (has_type t) cs = []"
  | (present) xs c ys where "slot = Some (length xs)" and "cs = xs @ Some c # ys"
      and "cond_Type c = t" and "filter (has_type t) ys = []"
proof (cases slot)
  case None
  moreover from None assms have "filter (has_type t) cs = []"
    using last_slot_None [of t 0 cs] by simp
  ultimately show ?thesis by (rule absent)
next
  case (Some i)
  with assms obtain xs c ys where "cs = xs @ Some c # ys" "i = length xs" "cond_Type c = t"
    "filter (has_type t) ys = []"
    using last_slot_Some [of t cs i] by auto
  with Some show ?thesis by (intro present) simp_all
qed

lemma raise_slot_typed:
  assumes "slot = last_slot t 0 cs None"
  shows "t' \<noteq> t \<Longrightarrow> filter (has_type t') (raise_slot t slot msg cs) = filter (has_type t') cs"
    and "\<exists>c. filter (has_type t) (raise_slot t slot msg cs) =
          butlast (filter (has_type t) cs) @ [Some c] \<and>
        cond_Type c = t \<and> cond_Status c = ConditionTrue \<and> cond_Message c = Some msg"
  using assms
  by (cases rule: slot_cases; simp add: raise_slot_def new_condition_def butlast_append)+

lemma clear_slot_typed:
  assumes "slot = last_slot t 0 cs None"
  shows "t' \<noteq> t \<Longrightarrow> filter (has_type t') (clear_slot slot cs) = filter (has_type t') cs"
    and "filter (has_type t) (clear_slot slot cs) =
      (if filter (has_type t) cs = [] then [] else
        butlast (filter (has_type t) cs) @
        [map_option (\<lambda>c. c\<lparr>cond_Status := ConditionFalse, cond_Message := None\<rparr>)
           (last (filter (has_type t) cs))])"
  using assms by (cases rule: slot_cases; simp add: clear_slot_def butlast_append)+

text \<open>Writing keeps the list free of nil, and the slots of the other types where they were.\<close>

lemma slot_update_no_nil:
  assumes "slot = last_slot t 0 cs None" and "None \<notin> set cs"
  shows "None \<notin> set (raise_slot t slot msg cs)" and "None \<notin> set (clear_slot slot cs)"
  using assms(1)
  by (cases rule: slot_cases; use assms(2) in \<open>simp add: raise_slot_def clear_slot_def\<close>)+

lemma last_slot_types: "map (has_type t) cs = map (has_type t) ds \<Longrightarrow>
  last_slot t i cs acc = last_slot t i ds acc"
proof (induction cs arbitrary: i acc ds)
  case (Cons c cs)
  then obtain d ds' where "ds = d # ds'" "has_type t c = has_type t d"
    "map (has_type t) cs = map (has_type t) ds'"
    by (cases ds) simp_all
  with Cons.IH [of ds'] show ?case by simp
qed simp

lemma clear_slot_keeps_slots:
  assumes "slot = last_slot t 0 cs None"
  shows "last_slot t' 0 (clear_slot slot cs) None = last_slot t' 0 cs None"
  using assms by (cases rule: slot_cases) (auto simp: clear_slot_def intro!: last_slot_types)

section \<open>The update, case by case\<close>

text \<open>
  The list after the update as a function of the list before.  \<open>terminal_text\<close> is the message of
  a terminal error; the code has none to give when the error is neither the controller's own nor
  an API error, and then it panics.
\<close>

definition terminal_text :: "acklib \<Rightarrow> error \<Rightarrow> string option" where
  "terminal_text L e =
     (if own_terminal_error L (Some e) then Some (Error_text e)
      else map_option Error_text (ackerr_AWSError L e))"

definition updated_conditions ::
  "acklib \<Rightarrow> error option \<Rightarrow> Condition option list \<Rightarrow> Condition option list" where
  "updated_conditions L err cs =
     (let slots = slots_of cs; cleared = clear_slot (slot_terminal slots) cs in
      case err of
        None \<Rightarrow> clear_slot (slot_recoverable slots) cleared
      | Some e \<Rightarrow>
          if is_terminal L err then
            (case terminal_text L e of
               None \<Rightarrow> cs
             | Some msg \<Rightarrow> raise_slot ConditionTypeTerminal (slot_terminal slots) msg cs)
          else raise_slot ConditionTypeRecoverable (slot_recoverable slots)
                 (recoverable_message L e) cleared)"

text \<open>Whether any of the three conditions the code looks for is there in the end.\<close>

definition reports_update :: "error option \<Rightarrow> Condition option list \<Rightarrow> bool" where
  "reports_update err cs \<longleftrightarrow>
     err \<noteq> None \<or> slots_of cs \<noteq> no_slots"

lemma not_terminal_None [simp]: "is_terminal L None = False"
  by (simp add: is_terminal_def terminalAWSError_def own_terminal_error_def)

lemma new_conditions_run:
  assumes "\<And>e. err = Some e \<Longrightarrow> is_terminal L err \<Longrightarrow> terminal_text L e \<noteq> None"
  shows "\<exists>t r. (\<forall>w. new_conditions L (slots_of cs) err cs w =
      (Ret (updated_conditions L err cs, t, r), w)) \<and>
    (t \<or> r \<or> slot_sync (slots_of cs) \<noteq> None \<longleftrightarrow> reports_update err cs)"
proof (cases err)
  case None
  then show ?thesis
    by (auto simp: new_conditions_def updated_conditions_def go_run Let_def reports_update_def
        slots_of_def no_slots_def)
next
  case (Some e)
  show ?thesis
  proof (cases "is_terminal L err")
    case True
    with assms [OF Some] obtain msg where msg: "terminal_text L e = Some msg" by auto
    then have "terminal_message L (Some e) w = (Ret msg, w)" for w :: 'a
      by (auto simp: terminal_text_def terminal_message_def error_message_def go_run
          split: if_splits)
    with True Some msg show ?thesis
      by (auto simp: new_conditions_def updated_conditions_def go_run Let_def reports_update_def)
  next
    case False
    with Some show ?thesis
      by (auto simp: new_conditions_def updated_conditions_def go_run Let_def reports_update_def)
  qed
qed


lemma terminal_text_ok:
  assumes "error_law L" and "is_terminal L (Some e)"
  shows "terminal_text L e \<noteq> None"
  using assms by (auto simp: error_law_def is_terminal_def terminalAWSError_def terminal_text_def
      split: option.splits)

text \<open>A resource whose object is there and whose conditions are not nil.\<close>

definition proper :: "'s world \<Rightarrow> resource \<Rightarrow> bool" where
  "proper w r = (case ko r of None \<Rightarrow> False | Some a \<Rightarrow> None \<notin> set (condition_list (heap w a)))"

definition obj :: "'s world \<Rightarrow> resource \<Rightarrow> Cluster" where
  "obj w r = heap w (case ko r of None \<Rightarrow> 0 | Some a \<Rightarrow> a)"

lemma properE:
  assumes "proper w r"
  obtains a where "ko r = Some a" and "obj w r = heap w a"
    and "None \<notin> set (condition_list (heap w a))"
  using assms by (auto simp: proper_def obj_def split: option.splits)

definition updated_object ::
  "acklib \<Rightarrow> 's resourceManager \<Rightarrow> error option \<Rightarrow> Cluster \<Rightarrow> Cluster" where
  "updated_object L rm err k =
     set_conditions (updated_conditions L err (condition_list k)) (setStatusDefaults rm k)"

lemma updateConditions_run:
  assumes "proper w r"
    and "\<And>e. err = Some e \<Longrightarrow> is_terminal L err \<Longrightarrow> terminal_text L e \<noteq> None"
  shows "updateConditions L rm r b err w =
    (Ret (if reports_update err (condition_list (obj w r))
          then (Some \<lparr>ko = Some (brk w)\<rparr>, True) else (None, False)),
     w\<lparr>heap := (heap w)(brk w := updated_object L rm err (obj w r)), brk := Suc (brk w)\<rparr>)"
proof -
  obtain a where a: "ko r = Some a" "obj w r = heap w a" "None \<notin> set (condition_list (heap w a))"
    using assms(1) by (rule properE)
  obtain t q where
    "\<And>v. new_conditions L (slots_of (condition_list (heap w a))) err (condition_list (heap w a))
        (v :: 'a world) = (Ret (updated_conditions L err (condition_list (heap w a)), t, q), v)"
    and "t \<or> q \<or> slot_sync (slots_of (condition_list (heap w a))) \<noteq> None \<longleftrightarrow>
      reports_update err (condition_list (heap w a))"
    using new_conditions_run [where err = err and L = L and cs = "condition_list (heap w a)",
        OF assms(2)] by blast
  with a show ?thesis
    by (simp add: updateConditions_def updated_object_def go_run)
qed

section \<open>What it leaves alone\<close>

lemma scan_conditions_state: "snd (scan_conditions i cs s w) = w"
  by (induction i cs s rule: scan_conditions.induct) (simp_all add: go_run Let_def)

lemma new_conditions_state: "snd (new_conditions L s err cs w) = w"
  by (simp add: new_conditions_def terminal_message_def error_message_def go_run Let_def
      split: option.split)

lemma any_terminal_state: "snd (any_terminal cs w) = w"
  by (induction cs rule: any_terminal.induct) (simp_all add: go_run)

lemma conditions_writes [frame]:
  "keeps (writes A) (scan_conditions i cs s)"
  "keeps (writes A) (new_conditions L s err cs)"
  "keeps (writes A) (any_terminal cs)"
  by (simp_all add: writes.keeps_pure scan_conditions_state new_conditions_state
      any_terminal_state)

lemma conditions_silent [frame]:
  "keeps silent (scan_conditions i cs s)"
  "keeps silent (new_conditions L s err cs)"
  "keeps silent (any_terminal cs)"
  by (simp_all add: silent.keeps_pure scan_conditions_state new_conditions_state
      any_terminal_state)

lemma outcome_writes [frame]:
  "keeps (writes A) (updateConditions L rm r b err)"
  "keeps (writes A) (onError L rm p err)"
  "keeps (writes A) (onSuccess L rm p)"
proof -
  show upd: "keeps (writes A) (updateConditions L rm r b err)" for r :: resource and b err
    unfolding updateConditions_def by (intro frame) auto
  show "keeps (writes A) (onError L rm p err)" "keeps (writes A) (onSuccess L rm p)"
    unfolding onError_def onSuccess_def by (intro frame upd)+
qed

lemma outcome_silent [frame]:
  "keeps silent (updateConditions L rm r b err)"
  "keeps silent (onError L rm p err)"
  "keeps silent (onSuccess L rm p)"
proof -
  show upd: "keeps silent (updateConditions L rm r b err)" for r :: resource and b err
    unfolding updateConditions_def by (intro frame)
  show "keeps silent (onError L rm p err)" "keeps silent (onSuccess L rm p)"
    unfolding onError_def onSuccess_def by (intro frame upd)+
qed

section \<open>The conditions after the update\<close>

text \<open>The condition of a type: the last one in the list.\<close>

definition current :: "condition_type \<Rightarrow> Condition option list \<Rightarrow> Condition option" where
  "current t cs = (let l = filter (has_type t) cs in if l = [] then None else last l)"

lemma current_None: "current t cs = None \<longleftrightarrow> filter (has_type t) cs = []"
proof (cases "filter (has_type t) cs = []")
  case False
  then have "last (filter (has_type t) cs) \<in> set (filter (has_type t) cs)" by (rule last_in_set)
  then have "has_type t (last (filter (has_type t) cs))" by simp
  with False show ?thesis by (cases "last (filter (has_type t) cs)") (simp_all add: current_def)
qed (simp add: current_def)

lemma current_cong: "filter (has_type t) cs = filter (has_type t) ds \<Longrightarrow> current t cs = current t ds"
  by (simp add: current_def)

lemma current_raise:
  "slot = last_slot t 0 cs None \<Longrightarrow>
   \<exists>c. current t (raise_slot t slot msg cs) = Some c \<and> cond_Status c = ConditionTrue \<and>
     cond_Message c = Some msg"
  using raise_slot_typed(2) [of slot t cs msg] by (auto simp: current_def)

lemma current_clear:
  "slot = last_slot t 0 cs None \<Longrightarrow>
   current t (clear_slot slot cs) =
     map_option (\<lambda>c. c\<lparr>cond_Status := ConditionFalse, cond_Message := None\<rparr>) (current t cs)"
  by (simp add: clear_slot_typed(2) current_def)

lemmas slot_simps = slots_of_def updated_conditions_def Let_def raise_slot_typed(1)
  clear_slot_typed(1) clear_slot_keeps_slots

lemma updated_terminal:
  assumes "is_terminal L (Some e)" and "terminal_text L e = Some msg"
  shows "\<exists>c. current ConditionTypeTerminal (updated_conditions L (Some e) cs) = Some c \<and>
      cond_Status c = ConditionTrue \<and> cond_Message c = Some msg"
    and "t \<noteq> ConditionTypeTerminal \<Longrightarrow>
      filter (has_type t) (updated_conditions L (Some e) cs) = filter (has_type t) cs"
  using assms current_raise by (simp_all add: slot_simps)

lemma updated_recoverable:
  assumes "\<not> is_terminal L (Some e)"
  shows "\<exists>c. current ConditionTypeRecoverable (updated_conditions L (Some e) cs) = Some c \<and>
      cond_Status c = ConditionTrue \<and> cond_Message c = Some (recoverable_message L e)"
    and "filter (has_type ConditionTypeTerminal) (updated_conditions L (Some e) cs) =
      filter (has_type ConditionTypeTerminal)
        (clear_slot (last_slot ConditionTypeTerminal 0 cs None) cs)"
    and "t \<notin> {ConditionTypeTerminal, ConditionTypeRecoverable} \<Longrightarrow>
      filter (has_type t) (updated_conditions L (Some e) cs) = filter (has_type t) cs"
proof -
  let ?cl = "clear_slot (last_slot ConditionTypeTerminal 0 cs None) cs"
  have slot: "last_slot ConditionTypeRecoverable 0 cs None =
      last_slot ConditionTypeRecoverable 0 ?cl None"
    by (simp add: clear_slot_keeps_slots)
  show "\<exists>c. current ConditionTypeRecoverable (updated_conditions L (Some e) cs) = Some c \<and>
      cond_Status c = ConditionTrue \<and> cond_Message c = Some (recoverable_message L e)"
    using assms current_raise [OF slot] by (simp add: slot_simps)
  show "filter (has_type ConditionTypeTerminal) (updated_conditions L (Some e) cs) =
      filter (has_type ConditionTypeTerminal) ?cl"
    using assms raise_slot_typed(1) [OF slot] by (simp add: slot_simps)
  show "filter (has_type t) (updated_conditions L (Some e) cs) = filter (has_type t) cs"
    if "t \<notin> {ConditionTypeTerminal, ConditionTypeRecoverable}"
    using assms that raise_slot_typed(1) [OF slot] by (simp add: slot_simps)
qed

lemma updated_success:
  "current ConditionTypeTerminal (updated_conditions L None cs) =
     map_option (\<lambda>c. c\<lparr>cond_Status := ConditionFalse, cond_Message := None\<rparr>)
       (current ConditionTypeTerminal cs)"
  "current ConditionTypeRecoverable (updated_conditions L None cs) =
     map_option (\<lambda>c. c\<lparr>cond_Status := ConditionFalse, cond_Message := None\<rparr>)
       (current ConditionTypeRecoverable cs)"
  "t \<notin> {ConditionTypeTerminal, ConditionTypeRecoverable} \<Longrightarrow>
     filter (has_type t) (updated_conditions L None cs) = filter (has_type t) cs"
proof -
  let ?cl = "clear_slot (last_slot ConditionTypeTerminal 0 cs None) cs"
  have slot: "last_slot ConditionTypeRecoverable 0 cs None =
      last_slot ConditionTypeRecoverable 0 ?cl None"
    by (simp add: clear_slot_keeps_slots)
  have upd: "updated_conditions L None cs =
      clear_slot (last_slot ConditionTypeRecoverable 0 ?cl None) ?cl"
    by (simp add: slot_simps)
  have keep: "filter (has_type t) (updated_conditions L None cs) = filter (has_type t) ?cl"
    if "t \<noteq> ConditionTypeRecoverable" for t
    using that clear_slot_typed(1) [OF refl, of t ConditionTypeRecoverable ?cl] upd by simp
  show "current ConditionTypeTerminal (updated_conditions L None cs) =
     map_option (\<lambda>c. c\<lparr>cond_Status := ConditionFalse, cond_Message := None\<rparr>)
       (current ConditionTypeTerminal cs)"
    using current_cong [OF keep] by (simp add: current_clear)
  have "current ConditionTypeRecoverable ?cl = current ConditionTypeRecoverable cs"
    by (rule current_cong) (simp add: clear_slot_typed(1))
  then show "current ConditionTypeRecoverable (updated_conditions L None cs) =
     map_option (\<lambda>c. c\<lparr>cond_Status := ConditionFalse, cond_Message := None\<rparr>)
       (current ConditionTypeRecoverable cs)"
    unfolding upd by (simp add: current_clear)
  show "filter (has_type t) (updated_conditions L None cs) = filter (has_type t) cs"
    if "t \<notin> {ConditionTypeTerminal, ConditionTypeRecoverable}"
    using that keep by (simp add: clear_slot_typed(1))
qed

section \<open>Properties\<close>

lemma error_case:
  assumes "error_law L" "proper w r"
  shows "updateConditions L rm r b (Some e) w =
    (Ret (Some \<lparr>ko = Some (brk w)\<rparr>, True),
     w\<lparr>heap := (heap w)(brk w := updated_object L rm (Some e) (obj w r)), brk := Suc (brk w)\<rparr>)"
  using updateConditions_run [OF assms(2), of "Some e"] terminal_text_ok [OF assms(1)]
  by (simp add: reports_update_def)

lemma success_case:
  assumes "proper w r"
  shows "updateConditions L rm r b None w =
    (Ret (if reports_update None (condition_list (obj w r))
          then (Some \<lparr>ko = Some (brk w)\<rparr>, True) else (None, False)),
     w\<lparr>heap := (heap w)(brk w := updated_object L rm None (obj w r)), brk := Suc (brk w)\<rparr>)"
  using updateConditions_run [OF assms, of None] by simp

text \<open>
  C26.  After an error, \<open>updateConditions\<close> always reports an update: a new object, with one
  condition raised (status True, with a message) that is the Terminal one exactly when the error
  is terminal (a ValidationException of the API, one of the two secret errors, or a terminal
  error) and the Recoverable one otherwise.  A non-terminal error clears the Terminal condition,
  a terminal one leaves the Recoverable condition as it was; conditions of every other type,
  ResourceSynced among them, are untouched.
\<close>

theorem updateConditions_on_error:
  assumes "error_law L" "proper w r"
  shows "\<exists>w' r1. updateConditions L rm r b (Some e) w = (Ret (Some r1, True), w') \<and>
    ko r1 = Some (brk w) \<and>
    (let old = condition_list (obj w r); new = condition_list (obj w' r1);
         terminal = is_terminal L (Some e);
         raised = (if terminal then ConditionTypeTerminal else ConditionTypeRecoverable) in
     (\<exists>c msg. current raised new = Some c \<and> cond_Status c = ConditionTrue \<and>
        cond_Message c = Some msg) \<and>
     (if terminal then current ConditionTypeRecoverable new = current ConditionTypeRecoverable old
      else current ConditionTypeTerminal new =
        map_option (\<lambda>c. c\<lparr>cond_Status := ConditionFalse, cond_Message := None\<rparr>)
          (current ConditionTypeTerminal old)) \<and>
     (\<forall>t. t = ConditionTypeTerminal \<or> t = ConditionTypeRecoverable \<or>
        filter (has_type t) new = filter (has_type t) old))"
proof -
  let ?old = "condition_list (obj w r)"
  have new: "condition_list (updated_object L rm (Some e) (obj w r)) =
      updated_conditions L (Some e) ?old"
    by (simp add: updated_object_def)
  show ?thesis
  proof (cases "is_terminal L (Some e)")
    case True
    with assms(1) obtain msg where msg: "terminal_text L e = Some msg"
      using terminal_text_ok by fastforce
    note upd = updated_terminal [OF True msg, where cs = ?old]
    obtain c where "current ConditionTypeTerminal (updated_conditions L (Some e) ?old) = Some c"
      "cond_Status c = ConditionTrue" "cond_Message c = Some msg"
      using upd(1) by blast
    with True show ?thesis
      using upd(2) current_cong [OF upd(2)]
      by (auto simp: error_case [OF assms] obj_def [of "w\<lparr>heap := _, brk := _\<rparr>"] new Let_def)
  next
    case False
    note upd = updated_recoverable [OF False, where cs = ?old]
    obtain c where "current ConditionTypeRecoverable (updated_conditions L (Some e) ?old) = Some c"
      "cond_Status c = ConditionTrue" "cond_Message c = Some (recoverable_message L e)"
      using upd(1) by blast
    with False show ?thesis
      using upd(3) current_cong [OF upd(2)]
      by (auto simp: error_case [OF assms] obj_def [of "w\<lparr>heap := _, brk := _\<rparr>"] new Let_def
          current_clear)
  qed
qed

lemma ref_proper: "proper ref_world ref_resource"
  by (simp add: proper_def ref_world_def ref_resource_def ref_cluster_def condition_list_def)

theorem updateConditions_on_error_witness:
  "is_terminal ref_lib (Some ref_validation) \<and>
   (\<exists>w' r1. updateConditions ref_lib ref_rm ref_resource False (Some ref_validation) ref_world =
      (Ret (Some r1, True), w') \<and> ko r1 = Some 1)"
proof -
  have "is_terminal ref_lib (Some ref_validation)"
    by (simp add: is_terminal_def terminalAWSError_def ref_validation_def)
  with updateConditions_on_error [OF ref_error ref_proper, of ref_rm False ref_validation]
  show ?thesis by (auto simp: ref_world_def)
qed

text \<open>
  C27.  After a success, \<open>updateConditions\<close> adds no condition: the Terminal and the Recoverable
  condition, where there is one, become False with no message, every other condition is untouched,
  and an update is reported exactly when one of Terminal, Recoverable and ResourceSynced is there.
\<close>

theorem updateConditions_on_success:
  assumes "proper w r"
  shows "\<exists>w' r1 updated. updateConditions L rm r b None w = (Ret (r1, updated), w') \<and>
    r1 = (if updated then Some \<lparr>ko = Some (brk w)\<rparr> else None) \<and>
    (let old = condition_list (obj w r); new = condition_list (heap w' (brk w)) in
     updated = (current ConditionTypeTerminal old \<noteq> None \<or>
       current ConditionTypeRecoverable old \<noteq> None \<or>
       current ConditionTypeResourceSynced old \<noteq> None) \<and>
     (\<forall>t. if t = ConditionTypeTerminal \<or> t = ConditionTypeRecoverable
          then current t new =
            map_option (\<lambda>c. c\<lparr>cond_Status := ConditionFalse, cond_Message := None\<rparr>) (current t old)
          else filter (has_type t) new = filter (has_type t) old))"
proof -
  let ?old = "condition_list (obj w r)"
  have slot: "last_slot t 0 ?old None = None \<longleftrightarrow> current t ?old = None" for t
    by (simp add: last_slot_None current_None)
  have rep: "reports_update None ?old \<longleftrightarrow> current ConditionTypeTerminal ?old \<noteq> None \<or>
      current ConditionTypeRecoverable ?old \<noteq> None \<or> current ConditionTypeResourceSynced ?old \<noteq> None"
    by (simp add: reports_update_def slots_of_def no_slots_def slot) 
  show ?thesis
    using updated_success [where L = L and cs = ?old]
    by (simp add: success_case [OF assms] updated_object_def Let_def rep)
qed

theorem updateConditions_on_success_witness:
  "\<exists>w'. updateConditions ref_lib ref_rm ref_resource True None ref_world = (Ret (None, False), w')"
  using updateConditions_on_success [OF ref_proper, of ref_lib ref_rm True]
  by (auto simp: obj_def ref_world_def ref_resource_def ref_cluster_def condition_list_def
      current_def)

text \<open>
  \<open>updateConditions\<close> says that conditions were updated when none was: on a resource whose
  only condition of interest is ResourceSynced and whose status has its defaults, a success gives
  a copy equal to the original and the answer true.
\<close>

lemma updateConditions_reports_unchanged:
  assumes "proper w r" and "setStatusDefaults rm (obj w r) = obj w r"
    and "condition_list (obj w r) = [Some c]" and "cond_Type c = ConditionTypeResourceSynced"
  shows "\<exists>w'. updateConditions L rm r b None w = (Ret (Some \<lparr>ko = Some (brk w)\<rparr>, True), w') \<and>
    heap w' (brk w) = obj w r"
proof -
  have "updated_object L rm None (obj w r) = obj w r"
  proof -
    have "status_Conditions (Status (obj w r)) = Some [Some c]"
      using assms(2,3) setStatusDefaults_frame(10) [of rm "obj w r"] by simp
    then show ?thesis
      using assms(2-4) by (simp add: updated_object_def slot_simps clear_slot_def set_conditions_def)
  qed
  with assms(3,4) show ?thesis
    by (simp add: success_case [OF assms(1)] reports_update_def slots_of_def no_slots_def)
qed

definition synced_world :: "ref_svc world" where
  "synced_world = ref_world\<lparr>heap := (\<lambda>_. setStatusDefaults ref_rm
     (set_conditions [Some (new_condition ConditionTypeResourceSynced)] ref_cluster))\<rparr>"

lemma any_terminal_run [go_run]:
  "None \<notin> set cs \<Longrightarrow> any_terminal cs w =
    (Ret (\<exists>c. Some c \<in> set (filter (has_type ConditionTypeTerminal) cs) \<and>
       cond_Status c = ConditionTrue), w)"
  by (induction cs rule: any_terminal.induct) (auto simp: go_run)

lemma onError_run:
  assumes "error_law L" "proper w r"
    and "length (filter (has_type ConditionTypeTerminal) (condition_list (obj w r))) \<le> 1"
  shows "onError L rm (Some r) (Some e) w =
    (Ret (Some (Some \<lparr>ko = Some (brk w)\<rparr>),
          Some (if is_terminal L (Some e) then ackerr_Terminal L else e)),
     w\<lparr>heap := (heap w)(brk w := updated_object L rm (Some e) (obj w r)), brk := Suc (brk w)\<rparr>)"
proof -
  let ?old = "condition_list (obj w r)" and ?new = "updated_conditions L (Some e) (condition_list (obj w r))"
  have no_nil: "None \<notin> set ?old" using assms(2) by (auto elim: properE)
  have "None \<notin> set ?new \<and> ((\<exists>c. Some c \<in> set (filter (has_type ConditionTypeTerminal) ?new) \<and>
      cond_Status c = ConditionTrue) \<longleftrightarrow> is_terminal L (Some e))"
  proof (cases "is_terminal L (Some e)")
    case True
    with assms(1) obtain msg where msg: "terminal_text L e = Some msg"
      using terminal_text_ok by fastforce
    obtain c where c: "filter (has_type ConditionTypeTerminal) ?new =
        butlast (filter (has_type ConditionTypeTerminal) ?old) @ [Some c]"
      "cond_Status c = ConditionTrue"
      using True msg raise_slot_typed(2) [OF refl, of ConditionTypeTerminal ?old msg]
      by (auto simp: slot_simps)
    then have "\<exists>c. Some c \<in> set (filter (has_type ConditionTypeTerminal) ?new) \<and>
        cond_Status c = ConditionTrue"
      unfolding c(1) by auto
    moreover have "None \<notin> set ?new"
      using True msg slot_update_no_nil(1) [OF refl no_nil] by (simp add: slot_simps)
    ultimately show ?thesis using True by blast
  next
    case False
    let ?cl = "clear_slot (last_slot ConditionTypeTerminal 0 ?old None) ?old"
    have "butlast (filter (has_type ConditionTypeTerminal) ?old) = []"
      using assms(3) by (cases "filter (has_type ConditionTypeTerminal) ?old") auto
    then have "\<forall>c. Some c \<in> set (filter (has_type ConditionTypeTerminal) ?new) \<longrightarrow>
        cond_Status c = ConditionFalse"
      unfolding updated_recoverable(2) [OF False]
      by (auto simp: clear_slot_typed(2) map_option_case split: option.splits simp del: set_filter)
    moreover have "None \<notin> set ?new"
      using False slot_update_no_nil(2) [OF refl no_nil, of ConditionTypeTerminal]
        slot_update_no_nil(1) [of _ ConditionTypeRecoverable ?cl]
      by (simp add: slot_simps)
    ultimately show ?thesis using False by fastforce
  qed
  then show ?thesis
    by (simp add: onError_def go_run error_case [OF assms(1,2)] updated_object_def)
qed

text \<open>The terminal errors, spelled out.\<close>

lemma is_terminal_errors:
  "is_terminal L (Some e) \<longleftrightarrow>
     map_option ErrorCode (errors_As is_APIError e) = Some ''ValidationException'' \<or>
     errors_As is_TerminalError e \<noteq> None \<or>
     e = ackerr_SecretTypeNotSupported L \<or> e = ackerr_SecretNotFound L"
  by (auto simp: is_terminal_def terminalAWSError_def own_terminal_error_def split: option.splits)

text \<open>
  C28.  The error a failed operation returns, for a resource with at most one Terminal condition and no
  nil condition.  An error of the API whose code is ValidationException, the runtime's terminal errors
  and its two errors about secrets come back as the runtime's Terminal error; every other error,
  those of the API with another code included, comes back unchanged.  Either way a new object comes
  with it, which carries the conditions.
\<close>

theorem onError_result:
  assumes "error_law L" "proper w r"
    and "length (filter (has_type ConditionTypeTerminal) (condition_list (obj w r))) \<le> 1"
  shows "fst (onError L rm (Some r) (Some e) w) =
    Ret (Some (Some \<lparr>ko = Some (brk w)\<rparr>),
         Some (if map_option ErrorCode (errors_As is_APIError e) = Some ''ValidationException'' \<or>
                  errors_As is_TerminalError e \<noteq> None \<or>
                  e = ackerr_SecretTypeNotSupported L \<or> e = ackerr_SecretNotFound L
               then ackerr_Terminal L else e))"
  using onError_run [OF assms, of rm e] by (simp only: is_terminal_errors fst_conv)

theorem onError_result_witness:
  "fst (onError ref_lib ref_rm (Some ref_resource) (Some ref_validation) ref_world) =
     Ret (Some (Some \<lparr>ko = Some 1\<rparr>), Some (ackerr_Terminal ref_lib))"
  using onError_result [OF ref_error ref_proper, of ref_rm ref_validation]
  by (simp add: obj_def ref_world_def ref_resource_def ref_cluster_def condition_list_def
      ref_validation_def)

end
