(* ===== verification/Delta.thy ===== *)
theory Delta
  imports Conditions
begin

text \<open>
  \<open>pkg/resource/cluster/delta.go\<close>: the difference between the desired and the observed resource,
  field by field, and the reduced difference used before a delete.
\<close>

section \<open>The code\<close>

text \<open>
  The pattern of a field that is a pointer to a comparable value: a difference in nilness, or two
  values that differ.
\<close>

definition diff_pointer ::
  "acklib \<Rightarrow> string \<Rightarrow> ('v option \<Rightarrow> go_value) \<Rightarrow> 'v option \<Rightarrow> 'v option \<Rightarrow> delta \<Rightarrow> delta" where
  "diff_pointer L path wrap a b delta =
     (if ackcompare_HasNilDifference L (wrap a) (wrap b) then delta_Add L delta path (wrap a) (wrap b)
      else case (a, b) of
        (Some x, Some y) \<Rightarrow>
          if x \<noteq> y then delta_Add L delta path (wrap a) (wrap b) else delta
      | _ \<Rightarrow> delta)"

definition diff_DeletionProtectionEnabled ::
  "acklib \<Rightarrow> ClusterSpec \<Rightarrow> ClusterSpec \<Rightarrow> delta \<Rightarrow> delta" where
  "diff_DeletionProtectionEnabled L a b =
     diff_pointer L ''Spec.DeletionProtectionEnabled'' BoolV
       (spec_DeletionProtectionEnabled a) (spec_DeletionProtectionEnabled b)"

definition diff_KMSEncryptionKey :: "acklib \<Rightarrow> ClusterSpec \<Rightarrow> ClusterSpec \<Rightarrow> delta \<Rightarrow> delta" where
  "diff_KMSEncryptionKey L a b =
     diff_pointer L ''Spec.KMSEncryptionKey'' StringV
       (spec_KMSEncryptionKey a) (spec_KMSEncryptionKey b)"

definition diff_KMSEncryptionKeyRef :: "acklib \<Rightarrow> ClusterSpec \<Rightarrow> ClusterSpec \<Rightarrow> delta \<Rightarrow> delta" where
  "diff_KMSEncryptionKeyRef L a b delta =
     (if \<not> equality_DeepEqual L (spec_KMSEncryptionKeyRef a) (spec_KMSEncryptionKeyRef b)
      then delta_Add L delta ''Spec.KMSEncryptionKeyRef''
             (RefV (spec_KMSEncryptionKeyRef a)) (RefV (spec_KMSEncryptionKeyRef b))
      else delta)"

text \<open>The elements of a slice that may be nil (\<open>len\<close> of nil is 0).\<close>

definition elements :: "string option list option \<Rightarrow> string option list" where
  "elements s = (case s of None \<Rightarrow> [] | Some l \<Rightarrow> l)"

definition diff_Clusters ::
  "acklib \<Rightarrow> MultiRegionProperties \<Rightarrow> MultiRegionProperties \<Rightarrow> delta \<Rightarrow> delta" where
  "diff_Clusters L a b delta =
     (let add = delta_Add L delta ''Spec.MultiRegionProperties.Clusters''
                  (StringsV (mrp_Clusters a)) (StringsV (mrp_Clusters b)) in
      if length (elements (mrp_Clusters a)) \<noteq> length (elements (mrp_Clusters b)) then add
      else if 0 < length (elements (mrp_Clusters a)) then
        (if \<not> ackcompare_SliceStringPEqual L (elements (mrp_Clusters a)) (elements (mrp_Clusters b))
         then add else delta)
      else delta)"

definition diff_MultiRegionProperties ::
  "acklib \<Rightarrow> ClusterSpec \<Rightarrow> ClusterSpec \<Rightarrow> delta \<Rightarrow> delta" where
  "diff_MultiRegionProperties L a b delta =
     (let ma = spec_MultiRegionProperties a; mb = spec_MultiRegionProperties b in
      if ackcompare_HasNilDifference L (MultiRegionV ma) (MultiRegionV mb)
      then delta_Add L delta ''Spec.MultiRegionProperties'' (MultiRegionV ma) (MultiRegionV mb)
      else case (ma, mb) of
        (Some x, Some y) \<Rightarrow>
          diff_pointer L ''Spec.MultiRegionProperties.WitnessRegion'' StringV
            (mrp_WitnessRegion x) (mrp_WitnessRegion y) (diff_Clusters L x y delta)
      | _ \<Rightarrow> delta)"

definition diff_Policy :: "acklib \<Rightarrow> ClusterSpec \<Rightarrow> ClusterSpec \<Rightarrow> delta \<Rightarrow> delta" where
  "diff_Policy L a b delta =
     (let add = delta_Add L delta ''Spec.Policy'' (StringV (spec_Policy a)) (StringV (spec_Policy b)) in
      if ackcompare_HasNilDifference L (StringV (spec_Policy a)) (StringV (spec_Policy b)) then add
      else case (spec_Policy a, spec_Policy b) of
        (Some p, Some q) \<Rightarrow>
          (case ackcompare_IAMPolicyDocumentEqual L p q of
             Inl err \<Rightarrow> add
           | Inr equal \<Rightarrow> if \<not> equal then add else delta)
      | _ \<Rightarrow> delta)"

definition diff_Tags :: "acklib \<Rightarrow> ClusterSpec \<Rightarrow> ClusterSpec \<Rightarrow> delta \<Rightarrow> delta" where
  "diff_Tags L a b delta =
     (let desiredACKTags = fst (convertToOrderedACKTags L (spec_Tags a));
          latestACKTags = fst (convertToOrderedACKTags L (spec_Tags b)) in
      if \<not> ackcompare_MapStringStringEqual L desiredACKTags latestACKTags
      then delta_Add L delta ''Spec.Tags'' (TagsV (spec_Tags a)) (TagsV (spec_Tags b))
      else delta)"

text \<open>The comparison of two specs, in the order of the source.\<close>

definition spec_delta :: "acklib \<Rightarrow> ClusterSpec \<Rightarrow> ClusterSpec \<Rightarrow> delta" where
  "spec_delta L a b =
     (let delta = ackcompare_NewDelta L;
          delta = diff_DeletionProtectionEnabled L a b delta;
          delta = diff_KMSEncryptionKey L a b delta;
          delta = diff_KMSEncryptionKeyRef L a b delta;
          delta = diff_MultiRegionProperties L a b delta;
          delta = diff_Policy L a b delta
      in diff_Tags L a b delta)"

definition newResourceDelta ::
  "acklib \<Rightarrow> resource option \<Rightarrow> resource option \<Rightarrow> ('s world, delta) go" where
  "newResourceDelta L a b =
     (if (a = None \<and> b \<noteq> None) \<or> (a \<noteq> None \<and> b = None)
      then ret (delta_Add L (ackcompare_NewDelta L) '''' (ResourceV a) (ResourceV b))
      else
        bind_go (deref_resource a) (\<lambda>ka.
        bind_go (deref_resource b) (\<lambda>kb.
        ret (spec_delta L (Spec ka) (Spec kb)))))"

definition newResourceDeltaForPreDelete ::
  "acklib \<Rightarrow> resource option \<Rightarrow> resource option \<Rightarrow> ('s world, delta \<times> resource option) go" where
  "newResourceDeltaForPreDelete L a b =
     (if (a = None \<and> b \<noteq> None) \<or> (a \<noteq> None \<and> b = None)
      then ret (delta_Add L (ackcompare_NewDelta L) '''' (ResourceV a) (ResourceV b), None)
      else
        bind_go (deref_resource a) (\<lambda>ka.
        bind_go (deref_resource b) (\<lambda>kb.
        bind_go (resource_ko b) (\<lambda>kob.
        bind_go (Cluster_DeepCopy kob) (\<lambda>merged.
        bind_go (modify_obj (\<lambda>k. k\<lparr>Spec := (Spec k)\<lparr>spec_DeletionProtectionEnabled :=
            spec_DeletionProtectionEnabled (Spec ka)\<rparr>\<rparr>) merged) (\<lambda>_.
        ret (diff_DeletionProtectionEnabled L (Spec ka) (Spec kb) (ackcompare_NewDelta L),
             Some \<lparr>ko = merged\<rparr>)))))))"

section \<open>Which fields differ\<close>

text \<open>When each step finds a difference.\<close>

definition clusters_differ :: "acklib \<Rightarrow> MultiRegionProperties \<Rightarrow> MultiRegionProperties \<Rightarrow> bool" where
  "clusters_differ L a b \<longleftrightarrow>
     length (elements (mrp_Clusters a)) \<noteq> length (elements (mrp_Clusters b)) \<or>
     elements (mrp_Clusters a) \<noteq> [] \<and>
       \<not> ackcompare_SliceStringPEqual L (elements (mrp_Clusters a)) (elements (mrp_Clusters b))"

definition multi_region_differ ::
  "acklib \<Rightarrow> MultiRegionProperties option \<Rightarrow> MultiRegionProperties option \<Rightarrow> bool" where
  "multi_region_differ L a b \<longleftrightarrow>
     (case (a, b) of
        (None, None) \<Rightarrow> False
      | (Some x, Some y) \<Rightarrow> clusters_differ L x y \<or> mrp_WitnessRegion x \<noteq> mrp_WitnessRegion y
      | _ \<Rightarrow> True)"

definition policies_differ :: "acklib \<Rightarrow> string option \<Rightarrow> string option \<Rightarrow> bool" where
  "policies_differ L a b \<longleftrightarrow>
     (case (a, b) of
        (None, None) \<Rightarrow> False
      | (Some p, Some q) \<Rightarrow> ackcompare_IAMPolicyDocumentEqual L p q \<noteq> Inr True
      | _ \<Rightarrow> True)"

text \<open>The effect of one step on the two questions asked of a delta.\<close>

definition adds :: "acklib \<Rightarrow> (delta \<Rightarrow> delta) \<Rightarrow> bool \<Rightarrow> string \<Rightarrow> bool" where
  "adds L f differ path \<longleftrightarrow>
     (\<forall>d q. delta_DifferentAt L (f d) q =
        (delta_DifferentAt L d q \<or> differ \<and> path_contains path q)) \<and>
     (\<forall>d qs. delta_DifferentExcept L (f d) qs =
        (delta_DifferentExcept L d qs \<or> differ \<and> \<not> list_ex (path_contains path) qs))"

lemma adds_cases:
  assumes "delta_law L"
    and "\<And>d. differ \<Longrightarrow> \<exists>a b. f d = delta_Add L d path a b" and "\<And>d. \<not> differ \<Longrightarrow> f d = d"
  shows "adds L f differ path"
proof (cases differ)
  case True
  then have "\<forall>d. \<exists>a b. f d = delta_Add L d path a b" using assms(2) by blast
  then obtain a b where "\<And>d. f d = delta_Add L d path (a d) (b d)" by metis
  with True assms(1) show ?thesis by (simp add: adds_def delta_law_def)
qed (simp add: adds_def assms(3))

lemma diff_pointer_adds:
  assumes "delta_law L" "compare_law L" and "\<And>v. is_nil (wrap v) \<longleftrightarrow> v = None"
  shows "adds L (diff_pointer L path wrap a b) (a \<noteq> b) path"
  using assms(2,3)
  by (intro adds_cases [OF assms(1)])
     (auto simp: diff_pointer_def compare_law_def split: option.splits)

lemma diff_Clusters_adds:
  "delta_law L \<Longrightarrow>
   adds L (diff_Clusters L a b) (clusters_differ L a b) ''Spec.MultiRegionProperties.Clusters''"
  by (intro adds_cases) (auto simp: diff_Clusters_def clusters_differ_def Let_def)

lemma diff_Policy_adds:
  assumes "delta_law L" "compare_law L"
  shows "adds L (diff_Policy L a b) (policies_differ L (spec_Policy a) (spec_Policy b)) ''Spec.Policy''"
  using assms(2)
  by (intro adds_cases [OF assms(1)])
     (auto simp: diff_Policy_def policies_differ_def compare_law_def Let_def
       split: option.splits sum.splits)

lemma diff_Tags_adds:
  assumes "delta_law L" "compare_law L" "new_tags_law L"
  shows "adds L (diff_Tags L a b) (tag_view (spec_Tags a) \<noteq> tag_view (spec_Tags b)) ''Spec.Tags''"
  using assms(2)
  by (intro adds_cases [OF assms(1)])
     (auto simp: diff_Tags_def compare_law_def convert_view_law [OF assms(3)] Let_def)

lemma diff_Ref_adds:
  assumes "delta_law L" "compare_law L"
  shows "adds L (diff_KMSEncryptionKeyRef L a b)
    (spec_KMSEncryptionKeyRef a \<noteq> spec_KMSEncryptionKeyRef b) ''Spec.KMSEncryptionKeyRef''"
  using assms(2)
  by (intro adds_cases [OF assms(1)]) (auto simp: diff_KMSEncryptionKeyRef_def compare_law_def)

text \<open>The nested fields: three paths below \<open>Spec.MultiRegionProperties\<close>.\<close>

definition region_nil :: "ClusterSpec \<Rightarrow> ClusterSpec \<Rightarrow> bool" where
  "region_nil a b \<longleftrightarrow>
     (spec_MultiRegionProperties a = None) \<noteq> (spec_MultiRegionProperties b = None)"

definition region_clusters :: "acklib \<Rightarrow> ClusterSpec \<Rightarrow> ClusterSpec \<Rightarrow> bool" where
  "region_clusters L a b \<longleftrightarrow>
     (case (spec_MultiRegionProperties a, spec_MultiRegionProperties b) of
        (Some x, Some y) \<Rightarrow> clusters_differ L x y | _ \<Rightarrow> False)"

definition region_witness :: "ClusterSpec \<Rightarrow> ClusterSpec \<Rightarrow> bool" where
  "region_witness a b \<longleftrightarrow>
     (case (spec_MultiRegionProperties a, spec_MultiRegionProperties b) of
        (Some x, Some y) \<Rightarrow> mrp_WitnessRegion x \<noteq> mrp_WitnessRegion y | _ \<Rightarrow> False)"

lemma multi_region_parts:
  "multi_region_differ L (spec_MultiRegionProperties a) (spec_MultiRegionProperties b) \<longleftrightarrow>
     region_nil a b \<or> region_clusters L a b \<or> region_witness a b"
  by (auto simp: multi_region_differ_def region_nil_def region_clusters_def region_witness_def
      split: option.split)

lemma diff_MultiRegion_adds:
  assumes "delta_law L" "compare_law L"
  shows "delta_DifferentAt L (diff_MultiRegionProperties L a b d) q \<longleftrightarrow>
        delta_DifferentAt L d q \<or>
        region_nil a b \<and> path_contains ''Spec.MultiRegionProperties'' q \<or>
        region_clusters L a b \<and> path_contains ''Spec.MultiRegionProperties.Clusters'' q \<or>
        region_witness a b \<and> path_contains ''Spec.MultiRegionProperties.WitnessRegion'' q"
    and "delta_DifferentExcept L (diff_MultiRegionProperties L a b d) qs \<longleftrightarrow>
        delta_DifferentExcept L d qs \<or>
        region_nil a b \<and> \<not> list_ex (path_contains ''Spec.MultiRegionProperties'') qs \<or>
        region_clusters L a b \<and>
          \<not> list_ex (path_contains ''Spec.MultiRegionProperties.Clusters'') qs \<or>
        region_witness a b \<and>
          \<not> list_ex (path_contains ''Spec.MultiRegionProperties.WitnessRegion'') qs"
proof -
  have w: "adds L (diff_pointer L ''Spec.MultiRegionProperties.WitnessRegion'' StringV u v) (u \<noteq> v)
      ''Spec.MultiRegionProperties.WitnessRegion''" for u v
    using assms by (intro diff_pointer_adds) simp_all
  note defs = diff_MultiRegionProperties_def region_nil_def region_clusters_def region_witness_def
  show "delta_DifferentAt L (diff_MultiRegionProperties L a b d) q \<longleftrightarrow>
        delta_DifferentAt L d q \<or>
        region_nil a b \<and> path_contains ''Spec.MultiRegionProperties'' q \<or>
        region_clusters L a b \<and> path_contains ''Spec.MultiRegionProperties.Clusters'' q \<or>
        region_witness a b \<and> path_contains ''Spec.MultiRegionProperties.WitnessRegion'' q"
    using assms w diff_Clusters_adds [OF assms(1)]
    by (cases "spec_MultiRegionProperties a"; cases "spec_MultiRegionProperties b")
       (simp_all add: defs adds_def delta_law_def compare_law_def)
  show "delta_DifferentExcept L (diff_MultiRegionProperties L a b d) qs \<longleftrightarrow>
        delta_DifferentExcept L d qs \<or>
        region_nil a b \<and> \<not> list_ex (path_contains ''Spec.MultiRegionProperties'') qs \<or>
        region_clusters L a b \<and>
          \<not> list_ex (path_contains ''Spec.MultiRegionProperties.Clusters'') qs \<or>
        region_witness a b \<and>
          \<not> list_ex (path_contains ''Spec.MultiRegionProperties.WitnessRegion'') qs"
    using assms w diff_Clusters_adds [OF assms(1)]
    by (cases "spec_MultiRegionProperties a"; cases "spec_MultiRegionProperties b")
       (simp_all add: defs adds_def delta_law_def compare_law_def)
qed

lemma step_adds:
  assumes "delta_law L" "compare_law L"
  shows "adds L (diff_DeletionProtectionEnabled L a b)
      (spec_DeletionProtectionEnabled a \<noteq> spec_DeletionProtectionEnabled b)
      ''Spec.DeletionProtectionEnabled''"
    and "adds L (diff_KMSEncryptionKey L a b) (spec_KMSEncryptionKey a \<noteq> spec_KMSEncryptionKey b)
      ''Spec.KMSEncryptionKey''"
  unfolding diff_DeletionProtectionEnabled_def diff_KMSEncryptionKey_def
  using assms by (intro diff_pointer_adds; simp)+

text \<open>Which of the code's paths contain the two paths \<open>customUpdate\<close> asks for.\<close>

lemma tag_paths:
  "path_contains ''Spec.Tags'' ''Spec.Tags''"
  "\<not> path_contains ''Spec.Policy'' ''Spec.Tags''"
  "\<not> path_contains ''Spec.DeletionProtectionEnabled'' ''Spec.Tags''"
  "\<not> path_contains ''Spec.KMSEncryptionKey'' ''Spec.Tags''"
  "\<not> path_contains ''Spec.KMSEncryptionKeyRef'' ''Spec.Tags''"
  "\<not> path_contains ''Spec.MultiRegionProperties'' ''Spec.Tags''"
  "\<not> path_contains ''Spec.MultiRegionProperties.Clusters'' ''Spec.Tags''"
  "\<not> path_contains ''Spec.MultiRegionProperties.WitnessRegion'' ''Spec.Tags''"
  by code_simp+

lemma policy_paths:
  "path_contains ''Spec.Policy'' ''Spec.Policy''"
  "\<not> path_contains ''Spec.Tags'' ''Spec.Policy''"
  "\<not> path_contains ''Spec.DeletionProtectionEnabled'' ''Spec.Policy''"
  "\<not> path_contains ''Spec.KMSEncryptionKey'' ''Spec.Policy''"
  "\<not> path_contains ''Spec.KMSEncryptionKeyRef'' ''Spec.Policy''"
  "\<not> path_contains ''Spec.MultiRegionProperties'' ''Spec.Policy''"
  "\<not> path_contains ''Spec.MultiRegionProperties.Clusters'' ''Spec.Policy''"
  "\<not> path_contains ''Spec.MultiRegionProperties.WitnessRegion'' ''Spec.Policy''"
  by code_simp+

lemma key_paths:
  "path_contains ''Spec.KMSEncryptionKey'' ''Spec.KMSEncryptionKey''"
  "\<not> path_contains ''Spec.Tags'' ''Spec.KMSEncryptionKey''"
  "\<not> path_contains ''Spec.Policy'' ''Spec.KMSEncryptionKey''"
  "\<not> path_contains ''Spec.DeletionProtectionEnabled'' ''Spec.KMSEncryptionKey''"
  "\<not> path_contains ''Spec.KMSEncryptionKeyRef'' ''Spec.KMSEncryptionKey''"
  "\<not> path_contains ''Spec.MultiRegionProperties'' ''Spec.KMSEncryptionKey''"
  "\<not> path_contains ''Spec.MultiRegionProperties.Clusters'' ''Spec.KMSEncryptionKey''"
  "\<not> path_contains ''Spec.MultiRegionProperties.WitnessRegion'' ''Spec.KMSEncryptionKey''"
  by code_simp+

lemma protection_paths:
  "\<not> path_contains ''Spec.Tags'' ''Spec.DeletionProtectionEnabled''"
  "\<not> path_contains ''Spec.Policy'' ''Spec.DeletionProtectionEnabled''"
  "path_contains ''Spec.DeletionProtectionEnabled'' ''Spec.DeletionProtectionEnabled''"
  "\<not> path_contains ''Spec.KMSEncryptionKey'' ''Spec.DeletionProtectionEnabled''"
  "\<not> path_contains ''Spec.KMSEncryptionKeyRef'' ''Spec.DeletionProtectionEnabled''"
  "\<not> path_contains ''Spec.MultiRegionProperties'' ''Spec.DeletionProtectionEnabled''"
  "\<not> path_contains ''Spec.MultiRegionProperties.Clusters'' ''Spec.DeletionProtectionEnabled''"
  "\<not> path_contains ''Spec.MultiRegionProperties.WitnessRegion'' ''Spec.DeletionProtectionEnabled''"
  by code_simp+

lemma ref_paths:
  "\<not> path_contains ''Spec.Tags'' ''Spec.KMSEncryptionKeyRef''"
  "\<not> path_contains ''Spec.Policy'' ''Spec.KMSEncryptionKeyRef''"
  "\<not> path_contains ''Spec.DeletionProtectionEnabled'' ''Spec.KMSEncryptionKeyRef''"
  "\<not> path_contains ''Spec.KMSEncryptionKey'' ''Spec.KMSEncryptionKeyRef''"
  "path_contains ''Spec.KMSEncryptionKeyRef'' ''Spec.KMSEncryptionKeyRef''"
  "\<not> path_contains ''Spec.MultiRegionProperties'' ''Spec.KMSEncryptionKeyRef''"
  "\<not> path_contains ''Spec.MultiRegionProperties.Clusters'' ''Spec.KMSEncryptionKeyRef''"
  "\<not> path_contains ''Spec.MultiRegionProperties.WitnessRegion'' ''Spec.KMSEncryptionKeyRef''"
  by code_simp+

lemma region_paths:
  "\<not> path_contains ''Spec.Tags'' ''Spec.MultiRegionProperties''"
  "\<not> path_contains ''Spec.Policy'' ''Spec.MultiRegionProperties''"
  "\<not> path_contains ''Spec.DeletionProtectionEnabled'' ''Spec.MultiRegionProperties''"
  "\<not> path_contains ''Spec.KMSEncryptionKey'' ''Spec.MultiRegionProperties''"
  "\<not> path_contains ''Spec.KMSEncryptionKeyRef'' ''Spec.MultiRegionProperties''"
  "path_contains ''Spec.MultiRegionProperties'' ''Spec.MultiRegionProperties''"
  "path_contains ''Spec.MultiRegionProperties.Clusters'' ''Spec.MultiRegionProperties''"
  "path_contains ''Spec.MultiRegionProperties.WitnessRegion'' ''Spec.MultiRegionProperties''"
  by code_simp+

lemma spec_steps:
  assumes "delta_law L" "compare_law L" "new_tags_law L"
  shows "adds L (diff_DeletionProtectionEnabled L a b)
      (spec_DeletionProtectionEnabled a \<noteq> spec_DeletionProtectionEnabled b)
      ''Spec.DeletionProtectionEnabled''"
    and "adds L (diff_KMSEncryptionKey L a b) (spec_KMSEncryptionKey a \<noteq> spec_KMSEncryptionKey b)
      ''Spec.KMSEncryptionKey''"
    and "adds L (diff_KMSEncryptionKeyRef L a b)
      (spec_KMSEncryptionKeyRef a \<noteq> spec_KMSEncryptionKeyRef b) ''Spec.KMSEncryptionKeyRef''"
    and "adds L (diff_Policy L a b) (policies_differ L (spec_Policy a) (spec_Policy b)) ''Spec.Policy''"
    and "adds L (diff_Tags L a b) (tag_view (spec_Tags a) \<noteq> tag_view (spec_Tags b)) ''Spec.Tags''"
  using assms by (simp_all add: step_adds diff_Ref_adds diff_Policy_adds diff_Tags_adds)

lemma spec_delta_Tags:
  assumes "delta_law L" "compare_law L" "new_tags_law L"
  shows "delta_DifferentAt L (spec_delta L a b) ''Spec.Tags'' \<longleftrightarrow>
      tag_view (spec_Tags a) \<noteq> tag_view (spec_Tags b)"
  using spec_steps [OF assms, of a b] assms(1)
  by (simp add: adds_def diff_MultiRegion_adds [OF assms(1,2)] spec_delta_def Let_def delta_law_def tag_paths)

lemma spec_delta_Policy:
  assumes "delta_law L" "compare_law L" "new_tags_law L"
  shows "delta_DifferentAt L (spec_delta L a b) ''Spec.Policy'' \<longleftrightarrow>
      policies_differ L (spec_Policy a) (spec_Policy b)"
  using spec_steps [OF assms, of a b] assms(1)
  by (simp add: adds_def diff_MultiRegion_adds [OF assms(1,2)] spec_delta_def Let_def delta_law_def policy_paths)

lemma spec_delta_Key:
  assumes "delta_law L" "compare_law L" "new_tags_law L"
  shows "delta_DifferentAt L (spec_delta L a b) ''Spec.KMSEncryptionKey'' \<longleftrightarrow>
      spec_KMSEncryptionKey a \<noteq> spec_KMSEncryptionKey b"
  using spec_steps [OF assms, of a b] assms(1)
  by (simp add: adds_def diff_MultiRegion_adds [OF assms(1,2)] spec_delta_def Let_def delta_law_def key_paths)

lemma spec_delta_Protection:
  assumes "delta_law L" "compare_law L" "new_tags_law L"
  shows "delta_DifferentAt L (spec_delta L a b) ''Spec.DeletionProtectionEnabled'' \<longleftrightarrow>
      spec_DeletionProtectionEnabled a \<noteq> spec_DeletionProtectionEnabled b"
  using spec_steps [OF assms, of a b] assms(1)
  by (simp add: adds_def diff_MultiRegion_adds [OF assms(1,2)] spec_delta_def Let_def delta_law_def protection_paths)

lemma spec_delta_Ref:
  assumes "delta_law L" "compare_law L" "new_tags_law L"
  shows "delta_DifferentAt L (spec_delta L a b) ''Spec.KMSEncryptionKeyRef'' \<longleftrightarrow>
      spec_KMSEncryptionKeyRef a \<noteq> spec_KMSEncryptionKeyRef b"
  using spec_steps [OF assms, of a b] assms(1)
  by (simp add: adds_def diff_MultiRegion_adds [OF assms(1,2)] spec_delta_def Let_def delta_law_def ref_paths)

lemma spec_delta_Region:
  assumes "delta_law L" "compare_law L" "new_tags_law L"
  shows "delta_DifferentAt L (spec_delta L a b) ''Spec.MultiRegionProperties'' \<longleftrightarrow>
      multi_region_differ L (spec_MultiRegionProperties a) (spec_MultiRegionProperties b)"
  using spec_steps [OF assms, of a b] assms(1)
  by (simp add: adds_def diff_MultiRegion_adds [OF assms(1,2)] spec_delta_def Let_def delta_law_def region_paths multi_region_parts)

lemma newResourceDelta_run:
  "newResourceDelta L (Some \<lparr>ko = Some x\<rparr>) (Some \<lparr>ko = Some y\<rparr>) w =
     (Ret (spec_delta L (Spec (heap w x)) (Spec (heap w y))), w)"
  by (simp add: newResourceDelta_def go_run)

definition cluster_fields_differ :: "acklib \<Rightarrow> ClusterSpec \<Rightarrow> ClusterSpec \<Rightarrow> bool" where
  "cluster_fields_differ L a b \<longleftrightarrow>
     spec_DeletionProtectionEnabled a \<noteq> spec_DeletionProtectionEnabled b \<or>
     spec_KMSEncryptionKey a \<noteq> spec_KMSEncryptionKey b \<or>
     spec_KMSEncryptionKeyRef a \<noteq> spec_KMSEncryptionKeyRef b \<or>
     multi_region_differ L (spec_MultiRegionProperties a) (spec_MultiRegionProperties b)"

lemma spec_delta_others:
  assumes "delta_law L" "compare_law L" "new_tags_law L"
  shows "delta_DifferentExcept L (spec_delta L a b) [''Spec.Tags'', ''Spec.Policy''] \<longleftrightarrow>
      cluster_fields_differ L a b"
  using spec_steps [OF assms, of a b] assms(1)
  by (simp add: adds_def diff_MultiRegion_adds [OF assms(1,2)] spec_delta_def Let_def delta_law_def tag_paths policy_paths
      cluster_fields_differ_def multi_region_parts) blast

lemma spec_delta_any:
  assumes "delta_law L" "compare_law L" "new_tags_law L"
  shows "delta_DifferentExcept L (spec_delta L a b) [] \<longleftrightarrow>
      cluster_fields_differ L a b \<or> policies_differ L (spec_Policy a) (spec_Policy b) \<or>
      tag_view (spec_Tags a) \<noteq> tag_view (spec_Tags b)"
  using spec_steps [OF assms, of a b] assms(1)
  by (simp add: adds_def diff_MultiRegion_adds [OF assms(1,2)] spec_delta_def Let_def delta_law_def cluster_fields_differ_def
      multi_region_parts) blast

section \<open>What it leaves alone\<close>

lemma delta_writes [frame]:
  "keeps (writes A) (newResourceDelta L a b)"
  "keeps (writes A) (newResourceDeltaForPreDelete L a b)"
  unfolding newResourceDelta_def newResourceDeltaForPreDelete_def by (intro frame; auto)+

lemma delta_silent [frame]:
  "keeps silent (newResourceDelta L a b)"
  "keeps silent (newResourceDeltaForPreDelete L a b)"
  unfolding newResourceDelta_def newResourceDeltaForPreDelete_def by (intro frame)+

section \<open>Properties\<close>

text \<open>
  C22.  What the delta of two resources says, field by field.  It is different at the tags when their
  meaning differs (nil and empty maps are the same, a nil value is ''); at the policy when it is set on
  one side only or the documents are not equal or cannot be compared; at deletion protection, the KMS
  key and its reference when they are not equal; at the multi-region properties when they are set on
  one side only or a part differs (clusters by the runtime's slice comparison, nil and empty being the
  same); besides tags and policy when one of the other four fields differs; and at all exactly when
  one of the six does.  Comparing changes nothing.
\<close>

theorem newResourceDelta_decides:
  assumes "delta_law L" "compare_law L" "new_tags_law L"
  shows "case newResourceDelta L (Some \<lparr>ko = Some x\<rparr>) (Some \<lparr>ko = Some y\<rparr>) w of
      (Panic p, w') \<Rightarrow> False
    | (Ret d, w') \<Rightarrow> w' = w \<and>
        (let a = Spec (heap w x); b = Spec (heap w y);
             tags_differ = (tag_view (spec_Tags a) \<noteq> tag_view (spec_Tags b));
             policy_differs = policies_differ L (spec_Policy a) (spec_Policy b);
             others_differ =
               (spec_DeletionProtectionEnabled a \<noteq> spec_DeletionProtectionEnabled b \<or>
                spec_KMSEncryptionKey a \<noteq> spec_KMSEncryptionKey b \<or>
                spec_KMSEncryptionKeyRef a \<noteq> spec_KMSEncryptionKeyRef b \<or>
                multi_region_differ L (spec_MultiRegionProperties a) (spec_MultiRegionProperties b)) in
         delta_DifferentAt L d ''Spec.Tags'' = tags_differ \<and>
         delta_DifferentAt L d ''Spec.Policy'' = policy_differs \<and>
         delta_DifferentAt L d ''Spec.DeletionProtectionEnabled'' =
           (spec_DeletionProtectionEnabled a \<noteq> spec_DeletionProtectionEnabled b) \<and>
         delta_DifferentAt L d ''Spec.KMSEncryptionKey'' =
           (spec_KMSEncryptionKey a \<noteq> spec_KMSEncryptionKey b) \<and>
         delta_DifferentAt L d ''Spec.KMSEncryptionKeyRef'' =
           (spec_KMSEncryptionKeyRef a \<noteq> spec_KMSEncryptionKeyRef b) \<and>
         delta_DifferentAt L d ''Spec.MultiRegionProperties'' =
           multi_region_differ L (spec_MultiRegionProperties a) (spec_MultiRegionProperties b) \<and>
         delta_DifferentExcept L d [''Spec.Tags'', ''Spec.Policy''] = others_differ \<and>
         delta_DifferentExcept L d [] = (others_differ \<or> policy_differs \<or> tags_differ))"
  by (simp add: newResourceDelta_run Let_def spec_delta_Tags [OF assms] spec_delta_Policy [OF assms]
      spec_delta_Protection [OF assms] spec_delta_Key [OF assms] spec_delta_Ref [OF assms]
      spec_delta_Region [OF assms] spec_delta_others [OF assms] spec_delta_any [OF assms]
      cluster_fields_differ_def)

theorem newResourceDelta_decides_witness:
  "delta_law ref_lib \<and>
   (\<exists>d. newResourceDelta ref_lib (Some ref_resource) (Some ref_resource) ref_world =
      (Ret d, ref_world) \<and> \<not> delta_DifferentAt ref_lib d ''Spec.Tags'')"
  using newResourceDelta_decides [OF ref_delta ref_compare ref_new_tags,
      where x = 0 and y = 0 and w = ref_world] ref_delta
  by (auto simp: ref_resource_def Let_def split: prod.splits outcome.splits)

text \<open>
  Before a delete, the delta looks at deletion protection alone: it is different exactly when the two
  resources disagree there, and different nowhere else; the merged resource is a new object that is
  the observed one with the desired deletion protection, and no existing object changes.
\<close>

definition with_protection :: "bool option \<Rightarrow> Cluster \<Rightarrow> Cluster" where
  "with_protection p k = k\<lparr>Spec := (Spec k)\<lparr>spec_DeletionProtectionEnabled := p\<rparr>\<rparr>"

lemma with_protection_fields [simp]:
  "Status (with_protection p k) = Status k"
  "spec_DeletionProtectionEnabled (Spec (with_protection p k)) = p"
  by (simp_all add: with_protection_def)

definition protection_delta :: "acklib \<Rightarrow> Cluster \<Rightarrow> Cluster \<Rightarrow> delta" where
  "protection_delta L k l = diff_DeletionProtectionEnabled L (Spec k) (Spec l) (ackcompare_NewDelta L)"

lemma newResourceDeltaForPreDelete_run:
  "newResourceDeltaForPreDelete L (Some \<lparr>ko = Some x\<rparr>) (Some \<lparr>ko = Some y\<rparr>) w =
    (Ret (protection_delta L (heap w x) (heap w y), Some \<lparr>ko = Some (brk w)\<rparr>),
     w\<lparr>heap := (heap w)(brk w := with_protection (spec_DeletionProtectionEnabled (Spec (heap w x))) (heap w y)),
       brk := Suc (brk w)\<rparr>)"
  by (simp add: newResourceDeltaForPreDelete_def go_run protection_delta_def with_protection_def)

lemma protection_delta_decides:
  assumes "delta_law L" "compare_law L"
  shows "\<not> delta_DifferentAt L (protection_delta L k l) ''Spec.Tags''"
    and "\<not> delta_DifferentAt L (protection_delta L k l) ''Spec.Policy''"
    and "delta_DifferentAt L (protection_delta L k l) ''Spec.DeletionProtectionEnabled'' \<longleftrightarrow>
      spec_DeletionProtectionEnabled (Spec k) \<noteq> spec_DeletionProtectionEnabled (Spec l)"
    and "\<not> delta_DifferentExcept L (protection_delta L k l) [''Spec.DeletionProtectionEnabled'']"
    and "delta_DifferentExcept L (protection_delta L k l) [''Spec.Tags'', ''Spec.Policy''] \<longleftrightarrow>
      spec_DeletionProtectionEnabled (Spec k) \<noteq> spec_DeletionProtectionEnabled (Spec l)"
  using step_adds(1) [OF assms] assms(1)
  by (simp_all add: protection_delta_def adds_def delta_law_def tag_paths policy_paths protection_paths)

text \<open>
  Nil resources: one nil side is reported as a single difference at the empty path, without
  looking at the other side; with both sides nil the guard does not apply and the comparison
  dereferences nil.
\<close>

lemma newResourceDelta_nil:
  "newResourceDelta L None None w = (Panic nil_deref, w) \<and>
   newResourceDelta L None (Some r) w =
     (Ret (delta_Add L (ackcompare_NewDelta L) '''' (ResourceV None) (ResourceV (Some r))), w) \<and>
   newResourceDelta L (Some r) None w =
     (Ret (delta_Add L (ackcompare_NewDelta L) '''' (ResourceV (Some r)) (ResourceV None)), w)"
  by (simp add: newResourceDelta_def go_run)


section \<open>What a delta reports\<close>

text \<open>\<open>Delta.Add\<close> appends a difference to the list, which starts empty.\<close>

definition delta_entries_law :: "acklib \<Rightarrow> bool" where
  "delta_entries_law L \<longleftrightarrow>
     ackcompare_NewDelta L = [] \<and> (\<forall>d p a b. delta_Add L d p a b = d @ [(p, a, b)])"

text \<open>The value of a spec at a path, of the Go type the field has.\<close>

definition field_at :: "ClusterSpec \<Rightarrow> string \<Rightarrow> go_value option" where
  "field_at s p =
     (if p = ''Spec.DeletionProtectionEnabled'' then Some (BoolV (spec_DeletionProtectionEnabled s))
      else if p = ''Spec.KMSEncryptionKey'' then Some (StringV (spec_KMSEncryptionKey s))
      else if p = ''Spec.KMSEncryptionKeyRef'' then Some (RefV (spec_KMSEncryptionKeyRef s))
      else if p = ''Spec.MultiRegionProperties'' then Some (MultiRegionV (spec_MultiRegionProperties s))
      else if p = ''Spec.MultiRegionProperties.Clusters''
      then map_option (\<lambda>m. StringsV (mrp_Clusters m)) (spec_MultiRegionProperties s)
      else if p = ''Spec.MultiRegionProperties.WitnessRegion''
      then map_option (\<lambda>m. StringV (mrp_WitnessRegion m)) (spec_MultiRegionProperties s)
      else if p = ''Spec.Policy'' then Some (StringV (spec_Policy s))
      else if p = ''Spec.Tags'' then Some (TagsV (spec_Tags s))
      else None)"

definition delta_paths :: "string list" where
  "delta_paths =
     [''Spec.DeletionProtectionEnabled'', ''Spec.KMSEncryptionKey'', ''Spec.KMSEncryptionKeyRef'',
      ''Spec.MultiRegionProperties'', ''Spec.MultiRegionProperties.Clusters'',
      ''Spec.MultiRegionProperties.WitnessRegion'', ''Spec.Policy'', ''Spec.Tags'']"

text \<open>A delta that reports fields of \<open>a\<close> and \<open>b\<close> at some of the paths \<open>ps\<close>, in their order.\<close>

definition reports :: "ClusterSpec \<Rightarrow> ClusterSpec \<Rightarrow> string list \<Rightarrow> delta \<Rightarrow> bool" where
  "reports a b ps d \<longleftrightarrow> subseq (map fst d) ps \<and>
     list_all (\<lambda>(p, u, v). field_at a p = Some u \<and> field_at b p = Some v) d"

lemma reports_skip: "reports a b ps d \<Longrightarrow> reports a b (ps @ qs) d"
  by (simp add: reports_def subseq_rev_drop_many)

lemma reports_add:
  assumes "delta_entries_law L" "reports a b ps d" "field_at a p = Some u" "field_at b p = Some v"
  shows "reports a b (ps @ [p]) (delta_Add L d p u v)"
  using assms by (auto simp: reports_def delta_entries_law_def intro: list_emb_append_mono)

lemma reports_pointer:
  assumes "delta_entries_law L" "reports a b ps d" "field_at a p = Some (wrap x)" "field_at b p = Some (wrap y)"
  shows "reports a b (ps @ [p]) (diff_pointer L p wrap x y d)"
  using reports_add [OF assms] reports_skip [OF assms(2)] by (auto simp: diff_pointer_def split: option.split)

lemma reports_steps:
  assumes law: "delta_entries_law L" and d: "reports a b ps d"
  shows "reports a b (ps @ [''Spec.DeletionProtectionEnabled'']) (diff_DeletionProtectionEnabled L a b d)"
    and "reports a b (ps @ [''Spec.KMSEncryptionKey'']) (diff_KMSEncryptionKey L a b d)"
    and "reports a b (ps @ [''Spec.KMSEncryptionKeyRef'']) (diff_KMSEncryptionKeyRef L a b d)"
    and "reports a b (ps @ [''Spec.Policy'']) (diff_Policy L a b d)"
    and "reports a b (ps @ [''Spec.Tags'']) (diff_Tags L a b d)"
proof -
  show "reports a b (ps @ [''Spec.DeletionProtectionEnabled'']) (diff_DeletionProtectionEnabled L a b d)"
    "reports a b (ps @ [''Spec.KMSEncryptionKey'']) (diff_KMSEncryptionKey L a b d)"
    unfolding diff_DeletionProtectionEnabled_def diff_KMSEncryptionKey_def
    by (rule reports_pointer [OF law d]; simp add: field_at_def)+
  note add = reports_add [OF law d] and skip = reports_skip [OF d]
  show "reports a b (ps @ [''Spec.KMSEncryptionKeyRef'']) (diff_KMSEncryptionKeyRef L a b d)"
    "reports a b (ps @ [''Spec.Policy'']) (diff_Policy L a b d)"
    "reports a b (ps @ [''Spec.Tags'']) (diff_Tags L a b d)"
    by (simp_all add: diff_KMSEncryptionKeyRef_def diff_Policy_def diff_Tags_def Let_def add skip
        field_at_def split: option.split sum.split)
qed

lemma reports_regions:
  assumes law: "delta_entries_law L" and d: "reports a b ps d"
  shows "reports a b (ps @ [''Spec.MultiRegionProperties'', ''Spec.MultiRegionProperties.Clusters'',
    ''Spec.MultiRegionProperties.WitnessRegion'']) (diff_MultiRegionProperties L a b d)"
proof -
  let ?m = "''Spec.MultiRegionProperties''" and ?c = "''Spec.MultiRegionProperties.Clusters''"
  let ?r = "''Spec.MultiRegionProperties.WitnessRegion''"
  have whole: "reports a b (ps @ [?m, ?c, ?r]) (delta_Add L d ?m
      (MultiRegionV (spec_MultiRegionProperties a)) (MultiRegionV (spec_MultiRegionProperties b)))"
    using reports_skip [OF reports_add [OF law d, of ?m], of _ _ "[?c, ?r]"] by (simp add: field_at_def)
  have parts: "reports a b (ps @ [?m, ?c, ?r]) (diff_pointer L ?r StringV (mrp_WitnessRegion x)
      (mrp_WitnessRegion y) (diff_Clusters L x y d))"
    if "spec_MultiRegionProperties a = Some x" "spec_MultiRegionProperties b = Some y" for x y
  proof -
    have "reports a b ((ps @ [?m]) @ [?c]) (diff_Clusters L x y d)"
      using reports_add [OF law reports_skip [OF d, of "[?m]"], of ?c] reports_skip [OF d, of "[?m, ?c]"] that
      by (simp add: diff_Clusters_def Let_def field_at_def)
    from reports_pointer [OF law this, of ?r StringV] that show ?thesis by (simp add: field_at_def)
  qed
  show ?thesis
    using whole parts reports_skip [OF d]
    by (auto simp: diff_MultiRegionProperties_def Let_def split: option.split)
qed

text \<open>
  C23. The differences a delta holds are well typed: each one is at a path of the spec, carries the
  desired and the observed value of the field at that path, in its Go type, no path is reported
  twice, and the order is that of the source.
\<close>

theorem newResourceDelta_typed:
  assumes "delta_entries_law L"
  shows "\<exists>d. newResourceDelta L (Some \<lparr>ko = Some x\<rparr>) (Some \<lparr>ko = Some y\<rparr>) w = (Ret d, w) \<and>
    subseq (map fst d) delta_paths \<and> distinct (map fst d) \<and>
    list_all (\<lambda>(p, u, v). field_at (Spec (heap w x)) p = Some u \<and> field_at (Spec (heap w y)) p = Some v) d"
proof -
  let ?a = "Spec (heap w x)" and ?b = "Spec (heap w y)"
  note step = reports_steps [OF assms]
  have "reports ?a ?b [] (ackcompare_NewDelta L)"
    using assms by (simp add: reports_def delta_entries_law_def)
  from step(5) [OF step(4) [OF reports_regions [OF assms step(3) [OF step(2) [OF step(1) [OF this]]]]]]
  have all: "reports ?a ?b delta_paths (spec_delta L ?a ?b)"
    by (simp add: spec_delta_def delta_paths_def Let_def)
  moreover have "distinct delta_paths" by (simp add: delta_paths_def)
  ultimately show ?thesis
    using subseqs_distinctD by (auto simp: newResourceDelta_run reports_def)
qed

lemma ref_entries: "delta_entries_law ref_lib"
  by (simp add: delta_entries_law_def ref_lib_def)

theorem newResourceDelta_typed_witness:
  "\<exists>d. newResourceDelta ref_lib (Some ref_resource) (Some ref_resource) ref_world = (Ret d, ref_world) \<and>
     subseq (map fst d) delta_paths"
  using newResourceDelta_typed [OF ref_entries, where x = 0 and y = 0 and w = ref_world]
  by (auto simp: ref_resource_def)

end
