(* ===== verification/Hooks.thy ===== *)
theory Hooks
  imports Delta
begin

text \<open>
  \<open>pkg/resource/cluster/hooks.go\<close>: the hand-written part of the read and update paths.  Mutations
  wait while the cluster is in a transitional state; tags and the resource policy are not part of
  \<open>UpdateCluster\<close> and have their own calls.
\<close>

section \<open>The code\<close>

definition transitionalStatuses :: "string list" where
  "transitionalStatuses = [''CREATING'', ''UPDATING'']"

definition requeueIfTransitional :: "acklib \<Rightarrow> resource \<Rightarrow> ('s world, error option) go" where
  "requeueIfTransitional L latest =
     bind_go (deref (ko latest)) (\<lambda>k.
     case status_Status (Status k) of
       None \<Rightarrow> ret None
     | Some status \<Rightarrow>
         if status \<in> set transitionalStatuses then
           ret (Some (ackrequeue_NeededAfter L
             (Some (fmt_Errorf
               (''cluster is in transitional state '' @ [CHR 0x27] @ status @ [CHR 0x27] @
                '', cannot update'')))
             (ackrequeue_DefaultRequeueAfterDuration L)))
         else ret None)"

definition set_policy :: "string option \<Rightarrow> Cluster \<Rightarrow> Cluster" where
  "set_policy p k = k\<lparr>Spec := (Spec k)\<lparr>spec_Policy := p\<rparr>\<rparr>"

definition setResourcePolicy ::
  "'s resourceManager \<Rightarrow> addr option \<Rightarrow> ('s world, error option) go" where
  "setResourcePolicy rm p =
     bind_go (deref p) (\<lambda>k.
     if status_Identifier (Status k) = None then ret None
     else
       bind_go (call_api (api_GetClusterPolicy (rm_sdkapi rm)) GetClusterPolicyReq
         ''GET'' ''GetClusterPolicy'' \<lparr>gcpi_Identifier = status_Identifier (Status k)\<rparr>) (\<lambda>resp.
       case resp of
         Inl err \<Rightarrow>
           if errors_As is_ResourceNotFoundException err = None then ret (Some err)
           else bind_go (modify_obj (set_policy None) p) (\<lambda>_. ret None)
       | Inr out \<Rightarrow>
           (case gcpo_Policy out of
              Some policy \<Rightarrow> bind_go (modify_obj (set_policy (Some policy)) p) (\<lambda>_. ret None)
            | None \<Rightarrow> bind_go (modify_obj (set_policy None) p) (\<lambda>_. ret None))))"

definition syncPolicy ::
  "'s resourceManager \<Rightarrow> resource \<Rightarrow> resource \<Rightarrow> ('s world, error option) go" where
  "syncPolicy rm desired latest =
     bind_go (deref (ko desired)) (\<lambda>kd.
     let desiredPolicy = (case spec_Policy (Spec kd) of None \<Rightarrow> '''' | Some p \<Rightarrow> p) in
     if desiredPolicy \<noteq> '''' then
       bind_go (deref (ko latest)) (\<lambda>kl.
       bind_go (call_api (api_PutClusterPolicy (rm_sdkapi rm)) PutClusterPolicyReq
         ''UPDATE'' ''PutClusterPolicy''
         \<lparr>pcpi_Identifier = status_Identifier (Status kl), pcpi_Policy = Some desiredPolicy\<rparr>) (\<lambda>resp.
       ret (err_of resp)))
     else
       bind_go (deref (ko latest)) (\<lambda>kl.
       bind_go (call_api (api_DeleteClusterPolicy (rm_sdkapi rm)) DeleteClusterPolicyReq
         ''UPDATE'' ''DeleteClusterPolicy''
         \<lparr>dcpi_Identifier = status_Identifier (Status kl)\<rparr>) (\<lambda>resp.
       case resp of
         Inl err \<Rightarrow>
           if errors_As is_ResourceNotFoundException err \<noteq> None then ret None
           else ret (Some err)
       | Inr _ \<Rightarrow> ret None)))"

text \<open>\<open>latest.ko.Status.ACKResourceMetadata.ARN\<close>: the metadata may be nil.\<close>

definition metadata_ARN :: "Cluster \<Rightarrow> ('s world, string option) go" where
  "metadata_ARN k =
     (case status_ACKResourceMetadata (Status k) of
        None \<Rightarrow> panic nil_deref | Some md \<Rightarrow> ret (meta_ARN md))"

definition custom_tags ::
  "acklib \<Rightarrow> 's resourceManager \<Rightarrow> resource \<Rightarrow> resource \<Rightarrow> delta \<Rightarrow> ('s world, error option) go" where
  "custom_tags L rm desired latest delta =
     (if delta_DifferentAt L delta ''Spec.Tags'' then
        bind_go (deref (ko latest)) (\<lambda>kl.
        bind_go (metadata_ARN kl) (\<lambda>arn.
        bind_go (deref (ko desired)) (\<lambda>kd.
        sync_Tags L (spec_Tags (Spec kd)) (spec_Tags (Spec kl)) arn convertToOrderedACKTags
          (rm_sdkapi rm))))
      else ret None)"

definition custom_policy ::
  "acklib \<Rightarrow> 's resourceManager \<Rightarrow> resource \<Rightarrow> resource \<Rightarrow> delta \<Rightarrow> ('s world, error option) go" where
  "custom_policy L rm desired latest delta =
     (if delta_DifferentAt L delta ''Spec.Policy'' then syncPolicy rm desired latest else ret None)"

definition custom_changes ::
  "acklib \<Rightarrow> 's resourceManager \<Rightarrow> resource \<Rightarrow> resource \<Rightarrow> delta \<Rightarrow>
   ('s world, bool \<times> error option) go" where
  "custom_changes L rm desired latest delta =
     bind_go (custom_tags L rm desired latest delta) (\<lambda>err.
     case err of
       Some e \<Rightarrow> ret (False, Some e)
     | None \<Rightarrow>
         bind_go (custom_policy L rm desired latest delta) (\<lambda>err.
         case err of
           Some e \<Rightarrow> ret (False, Some e)
         | None \<Rightarrow>
             if \<not> delta_DifferentExcept L delta [''Spec.Tags'', ''Spec.Policy'']
             then ret (True, None) else ret (False, None)))"

definition customUpdate ::
  "acklib \<Rightarrow> 's resourceManager \<Rightarrow> resource \<Rightarrow> resource \<Rightarrow> delta \<Rightarrow>
   ('s world, bool \<times> error option) go" where
  "customUpdate L rm desired latest delta =
     bind_go (requeueIfTransitional L latest) (\<lambda>err.
     case err of
       Some e \<Rightarrow> ret (False, Some e)
     | None \<Rightarrow> custom_changes L rm desired latest delta)"

section \<open>What it leaves alone\<close>

text \<open>Neither tag synchronisation nor the policy calls write to any object.\<close>

lemma sync_writes [frame]:
  "keeps (writes A) (sync_add L api arn t)"
  "keeps (writes A) (sync_remove L api arn t)"
  "keeps (writes A) (sync_Tags L desired latest arn conv api)"
  unfolding sync_Tags_def sync_add_def sync_remove_def Let_def by (intro frame)+

text \<open>Requests that change tags or the policy, and nothing else of the cluster.\<close>

fun is_tag_request :: "request \<Rightarrow> bool" where
  "is_tag_request (TagResourceReq _) = True"
| "is_tag_request (UntagResourceReq _) = True"
| "is_tag_request _ = False"

fun is_policy_write :: "request \<Rightarrow> bool" where
  "is_policy_write (PutClusterPolicyReq _) = True"
| "is_policy_write (DeleteClusterPolicyReq _) = True"
| "is_policy_write _ = False"

lemma sync_sends [frame]:
  assumes "\<And>i. Q (TagResourceReq i)" "\<And>i. Q (UntagResourceReq i)"
  shows "keeps (sends Q) (sync_Tags L desired latest arn conv api)"
  unfolding sync_Tags_def sync_add_def sync_remove_def Let_def by (intro frame assms)

lemma metadata_ARN_state [simp]: "snd (metadata_ARN k w) = w"
  by (simp add: metadata_ARN_def go_run split: option.split)

lemma metadata_frame [frame]:
  "keeps (writes A) (metadata_ARN k)" "keeps silent (metadata_ARN k)"
  "keeps (sends Q) (metadata_ARN k)"
  by (simp_all add: writes.keeps_pure silent.keeps_pure sends.keeps_pure)

lemma requeue_frame [frame]:
  "keeps (writes A) (requeueIfTransitional L r)" "keeps silent (requeueIfTransitional L r)"
  unfolding requeueIfTransitional_def by (intro frame)+

lemmas requeue_sends [frame] = requeue_frame(2) [THEN keeps_sends_silent]

lemma syncPolicy_frame [frame]:
  "keeps (writes A) (syncPolicy rm desired latest)"
  unfolding syncPolicy_def Let_def by (intro frame)

lemma syncPolicy_sends [frame]:
  assumes "\<And>i. Q (PutClusterPolicyReq i)" "\<And>i. Q (DeleteClusterPolicyReq i)"
  shows "keeps (sends Q) (syncPolicy rm desired latest)"
  unfolding syncPolicy_def Let_def by (intro frame assms)

lemma setResourcePolicy_writes [frame]:
  "set_option p \<subseteq> A \<Longrightarrow> keeps (writes A) (setResourcePolicy rm p)"
  unfolding setResourcePolicy_def by (intro frame)

lemma setResourcePolicy_sends [frame]:
  "(\<And>i. Q (GetClusterPolicyReq i)) \<Longrightarrow> keeps (sends Q) (setResourcePolicy rm p)"
  unfolding setResourcePolicy_def by (intro frame)

lemma customUpdate_writes [frame]:
  "keeps (writes A) (customUpdate L rm desired latest delta)"
  unfolding customUpdate_def custom_changes_def custom_tags_def custom_policy_def by (intro frame)

lemma sync_returns [no_panic]: "returns (sync_Tags L desired latest arn conv api)"
  unfolding sync_Tags_def sync_add_def sync_remove_def Let_def by (intro no_panic)

lemma customUpdate_sends [frame]:
  assumes "\<And>i. is_tag_request i \<Longrightarrow> Q i" "\<And>i. is_policy_write i \<Longrightarrow> Q i"
  shows "keeps (sends Q) (customUpdate L rm desired latest delta)"
  unfolding customUpdate_def custom_changes_def custom_tags_def custom_policy_def
  by (intro frame keeps_sends_silent) (simp_all add: assms)

section \<open>Running the hooks\<close>

lemma requeue_run [go_run]:
  "requeueIfTransitional L \<lparr>ko = Some a\<rparr> w =
     (Ret (case status_Status (Status (heap w a)) of
        None \<Rightarrow> None
      | Some status \<Rightarrow> if status \<in> set transitionalStatuses then
          Some (ackrequeue_NeededAfter L
             (Some (fmt_Errorf
               (''cluster is in transitional state '' @ [CHR 0x27] @ status @ [CHR 0x27] @
                '', cannot update'')))
             (ackrequeue_DefaultRequeueAfterDuration L)) else None), w)"
  by (simp add: requeueIfTransitional_def go_run split: option.split)

lemma syncPolicy_returns: "returns (syncPolicy rm \<lparr>ko = Some d\<rparr> \<lparr>ko = Some a\<rparr>)"
  unfolding syncPolicy_def Let_def resource.simps by (intro no_panic)

section \<open>Properties\<close>

text \<open>
  C21.  Of the ten states the service reports, \<open>customUpdate\<close> holds mutations back in exactly two:
  in CREATING and UPDATING it asks for a requeue after the default delay and does nothing else,
  sends nothing and changes nothing; in every other state it goes on to the tags.
\<close>

theorem customUpdate_waits:
  assumes "status_Status (Status (heap w a)) = Some (ClusterStatus_SDK_string st)"
  shows "customUpdate L rm desired \<lparr>ko = Some a\<rparr> delta w =
    (if st = CREATING \<or> st = UPDATING then
       (Ret (False, Some (ackrequeue_NeededAfter L
          (Some (fmt_Errorf (''cluster is in transitional state '' @ [CHR 0x27] @
             ClusterStatus_SDK_string st @ [CHR 0x27] @ '', cannot update'')))
          (ackrequeue_DefaultRequeueAfterDuration L))), w)
     else custom_changes L rm desired \<lparr>ko = Some a\<rparr> delta w)"
proof -
  have "ClusterStatus_SDK_string st \<in> set transitionalStatuses \<longleftrightarrow> st = CREATING \<or> st = UPDATING"
    by (cases st) (simp_all add: transitionalStatuses_def)
  with assms show ?thesis
    by (simp add: customUpdate_def bind_go_run [of "requeueIfTransitional L _"] requeue_run ret_run)
qed

definition updating_world :: "ref_svc world" where
  "updating_world = ref_world\<lparr>heap := (\<lambda>_. ref_cluster\<lparr>Status :=
     (Status ref_cluster)\<lparr>status_Status := Some ''UPDATING''\<rparr>\<rparr>)\<rparr>"

theorem customUpdate_waits_witness:
  "\<exists>e. customUpdate ref_lib ref_rm ref_resource ref_resource [] updating_world =
     (Ret (False, Some e), updating_world)"
proof -
  have "status_Status (Status (heap updating_world 0)) = Some (ClusterStatus_SDK_string UPDATING)"
    by (simp add: updating_world_def)
  from customUpdate_waits [OF this, of ref_lib ref_rm ref_resource "[]"]
  show ?thesis by (simp add: ref_resource_def)
qed

subsection \<open>The read path\<close>

text \<open>
  Reading the policy is read-only at the service: nothing is asked when the resource has no
  identifier; otherwise one \<open>GetClusterPolicy\<close> with that identifier is sent and its outcome
  recorded.  On an answer the policy of the object becomes the service's, on a
  ResourceNotFoundException it becomes nil, and no other field changes; on any other error the
  object stays as it was and the error is returned.
\<close>

lemma setResourcePolicy_reads:
  "setResourcePolicy rm (Some a) w =
    (let i = status_Identifier (Status (heap w a));
         res = api_GetClusterPolicy (rm_sdkapi rm) \<lparr>gcpi_Identifier = i\<rparr> (svc w);
         v = w\<lparr>svc := snd res,
               requests := requests w @ [GetClusterPolicyReq \<lparr>gcpi_Identifier = i\<rparr>],
               metrics := metrics w @ [(''GET'', ''GetClusterPolicy'', err_of (fst res))]\<rparr>;
         store = (\<lambda>p. v\<lparr>heap := (heap w)(a := set_policy p (heap w a))\<rparr>) in
     if i = None then (Ret None, w)
     else case fst res of
       Inr out \<Rightarrow> (Ret None, store (gcpo_Policy out))
     | Inl e \<Rightarrow>
         if errors_As is_ResourceNotFoundException e = None then (Ret (Some e), v)
         else (Ret None, store None))"
  by (auto simp: setResourcePolicy_def go_run Let_def split: sum.split option.split)

subsection \<open>The policy\<close>

text \<open>
  \<open>policy_at s\<close> reads the policy of the cluster \<open>i\<close> off the state of the service: \<open>PutClusterPolicy\<close>
  for that cluster attaches the given one, \<open>DeleteClusterPolicy\<close> detaches it and answers
  ResourceNotFoundException only when there is none; a call that fails changes nothing.  Of calls
  for another cluster, or for none, nothing is known.
\<close>

definition policy_service_law :: "'s sdkapi \<Rightarrow> string \<Rightarrow> ('s \<Rightarrow> string option) \<Rightarrow> bool" where
  "policy_service_law sdkapi i policy_at \<longleftrightarrow>
     (\<forall>p s. case api_PutClusterPolicy sdkapi \<lparr>pcpi_Identifier = Some i, pcpi_Policy = Some p\<rparr> s of (r, s') \<Rightarrow>
        policy_at s' = (case r of Inl e \<Rightarrow> policy_at s | Inr _ \<Rightarrow> Some p)) \<and>
     (\<forall>s. case api_DeleteClusterPolicy sdkapi \<lparr>dcpi_Identifier = Some i\<rparr> s of (r, s') \<Rightarrow>
        (case r of
           Inl e \<Rightarrow> policy_at s' = policy_at s \<and>
             (errors_As is_ResourceNotFoundException e \<noteq> None \<longrightarrow> policy_at s = None)
         | Inr _ \<Rightarrow> policy_at s' = None))"

text \<open>The policy a spec asks for: an empty one is none.\<close>

definition wanted_policy :: "ClusterSpec \<Rightarrow> string option" where
  "wanted_policy s =
     (case spec_Policy s of None \<Rightarrow> None | Some p \<Rightarrow> if p = '''' then None else Some p)"

lemma syncPolicy_run:
  "syncPolicy rm \<lparr>ko = Some d\<rparr> \<lparr>ko = Some a\<rparr> w =
    (let i = status_Identifier (Status (heap w a)) in
     case wanted_policy (Spec (heap w d)) of
       Some p \<Rightarrow>
         (let req = \<lparr>pcpi_Identifier = i, pcpi_Policy = Some p\<rparr>;
              res = api_PutClusterPolicy (rm_sdkapi rm) req (svc w) in
          (Ret (err_of (fst res)), w\<lparr>svc := snd res, requests := requests w @ [PutClusterPolicyReq req],
             metrics := metrics w @ [(''UPDATE'', ''PutClusterPolicy'', err_of (fst res))]\<rparr>))
     | None \<Rightarrow>
         (let req = \<lparr>dcpi_Identifier = i\<rparr>; res = api_DeleteClusterPolicy (rm_sdkapi rm) req (svc w) in
          (Ret (case fst res of
              Inl e \<Rightarrow> if errors_As is_ResourceNotFoundException e \<noteq> None then None else Some e
            | Inr _ \<Rightarrow> None),
           w\<lparr>svc := snd res, requests := requests w @ [DeleteClusterPolicyReq req],
             metrics := metrics w @ [(''UPDATE'', ''DeleteClusterPolicy'', err_of (fst res))]\<rparr>)))"
  by (simp add: syncPolicy_def wanted_policy_def go_run Let_def split: option.split sum.split)

text \<open>
  C20.  Policy synchronisation reaches the desired policy.  It sends one request, for the cluster the
  observed resource stands for: \<open>PutClusterPolicy\<close> with the desired policy, or \<open>DeleteClusterPolicy\<close>
  when that is nil or empty.  The error of the service is returned as it is, except that a
  ResourceNotFoundException of the delete is no error.  Without an error the cluster has the desired
  policy, or none when none is desired; with an error it has the policy it had.  It never panics.
\<close>

theorem syncPolicy_converges:
  assumes "policy_service_law (rm_sdkapi rm) i policy_at"
    and "status_Identifier (Status (heap w a)) = Some i"
  shows "case syncPolicy rm \<lparr>ko = Some d\<rparr> \<lparr>ko = Some a\<rparr> w of
      (Panic p, w') \<Rightarrow> False
    | (Ret err, w') \<Rightarrow>
        (case spec_Policy (Spec (heap w d)) of
           Some (c # cs) \<Rightarrow>
             (let req = \<lparr>pcpi_Identifier = Some i, pcpi_Policy = Some (c # cs)\<rparr> in
              requests w' = requests w @ [PutClusterPolicyReq req] \<and>
              err = err_of (fst (api_PutClusterPolicy (rm_sdkapi rm) req (svc w))) \<and>
              policy_at (svc w') = (if err = None then Some (c # cs) else policy_at (svc w)))
         | _ \<Rightarrow>
             (let req = \<lparr>dcpi_Identifier = Some i\<rparr> in
              requests w' = requests w @ [DeleteClusterPolicyReq req] \<and>
              err = (case fst (api_DeleteClusterPolicy (rm_sdkapi rm) req (svc w)) of
                  Inl e \<Rightarrow> if errors_As is_ResourceNotFoundException e = None then Some e else None
                | Inr _ \<Rightarrow> None) \<and>
              policy_at (svc w') = (if err = None then None else policy_at (svc w))))"
proof -
  have put: "policy_at (snd (api_PutClusterPolicy (rm_sdkapi rm) \<lparr>pcpi_Identifier = Some i, pcpi_Policy = Some p\<rparr> s)) =
      (case fst (api_PutClusterPolicy (rm_sdkapi rm) \<lparr>pcpi_Identifier = Some i, pcpi_Policy = Some p\<rparr> s) of
        Inl e \<Rightarrow> policy_at s | Inr _ \<Rightarrow> Some p)" for p s
    using assms(1) by (simp add: policy_service_law_def case_prod_beta)
  have del: "case fst (api_DeleteClusterPolicy (rm_sdkapi rm) \<lparr>dcpi_Identifier = Some i\<rparr> s) of
      Inl e \<Rightarrow> policy_at (snd (api_DeleteClusterPolicy (rm_sdkapi rm) \<lparr>dcpi_Identifier = Some i\<rparr> s)) = policy_at s \<and>
        (errors_As is_ResourceNotFoundException e \<noteq> None \<longrightarrow> policy_at s = None)
    | Inr _ \<Rightarrow> policy_at (snd (api_DeleteClusterPolicy (rm_sdkapi rm) \<lparr>dcpi_Identifier = Some i\<rparr> s)) = None" for s
    using assms(1) by (simp add: policy_service_law_def case_prod_beta)
  show ?thesis
    using del [of "svc w"] assms(2)
    by (auto simp: syncPolicy_run wanted_policy_def Let_def put err_of_def split: option.split sum.split list.split)
qed

lemma ref_policy_service: "policy_service_law ref_api i rs_policy"
  by (auto simp: policy_service_law_def ref_api_def ref_not_found_def split: option.splits)

theorem syncPolicy_converges_witness:
  "\<exists>w'. syncPolicy ref_rm ref_resource ref_resource ref_world = (Ret None, w') \<and>
     requests w' = [DeleteClusterPolicyReq \<lparr>dcpi_Identifier = Some ''c1''\<rparr>] \<and> rs_policy (svc w') = None"
proof -
  have law: "policy_service_law (rm_sdkapi ref_rm) ''c1'' rs_policy"
    by (simp add: ref_rm_def ref_policy_service)
  have id: "status_Identifier (Status (heap ref_world 0)) = Some ''c1''"
    and pol: "spec_Policy (Spec (heap ref_world 0)) = None" and no: "requests ref_world = []"
    by (simp_all add: ref_world_def ref_cluster_def)
  have gone: "fst (api_DeleteClusterPolicy (rm_sdkapi ref_rm) \<lparr>dcpi_Identifier = Some ''c1''\<rparr> (svc ref_world)) =
      Inl ref_not_found" "errors_As is_ResourceNotFoundException ref_not_found \<noteq> None"
    by (simp_all add: ref_rm_def ref_api_def ref_world_def ref_not_found_def)
  from syncPolicy_converges [OF law id, where d = 0] gone show ?thesis
    by (auto simp: ref_resource_def pol no Let_def split: prod.splits outcome.splits)
qed

subsection \<open>The whole hook\<close>

lemma custom_tags_sends: "keeps (sends is_tag_request) (custom_tags L rm desired latest delta)"
  unfolding custom_tags_def by (intro frame) simp_all

lemma custom_policy_sends:
  "keeps (sends is_policy_write) (custom_policy L rm desired latest delta)"
  unfolding custom_policy_def by (intro frame) simp_all

lemma custom_none:
  "\<not> delta_DifferentAt L delta ''Spec.Tags'' \<Longrightarrow> custom_tags L rm desired latest delta = ret None"
  "\<not> delta_DifferentAt L delta ''Spec.Policy'' \<Longrightarrow> custom_policy L rm desired latest delta = ret None"
  by (simp_all add: custom_tags_def custom_policy_def)

text \<open>Where the hook stops, and what it returns there: after the wait, the tags or the policy.\<close>

lemma customUpdate_ends:
  assumes "requeueIfTransitional L latest w = (r, v0)"
    and "custom_tags L rm desired latest delta v0 = (t, v1)"
    and "custom_policy L rm desired latest delta v1 = (q, v2)"
    and run: "customUpdate L rm desired latest delta w = (res, w')"
  shows "w' \<in> {v0, v1, v2} \<and> (case res of Panic p \<Rightarrow> True
      | Ret (skip, err) \<Rightarrow> skip =
          (err = None \<and> \<not> delta_DifferentExcept L delta [''Spec.Tags'', ''Spec.Policy'']))"
  using run
  by (auto simp: customUpdate_def custom_changes_def bind_go_run assms(1-3) ret_run
      split: outcome.splits option.splits if_splits)

lemma custom_tags_requests:
  assumes "custom_tags L rm desired latest delta v = (t, v')"
  shows "\<exists>ts. requests v' = requests v @ ts \<and> list_all is_tag_request ts \<and>
    (delta_DifferentAt L delta ''Spec.Tags'' \<or> ts = [])"
proof (cases "delta_DifferentAt L delta ''Spec.Tags''")
  case True
  with keepsD [OF custom_tags_sends assms] show ?thesis by (simp add: sends_def)
next
  case False
  with assms show ?thesis by (simp add: custom_none go_run)
qed

lemma custom_policy_requests:
  assumes "custom_policy L rm desired latest delta v = (t, v')"
  shows "\<exists>ps. requests v' = requests v @ ps \<and> list_all is_policy_write ps \<and>
    (delta_DifferentAt L delta ''Spec.Policy'' \<or> ps = [])"
proof (cases "delta_DifferentAt L delta ''Spec.Policy''")
  case True
  with keepsD [OF custom_policy_sends assms] show ?thesis by (simp add: sends_def)
next
  case False
  with assms show ?thesis by (simp add: custom_none go_run)
qed

text \<open>
  What \<open>customUpdate\<close> sends: first requests about tags, and those only if the delta is
  different at \<open>Spec.Tags\<close>, then policy requests, and those only if it is different at
  \<open>Spec.Policy\<close>; it changes no object, and it asks to skip \<open>UpdateCluster\<close> exactly when nothing
  failed and the delta is different nowhere else.
\<close>

lemma customUpdate_run:
  "case customUpdate L rm desired latest delta w of (res, w') \<Rightarrow>
     (\<exists>ts ps. requests w' = requests w @ ts @ ps \<and>
        list_all is_tag_request ts \<and> list_all is_policy_write ps \<and>
        (delta_DifferentAt L delta ''Spec.Tags'' \<or> ts = []) \<and>
        (delta_DifferentAt L delta ''Spec.Policy'' \<or> ps = [])) \<and>
     writes {} w w' \<and>
     (case res of Panic p \<Rightarrow> True
      | Ret (skip, err) \<Rightarrow> skip =
          (err = None \<and> \<not> delta_DifferentExcept L delta [''Spec.Tags'', ''Spec.Policy'']))"
proof -
  obtain r v0 where rq: "requeueIfTransitional L latest w = (r, v0)" by (cases "requeueIfTransitional L latest w")
  obtain t v1 where tg: "custom_tags L rm desired latest delta v0 = (t, v1)"
    by (cases "custom_tags L rm desired latest delta v0")
  obtain q v2 where pl: "custom_policy L rm desired latest delta v1 = (q, v2)"
    by (cases "custom_policy L rm desired latest delta v1")
  obtain res w' where c: "customUpdate L rm desired latest delta w = (res, w')"
    by (cases "customUpdate L rm desired latest delta w")
  have v0: "requests v0 = requests w"
    using keepsD [OF requeue_frame(2) rq] by (simp add: silent_def)
  obtain ts where ts: "requests v1 = requests v0 @ ts" "list_all is_tag_request ts"
      "delta_DifferentAt L delta ''Spec.Tags'' \<or> ts = []" using custom_tags_requests [OF tg] by blast
  obtain ps where ps: "requests v2 = requests v1 @ ps" "list_all is_policy_write ps"
      "delta_DifferentAt L delta ''Spec.Policy'' \<or> ps = []" using custom_policy_requests [OF pl] by blast
  note ends = customUpdate_ends [OF rq tg pl c]
  then obtain us qs where "requests w' = requests w @ us @ qs" "us \<in> {[], ts}" "qs \<in> {[], ps}"
    using v0 ts(1) ps(1) by (metis (no_types, lifting) append_Nil2 append_assoc insertE insertI1 insertI2 singletonD)
  then have "\<exists>ts ps. requests w' = requests w @ ts @ ps \<and>
        list_all is_tag_request ts \<and> list_all is_policy_write ps \<and>
        (delta_DifferentAt L delta ''Spec.Tags'' \<or> ts = []) \<and>
        (delta_DifferentAt L delta ''Spec.Policy'' \<or> ps = [])"
    using ts(2,3) ps(2,3) by (intro exI [of _ us] exI [of _ qs]) auto
  with ends keepsD [OF customUpdate_writes c] show ?thesis
    unfolding c prod.case by simp
qed

text \<open>
  \<open>customUpdate\<close> on two resources with objects panics in exactly one case: the cluster is not
  in a transitional state, the tags differ, and the observed resource has no ACK metadata.
\<close>

lemma customUpdate_panics_iff:
  "panics (customUpdate L rm \<lparr>ko = Some d\<rparr> \<lparr>ko = Some a\<rparr> delta) w \<longleftrightarrow>
   status_Status (Status (heap w a)) \<notin> {Some ''CREATING'', Some ''UPDATING''} \<and>
   delta_DifferentAt L delta ''Spec.Tags'' \<and>
   status_ACKResourceMetadata (Status (heap w a)) = None"
proof -
  have pol: "returns (custom_policy L rm \<lparr>ko = Some d\<rparr> \<lparr>ko = Some a\<rparr> delta)"
    unfolding custom_policy_def by (intro no_panic syncPolicy_returns)
  have tags: "panics (custom_tags L rm \<lparr>ko = Some d\<rparr> \<lparr>ko = Some a\<rparr> delta) w \<longleftrightarrow>
      delta_DifferentAt L delta ''Spec.Tags'' \<and>
      status_ACKResourceMetadata (Status (heap w a)) = None"
    by (simp add: custom_tags_def metadata_ARN_def panics_bind go_run returns_panics [OF sync_returns]
        split: option.split)
  have "panics (custom_changes L rm \<lparr>ko = Some d\<rparr> \<lparr>ko = Some a\<rparr> delta) w \<longleftrightarrow>
      delta_DifferentAt L delta ''Spec.Tags'' \<and>
      status_ACKResourceMetadata (Status (heap w a)) = None"
    unfolding custom_changes_def tags [symmetric] by (intro panics_bind_returns no_panic pol)
  then show ?thesis
    by (simp add: customUpdate_def panics_bind [of "requeueIfTransitional L _"] requeue_run
        transitionalStatuses_def split: option.split)
qed

end
