(* ===== verification/Sdk.thy ===== *)
theory Sdk
  imports Hooks
begin

text \<open>
  The generated CRUD operations of \<open>pkg/resource/cluster/sdk.go\<close>: how a request is built from a
  resource, how a response is merged into a copy of it, and the four operations.  A payload builder
  returns an error or the input shape, as in Go, though none of them ever fails.  Tracing
  (\<open>rlog.Trace\<close>, deferred \<open>exit\<close>) has no effect on the state and is left out.
\<close>

section \<open>Merging a response into the resource\<close>

definition ensure_metadata :: "Cluster \<Rightarrow> Cluster" where
  "ensure_metadata k =
     (if status_ACKResourceMetadata (Status k) = None
      then k\<lparr>Status := (Status k)\<lparr>status_ACKResourceMetadata := Some empty_ResourceMetadata\<rparr>\<rparr>
      else k)"

definition set_arn :: "string option \<Rightarrow> Cluster \<Rightarrow> Cluster" where
  "set_arn arn k =
     (case arn of
        None \<Rightarrow> k
      | Some a \<Rightarrow> k\<lparr>Status := (Status k)\<lparr>status_ACKResourceMetadata :=
          map_option (\<lambda>md. md\<lparr>meta_ARN := Some a\<rparr>) (status_ACKResourceMetadata (Status k))\<rparr>\<rparr>)"

definition f3_encryption :: "acklib \<Rightarrow> SdkEncryptionDetails \<Rightarrow> EncryptionDetails" where
  "f3_encryption L e =
     (let f3 = \<lparr>enc_EncryptionStatus = None, enc_EncryptionType = None, enc_KMSKeyARN = None\<rparr>;
          f3 = (if senc_EncryptionStatus e \<noteq> ''''
                then f3\<lparr>enc_EncryptionStatus := aws_String L (senc_EncryptionStatus e)\<rparr> else f3);
          f3 = (if senc_EncryptionType e \<noteq> ''''
                then f3\<lparr>enc_EncryptionType := aws_String L (senc_EncryptionType e)\<rparr> else f3)
      in (if senc_KmsKeyArn e \<noteq> None then f3\<lparr>enc_KMSKeyARN := senc_KmsKeyArn e\<rparr> else f3))"

definition f6_multi_region :: "acklib \<Rightarrow> SdkMultiRegionProperties \<Rightarrow> MultiRegionProperties" where
  "f6_multi_region L m =
     (let f6 = \<lparr>mrp_Clusters = None, mrp_WitnessRegion = None\<rparr>;
          f6 = (case smrp_Clusters m of
                  Some cs \<Rightarrow> f6\<lparr>mrp_Clusters := Some (aws_StringSlice L cs)\<rparr> | None \<Rightarrow> f6)
      in (if smrp_WitnessRegion m \<noteq> None
          then f6\<lparr>mrp_WitnessRegion := smrp_WitnessRegion m\<rparr> else f6))"

text \<open>\<open>if s != "" { aws.String(s) } else { nil }\<close>.\<close>

definition status_pointer :: "acklib \<Rightarrow> string \<Rightarrow> string option" where
  "status_pointer L s = (if s \<noteq> '''' then aws_String L s else None)"

definition merge_GetCluster :: "acklib \<Rightarrow> GetClusterOutput \<Rightarrow> Cluster \<Rightarrow> Cluster" where
  "merge_GetCluster L resp k =
     (let k = ensure_metadata k;
          k = set_arn (gco_Arn resp) k
      in k\<lparr>Status := (Status k)
             \<lparr>status_CreationTime := gco_CreationTime resp,
              status_EncryptionDetails := map_option (f3_encryption L) (gco_EncryptionDetails resp),
              status_Endpoint := gco_Endpoint resp,
              status_Identifier := gco_Identifier resp,
              status_Status := status_pointer L (gco_Status resp)\<rparr>,
           Spec := (Spec k)
             \<lparr>spec_DeletionProtectionEnabled := gco_DeletionProtectionEnabled resp,
              spec_MultiRegionProperties :=
                map_option (f6_multi_region L) (gco_MultiRegionProperties resp),
              spec_Tags := map_option (aws_StringMap L) (gco_Tags resp)\<rparr>\<rparr>)"

definition merge_CreateCluster :: "acklib \<Rightarrow> CreateClusterOutput \<Rightarrow> Cluster \<Rightarrow> Cluster" where
  "merge_CreateCluster L resp k =
     (let k = ensure_metadata k;
          k = set_arn (cco_Arn resp) k
      in k\<lparr>Status := (Status k)
             \<lparr>status_CreationTime := cco_CreationTime resp,
              status_EncryptionDetails := map_option (f3_encryption L) (cco_EncryptionDetails resp),
              status_Endpoint := cco_Endpoint resp,
              status_Identifier := cco_Identifier resp,
              status_Status := status_pointer L (cco_Status resp)\<rparr>,
           Spec := (Spec k)
             \<lparr>spec_DeletionProtectionEnabled := cco_DeletionProtectionEnabled resp,
              spec_MultiRegionProperties :=
                map_option (f6_multi_region L) (cco_MultiRegionProperties resp)\<rparr>\<rparr>)"

definition merge_UpdateCluster :: "acklib \<Rightarrow> UpdateClusterOutput \<Rightarrow> Cluster \<Rightarrow> Cluster" where
  "merge_UpdateCluster L resp k =
     (let k = ensure_metadata k;
          k = set_arn (uco_Arn resp) k
      in k\<lparr>Status := (Status k)
             \<lparr>status_CreationTime := uco_CreationTime resp,
              status_Identifier := uco_Identifier resp,
              status_Status := status_pointer L (uco_Status resp)\<rparr>\<rparr>)"

section \<open>Read\<close>

definition requiredFieldsMissingFromReadOneInput :: "resource \<Rightarrow> ('s world, bool) go" where
  "requiredFieldsMissingFromReadOneInput r =
     bind_go (deref (ko r)) (\<lambda>k. ret (status_Identifier (Status k) = None))"

definition newDescribeRequestPayload ::
  "resource \<Rightarrow> ('s world, error + GetClusterInput) go" where
  "newDescribeRequestPayload r =
     bind_go (deref (ko r)) (\<lambda>k. ret (Inr \<lparr>gci_Identifier = status_Identifier (Status k)\<rparr>))"

definition sdkFind ::
  "acklib \<Rightarrow> 's resourceManager \<Rightarrow> resource \<Rightarrow> ('s world, resource option \<times> error option) go" where
  "sdkFind L rm r =
     bind_go (requiredFieldsMissingFromReadOneInput r) (\<lambda>missing.
     if missing then ret (None, Some (ackerr_NotFound L))
     else
       bind_go (newDescribeRequestPayload r) (\<lambda>input.
       case input of
         Inl err \<Rightarrow> ret (None, Some err)
       | Inr input \<Rightarrow>
           bind_go (call_api (api_GetCluster (rm_sdkapi rm)) GetClusterReq
             ''READ_ONE'' ''GetCluster'' input) (\<lambda>resp.
           case resp of
             Inl err \<Rightarrow>
               (case errors_As is_APIError err of
                  None \<Rightarrow> ret (None, Some err)
                | Some awsErr \<Rightarrow>
                    if ErrorCode awsErr = ''ResourceNotFoundException''
                    then ret (None, Some (ackerr_NotFound L)) else ret (None, Some err))
           | Inr out \<Rightarrow>
               bind_go (Cluster_DeepCopy (ko r)) (\<lambda>k.
               bind_go (modify_obj (merge_GetCluster L out) k) (\<lambda>_.
               bind_go (modify_obj (setStatusDefaults rm) k) (\<lambda>_.
               bind_go (setResourcePolicy rm k) (\<lambda>err.
               if err \<noteq> None then ret (None, err) else ret (Some \<lparr>ko = k\<rparr>, None))))))))"

section \<open>Create\<close>

definition sdk_multi_region ::
  "acklib \<Rightarrow> MultiRegionProperties \<Rightarrow> SdkMultiRegionProperties" where
  "sdk_multi_region L m =
     (let f3 = \<lparr>smrp_Clusters = None, smrp_WitnessRegion = None\<rparr>;
          f3 = (case mrp_Clusters m of
                  Some cs \<Rightarrow> f3\<lparr>smrp_Clusters := Some (aws_ToStringSlice L cs)\<rparr> | None \<Rightarrow> f3)
      in (if mrp_WitnessRegion m \<noteq> None
          then f3\<lparr>smrp_WitnessRegion := mrp_WitnessRegion m\<rparr> else f3))"

definition newCreateRequestPayload ::
  "acklib \<Rightarrow> resource \<Rightarrow> ('s world, error + CreateClusterInput) go" where
  "newCreateRequestPayload L r =
     bind_go (deref (ko r)) (\<lambda>k. ret (Inr
       \<lparr>cci_DeletionProtectionEnabled = spec_DeletionProtectionEnabled (Spec k),
        cci_KmsEncryptionKey = spec_KMSEncryptionKey (Spec k),
        cci_MultiRegionProperties =
          map_option (sdk_multi_region L) (spec_MultiRegionProperties (Spec k)),
        cci_Policy = spec_Policy (Spec k),
        cci_Tags = map_option (aws_ToStringMap L) (spec_Tags (Spec k))\<rparr>))"

text \<open>
  The deferred function that \<open>sdkCreate\<close> registers before its last \<open>return\<close>: it sees the values
  that \<open>return\<close> gives.
\<close>

definition deferred_create ::
  "acklib \<Rightarrow> addr option \<Rightarrow> resource option \<times> error option \<Rightarrow> resource option \<times> error option" where
  "deferred_create L k = (\<lambda>(created, err).
     case err of
       None \<Rightarrow> (created, err)
     | Some e \<Rightarrow> (if created = None then Some \<lparr>ko = k\<rparr> else created,
                  Some (ackerr_WrapPostCreateError L e)))"

definition sdkCreate ::
  "acklib \<Rightarrow> 's resourceManager \<Rightarrow> resource \<Rightarrow> ('s world, resource option \<times> error option) go" where
  "sdkCreate L rm desired =
     bind_go (newCreateRequestPayload L desired) (\<lambda>input.
     case input of
       Inl err \<Rightarrow> ret (None, Some err)
     | Inr input \<Rightarrow>
         bind_go (call_api (api_CreateCluster (rm_sdkapi rm)) CreateClusterReq
           ''CREATE'' ''CreateCluster'' input) (\<lambda>resp.
         case resp of
           Inl err \<Rightarrow> ret (None, Some err)
         | Inr out \<Rightarrow>
             bind_go (Cluster_DeepCopy (ko desired)) (\<lambda>k.
             bind_go (modify_obj (merge_CreateCluster L out) k) (\<lambda>_.
             bind_go (modify_obj (setStatusDefaults rm) k) (\<lambda>_.
             ret (deferred_create L k (Some \<lparr>ko = k\<rparr>, None)))))))"

section \<open>Update\<close>

definition newUpdateRequestPayload ::
  "acklib \<Rightarrow> resource \<Rightarrow> ('s world, error + UpdateClusterInput) go" where
  "newUpdateRequestPayload L r =
     bind_go (deref (ko r)) (\<lambda>k. ret (Inr
       \<lparr>uci_DeletionProtectionEnabled = spec_DeletionProtectionEnabled (Spec k),
        uci_Identifier = status_Identifier (Status k),
        uci_KmsEncryptionKey = spec_KMSEncryptionKey (Spec k),
        uci_MultiRegionProperties =
          map_option (sdk_multi_region L) (spec_MultiRegionProperties (Spec k))\<rparr>))"

definition sdkUpdate ::
  "acklib \<Rightarrow> 's resourceManager \<Rightarrow> resource \<Rightarrow> resource \<Rightarrow> delta \<Rightarrow>
   ('s world, resource option \<times> error option) go" where
  "sdkUpdate L rm desired latest delta =
     bind_go (customUpdate L rm desired latest delta) (\<lambda>(skipUpdate, err).
     if err \<noteq> None then ret (None, err)
     else if skipUpdate then ret (Some desired, None)
     else
       bind_go (newUpdateRequestPayload L desired) (\<lambda>input.
       case input of
         Inl err \<Rightarrow> ret (None, Some err)
       | Inr input \<Rightarrow>
           bind_go (deref (ko latest)) (\<lambda>kl.
           let input = (if status_Status (Status kl) = None \<or>
                           status_Status (Status kl) \<noteq> Some ''PENDING_SETUP''
                        then input\<lparr>uci_MultiRegionProperties := None\<rparr> else input) in
           bind_go (call_api (api_UpdateCluster (rm_sdkapi rm)) UpdateClusterReq
             ''UPDATE'' ''UpdateCluster'' input) (\<lambda>resp.
           case resp of
             Inl err \<Rightarrow> ret (None, Some err)
           | Inr out \<Rightarrow>
               bind_go (Cluster_DeepCopy (ko desired)) (\<lambda>k.
               bind_go (modify_obj (merge_UpdateCluster L out) k) (\<lambda>_.
               bind_go (modify_obj (setStatusDefaults rm) k) (\<lambda>_.
               ret (Some \<lparr>ko = k\<rparr>, None))))))))"

section \<open>Delete\<close>

definition newDeleteRequestPayload ::
  "resource \<Rightarrow> ('s world, error + DeleteClusterInput) go" where
  "newDeleteRequestPayload r =
     bind_go (deref (ko r)) (\<lambda>k. ret (Inr \<lparr>dci_Identifier = status_Identifier (Status k)\<rparr>))"

definition sdkDelete ::
  "'s resourceManager \<Rightarrow> resource \<Rightarrow> ('s world, resource option \<times> error option) go" where
  "sdkDelete rm r =
     bind_go (newDeleteRequestPayload r) (\<lambda>input.
     case input of
       Inl err \<Rightarrow> ret (None, Some err)
     | Inr input \<Rightarrow>
         bind_go (call_api (api_DeleteCluster (rm_sdkapi rm)) DeleteClusterReq
           ''DELETE'' ''DeleteCluster'' input) (\<lambda>resp.
         ret (None, err_of resp)))"

section \<open>What they leave alone\<close>

lemma payload_frame [frame]:
  "keeps (writes A) (requiredFieldsMissingFromReadOneInput r)"
  "keeps (writes A) (newDescribeRequestPayload r)"
  "keeps (writes A) (newCreateRequestPayload L r)"
  "keeps (writes A) (newUpdateRequestPayload L r)"
  "keeps (writes A) (newDeleteRequestPayload r)"
  "keeps (sends Q) (requiredFieldsMissingFromReadOneInput r)"
  "keeps (sends Q) (newDescribeRequestPayload r)"
  "keeps (sends Q) (newCreateRequestPayload L r)"
  "keeps (sends Q) (newUpdateRequestPayload L r)"
  "keeps (sends Q) (newDeleteRequestPayload r)"
  unfolding requiredFieldsMissingFromReadOneInput_def newDescribeRequestPayload_def
    newCreateRequestPayload_def newUpdateRequestPayload_def newDeleteRequestPayload_def
  by (intro frame)+

lemma sdk_writes [frame]:
  "keeps (writes A) (sdkFind L rm r)"
  "keeps (writes A) (sdkCreate L rm r)"
  "keeps (writes A) (sdkUpdate L rm r latest delta)"
  "keeps (writes A) (sdkDelete rm r)"
  unfolding sdkFind_def sdkCreate_def sdkUpdate_def sdkDelete_def Let_def
  by (intro frame; simp)+

lemma sdkFind_sends [frame]: "keeps (sends is_read) (sdkFind L rm r)"
  unfolding sdkFind_def by (intro frame) simp_all

section \<open>Running the operations\<close>

lemma payload_run [go_run]:
  "requiredFieldsMissingFromReadOneInput \<lparr>ko = Some a\<rparr> w =
     (Ret (status_Identifier (Status (heap w a)) = None), w)"
  "newDescribeRequestPayload \<lparr>ko = Some a\<rparr> w =
     (Ret (Inr \<lparr>gci_Identifier = status_Identifier (Status (heap w a))\<rparr>), w)"
  "newDeleteRequestPayload \<lparr>ko = Some a\<rparr> w =
     (Ret (Inr \<lparr>dci_Identifier = status_Identifier (Status (heap w a))\<rparr>), w)"
  by (simp_all add: requiredFieldsMissingFromReadOneInput_def newDescribeRequestPayload_def
      newDeleteRequestPayload_def go_run)

lemma setResourcePolicy_returns [no_panic]: "returns (setResourcePolicy rm (Some a))"
  unfolding setResourcePolicy_def by (intro no_panic)

text \<open>The merged object, field by field.\<close>

lemma f3_encryption_eq:
  "aws_law L \<Longrightarrow> f3_encryption L e =
     \<lparr>enc_EncryptionStatus = (if senc_EncryptionStatus e = '''' then None
                              else Some (senc_EncryptionStatus e)),
      enc_EncryptionType = (if senc_EncryptionType e = '''' then None
                            else Some (senc_EncryptionType e)),
      enc_KMSKeyARN = senc_KmsKeyArn e\<rparr>"
  by (simp add: f3_encryption_def Let_def aws_law_def)

lemma f6_multi_region_eq:
  "aws_law L \<Longrightarrow> f6_multi_region L m =
     \<lparr>mrp_Clusters = map_option (map Some) (smrp_Clusters m),
      mrp_WitnessRegion = smrp_WitnessRegion m\<rparr>"
  by (simp add: f6_multi_region_def Let_def aws_law_def split: option.split)

lemma sdk_multi_region_eq:
  "aws_law L \<Longrightarrow> sdk_multi_region L m =
     \<lparr>smrp_Clusters = map_option (map str_or_empty) (mrp_Clusters m),
      smrp_WitnessRegion = mrp_WitnessRegion m\<rparr>"
  by (simp add: sdk_multi_region_def Let_def aws_law_def split: option.split)

lemma status_pointer_eq:
  "aws_law L \<Longrightarrow> status_pointer L s = (if s = '''' then None else Some s)"
  by (simp add: status_pointer_def aws_law_def)

lemmas merge_eqs = f3_encryption_eq f6_multi_region_eq sdk_multi_region_eq status_pointer_eq

section \<open>Specification of the merged objects\<close>

text \<open>
  The metadata and conditions every operation leaves in the status: what was there, the ARN of the
  response if it has one, and the manager's identity where nothing was recorded.
\<close>

definition or_else :: "'a option \<Rightarrow> 'a option \<Rightarrow> 'a option" where
  "or_else a b = (case a of None \<Rightarrow> b | Some x \<Rightarrow> Some x)"

lemma or_else_simps [simp]: "or_else None b = b" "or_else (Some x) b = Some x"
  by (simp_all add: or_else_def)

definition recorded_metadata ::
  "'s resourceManager \<Rightarrow> string option \<Rightarrow> ResourceMetadata option \<Rightarrow> ResourceMetadata" where
  "recorded_metadata rm arn old =
     (let md = (case old of None \<Rightarrow> empty_ResourceMetadata | Some m \<Rightarrow> m) in
      \<lparr>meta_ARN = or_else arn (meta_ARN md),
       meta_OwnerAccountID = or_else (meta_OwnerAccountID md) (Some (rm_awsAccountID rm)),
       meta_Region = or_else (meta_Region md) (Some (rm_awsRegion rm)),
       meta_Partition = or_else (meta_Partition md) (Some (rm_awsPartition rm))\<rparr>)"

definition observed_cluster :: "'s resourceManager \<Rightarrow> GetClusterOutput \<Rightarrow> string option \<Rightarrow> Cluster \<Rightarrow> Cluster" where
  "observed_cluster rm out policy k =
     \<lparr>TypeMeta = TypeMeta k, ObjectMeta = ObjectMeta k,
      Spec =
        \<lparr>spec_DeletionProtectionEnabled = gco_DeletionProtectionEnabled out,
         spec_KMSEncryptionKey = spec_KMSEncryptionKey (Spec k),
         spec_KMSEncryptionKeyRef = spec_KMSEncryptionKeyRef (Spec k),
         spec_MultiRegionProperties = map_option (\<lambda>m.
           \<lparr>mrp_Clusters = map_option (map Some) (smrp_Clusters m),
            mrp_WitnessRegion = smrp_WitnessRegion m\<rparr>) (gco_MultiRegionProperties out),
         spec_Policy = policy,
         spec_Tags = map_option (fmmap Some) (gco_Tags out)\<rparr>,
      Status =
        \<lparr>status_ACKResourceMetadata = Some
           (recorded_metadata rm (gco_Arn out) (status_ACKResourceMetadata (Status k))),
         status_Conditions = Some (condition_list k),
         status_CreationTime = gco_CreationTime out,
         status_EncryptionDetails = map_option (\<lambda>e.
           \<lparr>enc_EncryptionStatus = (if senc_EncryptionStatus e = '''' then None
                                    else Some (senc_EncryptionStatus e)),
            enc_EncryptionType = (if senc_EncryptionType e = '''' then None
                                  else Some (senc_EncryptionType e)),
            enc_KMSKeyARN = senc_KmsKeyArn e\<rparr>) (gco_EncryptionDetails out),
         status_Endpoint = gco_Endpoint out,
         status_Identifier = gco_Identifier out,
         status_Status = (if gco_Status out = '''' then None else Some (gco_Status out))\<rparr>\<rparr>"

text \<open>What reading the policy answers, for the identifier \<open>i\<close> and the policy \<open>old\<close> of the object.\<close>

definition policy_read ::
  "'s resourceManager \<Rightarrow> string option \<Rightarrow> string option \<Rightarrow> 's \<Rightarrow> error + string option" where
  "policy_read rm i old s =
     (if i = None then Inr old
      else case fst (api_GetClusterPolicy (rm_sdkapi rm) \<lparr>gcpi_Identifier = i\<rparr> s) of
        Inr out \<Rightarrow> Inr (gcpo_Policy out)
      | Inl e \<Rightarrow> if errors_As is_ResourceNotFoundException e = None then Inl e else Inr None)"

lemma merge_funs:
  assumes "aws_law L"
  shows "f3_encryption L = (\<lambda>e.
      \<lparr>enc_EncryptionStatus = (if senc_EncryptionStatus e = '''' then None
                               else Some (senc_EncryptionStatus e)),
       enc_EncryptionType = (if senc_EncryptionType e = '''' then None
                             else Some (senc_EncryptionType e)),
       enc_KMSKeyARN = senc_KmsKeyArn e\<rparr>)"
    and "f6_multi_region L = (\<lambda>m.
      \<lparr>mrp_Clusters = map_option (map Some) (smrp_Clusters m),
       mrp_WitnessRegion = smrp_WitnessRegion m\<rparr>)"
    and "aws_StringMap L = fmmap Some"
  using assms by (auto simp: merge_eqs) (simp add: aws_law_def fun_eq_iff)

lemma setStatusDefaults_recorded:
  "status_ACKResourceMetadata (Status (setStatusDefaults rm k)) =
     Some (recorded_metadata rm None (status_ACKResourceMetadata (Status k)))"
  by (simp add: setStatusDefaults_def Let_def recorded_metadata_def or_else_def split: option.split)

lemma set_arn_metadata:
  "status_ACKResourceMetadata (Status (set_arn arn (ensure_metadata k))) =
     Some (let md = (case status_ACKResourceMetadata (Status k) of
                       None \<Rightarrow> empty_ResourceMetadata | Some m \<Rightarrow> m)
           in md\<lparr>meta_ARN := or_else arn (meta_ARN md)\<rparr>)"
  by (cases arn) (auto simp: set_arn_def ensure_metadata_def)

lemma recorded_after_arn:
  "recorded_metadata rm None (status_ACKResourceMetadata (Status (set_arn arn (ensure_metadata k)))) =
     recorded_metadata rm arn (status_ACKResourceMetadata (Status k))"
  unfolding set_arn_metadata by (simp add: recorded_metadata_def Let_def)

lemma set_arn_frame [simp]:
  "Spec (set_arn arn (ensure_metadata k)) = Spec k"
  "ObjectMeta (set_arn arn (ensure_metadata k)) = ObjectMeta k"
  "TypeMeta (set_arn arn (ensure_metadata k)) = TypeMeta k"
  "status_Conditions (Status (set_arn arn (ensure_metadata k))) = status_Conditions (Status k)"
  "status_Endpoint (Status (set_arn arn (ensure_metadata k))) = status_Endpoint (Status k)"
  "status_EncryptionDetails (Status (set_arn arn (ensure_metadata k))) =
     status_EncryptionDetails (Status k)"
  by (cases arn; simp add: set_arn_def ensure_metadata_def)+

lemma set_policy_frame [simp]:
  "Status (set_policy p k) = Status k"
  "ObjectMeta (set_policy p k) = ObjectMeta k"
  "TypeMeta (set_policy p k) = TypeMeta k"
  "Spec (set_policy p k) = (Spec k)\<lparr>spec_Policy := p\<rparr>"
  by (simp_all add: set_policy_def)

lemma condition_list_congr:
  "status_Conditions (Status k) = status_Conditions (Status k') \<Longrightarrow> condition_list k = condition_list k'"
  by (simp add: condition_list_def)

lemma merge_GetCluster_fields [simp]:
  "TypeMeta (merge_GetCluster L out k) = TypeMeta k"
  "ObjectMeta (merge_GetCluster L out k) = ObjectMeta k"
  "condition_list (merge_GetCluster L out k) = condition_list k"
  "status_Identifier (Status (merge_GetCluster L out k)) = gco_Identifier out"
  "spec_Policy (Spec (merge_GetCluster L out k)) = spec_Policy (Spec k)"
  by (simp_all add: merge_GetCluster_def Let_def condition_list_def)

lemma merge_GetCluster_metadata:
  "status_ACKResourceMetadata (Status (setStatusDefaults rm (merge_GetCluster L out k))) =
     Some (recorded_metadata rm (gco_Arn out) (status_ACKResourceMetadata (Status k)))"
  unfolding setStatusDefaults_recorded
  by (simp add: merge_GetCluster_def Let_def recorded_after_arn [simplified])

lemma merge_GetCluster_observed:
  assumes "aws_law L"
  shows "set_policy p (setStatusDefaults rm (merge_GetCluster L out k)) = observed_cluster rm out p k"
  apply (intro Cluster.equality ClusterSpec.equality ClusterStatus.equality)
  apply (simp_all add: merge_GetCluster_metadata observed_cluster_def)
  apply (simp_all add: merge_GetCluster_def Let_def merge_funs [OF assms] status_pointer_eq [OF assms])
  done

lemma merge_GetCluster_unread:
  "aws_law L \<Longrightarrow>
   setStatusDefaults rm (merge_GetCluster L out k) = observed_cluster rm out (spec_Policy (Spec k)) k"
  by (simp add: merge_GetCluster_observed [symmetric] set_policy_def)

lemma observed_fields [simp]:
  "status_Identifier (Status (observed_cluster rm out p k)) = gco_Identifier out"
  "set_policy q (observed_cluster rm out p k) = observed_cluster rm out q k"
  by (simp_all add: observed_cluster_def set_policy_def)

section \<open>Properties\<close>

subsection \<open>Reading\<close>

definition not_found_error :: "error \<Rightarrow> bool" where
  "not_found_error e =
     (case errors_As is_APIError e of
        None \<Rightarrow> False | Some a \<Rightarrow> ErrorCode a = ''ResourceNotFoundException'')"

lemma sdkFind_run:
  assumes "aws_law L"
  shows "case sdkFind L rm \<lparr>ko = Some a\<rparr> w of (res, w') \<Rightarrow>
    (case status_Identifier (Status (heap w a)) of
       None \<Rightarrow> res = Ret (None, Some (ackerr_NotFound L)) \<and> w' = w
     | Some i \<Rightarrow>
         (case api_GetCluster (rm_sdkapi rm) \<lparr>gci_Identifier = Some i\<rparr> (svc w) of (answer, s) \<Rightarrow>
         case answer of
           Inl e \<Rightarrow>
             res = Ret (None, Some (if not_found_error e then ackerr_NotFound L else e)) \<and>
             heap w' = heap w \<and>
             requests w' = requests w @ [GetClusterReq \<lparr>gci_Identifier = Some i\<rparr>]
         | Inr out \<Rightarrow>
             (case policy_read rm (gco_Identifier out) (spec_Policy (Spec (heap w a))) s of
                Inl e \<Rightarrow> res = Ret (None, Some e)
              | Inr p \<Rightarrow>
                  res = Ret (Some \<lparr>ko = Some (brk w)\<rparr>, None) \<and>
                  heap w' = (heap w)(brk w := observed_cluster rm out p (heap w a)))))"
  by (auto simp: sdkFind_def go_run setResourcePolicy_def policy_read_def not_found_error_def
      merge_GetCluster_unread [OF assms] split: option.split sum.split prod.split)

text \<open>
  \<open>sdkFind\<close> on every input with an object.  Without an identifier it reports NotFound and sends
  nothing.  Otherwise it asks \<open>GetCluster\<close> for that identifier: a ResourceNotFoundException, however
  deeply wrapped, becomes NotFound, any other error is returned as it is, and the objects stay as
  they were.  When the service answers, the error of the policy read is returned, or a new object
  that is exactly the observed cluster; the object passed in is not changed.
\<close>

lemma sdkFind_refines:
  assumes "aws_law L"
  shows "case sdkFind L rm \<lparr>ko = Some a\<rparr> w of (res, w') \<Rightarrow>
    (case status_Identifier (Status (heap w a)) of
       None \<Rightarrow> res = Ret (None, Some (ackerr_NotFound L)) \<and> w' = w
     | Some i \<Rightarrow>
         (case api_GetCluster (rm_sdkapi rm) \<lparr>gci_Identifier = Some i\<rparr> (svc w) of (answer, s) \<Rightarrow>
         case answer of
           Inl e \<Rightarrow>
             res = Ret (None, Some (if not_found_error e then ackerr_NotFound L else e)) \<and>
             heap w' = heap w \<and>
             requests w' = requests w @ [GetClusterReq \<lparr>gci_Identifier = Some i\<rparr>]
         | Inr out \<Rightarrow>
             (case policy_read rm (gco_Identifier out) (spec_Policy (Spec (heap w a))) s of
                Inl e \<Rightarrow> res = Ret (None, Some e)
              | Inr p \<Rightarrow>
                  res = Ret (Some \<lparr>ko = Some (brk w)\<rparr>, None) \<and>
                  heap w' = (heap w)(brk w := observed_cluster rm out p (heap w a)))))"
  by (rule sdkFind_run [OF assms])

text \<open>
  Reading is read-only on both sides, whatever the service answers and however it ends: every
  request it sends is a \<open>GetCluster\<close> or a \<open>GetClusterPolicy\<close>, and every object that existed before
  is what it was (what it reads goes into a new object).
\<close>

lemma sdkFind_reads_only:
  "case sdkFind L rm r w of (res, w') \<Rightarrow> sends is_read w w' \<and> writes {} w w'"
  using keepsD [OF sdkFind_sends] keepsD [OF sdk_writes(1)] by (auto split: prod.split)

subsection \<open>Creating\<close>

definition created_cluster :: "'s resourceManager \<Rightarrow> CreateClusterOutput \<Rightarrow> Cluster \<Rightarrow> Cluster" where
  "created_cluster rm out k =
     observed_cluster rm
       \<lparr>gco_Arn = cco_Arn out, gco_CreationTime = cco_CreationTime out,
        gco_DeletionProtectionEnabled = cco_DeletionProtectionEnabled out,
        gco_EncryptionDetails = cco_EncryptionDetails out, gco_Endpoint = cco_Endpoint out,
        gco_Identifier = cco_Identifier out,
        gco_MultiRegionProperties = cco_MultiRegionProperties out, gco_Status = cco_Status out,
        gco_Tags = None\<rparr> (spec_Policy (Spec k)) k"

text \<open>
  What a create response leaves: the observed cluster, with the tags and the policy of the resource,
  which the response does not carry.
\<close>

definition keep_tags :: "Cluster \<Rightarrow> Cluster \<Rightarrow> Cluster" where
  "keep_tags k c = c\<lparr>Spec := (Spec c)\<lparr>spec_Tags := spec_Tags (Spec k)\<rparr>\<rparr>"

lemma merge_CreateCluster_metadata:
  "status_ACKResourceMetadata (Status (setStatusDefaults rm (merge_CreateCluster L out k))) =
     Some (recorded_metadata rm (cco_Arn out) (status_ACKResourceMetadata (Status k)))"
  unfolding setStatusDefaults_recorded
  by (simp add: merge_CreateCluster_def Let_def recorded_after_arn [simplified])

lemma merge_CreateCluster_fields [simp]:
  "condition_list (merge_CreateCluster L out k) = condition_list k"
  by (simp add: merge_CreateCluster_def Let_def condition_list_def)

lemma merge_CreateCluster_created:
  assumes "aws_law L"
  shows "setStatusDefaults rm (merge_CreateCluster L out k) = keep_tags k (created_cluster rm out k)"
  apply (intro Cluster.equality ClusterSpec.equality ClusterStatus.equality)
  apply (simp_all add: merge_CreateCluster_metadata created_cluster_def observed_cluster_def keep_tags_def)
  apply (simp_all add: merge_CreateCluster_def Let_def merge_funs [OF assms]
      status_pointer_eq [OF assms])
  done

text \<open>The request a resource is created with, and what the Go pointers of it carry over the wire.\<close>

definition sent_multi_region :: "MultiRegionProperties \<Rightarrow> SdkMultiRegionProperties" where
  "sent_multi_region m =
     \<lparr>smrp_Clusters = map_option (map str_or_empty) (mrp_Clusters m),
      smrp_WitnessRegion = mrp_WitnessRegion m\<rparr>"

lemma sent_multi_region_eq: "aws_law L \<Longrightarrow> sdk_multi_region L = sent_multi_region"
  by (rule ext) (simp add: sent_multi_region_def sdk_multi_region_eq)

definition create_request :: "Cluster \<Rightarrow> CreateClusterInput" where
  "create_request k =
     \<lparr>cci_DeletionProtectionEnabled = spec_DeletionProtectionEnabled (Spec k),
      cci_KmsEncryptionKey = spec_KMSEncryptionKey (Spec k),
      cci_MultiRegionProperties = map_option sent_multi_region (spec_MultiRegionProperties (Spec k)),
      cci_Policy = spec_Policy (Spec k),
      cci_Tags = map_option (fmmap str_or_empty) (spec_Tags (Spec k))\<rparr>"

lemma aws_ToStringMap_eq: "aws_law L \<Longrightarrow> aws_ToStringMap L = fmmap str_or_empty"
  by (rule ext) (simp add: aws_law_def)

lemma newCreateRequestPayload_run:
  "aws_law L \<Longrightarrow> newCreateRequestPayload L \<lparr>ko = Some a\<rparr> w =
     (Ret (Inr (create_request (heap w a))), w)"
  by (simp add: newCreateRequestPayload_def go_run create_request_def sent_multi_region_eq
      aws_ToStringMap_eq)

text \<open>
  \<open>sdkCreate\<close> sends exactly one request, \<open>CreateCluster\<close> with every field of the spec, policy
  and tags included, and records its outcome.  An error of the service comes back as it is and
  nothing is kept; otherwise the result is a new object with the response in its status and spec,
  and no error: the deferred function that wraps an error as a post-create error never has one to
  wrap.
\<close>

lemma sdkCreate_run:
  assumes "aws_law L"
  shows "sdkCreate L rm \<lparr>ko = Some d\<rparr> w =
    (let k = heap w d; i = create_request k; res = api_CreateCluster (rm_sdkapi rm) i (svc w);
         v = w\<lparr>svc := snd res, requests := requests w @ [CreateClusterReq i],
               metrics := metrics w @ [(''CREATE'', ''CreateCluster'', err_of (fst res))]\<rparr> in
     case fst res of
       Inl e \<Rightarrow> (Ret (None, Some e), v)
     | Inr out \<Rightarrow> (Ret (Some \<lparr>ko = Some (brk w)\<rparr>, None),
         v\<lparr>heap := (heap w)(brk w := keep_tags k (created_cluster rm out k)), brk := Suc (brk w)\<rparr>))"
  by (cases "fst (api_CreateCluster (rm_sdkapi rm) (create_request (heap w d)) (svc w))")
    (simp_all add: sdkCreate_def go_run newCreateRequestPayload_run [OF assms] deferred_create_def
      merge_CreateCluster_created [OF assms] Let_def)

definition echoes :: "CreateClusterInput \<Rightarrow> GetClusterOutput \<Rightarrow> bool" where
  "echoes i out \<longleftrightarrow>
     gco_DeletionProtectionEnabled out = cci_DeletionProtectionEnabled i \<and>
     gco_MultiRegionProperties out = cci_MultiRegionProperties i \<and>
     gco_Tags out = cci_Tags i"

definition no_nil_pointers :: "ClusterSpec \<Rightarrow> bool" where
  "no_nil_pointers s \<longleftrightarrow>
     (\<forall>m \<in> set_option (spec_MultiRegionProperties s). \<forall>cs \<in> set_option (mrp_Clusters m).
        None \<notin> set cs) \<and>
     (\<forall>t \<in> set_option (spec_Tags s). None \<notin> fmran' t)"

lemma map_Some_str_or_empty: "None \<notin> set cs \<Longrightarrow> map (Some \<circ> str_or_empty) cs = cs"
  by (rule map_idI) (metis comp_apply not_None_eq str_or_empty_simps(2))

lemma fmmap_Some_str_or_empty: "None \<notin> fmran' t \<Longrightarrow> fmmap (Some \<circ> str_or_empty) t = t"
proof (rule fmap_ext)
  fix k assume "None \<notin> fmran' t"
  then have "fmlookup t k \<noteq> Some None" by (auto intro: fmran'I)
  then show "fmlookup (fmmap (Some \<circ> str_or_empty) t) k = fmlookup t k"
    by (cases "fmlookup t k") auto
qed

lemma sent_region_back:
  assumes "no_nil_pointers s"
  shows "map_option (\<lambda>m. \<lparr>mrp_Clusters = map_option (map Some) (smrp_Clusters m),
        mrp_WitnessRegion = smrp_WitnessRegion m\<rparr>)
      (map_option sent_multi_region (spec_MultiRegionProperties s)) = spec_MultiRegionProperties s"
proof (cases "spec_MultiRegionProperties s")
  case (Some m)
  with assms have "map_option (map (Some \<circ> str_or_empty)) (mrp_Clusters m) = mrp_Clusters m"
    by (cases "mrp_Clusters m") (simp_all add: no_nil_pointers_def map_Some_str_or_empty)
  with Some show ?thesis
    by (simp add: sent_multi_region_def option.map_comp comp_def)
qed simp

definition ref_multi :: Cluster where
  "ref_multi = ref_cluster\<lparr>Spec := (Spec ref_cluster)
     \<lparr>spec_DeletionProtectionEnabled := Some False,
      spec_MultiRegionProperties := Some \<lparr>mrp_Clusters = Some [Some ''arn:c2''],
        mrp_WitnessRegion = Some ''us-west-2''\<rparr>\<rparr>\<rparr>"

text \<open>
  C29.  Round trip: what \<open>newCreateRequestPayload\<close> sends, \<open>sdkFind\<close> reads back.  When the service reports
  the settings, tags and policy of the request a cluster was created with, reading gives a new object
  with the spec the request was made from: protection, multi-region settings, key and its reference,
  policy and tags, when the list of clusters and the tags hold no nil pointers.  The request has the
  key too, which the service does not report.
\<close>

theorem create_read_roundtrip:
  assumes "aws_law L" and "no_nil_pointers (Spec (heap w a))"
    and "newCreateRequestPayload L \<lparr>ko = Some a\<rparr> w = (Ret (Inr input), w)"
    and "status_Identifier (Status (heap w a)) = Some i"
    and "api_GetCluster (rm_sdkapi rm) \<lparr>gci_Identifier = Some i\<rparr> (svc w) = (Inr out, s)"
    and "gco_Identifier out = Some i" "echoes input out"
    and "case fst (api_GetClusterPolicy (rm_sdkapi rm) \<lparr>gcpi_Identifier = Some i\<rparr> s) of
        Inr answer \<Rightarrow> gcpo_Policy answer = cci_Policy input
      | Inl e \<Rightarrow> errors_As is_ResourceNotFoundException e \<noteq> None \<and> cci_Policy input = None"
  shows "cci_KmsEncryptionKey input = spec_KMSEncryptionKey (Spec (heap w a)) \<and>
    (\<exists>w'. sdkFind L rm \<lparr>ko = Some a\<rparr> w = (Ret (Some \<lparr>ko = Some (brk w)\<rparr>, None), w') \<and>
      Spec (heap w' (brk w)) = Spec (heap w a))"
proof -
  let ?k = "heap w a"
  have input: "input = create_request ?k" using assms(3) by (simp add: newCreateRequestPayload_run [OF assms(1)])
  have "policy_read rm (Some i) (spec_Policy (Spec ?k)) s = Inr (cci_Policy input)"
    using assms(8) by (auto simp: policy_read_def split: sum.splits)
  then have find: "\<exists>w'. sdkFind L rm \<lparr>ko = Some a\<rparr> w = (Ret (Some \<lparr>ko = Some (brk w)\<rparr>, None), w') \<and>
      heap w' (brk w) = observed_cluster rm out (cci_Policy input) ?k"
    using sdkFind_run [OF assms(1), where rm = rm and a = a and w = w] assms(4-6) by (auto split: prod.splits)
  have "map_option (fmmap Some) (map_option (fmmap str_or_empty) (spec_Tags (Spec ?k))) = spec_Tags (Spec ?k)"
    using assms(2)
    by (cases "spec_Tags (Spec ?k)")
      (simp_all add: no_nil_pointers_def fmap.map_comp fmmap_Some_str_or_empty)
  then have "Spec (observed_cluster rm out (cci_Policy input) ?k) = Spec ?k"
    using assms(7) sent_region_back [OF assms(2)]
    by (simp add: observed_cluster_def create_request_def echoes_def input)
  with find show ?thesis by (auto simp: input create_request_def)
qed

definition created_world :: "ref_svc world" where
  "created_world = ref_world\<lparr>heap := (\<lambda>_. ref_multi),
     svc := \<lparr>rs_cluster = Some (ref_created (create_request ref_multi)), rs_policy = None\<rparr>\<rparr>"

theorem create_read_roundtrip_witness:
  "\<exists>w'. sdkFind ref_lib ref_rm \<lparr>ko = Some 0\<rparr> created_world = (Ret (Some \<lparr>ko = Some 1\<rparr>, None), w') \<and>
    Spec (heap w' 1) = Spec ref_multi"
proof -
  let ?out = "ref_created (create_request ref_multi)"
  have h: "heap created_world 0 = ref_multi" "brk created_world = 1" by (simp_all add: created_world_def ref_world_def)
  have 1: "no_nil_pointers (Spec (heap created_world 0))"
    by (auto simp: h no_nil_pointers_def ref_multi_def ref_cluster_def fmran'_def fmlookup_of_list
        split: if_splits)
  have 2: "newCreateRequestPayload ref_lib \<lparr>ko = Some 0\<rparr> created_world = (Ret (Inr (create_request ref_multi)), created_world)"
    by (simp add: newCreateRequestPayload_run [OF ref_aws] h)
  have 3: "status_Identifier (Status (heap created_world 0)) = Some ''c1''" "gco_Identifier ?out = Some ''c1''"
    "echoes (create_request ref_multi) ?out"
    by (simp_all add: h ref_multi_def ref_cluster_def echoes_def ref_created_def create_request_def)
  have 4: "api_GetCluster (rm_sdkapi ref_rm) \<lparr>gci_Identifier = Some ''c1''\<rparr> (svc created_world) = (Inr ?out, svc created_world)"
    by (simp add: ref_rm_def ref_api_def created_world_def)
  have 5: "case fst (api_GetClusterPolicy (rm_sdkapi ref_rm) \<lparr>gcpi_Identifier = Some ''c1''\<rparr> (svc created_world)) of
        Inr answer \<Rightarrow> gcpo_Policy answer = cci_Policy (create_request ref_multi)
      | Inl e \<Rightarrow> errors_As is_ResourceNotFoundException e \<noteq> None \<and> cci_Policy (create_request ref_multi) = None"
    by (simp add: ref_rm_def ref_api_def created_world_def ref_not_found_def create_request_def ref_multi_def ref_cluster_def)
  from create_read_roundtrip [OF ref_aws 1 2 3(1) 4 3(2,3) 5] show ?thesis by (simp add: h)
qed

subsection \<open>Updating\<close>

definition update_request :: "Cluster \<Rightarrow> string option \<Rightarrow> UpdateClusterInput" where
  "update_request k observed_status =
     \<lparr>uci_DeletionProtectionEnabled = spec_DeletionProtectionEnabled (Spec k),
      uci_Identifier = status_Identifier (Status k),
      uci_KmsEncryptionKey = spec_KMSEncryptionKey (Spec k),
      uci_MultiRegionProperties =
        (if observed_status = Some ''PENDING_SETUP''
         then map_option sent_multi_region (spec_MultiRegionProperties (Spec k)) else None)\<rparr>"

definition updated_cluster :: "'s resourceManager \<Rightarrow> UpdateClusterOutput \<Rightarrow> Cluster \<Rightarrow> Cluster" where
  "updated_cluster rm out k =
     k\<lparr>Status := (Status k)
        \<lparr>status_ACKResourceMetadata := Some
           (recorded_metadata rm (uco_Arn out) (status_ACKResourceMetadata (Status k))),
         status_Conditions := Some (condition_list k),
         status_CreationTime := uco_CreationTime out,
         status_Identifier := uco_Identifier out,
         status_Status := (if uco_Status out = '''' then None else Some (uco_Status out))\<rparr>\<rparr>"

lemma merge_UpdateCluster_updated:
  assumes "aws_law L"
  shows "setStatusDefaults rm (merge_UpdateCluster L out k) = updated_cluster rm out k"
proof -
  have m: "status_ACKResourceMetadata (Status (setStatusDefaults rm (merge_UpdateCluster L out k))) =
      Some (recorded_metadata rm (uco_Arn out) (status_ACKResourceMetadata (Status k)))"
    unfolding setStatusDefaults_recorded
    by (simp add: merge_UpdateCluster_def Let_def recorded_after_arn [simplified])
  have c: "condition_list (merge_UpdateCluster L out k) = condition_list k"
    by (simp add: merge_UpdateCluster_def Let_def condition_list_def)
  show ?thesis
    apply (intro Cluster.equality ClusterStatus.equality)
    apply (simp_all add: m c updated_cluster_def)
    apply (simp_all add: merge_UpdateCluster_def Let_def status_pointer_eq [OF assms])
    done
qed

lemma newUpdateRequestPayload_run:
  assumes "aws_law L"
  shows "newUpdateRequestPayload L \<lparr>ko = Some d\<rparr> w =
    (Ret (Inr (update_request (heap w d) (Some ''PENDING_SETUP''))), w)"
  by (simp add: newUpdateRequestPayload_def go_run update_request_def sent_multi_region_eq [OF assms])

text \<open>After the hook, when it does not ask to skip the update.\<close>

lemma sdkUpdate_run:
  assumes "aws_law L"
  shows "sdkUpdate L rm \<lparr>ko = Some d\<rparr> \<lparr>ko = Some a\<rparr> delta w =
    (case customUpdate L rm \<lparr>ko = Some d\<rparr> \<lparr>ko = Some a\<rparr> delta w of
       (Panic p, v) \<Rightarrow> (Panic p, v)
     | (Ret (skip, Some e), v) \<Rightarrow> (Ret (None, Some e), v)
     | (Ret (skip, None), v) \<Rightarrow>
         if skip then (Ret (Some \<lparr>ko = Some d\<rparr>, None), v)
         else
           let k = heap v d; i = update_request k (status_Status (Status (heap v a)));
               res = api_UpdateCluster (rm_sdkapi rm) i (svc v);
               u = v\<lparr>svc := snd res, requests := requests v @ [UpdateClusterReq i],
                     metrics := metrics v @ [(''UPDATE'', ''UpdateCluster'', err_of (fst res))]\<rparr> in
           case fst res of
             Inl e \<Rightarrow> (Ret (None, Some e), u)
           | Inr out \<Rightarrow> (Ret (Some \<lparr>ko = Some (brk v)\<rparr>, None),
               u\<lparr>heap := (heap v)(brk v := updated_cluster rm out k), brk := Suc (brk v)\<rparr>))"
proof -
  have strip: "(if s = None \<or> s \<noteq> Some ''PENDING_SETUP''
      then update_request k (Some ''PENDING_SETUP'')\<lparr>uci_MultiRegionProperties := None\<rparr>
      else update_request k (Some ''PENDING_SETUP'')) = update_request k s" for k s
    by (simp add: update_request_def)
  show ?thesis
    by (simp add: sdkUpdate_def bind_go_run [of "customUpdate L rm _ _ _"] bind_go_run ret_run deref_run
        newUpdateRequestPayload_run [OF assms] strip call_api_run DeepCopy_run modify_obj_run
        merge_UpdateCluster_updated [OF assms] Let_def
        split: prod.split outcome.split option.split sum.split)
qed

lemma customUpdate_transitional:
  "status_Status (Status (heap w a)) \<in> {Some ''CREATING'', Some ''UPDATING''} \<Longrightarrow>
   \<exists>e. customUpdate L rm desired \<lparr>ko = Some a\<rparr> delta w = (Ret (False, Some e), w)"
  by (auto simp: customUpdate_def bind_go_run [of "requeueIfTransitional L _"] requeue_run ret_run
      transitionalStatuses_def)

text \<open>What follows the hook: the one request it lets through, or nothing.\<close>

lemma sdkUpdate_sent:
  assumes "aws_law L"
    and "customUpdate L rm \<lparr>ko = Some d\<rparr> \<lparr>ko = Some a\<rparr> delta w = (Ret (False, None), v)"
    and "sdkUpdate L rm \<lparr>ko = Some d\<rparr> \<lparr>ko = Some a\<rparr> delta w = (res, w')"
    and "api_UpdateCluster (rm_sdkapi rm) (update_request (heap v d) (status_Status (Status (heap v a)))) (svc v) =
      (answer, s)"
  shows "requests w' = requests v @
      [UpdateClusterReq (update_request (heap v d) (status_Status (Status (heap v a))))] \<and> svc w' = s \<and>
    (case answer of Inl e \<Rightarrow> res = Ret (None, Some e)
      | Inr out \<Rightarrow> res = Ret (Some \<lparr>ko = Some (brk v)\<rparr>, None) \<and>
          heap w' (brk v) = updated_cluster rm out (heap v d))"
  using assms(3) unfolding sdkUpdate_run [OF assms(1)] assms(2)
  by (auto simp: assms(4) Let_def split: sum.splits)

lemma sdkUpdate_stops:
  assumes "aws_law L"
    and "customUpdate L rm \<lparr>ko = Some d\<rparr> \<lparr>ko = Some a\<rparr> delta w = (h, v)" "h \<noteq> Ret (False, None)"
  shows "sdkUpdate L rm \<lparr>ko = Some d\<rparr> \<lparr>ko = Some a\<rparr> delta w =
    (case h of Panic p \<Rightarrow> Panic p | Ret (skip, Some e) \<Rightarrow> Ret (None, Some e)
      | Ret (skip, None) \<Rightarrow> Ret (Some \<lparr>ko = Some d\<rparr>, None), v)"
proof -
  consider p where "h = Panic p" | skip e where "h = Ret (skip, Some e)" | "h = Ret (True, None)"
    using assms(3) by (metis (full_types) not_None_eq outcome.exhaust prod.exhaust)
  then show ?thesis
    by cases (use assms(2) in \<open>auto simp: sdkUpdate_run [OF assms(1)]\<close>)
qed

lemma customUpdate_decides:
  assumes "customUpdate L rm \<lparr>ko = Some d\<rparr> \<lparr>ko = Some a\<rparr> delta w = (h, v)"
  shows "h = Ret (False, None) \<longleftrightarrow>
      (\<exists>skip. h = Ret (skip, None)) \<and> delta_DifferentExcept L delta [''Spec.Tags'', ''Spec.Policy'']"
    and "h = Ret (False, None) \<Longrightarrow>
      status_Status (Status (heap w a)) \<notin> {Some ''CREATING'', Some ''UPDATING''}"
proof -
  show "h = Ret (False, None) \<longleftrightarrow>
      (\<exists>skip. h = Ret (skip, None)) \<and> delta_DifferentExcept L delta [''Spec.Tags'', ''Spec.Policy'']"
    using customUpdate_run [where L = L and rm = rm and desired = "\<lparr>ko = Some d\<rparr>"
        and latest = "\<lparr>ko = Some a\<rparr>" and delta = delta and w = w] assms by auto
  show "status_Status (Status (heap w a)) \<notin> {Some ''CREATING'', Some ''UPDATING''}"
    if "h = Ret (False, None)"
    using customUpdate_transitional [where w = w and a = a and L = L and rm = rm
        and desired = "\<lparr>ko = Some d\<rparr>" and delta = delta] assms that by auto
qed

text \<open>
  C8.  What \<open>sdkUpdate\<close> sends and returns, by what its hook did.  The hook sends requests about the tags
  and then about the policy.  When it ends without an error, which it does not in a transitional state,
  and the delta is different outside the tags and the policy, exactly one more request follows:
  \<open>UpdateCluster\<close> with the desired protection, identifier and key, and with the desired multi-region
  settings only for a cluster that was observed in PENDING_SETUP.  The error of the service is
  returned; or a new object, the desired one with the ARN, creation time, identifier and status of the
  response in its status.  In every other case nothing more is sent, and the result is the error of
  the hook or the desired object itself.  No existing object changes.
\<close>

theorem sdkUpdate_requests:
  assumes "aws_law L" and "d < brk w" and "a < brk w"
  shows "case customUpdate L rm \<lparr>ko = Some d\<rparr> \<lparr>ko = Some a\<rparr> delta w of (hook, v) \<Rightarrow>
    case sdkUpdate L rm \<lparr>ko = Some d\<rparr> \<lparr>ko = Some a\<rparr> delta w of (res, w') \<Rightarrow>
    writes {} w w' \<and>
    (\<exists>ts ps. requests v = requests w @ ts @ ps \<and> list_all is_tag_request ts \<and> list_all is_policy_write ps) \<and>
    (if (\<exists>skip. hook = Ret (skip, None)) \<and> delta_DifferentExcept L delta [''Spec.Tags'', ''Spec.Policy''] then
       status_Status (Status (heap w a)) \<notin> {Some ''CREATING'', Some ''UPDATING''} \<and>
       (let input = update_request (heap w d) (status_Status (Status (heap w a))) in
        requests w' = requests v @ [UpdateClusterReq input] \<and>
        (case api_UpdateCluster (rm_sdkapi rm) input (svc v) of (answer, s) \<Rightarrow>
           svc w' = s \<and>
           (case answer of
              Inl e \<Rightarrow> res = Ret (None, Some e)
            | Inr out \<Rightarrow> \<exists>n. brk w \<le> n \<and> res = Ret (Some \<lparr>ko = Some n\<rparr>, None) \<and>
                heap w' n = updated_cluster rm out (heap w d))))
     else w' = v \<and>
       res = (case hook of Panic p \<Rightarrow> Panic p | Ret (skip, Some e) \<Rightarrow> Ret (None, Some e)
         | Ret (skip, None) \<Rightarrow> Ret (Some \<lparr>ko = Some d\<rparr>, None)))"
proof -
  obtain res w' where run: "sdkUpdate L rm \<lparr>ko = Some d\<rparr> \<lparr>ko = Some a\<rparr> delta w = (res, w')"
    by (cases "sdkUpdate L rm \<lparr>ko = Some d\<rparr> \<lparr>ko = Some a\<rparr> delta w")
  obtain h v where hook: "customUpdate L rm \<lparr>ko = Some d\<rparr> \<lparr>ko = Some a\<rparr> delta w = (h, v)"
    by (cases "customUpdate L rm \<lparr>ko = Some d\<rparr> \<lparr>ko = Some a\<rparr> delta w")
  have sent: "\<exists>ts ps. requests v = requests w @ ts @ ps \<and> list_all is_tag_request ts \<and> list_all is_policy_write ps"
    and wr: "writes {} w v"
    using customUpdate_run [where L = L and rm = rm and desired = "\<lparr>ko = Some d\<rparr>"
        and latest = "\<lparr>ko = Some a\<rparr>" and delta = delta and w = w] hook by auto
  have hv: "heap v d = heap w d" "heap v a = heap w a" "brk w \<le> brk v"
    using wr assms(2,3) by (auto simp: writes_def)
  have w': "writes {} w w'" using keepsD [OF sdk_writes(3) run] .
  note decides = customUpdate_decides [OF hook]
  show ?thesis
  proof (cases "h = Ret (False, None)")
    case True
    let ?input = "update_request (heap w d) (status_Status (Status (heap w a)))"
    obtain answer s where api: "api_UpdateCluster (rm_sdkapi rm) ?input (svc v) = (answer, s)"
      by (cases "api_UpdateCluster (rm_sdkapi rm) ?input (svc v)")
    note sent_one = sdkUpdate_sent [OF assms(1) hook [unfolded True] run, unfolded hv(1,2), OF api]
    with sent_one True decides(1) decides(2) [OF True] api w' sent hv(3) run hook show ?thesis
      by (auto simp: Let_def split: sum.splits)
  next
    case False
    from sdkUpdate_stops [OF assms(1) hook False] run have "w' = v"
      "res = (case h of Panic p \<Rightarrow> Panic p | Ret (skip, Some e) \<Rightarrow> Ret (None, Some e)
        | Ret (skip, None) \<Rightarrow> Ret (Some \<lparr>ko = Some d\<rparr>, None))" by simp_all
    with False decides(1) wr sent run hook show ?thesis by simp
  qed
qed

definition protect_delta :: delta where
  "protect_delta = [(''Spec.DeletionProtectionEnabled'', BoolV (Some False), BoolV (Some True))]"

lemma protect_hook:
  "customUpdate ref_lib ref_rm \<lparr>ko = Some 0\<rparr> \<lparr>ko = Some 0\<rparr> protect_delta ref_world = (Ret (False, None), ref_world)"
proof -
  have "\<not> delta_DifferentAt ref_lib protect_delta ''Spec.Tags''" "\<not> delta_DifferentAt ref_lib protect_delta ''Spec.Policy''"
    "delta_DifferentExcept ref_lib protect_delta [''Spec.Tags'', ''Spec.Policy'']"
    by (simp_all add: ref_lib_def protect_delta_def tag_paths policy_paths)
  then show ?thesis
    by (simp add: customUpdate_def custom_changes_def bind_go_run requeue_run ret_run custom_none ref_world_def
        ref_cluster_def)
qed

theorem sdkUpdate_requests_witness:
  "\<exists>n w'. sdkUpdate ref_lib ref_rm \<lparr>ko = Some 0\<rparr> \<lparr>ko = Some 0\<rparr> protect_delta ref_world =
      (Ret (Some \<lparr>ko = Some n\<rparr>, None), w') \<and>
    requests w' = [UpdateClusterReq (update_request ref_cluster None)] \<and>
    status_Status (Status (heap w' n)) = Some ''UPDATING''"
proof -
  have 0: "0 < brk ref_world" and w: "heap ref_world 0 = ref_cluster" "requests ref_world = []"
    and st: "status_Status (Status ref_cluster) = None"
    by (simp_all add: ref_world_def ref_cluster_def)
  have different: "delta_DifferentExcept ref_lib protect_delta [''Spec.Tags'', ''Spec.Policy'']"
    by (simp add: ref_lib_def protect_delta_def tag_paths policy_paths)
  obtain out s where up: "api_UpdateCluster (rm_sdkapi ref_rm) (update_request ref_cluster None) (svc ref_world) = (Inr out, s)"
    "uco_Status out = ''UPDATING''"
    by (simp add: ref_rm_def ref_api_def ref_world_def)
  obtain res w' where run: "sdkUpdate ref_lib ref_rm \<lparr>ko = Some 0\<rparr> \<lparr>ko = Some 0\<rparr> protect_delta ref_world = (res, w')"
    by (cases "sdkUpdate ref_lib ref_rm \<lparr>ko = Some 0\<rparr> \<lparr>ko = Some 0\<rparr> protect_delta ref_world")
  note sdkUpdate_requests [OF ref_aws 0 0, where rm = ref_rm and delta = protect_delta,
      unfolded protect_hook run prod.case w st Let_def up(1) sum.case]
  then obtain n where "requests w' = [UpdateClusterReq (update_request ref_cluster None)]"
    "res = Ret (Some \<lparr>ko = Some n\<rparr>, None)" "heap w' n = updated_cluster ref_rm out ref_cluster"
    using different by (auto simp: ex_bool_eq)
  with run up(2) show ?thesis by (simp add: updated_cluster_def)
qed

subsection \<open>Deleting\<close>

text \<open>
  \<open>sdkDelete\<close> sends one \<open>DeleteCluster\<close> with the identifier in the status, also when that is nil,
  never returns a resource, returns the error of the service unchanged (a cluster that is already
  gone is an error too), and touches no object.
\<close>

lemma sdkDelete_run:
  "sdkDelete rm \<lparr>ko = Some a\<rparr> w =
    (let i = \<lparr>dci_Identifier = status_Identifier (Status (heap w a))\<rparr>;
         res = api_DeleteCluster (rm_sdkapi rm) i (svc w) in
     (Ret (None, err_of (fst res)),
      w\<lparr>svc := snd res, requests := requests w @ [DeleteClusterReq i],
        metrics := metrics w @ [(''DELETE'', ''DeleteCluster'', err_of (fst res))]\<rparr>))"
  by (simp add: sdkDelete_def go_run Let_def)

end
