(* ===== verification/Resource.thy ===== *)
theory Resource
  imports Delta
begin

text \<open>
  \<open>pkg/resource/cluster/resource.go\<close>, \<open>identifiers.go\<close> and \<open>descriptor.go\<close>: the methods through
  which the ACK runtime handles a cluster without knowing its type.  An interface value
  \<open>rtclient.Object\<close> is \<open>None\<close> when the interface is nil and \<open>Some p\<close> when it holds the pointer
  \<open>p\<close> to a cluster, which may be nil in turn.
\<close>

section \<open>resource.go\<close>

type_synonym rtclient_Object = "addr option option"

record resourceIdentifiers =
  ri_meta :: "ResourceMetadata option"

definition Identifiers :: "resource \<Rightarrow> ('s world, resourceIdentifiers) go" where
  "Identifiers r =
     bind_go (deref (ko r)) (\<lambda>k. ret \<lparr>ri_meta = status_ACKResourceMetadata (Status k)\<rparr>)"

definition IsBeingDeleted :: "acklib \<Rightarrow> resource \<Rightarrow> ('s world, bool) go" where
  "IsBeingDeleted L r =
     bind_go (deref (ko r)) (\<lambda>k. ret (\<not> metav1_Time_IsZero L (om_DeletionTimestamp (ObjectMeta k))))"

text \<open>A call on the interface: on a nil interface there is no method to call.\<close>

definition RuntimeObject :: "AWSResource \<Rightarrow> ('s world, rtclient_Object) go" where
  "RuntimeObject res =
     (case res of
        None \<Rightarrow> panic nil_deref
      | Some r \<Rightarrow> bind_go (resource_ko r) (\<lambda>p. ret (Some p)))"

definition MetaObject :: "resource \<Rightarrow> ('s world, ObjectMeta) go" where
  "MetaObject r = bind_go (deref (ko r)) (\<lambda>k. ret (ObjectMeta k))"

definition Conditions :: "resource \<Rightarrow> ('s world, conditions) go" where
  "Conditions r = bind_go (deref (ko r)) (\<lambda>k. ret (status_Conditions (Status k)))"

definition ReplaceConditions :: "resource \<Rightarrow> conditions \<Rightarrow> ('s world, unit) go" where
  "ReplaceConditions r conds =
     modify_obj (\<lambda>k. k\<lparr>Status := (Status k)\<lparr>status_Conditions := conds\<rparr>\<rparr>) (ko r)"

definition SetObjectMeta :: "resource \<Rightarrow> ObjectMeta \<Rightarrow> ('s world, unit) go" where
  "SetObjectMeta r m = modify_obj (\<lambda>k. k\<lparr>ObjectMeta := m\<rparr>) (ko r)"

definition SetStatus :: "resource \<Rightarrow> AWSResource \<Rightarrow> ('s world, unit) go" where
  "SetStatus r desired =
     bind_go (concreteResource desired) (\<lambda>d.
     bind_go (deref_resource d) (\<lambda>kd.
     modify_obj (\<lambda>k. k\<lparr>Status := Status kd\<rparr>) (ko r)))"

text \<open>\<open>ackv1alpha1.AWSIdentifiers\<close>, with the field the code reads.\<close>

record AWSIdentifiers =
  NameOrID :: string

definition set_identifier :: "string \<Rightarrow> Cluster \<Rightarrow> Cluster" where
  "set_identifier i k = k\<lparr>Status := (Status k)\<lparr>status_Identifier := Some i\<rparr>\<rparr>"

definition SetIdentifiers ::
  "acklib \<Rightarrow> resource \<Rightarrow> AWSIdentifiers option \<Rightarrow> ('s world, error option) go" where
  "SetIdentifiers L r identifier =
     (case identifier of
        None \<Rightarrow> panic nil_deref
      | Some i \<Rightarrow>
          if NameOrID i = '''' then ret (Some (ackerr_MissingNameIdentifier L))
          else bind_go (modify_obj (set_identifier (NameOrID i)) (ko r)) (\<lambda>_. ret None))"

definition PopulateResourceFromAnnotation ::
  "acklib \<Rightarrow> resource \<Rightarrow> string gomap \<Rightarrow> ('s world, error option) go" where
  "PopulateResourceFromAnnotation L r annotation =
     (case fmlookup annotation ''identifier'' of
        None \<Rightarrow> ret (Some (ackerr_NewTerminalError L
          (fmt_Errorf ''required field missing: identifier'')))
      | Some primaryKey \<Rightarrow>
          bind_go (modify_obj (set_identifier primaryKey) (ko r)) (\<lambda>_. ret None))"

definition resource_DeepCopy :: "AWSResource \<Rightarrow> ('s world, AWSResource) go" where
  "resource_DeepCopy res =
     (case res of
        None \<Rightarrow> panic nil_deref
      | Some r \<Rightarrow>
          bind_go (resource_ko r) (\<lambda>p.
          bind_go (Cluster_DeepCopy p) (\<lambda>koCopy. ret (Some (Some \<lparr>ko = koCopy\<rparr>)))))"

section \<open>identifiers.go\<close>

definition identifiers_ARN :: "resourceIdentifiers \<Rightarrow> string option" where
  "identifiers_ARN ri = (case ri_meta ri of Some m \<Rightarrow> meta_ARN m | None \<Rightarrow> None)"

definition identifiers_OwnerAccountID :: "resourceIdentifiers \<Rightarrow> string option" where
  "identifiers_OwnerAccountID ri =
     (case ri_meta ri of Some m \<Rightarrow> meta_OwnerAccountID m | None \<Rightarrow> None)"

definition identifiers_Region :: "resourceIdentifiers \<Rightarrow> string option" where
  "identifiers_Region ri = (case ri_meta ri of Some m \<Rightarrow> meta_Region m | None \<Rightarrow> None)"

definition identifiers_Partition :: "resourceIdentifiers \<Rightarrow> string option" where
  "identifiers_Partition ri = (case ri_meta ri of Some m \<Rightarrow> meta_Partition m | None \<Rightarrow> None)"

section \<open>descriptor.go\<close>

definition FinalizerString :: string where
  "FinalizerString = ''finalizers.dsql.services.k8s.aws/Cluster''"

text \<open>\<open>&svcapitypes.Cluster{}\<close>: a new object, every field of it zero.\<close>

definition empty_Cluster :: Cluster where
  "empty_Cluster =
     \<lparr>TypeMeta = \<lparr>tm_Kind = '''', tm_APIVersion = ''''\<rparr>,
      ObjectMeta = \<lparr>om_Name = '''', om_Namespace = '''', om_DeletionTimestamp = None,
        om_Annotations = None, om_Finalizers = []\<rparr>,
      Spec = \<lparr>spec_DeletionProtectionEnabled = None, spec_KMSEncryptionKey = None,
        spec_KMSEncryptionKeyRef = None, spec_MultiRegionProperties = None, spec_Policy = None,
        spec_Tags = None\<rparr>,
      Status = \<lparr>status_ACKResourceMetadata = None, status_Conditions = None,
        status_CreationTime = None, status_EncryptionDetails = None, status_Endpoint = None,
        status_Identifier = None, status_Status = None\<rparr>\<rparr>"

definition EmptyRuntimeObject :: "('s world, rtclient_Object) go" where
  "EmptyRuntimeObject = bind_go (new_obj empty_Cluster) (\<lambda>p. ret (Some p))"

definition ResourceFromRuntimeObject :: "rtclient_Object \<Rightarrow> ('s world, AWSResource) go" where
  "ResourceFromRuntimeObject object =
     (case object of None \<Rightarrow> panic nil_conversion | Some p \<Rightarrow> ret (Some (Some \<lparr>ko = p\<rparr>)))"

definition descriptor_Delta :: "acklib \<Rightarrow> AWSResource \<Rightarrow> AWSResource \<Rightarrow> ('s world, delta) go" where
  "descriptor_Delta L a b =
     bind_go (concreteResource a) (\<lambda>ra.
     bind_go (concreteResource b) (\<lambda>rb. newResourceDelta L ra rb))"

definition DeltaForPreDelete ::
  "acklib \<Rightarrow> AWSResource \<Rightarrow> AWSResource \<Rightarrow> ('s world, delta \<times> AWSResource) go" where
  "DeltaForPreDelete L a b =
     bind_go (concreteResource a) (\<lambda>ra.
     bind_go (concreteResource b) (\<lambda>rb.
     bind_go (newResourceDeltaForPreDelete L ra rb) (\<lambda>(delta, merged). ret (delta, Some merged))))"

definition nil_object_message :: string where
  "nil_object_message = ''nil RuntimeMetaObject in AWSResource''"

text \<open>\<open>for _, e := range f { if e == finalizer { return true } }\<close>.\<close>

fun finalizer_loop :: "string list \<Rightarrow> string \<Rightarrow> bool" where
  "finalizer_loop [] finalizer = False"
| "finalizer_loop (e # es) finalizer = (if e = finalizer then True else finalizer_loop es finalizer)"

definition containsFinalizer :: "addr option \<Rightarrow> string \<Rightarrow> ('s world, bool) go" where
  "containsFinalizer object finalizer =
     bind_go (deref object) (\<lambda>k. ret (finalizer_loop (om_Finalizers (ObjectMeta k)) finalizer))"

definition IsManaged :: "AWSResource \<Rightarrow> ('s world, bool) go" where
  "IsManaged res =
     bind_go (RuntimeObject res) (\<lambda>obj.
     case obj of
       None \<Rightarrow> panic nil_object_message
     | Some p \<Rightarrow> containsFinalizer p FinalizerString)"

definition update_finalizers ::
  "(string list \<Rightarrow> string list) \<Rightarrow> addr option \<Rightarrow> ('s world, unit) go" where
  "update_finalizers f p =
     modify_obj (\<lambda>k. k\<lparr>ObjectMeta := (ObjectMeta k)
       \<lparr>om_Finalizers := f (om_Finalizers (ObjectMeta k))\<rparr>\<rparr>) p"

definition MarkManaged :: "acklib \<Rightarrow> AWSResource \<Rightarrow> ('s world, unit) go" where
  "MarkManaged L res =
     bind_go (RuntimeObject res) (\<lambda>obj.
     case obj of
       None \<Rightarrow> panic nil_object_message
     | Some p \<Rightarrow> update_finalizers (\<lambda>fs. k8sctrlutil_AddFinalizer L fs FinalizerString) p)"

definition MarkUnmanaged :: "acklib \<Rightarrow> AWSResource \<Rightarrow> ('s world, unit) go" where
  "MarkUnmanaged L res =
     bind_go (RuntimeObject res) (\<lambda>obj.
     case obj of
       None \<Rightarrow> panic nil_object_message
     | Some p \<Rightarrow> update_finalizers (\<lambda>fs. k8sctrlutil_RemoveFinalizer L fs FinalizerString) p)"

definition MarkAdopted :: "acklib \<Rightarrow> AWSResource \<Rightarrow> ('s world, unit) go" where
  "MarkAdopted L res =
     bind_go (RuntimeObject res) (\<lambda>obj.
     case obj of
       None \<Rightarrow> panic ''nil RuntimeObject in AWSResource''
     | Some p \<Rightarrow>
         bind_go (deref p) (\<lambda>k.
         let curr = (case om_Annotations (ObjectMeta k) of None \<Rightarrow> fmempty | Some m \<Rightarrow> m);
             curr = fmupd (ackv1alpha1_AnnotationAdopted L) ''true'' curr in
         modify_obj (\<lambda>k. k\<lparr>ObjectMeta := (ObjectMeta k)\<lparr>om_Annotations := Some curr\<rparr>\<rparr>) p))"

section \<open>What they leave alone\<close>

lemma RuntimeObject_frame [frame]:
  "keeps (writes A) (RuntimeObject res)"
  "keeps silent (RuntimeObject res)"
  unfolding RuntimeObject_def by (intro frame)+

lemma resource_DeepCopy_run [go_run]:
  "resource_DeepCopy (Some (Some \<lparr>ko = Some a\<rparr>)) w =
     (Ret (Some (Some \<lparr>ko = Some (brk w)\<rparr>)),
      w\<lparr>heap := (heap w)(brk w := heap w a), brk := Suc (brk w)\<rparr>)"
  by (simp add: resource_DeepCopy_def go_run)

lemma resource_silent [frame]:
  "keeps silent (resource_DeepCopy res)"
  "keeps silent (IsManaged res)"
  "keeps silent (MarkManaged L res)"
  "keeps silent (MarkUnmanaged L res)"
  "keeps silent (MarkAdopted L res)"
  "keeps silent (SetIdentifiers L r i)"
  "keeps silent (PopulateResourceFromAnnotation L r annotation)"
  unfolding resource_DeepCopy_def IsManaged_def MarkManaged_def MarkUnmanaged_def MarkAdopted_def
    SetIdentifiers_def PopulateResourceFromAnnotation_def containsFinalizer_def
    update_finalizers_def Let_def
  by (intro frame)+

lemma finalizer_loop_mem: "finalizer_loop fs f \<longleftrightarrow> f \<in> set fs"
  by (induction fs f rule: finalizer_loop.induct) auto

definition finalizers :: "'s world \<Rightarrow> addr \<Rightarrow> string list" where
  "finalizers w a = om_Finalizers (ObjectMeta (heap w a))"

text \<open>The mark and its removal as changes of the list of finalizers.\<close>

definition with_finalizers :: "'s world \<Rightarrow> addr \<Rightarrow> string list \<Rightarrow> 's world" where
  "with_finalizers w a fs = w\<lparr>heap := (heap w)(a := (heap w a)
     \<lparr>ObjectMeta := (ObjectMeta (heap w a))\<lparr>om_Finalizers := fs\<rparr>\<rparr>)\<rparr>"

lemma with_finalizers_simps [simp]:
  "finalizers (with_finalizers w a fs) a = fs"
  "with_finalizers (with_finalizers w a fs) a gs = with_finalizers w a gs"
  "with_finalizers w a (finalizers w a) = w"
  by (simp_all add: finalizers_def with_finalizers_def)

lemma managed_run [go_run]:
  "IsManaged (Some (Some \<lparr>ko = Some a\<rparr>)) w = (Ret (FinalizerString \<in> set (finalizers w a)), w)"
  by (simp add: IsManaged_def RuntimeObject_def containsFinalizer_def go_run finalizer_loop_mem
      finalizers_def)

lemma mark_run:
  assumes "finalizer_law L"
  shows "MarkManaged L (Some (Some \<lparr>ko = Some a\<rparr>)) w =
      (Ret (), with_finalizers w a (if FinalizerString \<in> set (finalizers w a) then finalizers w a
                                    else finalizers w a @ [FinalizerString]))"
    and "MarkUnmanaged L (Some (Some \<lparr>ko = Some a\<rparr>)) w =
      (Ret (), with_finalizers w a (filter (\<lambda>g. g \<noteq> FinalizerString) (finalizers w a)))"
  using assms
  by (simp_all add: MarkManaged_def MarkUnmanaged_def RuntimeObject_def update_finalizers_def go_run
      finalizer_law_def with_finalizers_def finalizers_def)

text \<open>A resource made of an empty object is new, is not managed and has no conditions.\<close>

lemma empty_object_run:
  "bind_go EmptyRuntimeObject ResourceFromRuntimeObject w =
     (Ret (Some (Some \<lparr>ko = Some (brk w)\<rparr>)),
      w\<lparr>heap := (heap w)(brk w := empty_Cluster), brk := Suc (brk w)\<rparr>)"
  "heap v a = empty_Cluster \<Longrightarrow> IsManaged (Some (Some \<lparr>ko = Some a\<rparr>)) v = (Ret False, v)"
  "heap v a = empty_Cluster \<Longrightarrow> Conditions \<lparr>ko = Some a\<rparr> v = (Ret None, v)"
  by (simp_all add: EmptyRuntimeObject_def ResourceFromRuntimeObject_def go_run managed_run
      empty_Cluster_def Conditions_def finalizers_def)

section \<open>Properties\<close>

text \<open>
  The finalizer marks a resource as managed: after \<open>MarkManaged\<close> it is, and marking it again
  changes nothing more; after \<open>MarkUnmanaged\<close> it is not; and marking and unmarking a resource that
  was not managed gives back the object it was, the finalizers of others in their order.
\<close>

lemma managed_life_cycle:
  assumes "finalizer_law L"
  shows "case MarkManaged L (Some (Some \<lparr>ko = Some a\<rparr>)) w of (res, w1) \<Rightarrow>
    res = Ret () \<and> IsManaged (Some (Some \<lparr>ko = Some a\<rparr>)) w1 = (Ret True, w1) \<and>
    MarkManaged L (Some (Some \<lparr>ko = Some a\<rparr>)) w1 = (Ret (), w1) \<and>
    (case MarkUnmanaged L (Some (Some \<lparr>ko = Some a\<rparr>)) w1 of (res, w2) \<Rightarrow>
       res = Ret () \<and> IsManaged (Some (Some \<lparr>ko = Some a\<rparr>)) w2 = (Ret False, w2) \<and>
       (if FinalizerString \<in> set (finalizers w a)
        then finalizers w2 a = filter (\<lambda>g. g \<noteq> FinalizerString) (finalizers w a)
        else w2 = w))"
proof -
  have "filter (\<lambda>g. g \<noteq> FinalizerString) (finalizers w a) = finalizers w a"
    if "FinalizerString \<notin> set (finalizers w a)"
    using that by (induction "finalizers w a") (auto simp: filter_id_conv)
  then show ?thesis
    by (simp add: mark_run [OF assms] managed_run)
qed

text \<open>
  The guard \<open>obj == nil\<close> of the descriptor never fires: \<open>RuntimeObject\<close> returns an interface
  that holds a pointer, which is not nil even when the pointer is.  A resource with a nil object
  runs into a nil dereference instead of the message the guard gives, in all four operations.
\<close>

lemma descriptor_nil_guard_is_dead:
  "IsManaged (Some (Some \<lparr>ko = None\<rparr>)) w = (Panic nil_deref, w) \<and>
   MarkManaged L (Some (Some \<lparr>ko = None\<rparr>)) w = (Panic nil_deref, w) \<and>
   MarkUnmanaged L (Some (Some \<lparr>ko = None\<rparr>)) w = (Panic nil_deref, w) \<and>
   MarkAdopted L (Some (Some \<lparr>ko = None\<rparr>)) w = (Panic nil_deref, w)"
  by (simp add: IsManaged_def MarkManaged_def MarkUnmanaged_def MarkAdopted_def RuntimeObject_def
      containsFinalizer_def update_finalizers_def go_run)

text \<open>
  C39.  Adoption needs an identifier: \<open>SetIdentifiers\<close> refuses an empty one and
  \<open>PopulateResourceFromAnnotation\<close> a set of fields without one, with a terminal error; both leave
  the world as it was then.  Otherwise both store it in the status, and only there.
\<close>

theorem identifiers_populated:
  assumes "error_law L"
  shows "(case PopulateResourceFromAnnotation L \<lparr>ko = Some a\<rparr> annotation w of
      (Ret None, w') \<Rightarrow> \<exists>i. fmlookup annotation ''identifier'' = Some i \<and>
        w' = w\<lparr>heap := (heap w)(a := set_identifier i (heap w a))\<rparr>
    | (Ret (Some e), w') \<Rightarrow> fmlookup annotation ''identifier'' = None \<and> w' = w \<and>
        is_terminal L (Some e)
    | (Panic p, w') \<Rightarrow> False) \<and>
   SetIdentifiers L \<lparr>ko = Some a\<rparr> (Some i) w =
     (if NameOrID i = '''' then (Ret (Some (ackerr_MissingNameIdentifier L)), w)
      else (Ret None, w\<lparr>heap := (heap w)(a := set_identifier (NameOrID i) (heap w a))\<rparr>))"
  using assms
  by (auto simp: PopulateResourceFromAnnotation_def SetIdentifiers_def go_run error_law_def
      is_terminal_def own_terminal_error_def split: option.split)

theorem identifiers_populated_witness:
  "SetIdentifiers ref_lib \<lparr>ko = Some 0\<rparr> (Some \<lparr>NameOrID = ''c9''\<rparr>) ref_world =
     (Ret None, ref_world\<lparr>heap := (heap ref_world)
        (0 := set_identifier ''c9'' (heap ref_world 0))\<rparr>)"
  using identifiers_populated [OF ref_error, where a = 0 and annotation = fmempty and w = ref_world
      and i = "\<lparr>NameOrID = ''c9''\<rparr>"] by simp

text \<open>
  \<open>MarkAdopted\<close> sets the adopted annotation to "true" and changes no other annotation and no
  other part of the object.
\<close>

lemma MarkAdopted_annotates:
  "case MarkAdopted L (Some (Some \<lparr>ko = Some a\<rparr>)) w of (res, w') \<Rightarrow>
     res = Ret () \<and>
     (\<exists>m. w' = w\<lparr>heap := (heap w)(a := (heap w a)\<lparr>ObjectMeta := (ObjectMeta (heap w a))
              \<lparr>om_Annotations := Some m\<rparr>\<rparr>)\<rparr> \<and>
        (\<forall>key. fmlookup m key =
           (if key = ackv1alpha1_AnnotationAdopted L then Some ''true''
            else case om_Annotations (ObjectMeta (heap w a)) of
              None \<Rightarrow> None | Some old \<Rightarrow> fmlookup old key)))"
  by (auto simp: MarkAdopted_def RuntimeObject_def go_run Let_def split: option.split)

end
