(* ===== verification/Manager.thy ===== *)
theory Manager
  imports Sdk Resource
begin

text \<open>
  \<open>pkg/resource/cluster/manager.go\<close>: the operations the ACK reconciler calls.  Each checks that the
  resource has an object, runs the operation of \<open>sdk.go\<close> and turns its outcome into conditions.
  \<open>onError\<close> and \<open>onSuccess\<close> are in \<open>Conditions\<close>.
\<close>

section \<open>Reading and the mirrored tags\<close>

text \<open>The panics of the operations that are handed a resource without an object.\<close>

definition nil_object :: "string \<Rightarrow> string" where
  "nil_object m =
     ''resource manager'' @ [CHR 0x27] @ ''s '' @ m @ '' received resource with nil CR object''"

definition set_tags :: "tagmap \<Rightarrow> Cluster \<Rightarrow> Cluster" where
  "set_tags t k = k\<lparr>Spec := (Spec k)\<lparr>spec_Tags := t\<rparr>\<rparr>"

definition mirrorAWSTags ::
  "acklib \<Rightarrow> resource option \<Rightarrow> resource option \<Rightarrow> ('s world, unit) go" where
  "mirrorAWSTags L a b =
     (case (a, b) of
        (Some ra, Some rb) \<Rightarrow>
          if ko ra = None \<or> ko rb = None then ret ()
          else
            bind_go (deref (ko ra)) (\<lambda>ka.
            bind_go (deref (ko rb)) (\<lambda>kb.
            let (desiredTags, desiredTagKeyOrder) = convertToOrderedACKTags L (spec_Tags (Spec ka));
                (latestTags, _) = convertToOrderedACKTags L (spec_Tags (Spec kb));
                desiredTags = syncAWSTags desiredTags latestTags in
            modify_obj (set_tags (fromACKTags desiredTags desiredTagKeyOrder)) (ko ra)))
      | _ \<Rightarrow> ret ())"

text \<open>\<open>if err != nil { if x != nil { onError(x) } else { onError(r) } } else { onSuccess(x) }\<close>.\<close>

definition outcome_of ::
  "acklib \<Rightarrow> 's resourceManager \<Rightarrow> resource \<Rightarrow> resource option \<times> error option \<Rightarrow>
   ('s world, AWSResource \<times> error option) go" where
  "outcome_of L rm r = (\<lambda>(x, err).
     if err \<noteq> None then (if x \<noteq> None then onError L rm x err else onError L rm (Some r) err)
     else onSuccess L rm x)"

definition ReadOne ::
  "acklib \<Rightarrow> 's resourceManager \<Rightarrow> AWSResource \<Rightarrow> ('s world, AWSResource \<times> error option) go" where
  "ReadOne L rm res =
     bind_go (concreteResource res) (\<lambda>r.
     case r of
       None \<Rightarrow> panic nil_deref
     | Some r \<Rightarrow>
         if ko r = None then panic (nil_object ''ReadOne() method'')
         else
           bind_go (sdkFind L rm r) (\<lambda>(observed, err).
           bind_go (mirrorAWSTags L (Some r) observed) (\<lambda>_.
           outcome_of L rm r (observed, err))))"

section \<open>Creating, updating and deleting\<close>

definition Create ::
  "acklib \<Rightarrow> 's resourceManager \<Rightarrow> AWSResource \<Rightarrow> ('s world, AWSResource \<times> error option) go" where
  "Create L rm res =
     bind_go (concreteResource res) (\<lambda>r.
     case r of
       None \<Rightarrow> panic nil_deref
     | Some r \<Rightarrow>
         if ko r = None then panic (nil_object ''Create() method'')
         else bind_go (sdkCreate L rm r) (outcome_of L rm r))"

definition Update ::
  "acklib \<Rightarrow> 's resourceManager \<Rightarrow> AWSResource \<Rightarrow> AWSResource \<Rightarrow> delta \<Rightarrow>
   ('s world, AWSResource \<times> error option) go" where
  "Update L rm resDesired resLatest delta =
     bind_go (concreteResource resDesired) (\<lambda>desired.
     bind_go (concreteResource resLatest) (\<lambda>latest.
     case desired of
       None \<Rightarrow> panic nil_deref
     | Some desired \<Rightarrow>
         if ko desired = None then panic (nil_object ''Update() method'')
         else
           (case latest of
              None \<Rightarrow> panic nil_deref
            | Some latest \<Rightarrow>
                if ko latest = None then panic (nil_object ''Update() method'')
                else bind_go (sdkUpdate L rm desired latest delta) (outcome_of L rm latest))))"

definition Delete ::
  "acklib \<Rightarrow> 's resourceManager \<Rightarrow> AWSResource \<Rightarrow> ('s world, AWSResource \<times> error option) go" where
  "Delete L rm res =
     bind_go (concreteResource res) (\<lambda>r.
     case r of
       None \<Rightarrow> panic nil_deref
     | Some r \<Rightarrow>
         if ko r = None then panic (nil_object ''Update() method'')
         else bind_go (sdkDelete rm r) (outcome_of L rm r))"

definition ARNFromName :: "'s resourceManager \<Rightarrow> string \<Rightarrow> string" where
  "ARNFromName rm name =
     ''arn:'' @ rm_awsPartition rm @ '':dsql:'' @ rm_awsRegion rm @ '':'' @ rm_awsAccountID rm @
     '':'' @ name"

section \<open>Late initialization\<close>

definition lateInitializeFieldNames :: "string list" where
  "lateInitializeFieldNames = [''DeletionProtectionEnabled'']"

definition incompleteLateInitialization :: "AWSResource \<Rightarrow> ('s world, bool) go" where
  "incompleteLateInitialization res =
     bind_go (concreteResource res) (\<lambda>r.
     bind_go (resource_ko r) (\<lambda>p.
     bind_go (Cluster_DeepCopy p) (\<lambda>p.
     bind_go (deref p) (\<lambda>k. ret (spec_DeletionProtectionEnabled (Spec k) = None)))))"

definition lateInitializeFromReadOneOutput ::
  "AWSResource \<Rightarrow> AWSResource \<Rightarrow> ('s world, AWSResource) go" where
  "lateInitializeFromReadOneOutput observed latest =
     bind_go (concreteResource observed) (\<lambda>ro.
     bind_go (resource_ko ro) (\<lambda>po.
     bind_go (Cluster_DeepCopy po) (\<lambda>observedKo.
     bind_go (concreteResource latest) (\<lambda>rl.
     bind_go (resource_ko rl) (\<lambda>pl.
     bind_go (Cluster_DeepCopy pl) (\<lambda>latestKo.
     bind_go (deref observedKo) (\<lambda>o1.
     bind_go (if spec_DeletionProtectionEnabled (Spec o1) \<noteq> None
              then bind_go (deref latestKo) (\<lambda>l1.
                if spec_DeletionProtectionEnabled (Spec l1) = None
                then modify_obj (\<lambda>k. k\<lparr>Spec := (Spec k)\<lparr>spec_DeletionProtectionEnabled :=
                       spec_DeletionProtectionEnabled (Spec o1)\<rparr>\<rparr>) latestKo
                else ret ())
              else ret ()) (\<lambda>_.
     ret (Some (Some \<lparr>ko = latestKo\<rparr>))))))))))"

text \<open>
  \<open>ackcondition.SetLateInitialized\<close> and \<open>SetSynced\<close> on a resource: they replace its conditions.
\<close>

definition on_conditions :: "(conditions \<Rightarrow> conditions) \<Rightarrow> AWSResource \<Rightarrow> ('s world, unit) go" where
  "on_conditions f res =
     bind_go (concreteResource res) (\<lambda>r.
     bind_go (resource_ko r) (\<lambda>p.
     modify_obj (\<lambda>k. k\<lparr>Status := (Status k)
       \<lparr>status_Conditions := f (status_Conditions (Status k))\<rparr>\<rparr>) p))"

definition LateInitialize ::
  "acklib \<Rightarrow> 's resourceManager \<Rightarrow> AWSResource \<Rightarrow> ('s world, AWSResource \<times> error option) go" where
  "LateInitialize L rm latest =
     (if lateInitializeFieldNames = [] then ret (latest, None)
      else
        bind_go (resource_DeepCopy latest) (\<lambda>latestCopy.
        bind_go (ReadOne L rm latestCopy) (\<lambda>(observed, err).
        if err \<noteq> None then
          bind_go (on_conditions (\<lambda>cs. ackcondition_SetLateInitialized L cs ConditionFalse
            (Some ''Unable to complete Read operation required for late initialization'')
            (Some ''Late Initialization Failure'')) latestCopy) (\<lambda>_.
          bind_go (on_conditions (\<lambda>cs. ackcondition_SetSynced L cs ConditionFalse None None)
            latestCopy) (\<lambda>_.
          ret (latestCopy, err)))
        else
          bind_go (lateInitializeFromReadOneOutput observed latestCopy) (\<lambda>lateInitializedRes.
          bind_go (incompleteLateInitialization lateInitializedRes) (\<lambda>incompleteInitialization.
          if incompleteInitialization then
            bind_go (on_conditions (\<lambda>cs. ackcondition_SetLateInitialized L cs ConditionFalse
              (Some ''Late initialization did not complete, requeuing with delay of 5 seconds'')
              (Some ''Delayed Late Initialization'')) lateInitializedRes) (\<lambda>_.
            bind_go (on_conditions (\<lambda>cs. ackcondition_SetSynced L cs ConditionFalse None None)
              lateInitializedRes) (\<lambda>_.
            ret (lateInitializedRes, Some (ackrequeue_NeededAfter L None (5 * 1000000000)))))
          else
            bind_go (on_conditions (\<lambda>cs. ackcondition_SetLateInitialized L cs ConditionTrue
              (Some ''Late initialization successful'')
              (Some ''Late initialization successful'')) lateInitializedRes) (\<lambda>_.
            ret (lateInitializedRes, None)))))))"

section \<open>Synced, and the tags of the controller\<close>

definition IsSynced :: "acklib \<Rightarrow> AWSResource \<Rightarrow> ('s world, bool \<times> error option) go" where
  "IsSynced L res =
     bind_go (concreteResource res) (\<lambda>r.
     case r of
       None \<Rightarrow> panic nil_deref
     | Some r \<Rightarrow>
         if ko r = None then panic (nil_object ''IsSynced() method'')
         else
           bind_go (deref (ko r)) (\<lambda>k.
           case status_Status (Status k) of
             None \<Rightarrow> ret (False, None)
           | Some status \<Rightarrow>
               let statusCandidates = [''ACTIVE'', ''IDLE'', ''INACTIVE''] in
               if \<not> ackutil_InStrings L status statusCandidates then ret (False, None)
               else ret (True, None)))"

definition EnsureTags ::
  "acklib \<Rightarrow> 's resourceManager \<Rightarrow> AWSResource \<Rightarrow> ServiceControllerMetadata \<Rightarrow>
   ('s world, error option) go" where
  "EnsureTags L rm res md =
     bind_go (concreteResource res) (\<lambda>r.
     case r of
       None \<Rightarrow> panic nil_deref
     | Some r \<Rightarrow>
         if ko r = None then panic (nil_object ''EnsureTags method'')
         else
           bind_go (deref (ko r)) (\<lambda>k.
           let defaultTags = ackrt_GetDefaultTags L (rm_cfg rm) k md;
               (resourceTags, keyOrder) = convertToOrderedACKTags L (spec_Tags (Spec k));
               tags = acktags_Merge L resourceTags defaultTags in
           bind_go (modify_obj (set_tags (fromACKTags tags keyOrder)) (ko r)) (\<lambda>_. ret None)))"

definition FilterSystemTags :: "acklib \<Rightarrow> AWSResource \<Rightarrow> string list \<Rightarrow> ('s world, unit) go" where
  "FilterSystemTags L res systemTags =
     bind_go (concreteResource res) (\<lambda>r.
     case r of
       None \<Rightarrow> ret ()
     | Some r \<Rightarrow>
         if ko r = None then ret ()
         else
           bind_go (deref (ko r)) (\<lambda>k.
           let (resourceTags, tagKeyOrder) = convertToOrderedACKTags L (spec_Tags (Spec k));
               resourceTags = ignoreSystemTags resourceTags systemTags in
           modify_obj (set_tags (fromACKTags resourceTags tagKeyOrder)) (ko r)))"

section \<open>Running the operations\<close>

lemma mirror_run [go_run]:
  "new_tags_law L \<Longrightarrow>
   mirrorAWSTags L (Some \<lparr>ko = Some a\<rparr>) (Some \<lparr>ko = Some b\<rparr>) w =
     (Ret (), w\<lparr>heap := (heap w)(a := set_tags
        (Some (fmmap Some (syncAWSTags (tag_view (spec_Tags (Spec (heap w a))))
           (tag_view (spec_Tags (Spec (heap w b))))))) (heap w a))\<rparr>)"
  by (simp add: mirrorAWSTags_def go_run convert_view_law from_view)

lemma mirror_none [simp]:
  "mirrorAWSTags L a None = ret ()"
  "mirrorAWSTags L None b = ret ()"
  by (cases a; cases b; simp add: mirrorAWSTags_def)+

lemma set_tags_frame [simp]:
  "TypeMeta (set_tags t k) = TypeMeta k"
  "ObjectMeta (set_tags t k) = ObjectMeta k"
  "Status (set_tags t k) = Status k"
  "condition_list (set_tags t k) = condition_list k"
  "spec_Tags (Spec (set_tags t k)) = t"
  by (simp_all add: set_tags_def condition_list_def)

text \<open>
  Conditions that are sound: none is nil, and no type occurs twice.  The API server keeps lists of
  conditions that way; the operations below keep them that way.
\<close>

definition sound :: "Cluster \<Rightarrow> bool" where
  "sound k \<longleftrightarrow> None \<notin> set (condition_list k) \<and>
     (\<forall>t. length (filter (has_type t) (condition_list k)) \<le> 1)"

lemma sound_cong: "condition_list k = condition_list k' \<Longrightarrow> sound k = sound k'"
  by (simp add: sound_def)

lemma sound_proper: "sound (heap w a) \<Longrightarrow> proper w \<lparr>ko = Some a\<rparr>"
  by (simp add: sound_def proper_def)

lemma obj_run [simp]: "obj w \<lparr>ko = Some a\<rparr> = heap w a"
  by (simp add: obj_def)

lemma outcome_error:
  assumes "error_law L" "sound (heap w a)"
  shows "outcome_of L rm \<lparr>ko = Some a\<rparr> (None, Some e) w =
    (Ret (Some (Some \<lparr>ko = Some (brk w)\<rparr>),
          Some (if is_terminal L (Some e) then ackerr_Terminal L else e)),
     w\<lparr>heap := (heap w)(brk w := updated_object L rm (Some e) (heap w a)), brk := Suc (brk w)\<rparr>)"
  using onError_run [OF assms(1) sound_proper [of w a, OF assms(2)]] assms(2)
  by (simp add: outcome_of_def sound_def)

lemma outcome_success:
  assumes "sound (heap w b)"
  shows "outcome_of L rm r (Some \<lparr>ko = Some b\<rparr>, None) w =
    (Ret (Some (Some \<lparr>ko = Some (if reports_update None (condition_list (heap w b))
                                    then brk w else b)\<rparr>), None),
     w\<lparr>heap := (heap w)(brk w := updated_object L rm None (heap w b)), brk := Suc (brk w)\<rparr>)"
  using success_case [OF sound_proper [OF assms]]
  by (simp add: outcome_of_def onSuccess_def go_run)

lemma outcome_nothing: "outcome_of L rm r (None, None) w = (Ret (None, None), w)"
  by (simp add: outcome_of_def onSuccess_def go_run)

lemma outcome_of_writes [frame]: "keeps (writes A) (outcome_of L rm r x)"
  unfolding outcome_of_def by (intro frame)

lemma outcome_of_silent [frame]: "keeps silent (outcome_of L rm r x)"
  unfolding outcome_of_def by (intro frame)

lemma mirror_frame [frame]:
  "set_option (Option.bind a ko) \<subseteq> A \<Longrightarrow> keeps (writes A) (mirrorAWSTags L a b)"
  "keeps silent (mirrorAWSTags L a b)"
  unfolding mirrorAWSTags_def
  by (cases a; cases b; simp; intro frame impI conjI; auto simp: Let_def intro!: frame split: prod.split)+

text \<open>Updating the conditions keeps them sound.\<close>

lemma raise_sound:
  assumes "slot = last_slot t 0 cs None" and "None \<notin> set cs"
    and "\<And>t. length (filter (has_type t) cs) \<le> 1"
  shows "None \<notin> set (raise_slot t slot msg cs) \<and>
    (\<forall>t'. length (filter (has_type t') (raise_slot t slot msg cs)) \<le> 1)"
proof (intro conjI allI)
  show "None \<notin> set (raise_slot t slot msg cs)" by (rule slot_update_no_nil(1) [OF assms(1,2)])
  fix t'
  show "length (filter (has_type t') (raise_slot t slot msg cs)) \<le> 1"
  proof (cases "t' = t")
    case True
    with raise_slot_typed(2) [OF assms(1), of msg] assms(3) [of t] show ?thesis by auto
  next
    case False
    with raise_slot_typed(1) [OF assms(1), of t' msg] assms(3) [of t'] show ?thesis by simp
  qed
qed

lemma clear_sound:
  assumes "slot = last_slot t 0 cs None" and "None \<notin> set cs"
    and "\<And>t. length (filter (has_type t) cs) \<le> 1"
  shows "None \<notin> set (clear_slot slot cs) \<and>
    (\<forall>t'. length (filter (has_type t') (clear_slot slot cs)) \<le> 1)"
proof (intro conjI allI)
  show "None \<notin> set (clear_slot slot cs)" by (rule slot_update_no_nil(2) [OF assms(1,2)])
  fix t'
  show "length (filter (has_type t') (clear_slot slot cs)) \<le> 1"
  proof (cases "t' = t")
    case True
    with clear_slot_typed(2) [OF assms(1)] assms(3) [of t] show ?thesis by auto
  next
    case False
    with clear_slot_typed(1) [OF assms(1), of t'] assms(3) [of t'] show ?thesis by simp
  qed
qed

lemma updated_sound:
  assumes "sound k"
  shows "sound (updated_object L rm err k)"
proof -
  let ?cs = "condition_list k"
  let ?cl = "clear_slot (last_slot ConditionTypeTerminal 0 ?cs None) ?cs"
  have cs: "None \<notin> set ?cs" "\<And>t. length (filter (has_type t) ?cs) \<le> 1"
    using assms by (simp_all add: sound_def)
  note cl = clear_sound [OF refl cs, of ConditionTypeTerminal]
  have slot: "last_slot ConditionTypeRecoverable 0 ?cs None = last_slot ConditionTypeRecoverable 0 ?cl None"
    by (simp add: clear_slot_keeps_slots)
  have "None \<notin> set (updated_conditions L err ?cs) \<and>
      (\<forall>t. length (filter (has_type t) (updated_conditions L err ?cs)) \<le> 1)"
    using cs cl raise_sound [OF refl cs, of ConditionTypeTerminal] raise_sound [OF slot] clear_sound [OF slot]
    by (simp add: updated_conditions_def slots_of_def Let_def split: option.split)
  then show ?thesis by (simp add: sound_def updated_object_def)
qed

section \<open>Reading\<close>

text \<open>What the service has to say about the cluster a resource stands for.\<close>

datatype answer = Missing | Failed error | Found GetClusterOutput "string option"

definition service_answer :: "'s resourceManager \<Rightarrow> Cluster \<Rightarrow> 's \<Rightarrow> answer" where
  "service_answer rm k s =
     (case status_Identifier (Status k) of
        None \<Rightarrow> Missing
      | Some i \<Rightarrow>
          (case api_GetCluster (rm_sdkapi rm) \<lparr>gci_Identifier = Some i\<rparr> s of
             (Inl e, s') \<Rightarrow> if not_found_error e then Missing else Failed e
           | (Inr out, s') \<Rightarrow>
               (case policy_read rm (gco_Identifier out) (spec_Policy (Spec k)) s' of
                  Inl e \<Rightarrow> Failed e | Inr p \<Rightarrow> Found out p)))"

lemma sdkFind_answer:
  assumes "aws_law L"
  shows "case sdkFind L rm \<lparr>ko = Some a\<rparr> w of (res, w') \<Rightarrow>
    (case service_answer rm (heap w a) (svc w) of
       Missing \<Rightarrow> res = Ret (None, Some (ackerr_NotFound L))
     | Failed e \<Rightarrow> res = Ret (None, Some e)
     | Found out p \<Rightarrow> res = Ret (Some \<lparr>ko = Some (brk w)\<rparr>, None) \<and>
         heap w' = (heap w)(brk w := observed_cluster rm out p (heap w a)))"
  using sdkFind_run [OF assms, where rm = rm and a = a and w = w]
  by (auto simp: service_answer_def split: prod.splits option.splits sum.splits)

lemma observed_conditions [simp]:
  "condition_list (observed_cluster rm out p k) = condition_list k"
  by (simp add: observed_cluster_def condition_list_def)

lemma setStatusDefaults_done:
  assumes "status_ACKResourceMetadata (Status k) = Some (recorded_metadata rm arn old)"
    and "status_Conditions (Status k) = Some cs"
  shows "setStatusDefaults rm k = k"
proof -
  have "recorded_metadata rm None (Some (recorded_metadata rm arn old)) = recorded_metadata rm arn old"
    by (auto simp: recorded_metadata_def Let_def or_else_def split: option.split)
  then show ?thesis
    using assms setStatusDefaults_recorded [of rm k]
    by (intro Cluster.equality ClusterStatus.equality) (simp_all add: condition_list_def)
qed

lemma updated_observed:
  "updated_object L rm err (observed_cluster rm out p k) =
     set_conditions (updated_conditions L err (condition_list k)) (observed_cluster rm out p k)"
proof -
  have "setStatusDefaults rm (observed_cluster rm out p k) = observed_cluster rm out p k"
    by (rule setStatusDefaults_done) (simp_all add: observed_cluster_def)
  then show ?thesis by (simp add: updated_object_def)
qed

lemma observed_same:
  "set_conditions (condition_list k) (observed_cluster rm out p k) = observed_cluster rm out p k"
  by (simp add: set_conditions_def observed_cluster_def)

definition reported :: "acklib \<Rightarrow> error \<Rightarrow> error" where
  "reported L e = (if is_terminal L (Some e) then ackerr_Terminal L else e)"

definition out_tags :: "GetClusterOutput \<Rightarrow> tags" where
  "out_tags out = (case gco_Tags out of None \<Rightarrow> fmempty | Some t \<Rightarrow> t)"

lemma observed_tags [simp]:
  "tag_view (spec_Tags (Spec (observed_cluster rm out p k))) = out_tags out"
  by (simp add: observed_cluster_def out_tags_def split: option.split)

text \<open>The desired tags with the AWS tags of the service mirrored into them.\<close>

definition mirrored :: "GetClusterOutput \<Rightarrow> Cluster \<Rightarrow> Cluster" where
  "mirrored out k =
     set_tags (Some (fmmap Some (syncAWSTags (tag_view (spec_Tags (Spec k))) (out_tags out)))) k"

lemma ReadOne_failed:
  assumes "error_law L" "sound (heap w a)" "a < brk w"
    and "sdkFind L rm \<lparr>ko = Some a\<rparr> w = (Ret (None, Some e), v)"
  shows "case ReadOne L rm (Some (Some \<lparr>ko = Some a\<rparr>)) w of (res, w') \<Rightarrow>
    heap w' a = heap w a \<and>
    (\<exists>n. brk w \<le> n \<and> n < brk w' \<and> sound (heap w' n) \<and>
      res = Ret (Some (Some \<lparr>ko = Some n\<rparr>), Some (reported L e)))"
proof -
  have v: "heap v a = heap w a" "brk w \<le> brk v"
    using keepsD [OF sdk_writes(1) assms(4)] assms(3) by (auto simp: writes_def)
  with assms(2) have s: "sound (heap v a)" by simp
  show ?thesis
    using outcome_error [OF assms(1) s, of rm e] updated_sound [OF s, of L rm] v assms(3)
    by (simp add: ReadOne_def go_run assms(4) reported_def)
qed

lemma ReadOne_run:
  assumes laws: "aws_law L" "new_tags_law L" "error_law L" and "sound (heap w a)" "a < brk w"
  shows "case ReadOne L rm (Some (Some \<lparr>ko = Some a\<rparr>)) w of (res, w') \<Rightarrow>
    (case service_answer rm (heap w a) (svc w) of
       Missing \<Rightarrow> heap w' a = heap w a \<and>
         (\<exists>n. brk w \<le> n \<and> n < brk w' \<and> sound (heap w' n) \<and>
           res = Ret (Some (Some \<lparr>ko = Some n\<rparr>), Some (reported L (ackerr_NotFound L))))
     | Failed e \<Rightarrow> heap w' a = heap w a \<and>
         (\<exists>n. brk w \<le> n \<and> n < brk w' \<and> sound (heap w' n) \<and>
           res = Ret (Some (Some \<lparr>ko = Some n\<rparr>), Some (reported L e)))
     | Found out p \<Rightarrow> heap w' a = mirrored out (heap w a) \<and>
         (\<exists>n cs. brk w \<le> n \<and> n < brk w' \<and> sound (heap w' n) \<and> res = Ret (Some (Some \<lparr>ko = Some n\<rparr>), None) \<and>
            heap w' n = set_conditions cs (observed_cluster rm out p (heap w a))))"
proof -
  obtain f v where find: "sdkFind L rm \<lparr>ko = Some a\<rparr> w = (f, v)"
    by (cases "sdkFind L rm \<lparr>ko = Some a\<rparr> w")
  have wr: "writes {} w v" using keepsD [OF sdk_writes(1) find] .
  then have va: "heap v a = heap w a" and brk: "brk w \<le> brk v"
    using assms(5) by (auto simp: writes_def)
  have ne: "a \<noteq> brk v" using brk assms(5) by simp
  note ans = sdkFind_answer [OF laws(1), where rm = rm and a = a and w = w, unfolded find prod.case]
  show ?thesis
  proof (cases "service_answer rm (heap w a) (svc w)")
    case Missing
    with ans ReadOne_failed [OF laws(3) assms(4,5), of rm _ v] find show ?thesis by simp
  next
    case (Failed e)
    with ans ReadOne_failed [OF laws(3) assms(4,5), of rm _ v] find show ?thesis by simp
  next
    case (Found out p)
    with ans have f: "f = Ret (Some \<lparr>ko = Some (brk w)\<rparr>, None)"
      and h: "heap v = (heap w)(brk w := observed_cluster rm out p (heap w a))" by simp_all
    let ?u = "v\<lparr>heap := (heap v)(a := mirrored out (heap w a))\<rparr>"
    have u: "heap ?u (brk w) = observed_cluster rm out p (heap w a)" "brk w < brk v \<or> brk w = brk v"
      using assms(5) brk h by auto
    have s: "sound (heap ?u (brk w))"
      unfolding u(1) using assms(4) by (simp add: sound_def)
    have "ReadOne L rm (Some (Some \<lparr>ko = Some a\<rparr>)) w =
        outcome_of L rm \<lparr>ko = Some a\<rparr> (Some \<lparr>ko = Some (brk w)\<rparr>, None) ?u"
      using assms(5) by (simp add: ReadOne_def go_run find f mirror_run [OF laws(2)] h mirrored_def)
    then show ?thesis
      using outcome_success [OF s, of L rm "\<lparr>ko = Some a\<rparr>"] updated_sound [OF s, of L rm None] s u(1)
        assms(5) brk ne Found
      by (auto simp: updated_observed)
        (metis observed_same)+
  qed
qed

section \<open>Sound results\<close>

text \<open>
  A result of an operation: a resource whose object has sound conditions, or no resource and no
  error (what a delete that worked gives).
\<close>

definition sound_result :: "'s world \<Rightarrow> (AWSResource \<times> error option) outcome \<Rightarrow> bool" where
  "sound_result w res =
     (case res of
        Ret (Some (Some r), err) \<Rightarrow> (case ko r of None \<Rightarrow> False | Some n \<Rightarrow> sound (heap w n))
      | Ret (Some None, err) \<Rightarrow> False
      | Ret (None, err) \<Rightarrow> err = None
      | Panic p \<Rightarrow> True)"

lemma sound_result_simps [simp]:
  "sound_result w (Ret (Some (Some \<lparr>ko = Some n\<rparr>), err)) = sound (heap w n)"
  "sound_result w (Ret (None, None))"
  "sound_result w (Panic p)"
  by (simp_all add: sound_result_def)

lemma merged_sound [simp]:
  "sound (keep_tags k (created_cluster rm out k)) = sound k"
  "sound (updated_cluster rm uout k) = sound k"
  "Spec (updated_cluster rm uout k) = Spec k"
  by ((rule sound_cong)?; simp add: keep_tags_def created_cluster_def observed_cluster_def
      updated_cluster_def condition_list_def split: option.split)+

lemma error_result_sound:
  assumes "error_law L" "sound (heap v a)"
  shows "case outcome_of L rm \<lparr>ko = Some a\<rparr> (None, Some e) v of (res, w') \<Rightarrow> sound_result w' res"
  using outcome_error [OF assms, of rm e] updated_sound [OF assms(2), of L rm "Some e"] by simp

lemma success_result_sound:
  assumes "sound (heap v b)"
  shows "case outcome_of L rm r (Some \<lparr>ko = Some b\<rparr>, None) v of (res, w') \<Rightarrow> sound_result w' res"
  using outcome_success [OF assms, of L rm r] updated_sound [OF assms, of L rm None] assms by auto

lemma ReadOne_sound:
  assumes "aws_law L" "new_tags_law L" "error_law L" "sound (heap w a)" "a < brk w"
  shows "case ReadOne L rm (Some (Some \<lparr>ko = Some a\<rparr>)) w of (res, w') \<Rightarrow> sound_result w' res"
  using ReadOne_run [OF assms, of rm]
  by (cases "service_answer rm (heap w a) (svc w)") auto

lemma created_settled:
  "updated_object L rm None (keep_tags k (created_cluster rm out k)) =
     set_conditions (updated_conditions L None (condition_list k)) (keep_tags k (created_cluster rm out k))"
  "set_conditions (condition_list k) (keep_tags k (created_cluster rm out k)) =
     keep_tags k (created_cluster rm out k)"
  "condition_list (keep_tags k (created_cluster rm out k)) = condition_list k"
proof -
  let ?c = "keep_tags k (created_cluster rm out k)"
  have "setStatusDefaults rm ?c = ?c"
    by (rule setStatusDefaults_done) (simp_all add: keep_tags_def created_cluster_def observed_cluster_def)
  moreover show cs: "condition_list ?c = condition_list k"
    by (simp add: keep_tags_def created_cluster_def observed_cluster_def condition_list_def
        split: option.split)
  ultimately show "updated_object L rm None ?c =
      set_conditions (updated_conditions L None (condition_list k)) ?c"
    by (simp add: updated_object_def)
  show "set_conditions (condition_list k) ?c = ?c"
    by (simp add: set_conditions_def keep_tags_def created_cluster_def observed_cluster_def)
qed

lemma Create_run:
  assumes "aws_law L" "error_law L" "sound (heap w a)" "a < brk w"
  shows "case Create L rm (Some (Some \<lparr>ko = Some a\<rparr>)) w of (res, w') \<Rightarrow>
    requests w' = requests w @ [CreateClusterReq (create_request (heap w a))] \<and> heap w' a = heap w a \<and>
    (\<exists>n. brk w \<le> n \<and> sound (heap w' n) \<and>
      (case fst (api_CreateCluster (rm_sdkapi rm) (create_request (heap w a)) (svc w)) of
         Inl e \<Rightarrow> res = Ret (Some (Some \<lparr>ko = Some n\<rparr>), Some (reported L e))
       | Inr out \<Rightarrow> res = Ret (Some (Some \<lparr>ko = Some n\<rparr>), None) \<and>
           (\<exists>cs. heap w' n = set_conditions cs (keep_tags (heap w a) (created_cluster rm out (heap w a))))))"
proof -
  obtain f v where run: "sdkCreate L rm \<lparr>ko = Some a\<rparr> w = (f, v)"
    by (cases "sdkCreate L rm \<lparr>ko = Some a\<rparr> w")
  have op: "Create L rm (Some (Some \<lparr>ko = Some a\<rparr>)) w =
      (case f of Ret x \<Rightarrow> outcome_of L rm \<lparr>ko = Some a\<rparr> x v | Panic p \<Rightarrow> (Panic p, v))"
    by (simp add: Create_def go_run run split: outcome.split)
  note cr = sdkCreate_run [OF assms(1), where rm = rm and d = a and w = w, unfolded run Let_def]
  show ?thesis
  proof (cases "fst (api_CreateCluster (rm_sdkapi rm) (create_request (heap w a)) (svc w))")
    case (Inl e)
    with cr assms(3) have v: "f = Ret (None, Some e)" "heap v = heap w" "brk v = brk w"
      "requests v = requests w @ [CreateClusterReq (create_request (heap w a))]"
      and s: "sound (heap v a)" by simp_all
    with op outcome_error [OF assms(2) s, of rm e] updated_sound [OF s, of L rm "Some e"] assms(4) Inl
    show ?thesis by (simp add: reported_def)
  next
    case (Inr out)
    with cr have v: "f = Ret (Some \<lparr>ko = Some (brk w)\<rparr>, None)" "brk v = Suc (brk w)"
      "heap v = (heap w)(brk w := keep_tags (heap w a) (created_cluster rm out (heap w a)))"
      "requests v = requests w @ [CreateClusterReq (create_request (heap w a))]"
      by simp_all
    have s: "sound (heap v (brk w))" using assms(3) by (simp add: v)
    show ?thesis
      using op outcome_success [OF s, of L rm "\<lparr>ko = Some a\<rparr>"] updated_sound [OF s, of L rm None]
        assms(3,4) Inr
      by (auto simp: v created_settled) (metis created_settled(2))+
  qed
qed

lemma Create_sound:
  assumes "aws_law L" "error_law L" "sound (heap w a)" "a < brk w"
  shows "case Create L rm (Some (Some \<lparr>ko = Some a\<rparr>)) w of (res, w') \<Rightarrow> sound_result w' res"
  using Create_run [OF assms, of rm]
  by (cases "fst (api_CreateCluster (rm_sdkapi rm) (create_request (heap w a)) (svc w))") auto

lemma Delete_sound:
  assumes "error_law L" "sound (heap w a)"
  shows "case Delete L rm (Some (Some \<lparr>ko = Some a\<rparr>)) w of (res, w') \<Rightarrow> sound_result w' res"
proof -
  let ?i = "\<lparr>dci_Identifier = status_Identifier (Status (heap w a))\<rparr>"
  let ?v = "snd (sdkDelete rm \<lparr>ko = Some a\<rparr> w)"
  have h: "sound (heap ?v a)" using assms(2) by (simp add: sdkDelete_run Let_def)
  have op: "Delete L rm (Some (Some \<lparr>ko = Some a\<rparr>)) w =
      outcome_of L rm \<lparr>ko = Some a\<rparr> (None, err_of (fst (api_DeleteCluster (rm_sdkapi rm) ?i (svc w)))) ?v"
    by (simp add: Delete_def go_run sdkDelete_run Let_def)
  show ?thesis
  proof (cases "err_of (fst (api_DeleteCluster (rm_sdkapi rm) ?i (svc w)))")
    case None
    with op show ?thesis by (simp add: outcome_nothing)
  next
    case (Some e)
    with op error_result_sound [OF assms(1) h, of rm e] show ?thesis by simp
  qed
qed

text \<open>An update, by what the hook and the service answer.\<close>

lemma Update_writes: "keeps (writes {}) (Update L rm desired latest delta)"
  unfolding Update_def by (intro frame)

lemma Update_run:
  assumes "aws_law L" "error_law L" "sound (heap w a)" "sound (heap w d)" "a < brk w" "d < brk w"
  shows "case Update L rm (Some (Some \<lparr>ko = Some d\<rparr>)) (Some (Some \<lparr>ko = Some a\<rparr>)) delta w of
      (Panic p, w') \<Rightarrow> panics (customUpdate L rm \<lparr>ko = Some d\<rparr> \<lparr>ko = Some a\<rparr> delta) w
    | (Ret (res, Some e'), w') \<Rightarrow>
        \<exists>n e. res = Some (Some \<lparr>ko = Some n\<rparr>) \<and> brk w \<le> n \<and> e' = reported L e \<and> sound (heap w' n) \<and>
          heap w' n = updated_object L rm (Some e) (heap w a)
    | (Ret (res, None), w') \<Rightarrow>
        \<exists>n. res = Some (Some \<lparr>ko = Some n\<rparr>) \<and> sound (heap w' n) \<and>
          Spec (heap w' n) = Spec (heap w d)"
proof -
  obtain h v where hook: "customUpdate L rm \<lparr>ko = Some d\<rparr> \<lparr>ko = Some a\<rparr> delta w = (h, v)"
    by (cases "customUpdate L rm \<lparr>ko = Some d\<rparr> \<lparr>ko = Some a\<rparr> delta w")
  have wr: "writes {} w v" using keepsD [OF customUpdate_writes hook] .
  then have hv: "heap v a = heap w a" "heap v d = heap w d" "brk w \<le> brk v"
    using assms(5,6) by (auto simp: writes_def)
  obtain f u where run: "sdkUpdate L rm \<lparr>ko = Some d\<rparr> \<lparr>ko = Some a\<rparr> delta w = (f, u)"
    by (cases "sdkUpdate L rm \<lparr>ko = Some d\<rparr> \<lparr>ko = Some a\<rparr> delta w")
  have brk: "brk w \<le> brk u" using keepsD [OF sdk_writes(3) run] by (simp add: writes_def)
  have op: "Update L rm (Some (Some \<lparr>ko = Some d\<rparr>)) (Some (Some \<lparr>ko = Some a\<rparr>)) delta w =
      (case f of Ret x \<Rightarrow> outcome_of L rm \<lparr>ko = Some a\<rparr> x u | Panic p \<Rightarrow> (Panic p, u))"
    by (simp add: Update_def go_run run split: outcome.split)
  have "(\<exists>p. f = Panic p \<and> h = Panic p) \<or>
      (\<exists>e. f = Ret (None, Some e) \<and> heap u a = heap w a) \<or>
      (\<exists>b. f = Ret (Some \<lparr>ko = Some b\<rparr>, None) \<and> sound (heap u b) \<and> Spec (heap u b) = Spec (heap w d) \<and>
        b < brk u)"
    using run hv assms(4,6) hook unfolding sdkUpdate_run [OF assms(1)]
    by (auto simp: Let_def
        split: outcome.splits option.splits sum.splits prod.splits if_splits)
  then consider p where "f = Panic p" "h = Panic p"
    | e where "f = Ret (None, Some e)" "heap u a = heap w a"
    | b where "f = Ret (Some \<lparr>ko = Some b\<rparr>, None)" "sound (heap u b)" "Spec (heap u b) = Spec (heap w d)"
        "b < brk u" by blast
  then show ?thesis
  proof cases
    case 1
    with op hook show ?thesis by (simp add: panics_def)
  next
    case (2 e)
    have s: "sound (heap u a)" using 2 assms(3) by simp
    from 2 op outcome_error [OF assms(2) s, of rm e] updated_sound [OF s, of L rm "Some e"]
    show ?thesis by (auto simp: reported_def brk)
  next
    case (3 b)
    from 3 op outcome_success [OF 3(2), of L rm "\<lparr>ko = Some a\<rparr>"] updated_sound [OF 3(2), of L rm None]
    show ?thesis by (auto simp: updated_object_def)
  qed
qed

lemma Update_sound:
  assumes "aws_law L" "error_law L" "sound (heap w a)" "sound (heap w d)" "a < brk w" "d < brk w"
  shows "case Update L rm (Some (Some \<lparr>ko = Some d\<rparr>)) (Some (Some \<lparr>ko = Some a\<rparr>)) delta w of
    (res, w') \<Rightarrow> sound_result w' res"
proof -
  obtain res w' where run: "Update L rm (Some (Some \<lparr>ko = Some d\<rparr>)) (Some (Some \<lparr>ko = Some a\<rparr>)) delta w =
      (res, w')" by (cases "Update L rm (Some (Some \<lparr>ko = Some d\<rparr>)) (Some (Some \<lparr>ko = Some a\<rparr>)) delta w")
  note upd = Update_run [OF assms, where rm = rm and delta = delta, unfolded run prod.case]
  show ?thesis
  proof (cases res)
    case (Ret x)
    with upd run show ?thesis by (cases x; cases "snd x") auto
  qed (simp add: run)
qed

lemma ReadOne_frame:
  "keeps (sends is_read) (ReadOne L rm res)"
  "keeps (writes (set_option (Option.bind (Option.bind res id) ko))) (ReadOne L rm res)"
proof -
  show "keeps (sends is_read) (ReadOne L rm res)"
    unfolding ReadOne_def
    by (intro frame keeps_sends_silent [OF mirror_frame(2)] keeps_sends_silent [OF outcome_of_silent])
  show "keeps (writes (set_option (Option.bind (Option.bind res id) ko))) (ReadOne L rm res)"
  proof (cases res)
    case None
    then show ?thesis by (intro keepsI) (simp add: ReadOne_def go_run writes.R_refl)
  next
    case (Some r)
    have "ReadOne L rm res = (case r of None \<Rightarrow> panic nil_deref | Some r \<Rightarrow>
         if ko r = None then panic (nil_object ''ReadOne() method'')
         else bind_go (sdkFind L rm r) (\<lambda>(observed, err).
           bind_go (mirrorAWSTags L (Some r) observed) (\<lambda>_. outcome_of L rm r (observed, err))))"
      by (rule ext) (simp add: ReadOne_def Some concreteResource_def)
    then show ?thesis
      unfolding Some by (cases r) (simp_all, intro frame, auto intro!: frame)
  qed
qed


text \<open>A read that found the cluster.\<close>

lemma ReadOne_found:
  assumes "aws_law L" "new_tags_law L" "error_law L" "sound (heap w a)" "a < brk w"
    and run: "ReadOne L rm (Some (Some \<lparr>ko = Some a\<rparr>)) w = (Ret (Some (Some \<lparr>ko = Some n\<rparr>), None), w')"
  obtains out p cs where "service_answer rm (heap w a) (svc w) = Found out p"
    "heap w' a = mirrored out (heap w a)" "sound (heap w' a)" "a < brk w'"
    "heap w' n = set_conditions cs (observed_cluster rm out p (heap w a))" "sound (heap w' n)"
    "brk w \<le> n" "n < brk w'"
proof (cases "service_answer rm (heap w a) (svc w)")
  case (Found out p)
  with ReadOne_run [OF assms(1-5), of rm] run obtain cs where
    a: "heap w' a = mirrored out (heap w a)" and n: "brk w \<le> n" "n < brk w'" "sound (heap w' n)"
      "heap w' n = set_conditions cs (observed_cluster rm out p (heap w a))" by auto
  have "condition_list (heap w' a) = condition_list (heap w a)"
    by (simp add: a mirrored_def condition_list_def)
  then have "sound (heap w' a)" using assms(4) sound_cong by blast
  moreover have "a < brk w'" using n(1,2) assms(5) by simp
  ultimately show ?thesis using that [OF Found a _ _ n(4,3,1,2)] by blast
qed (use ReadOne_run [OF assms(1-5), of rm] run in auto)

section \<open>Properties\<close>

subsection \<open>The operations of the reconciler\<close>

text \<open>
  C2.  \<open>ReadOne\<close> reports what the service says.  When the cluster is found, it returns no error and a
  new object that is the observed cluster, up to its conditions; when it is not found, or the
  service fails, it returns NotFound or that error (or the runtime's Terminal error in their place
  when they are terminal) with a new object that carries the condition.  The object passed in is
  touched only on success, and only by mirroring the AWS tags of the service into its tags.  Every
  request it sends is a read.
\<close>

theorem ReadOne_refines:
  assumes "aws_law L" "new_tags_law L" "error_law L" "sound (heap w a)" "a < brk w"
  shows "case ReadOne L rm (Some (Some \<lparr>ko = Some a\<rparr>)) w of (res, w') \<Rightarrow>
    sends is_read w w' \<and>
    (case service_answer rm (heap w a) (svc w) of
       Missing \<Rightarrow> heap w' a = heap w a \<and>
         (\<exists>n. brk w \<le> n \<and> n < brk w' \<and> sound (heap w' n) \<and>
           res = Ret (Some (Some \<lparr>ko = Some n\<rparr>), Some (reported L (ackerr_NotFound L))))
     | Failed e \<Rightarrow> heap w' a = heap w a \<and>
         (\<exists>n. brk w \<le> n \<and> n < brk w' \<and> sound (heap w' n) \<and>
           res = Ret (Some (Some \<lparr>ko = Some n\<rparr>), Some (reported L e)))
     | Found out p \<Rightarrow> heap w' a = mirrored out (heap w a) \<and>
         (\<exists>n cs. brk w \<le> n \<and> n < brk w' \<and> sound (heap w' n) \<and> res = Ret (Some (Some \<lparr>ko = Some n\<rparr>), None) \<and>
            heap w' n = set_conditions cs (observed_cluster rm out p (heap w a))))"
  using ReadOne_run [OF assms, of rm] keepsD [OF ReadOne_frame(1)] by (auto split: prod.splits)

lemma ref_sound: "sound (heap ref_world 0)"
  by (simp add: sound_def ref_world_def ref_cluster_def condition_list_def)

lemma ref_allocated: "0 < brk ref_world"
  by (simp add: ref_world_def)

lemma ref_answer: "service_answer ref_rm (heap ref_world 0) (svc ref_world) = Found ref_output None"
  by (simp add: service_answer_def ref_world_def ref_cluster_def ref_rm_def ref_api_def policy_read_def
      ref_output_def ref_not_found_def)

theorem ReadOne_refines_witness:
  "\<exists>w' n. ReadOne ref_lib ref_rm (Some (Some \<lparr>ko = Some 0\<rparr>)) ref_world =
      (Ret (Some (Some \<lparr>ko = Some n\<rparr>), None), w') \<and>
    heap w' 0 = mirrored ref_output (heap ref_world 0)"
  using ReadOne_refines [OF ref_aws ref_new_tags ref_error ref_sound ref_allocated, of ref_rm]
  by (auto simp: ref_answer split: prod.splits)

text \<open>
  Whatever happens, \<open>ReadOne\<close> sends only reads, and of the objects that existed it can change
  no other than the one it was given.
\<close>

lemma ReadOne_reads_only:
  "case ReadOne L rm (Some (Some \<lparr>ko = Some a\<rparr>)) w of (res, w') \<Rightarrow>
     sends is_read w w' \<and> writes {a} w w'"
  using ReadOne_frame [where L = L and rm = rm and res = "Some (Some \<lparr>ko = Some a\<rparr>)"] by (auto simp: keeps_def split: prod.split dest: spec [of _ w])

text \<open>
  C11.  \<open>Update\<close>, for two objects with sound conditions: it changes no existing object.  A success
  returns an object whose spec is the desired one; an error is reported on a new object, a copy of the
  observed one (not of the desired one) with its condition raised, as itself or as the runtime's
  Terminal error; and it panics only where the hook does.
\<close>

theorem Update_outcome:
  assumes "aws_law L" "error_law L" "sound (heap w a)" "sound (heap w d)" "a < brk w" "d < brk w"
  shows "case Update L rm (Some (Some \<lparr>ko = Some d\<rparr>)) (Some (Some \<lparr>ko = Some a\<rparr>)) delta w of (res, w') \<Rightarrow>
    (\<forall>x. x < brk w \<longrightarrow> heap w' x = heap w x) \<and>
    (case res of
      Panic p \<Rightarrow> panics (customUpdate L rm \<lparr>ko = Some d\<rparr> \<lparr>ko = Some a\<rparr> delta) w
    | Ret (res, Some e') \<Rightarrow>
        \<exists>n e. res = Some (Some \<lparr>ko = Some n\<rparr>) \<and> brk w \<le> n \<and> e' = reported L e \<and> sound (heap w' n) \<and>
          heap w' n = updated_object L rm (Some e) (heap w a)
    | Ret (res, None) \<Rightarrow>
        \<exists>n. res = Some (Some \<lparr>ko = Some n\<rparr>) \<and> sound (heap w' n) \<and>
          Spec (heap w' n) = Spec (heap w d))"
proof -
  obtain res w' where run: "Update L rm (Some (Some \<lparr>ko = Some d\<rparr>)) (Some (Some \<lparr>ko = Some a\<rparr>)) delta w = (res, w')"
    by (cases "Update L rm (Some (Some \<lparr>ko = Some d\<rparr>)) (Some (Some \<lparr>ko = Some a\<rparr>)) delta w")
  have "\<forall>x. x < brk w \<longrightarrow> heap w' x = heap w x"
    using keepsD [OF Update_writes run] by (simp add: writes_def)
  with Update_run [OF assms, where rm = rm and delta = delta] run show ?thesis by simp
qed

theorem Update_outcome_witness:
  "\<exists>n w'. Update ref_lib ref_rm (Some (Some \<lparr>ko = Some 0\<rparr>)) (Some (Some \<lparr>ko = Some 0\<rparr>)) [] ref_world =
      (Ret (Some (Some \<lparr>ko = Some n\<rparr>), None), w') \<and> Spec (heap w' n) = Spec ref_cluster"
proof -
  obtain res w' where run: "Update ref_lib ref_rm (Some (Some \<lparr>ko = Some 0\<rparr>))
      (Some (Some \<lparr>ko = Some 0\<rparr>)) [] ref_world = (Ret (res, None), w')"
    by (simp add: Update_def go_run sdkUpdate_def customUpdate_def requeue_run custom_changes_def
        custom_tags_def custom_policy_def ref_world_def ref_cluster_def ref_lib_def outcome_of_def
        onSuccess_def success_case proper_def condition_list_def reports_update_def slots_of_def
        no_slots_def obj_def)
  from Update_outcome [OF ref_aws ref_error ref_sound ref_sound ref_allocated ref_allocated,
      where rm = ref_rm and delta = "[]"] run
  show ?thesis by (auto simp: ref_world_def)
qed

subsection \<open>Synced\<close>

text \<open>
  C38.  Of the ten states the service reports, a cluster counts as synced exactly in ACTIVE, IDLE and
  INACTIVE; without a reported state it is not synced.  Asking never fails and changes nothing.
\<close>

theorem IsSynced_states:
  assumes "util_law L"
  shows "IsSynced L (Some (Some \<lparr>ko = Some a\<rparr>)) (w\<lparr>heap := (heap w)(a := k\<lparr>Status := (Status k)
      \<lparr>status_Status := map_option ClusterStatus_SDK_string st\<rparr>\<rparr>)\<rparr>) =
    (Ret (case st of None \<Rightarrow> False | Some s \<Rightarrow> s = ACTIVE \<or> s = IDLE \<or> s = INACTIVE, None),
     w\<lparr>heap := (heap w)(a := k\<lparr>Status := (Status k)
      \<lparr>status_Status := map_option ClusterStatus_SDK_string st\<rparr>\<rparr>)\<rparr>)"
proof -
  have "ClusterStatus_SDK_string s \<in> set [''ACTIVE'', ''IDLE'', ''INACTIVE''] \<longleftrightarrow>
      s = ACTIVE \<or> s = IDLE \<or> s = INACTIVE" for s
    by (cases s) simp_all
  with assms show ?thesis
    by (cases st) (simp_all add: IsSynced_def go_run util_law_def Let_def)
qed

theorem IsSynced_states_witness:
  "fst (IsSynced ref_lib (Some (Some \<lparr>ko = Some 0\<rparr>)) (ref_world\<lparr>heap := (heap ref_world)
     (0 := ref_cluster\<lparr>Status := (Status ref_cluster)\<lparr>status_Status :=
        map_option ClusterStatus_SDK_string (Some FAILED)\<rparr>\<rparr>)\<rparr>)) = Ret (False, None)"
  using IsSynced_states [OF ref_util, where a = 0 and w = ref_world and k = ref_cluster
      and st = "Some FAILED"] by simp

subsection \<open>The tags of the controller\<close>

text \<open>
  C36.  \<open>EnsureTags\<close> adds the controller's default tags and overrides none of the resource's: a tag
  the resource has keeps its value (a nil value as the empty string), a default tag it lacks is
  added, and no other tag and no other part of the object is touched.
\<close>

theorem EnsureTags_keeps:
  assumes "new_tags_law L" "merge_law L"
  shows "case EnsureTags L rm (Some (Some \<lparr>ko = Some a\<rparr>)) md w of (res, w') \<Rightarrow>
    res = Ret None \<and>
    (\<exists>t. w' = w\<lparr>heap := (heap w)(a := set_tags t (heap w a))\<rparr> \<and>
       (\<forall>key. fmlookup (tag_view t) key =
          (case fmlookup (tag_view (spec_Tags (Spec (heap w a)))) key of
             Some v \<Rightarrow> Some v
           | None \<Rightarrow> fmlookup (ackrt_GetDefaultTags L (rm_cfg rm) (heap w a) md) key)))"
  using assms
  by (auto simp: EnsureTags_def go_run convert_view_law merge_law_def Let_def gomap
      split: option.split intro!: exI [of _ "fromACKTags _ _"])

theorem EnsureTags_keeps_witness:
  "\<exists>w'. EnsureTags ref_lib ref_rm (Some (Some \<lparr>ko = Some 0\<rparr>)) \<lparr>md_GitCommit = '''', md_GitVersion = '''',
      md_BuildDate = '''', md_ServiceAlias = ''dsql'', md_ServiceAPIGroup = ''''\<rparr> ref_world =
    (Ret None, w')"
  using EnsureTags_keeps [OF ref_new_tags ref_merge, where rm = ref_rm and a = 0 and w = ref_world
      and md = "\<lparr>md_GitCommit = '''', md_GitVersion = '''', md_BuildDate = '''',
        md_ServiceAlias = ''dsql'', md_ServiceAPIGroup = ''''\<rparr>"]
  by (auto split: prod.splits)

text \<open>
  C37.  \<open>FilterSystemTags\<close> leaves exactly the tags the controller manages: those whose key neither
  starts with \<open>aws:\<close> nor is one of the system tags, with their values; nothing else of the object
  changes, and a second call changes nothing more.
\<close>

theorem FilterSystemTags_filters:
  assumes "new_tags_law L"
  shows "case FilterSystemTags L (Some (Some \<lparr>ko = Some a\<rparr>)) systemTags w of (res, w') \<Rightarrow>
    res = Ret () \<and> FilterSystemTags L (Some (Some \<lparr>ko = Some a\<rparr>)) systemTags w' = (Ret (), w') \<and>
    (\<exists>t. w' = w\<lparr>heap := (heap w)(a := set_tags t (heap w a))\<rparr> \<and>
       (\<forall>key. fmlookup (tag_view t) key =
          (if prefix ''aws:'' key \<or> key \<in> set systemTags then None
           else fmlookup (tag_view (spec_Tags (Spec (heap w a)))) key)))"
proof -
  let ?f = "\<lambda>k. \<not> strings_HasPrefix k aws_prefix \<and> k \<notin> set systemTags"
  have run: "FilterSystemTags L (Some (Some \<lparr>ko = Some a\<rparr>)) systemTags v =
      (Ret (), v\<lparr>heap := (heap v)(a := set_tags
         (Some (fmmap Some (fmfilter ?f (tag_view (spec_Tags (Spec (heap v a))))))) (heap v a))\<rparr>)"
    for v :: "'a world"
    using assms by (simp add: FilterSystemTags_def go_run convert_view_law ignoreSystemTags_filter
        from_view)
  have idem: "fmfilter ?f (fmfilter ?f t) = fmfilter ?f t" for t :: tags
    by (rule fmap_ext) simp
  have tags2: "set_tags t (set_tags u k) = set_tags t k" for t u k
    by (simp add: set_tags_def)
  let ?t = "Some (fmmap Some (fmfilter ?f (tag_view (spec_Tags (Spec (heap w a))))))"
  let ?v = "w\<lparr>heap := (heap w)(a := set_tags ?t (heap w a))\<rparr>"
  have hv: "heap ?v a = set_tags ?t (heap w a)" by simp
  have same: "?v\<lparr>heap := (heap ?v)(a := set_tags ?t (heap w a))\<rparr> = ?v" by simp
  have again: "FilterSystemTags L (Some (Some \<lparr>ko = Some a\<rparr>)) systemTags ?v = (Ret (), ?v)"
    unfolding run hv by (simp only: set_tags_frame tag_view_simps fmmap_str_or_empty_Some idem tags2 same)
  have "fmlookup (tag_view ?t) key =
      (if prefix ''aws:'' key \<or> key \<in> set systemTags then None
       else fmlookup (tag_view (spec_Tags (Spec (heap w a)))) key)" for key
    by (simp add: strings_HasPrefix_def aws_prefix_def)
  with again show ?thesis
    unfolding run [of w] prod.case by blast
qed

theorem FilterSystemTags_filters_witness:
  "\<exists>w'. FilterSystemTags ref_lib (Some (Some \<lparr>ko = Some 0\<rparr>)) [''team''] ref_world = (Ret (), w')"
  using FilterSystemTags_filters [OF ref_new_tags, where a = 0 and systemTags = "[''team'']"
      and w = ref_world] by (auto split: prod.splits)

subsection \<open>Late initialization\<close>

lemma keeps_resource_copy:
  assumes "\<And>k. keeps (writes (insert k A)) (f (Some (Some \<lparr>ko = Some k\<rparr>)))"
    and "keeps (writes A) (f (Some (Some \<lparr>ko = None\<rparr>)))"
  shows "keeps (writes A) (bind_go (resource_DeepCopy res) f)"
  unfolding resource_DeepCopy_def
proof (cases res)
  case (Some r)
  then show "keeps (writes A) (bind_go (case res of None \<Rightarrow> panic nil_deref
      | Some r \<Rightarrow> bind_go (resource_ko r) (\<lambda>p. bind_go (Cluster_DeepCopy p)
          (\<lambda>koCopy. ret (Some (Some \<lparr>ko = koCopy\<rparr>))))) f)"
    by (simp add: bind_assoc)
      (rule writes.keeps_bind, rule keeps_objects, rule keeps_copy, simp_all add: assms)
qed (simp add: writes.keeps_panic)

lemma keeps_late_initialized:
  assumes "\<And>k B. A \<subseteq> B \<Longrightarrow> keeps (writes (insert k B)) (f (Some (Some \<lparr>ko = Some k\<rparr>)))"
    and "\<And>B. A \<subseteq> B \<Longrightarrow> keeps (writes B) (f (Some (Some \<lparr>ko = None\<rparr>)))"
  shows "keeps (writes A) (bind_go (lateInitializeFromReadOneOutput observed latest) f)"
  unfolding lateInitializeFromReadOneOutput_def
  apply (simp only: bind_assoc bind_ret)
  apply (rule writes.keeps_bind [OF keeps_objects(6)], rule writes.keeps_bind [OF keeps_objects(4)])
  apply (rule keeps_copy; rule writes.keeps_bind [OF keeps_objects(6)];
      rule writes.keeps_bind [OF keeps_objects(4)]; rule keeps_copy; intro frame assms; auto)
  done

lemma on_conditions_frame [frame]:
  "set_option (Option.bind (Option.bind res id) ko) \<subseteq> A \<Longrightarrow> keeps (writes A) (on_conditions f res)"
  "keeps silent (on_conditions f res)"
  unfolding on_conditions_def
  by (cases res; cases "the res"; simp add: concreteResource_def resource_ko_def; intro frame; simp)+

lemma incomplete_frame [frame]:
  "keeps (writes A) (incompleteLateInitialization res)"
  "keeps silent (incompleteLateInitialization res)"
  "keeps silent (lateInitializeFromReadOneOutput o1 l1)"
  unfolding incompleteLateInitialization_def lateInitializeFromReadOneOutput_def
  by (intro frame)+

lemma LateInitialize_frame:
  "keeps (writes {}) (LateInitialize L rm latest)"
  "keeps (sends is_read) (LateInitialize L rm latest)"
proof -
  let ?tail = "\<lambda>res. bind_go (incompleteLateInitialization res) (\<lambda>inc.
      if inc then
        bind_go (on_conditions (\<lambda>cs. ackcondition_SetLateInitialized L cs ConditionFalse
          (Some ''Late initialization did not complete, requeuing with delay of 5 seconds'')
          (Some ''Delayed Late Initialization'')) res) (\<lambda>_.
        bind_go (on_conditions (\<lambda>cs. ackcondition_SetSynced L cs ConditionFalse None None) res) (\<lambda>_.
        ret (res, Some (ackrequeue_NeededAfter L None (5 * 1000000000)))))
      else
        bind_go (on_conditions (\<lambda>cs. ackcondition_SetLateInitialized L cs ConditionTrue
          (Some ''Late initialization successful'') (Some ''Late initialization successful'')) res) (\<lambda>_.
        ret (res, None)))"
  have some: "keeps (writes (insert k B)) (?tail (Some (Some \<lparr>ko = Some k\<rparr>)))" for k B
    by (intro frame) auto
  have none: "keeps (writes B) (?tail (Some (Some \<lparr>ko = None\<rparr>)))" for B
    by (intro frame) auto
  have read: "keeps (writes (set_option p)) (ReadOne L rm (Some (Some \<lparr>ko = p\<rparr>)))" for p
    using ReadOne_frame(2) [where L = L and rm = rm and res = "Some (Some \<lparr>ko = p\<rparr>)"] by simp
  have body: "keeps (writes (set_option p)) (bind_go (ReadOne L rm (Some (Some \<lparr>ko = p\<rparr>)))
      (\<lambda>(observed, err).
      if err \<noteq> None then
        bind_go (on_conditions (\<lambda>cs. ackcondition_SetLateInitialized L cs ConditionFalse
          (Some ''Unable to complete Read operation required for late initialization'')
          (Some ''Late Initialization Failure'')) (Some (Some \<lparr>ko = p\<rparr>))) (\<lambda>_.
        bind_go (on_conditions (\<lambda>cs. ackcondition_SetSynced L cs ConditionFalse None None)
          (Some (Some \<lparr>ko = p\<rparr>))) (\<lambda>_. ret (Some (Some \<lparr>ko = p\<rparr>), err)))
      else bind_go (lateInitializeFromReadOneOutput observed (Some (Some \<lparr>ko = p\<rparr>))) ?tail))" for p
    by (rule writes.keeps_bind [OF read], rule keeps_prod, rule keeps_if)
      ((intro frame; simp), rule keeps_late_initialized [OF some none])
  show "keeps (writes {}) (LateInitialize L rm latest)"
    unfolding LateInitialize_def
    by (rule keeps_if, rule writes.keeps_ret, rule keeps_resource_copy)
      (use body [of "Some _"] body [of None] in simp_all)
  show "keeps (sends is_read) (LateInitialize L rm latest)"
    unfolding LateInitialize_def
    by (intro frame ReadOne_frame(1) keeps_sends_silent [OF resource_silent(1)]
        keeps_sends_silent [OF on_conditions_frame(2)] keeps_sends_silent [OF incomplete_frame(2)]
        keeps_sends_silent [OF incomplete_frame(3)])
qed

text \<open>
  \<open>LateInitialize\<close> works on a copy: no object that existed before changes, and it sends only
  reads.
\<close>

lemma LateInitialize_copies:
  "case LateInitialize L rm latest w of (res, w') \<Rightarrow> writes {} w w' \<and> sends is_read w w'"
  using LateInitialize_frame [where L = L and rm = rm and latest = latest]
  by (auto simp: keeps_def split: prod.split dest: spec [of _ w])

definition set_protection :: "bool option \<Rightarrow> Cluster \<Rightarrow> Cluster" where
  "set_protection p k = k\<lparr>Spec := (Spec k)\<lparr>spec_DeletionProtectionEnabled := p\<rparr>\<rparr>"

definition put_conditions :: "conditions \<Rightarrow> Cluster \<Rightarrow> Cluster" where
  "put_conditions cs k = k\<lparr>Status := (Status k)\<lparr>status_Conditions := cs\<rparr>\<rparr>"

lemma late_status [simp]:
  "Status (set_protection p k) = Status k"
  "Status (mirrored out k) = Status k"
  by (simp_all add: set_protection_def mirrored_def)

lemma put_conditions_simps [simp]:
  "Spec (put_conditions cs k) = Spec k"
  "status_Conditions (Status (put_conditions cs k)) = cs"
  "put_conditions cs (put_conditions ds k) = put_conditions cs k"
  by (simp_all add: put_conditions_def)

lemma on_conditions_run [go_run]:
  "on_conditions f (Some (Some \<lparr>ko = Some a\<rparr>)) w =
     (Ret (), w\<lparr>heap := (heap w)(a := put_conditions (f (status_Conditions (Status (heap w a))))
        (heap w a))\<rparr>)"
  by (simp add: on_conditions_def go_run put_conditions_def)

lemma lateInitialize_run:
  assumes "b < brk w"
  shows "\<exists>w'. lateInitializeFromReadOneOutput (Some (Some \<lparr>ko = Some n\<rparr>)) (Some (Some \<lparr>ko = Some b\<rparr>)) w =
      (Ret (Some (Some \<lparr>ko = Some (Suc (brk w))\<rparr>)), w') \<and> Suc (brk w) < brk w' \<and>
    heap w' (Suc (brk w)) = set_protection
      (or_else (spec_DeletionProtectionEnabled (Spec (heap w b)))
               (spec_DeletionProtectionEnabled (Spec (heap w n)))) (heap w b)"
  using assms
  by (cases "spec_DeletionProtectionEnabled (Spec (heap w n))";
      cases "spec_DeletionProtectionEnabled (Spec (heap w b))")
    (simp_all add: lateInitializeFromReadOneOutput_def go_run set_protection_def)

lemma incomplete_run:
  assumes "b < brk w"
  shows "\<exists>w'. incompleteLateInitialization (Some (Some \<lparr>ko = Some b\<rparr>)) w =
      (Ret (spec_DeletionProtectionEnabled (Spec (heap w b)) = None), w') \<and> heap w' b = heap w b"
  using assms by (simp add: incompleteLateInitialization_def go_run)

text \<open>The conditions a late initialization leaves.\<close>

definition late_conditions ::
  "acklib \<Rightarrow> condition_status \<Rightarrow> string \<Rightarrow> string \<Rightarrow> conditions \<Rightarrow> conditions" where
  "late_conditions L st msg reason cs =
     (let late = ackcondition_SetLateInitialized L cs st (Some msg) (Some reason) in
      if st = ConditionTrue then late else ackcondition_SetSynced L late ConditionFalse None None)"

text \<open>The run when the read fails, and when it succeeds.\<close>

lemma LateInitialize_unread:
  assumes "ReadOne L rm (Some (Some \<lparr>ko = Some (brk w)\<rparr>))
      (w\<lparr>heap := (heap w)(brk w := heap w a), brk := Suc (brk w)\<rparr>) = (Ret (res, Some e), v)"
    and "heap v (brk w) = heap w a"
  shows "\<exists>w'. LateInitialize L rm (Some (Some \<lparr>ko = Some a\<rparr>)) w =
      (Ret (Some (Some \<lparr>ko = Some (brk w)\<rparr>), Some e), w') \<and>
    heap w' (brk w) = put_conditions (late_conditions L ConditionFalse
      ''Unable to complete Read operation required for late initialization''
      ''Late Initialization Failure'' (status_Conditions (Status (heap w a)))) (heap w a)"
  using assms
  by (simp add: LateInitialize_def lateInitializeFieldNames_def go_run late_conditions_def Let_def)

lemma LateInitialize_read:
  assumes read: "ReadOne L rm (Some (Some \<lparr>ko = Some (brk w)\<rparr>))
      (w\<lparr>heap := (heap w)(brk w := heap w a), brk := Suc (brk w)\<rparr>) =
      (Ret (Some (Some \<lparr>ko = Some n\<rparr>), None), v)"
    and brk: "brk w < brk v" and hb: "heap v (brk w) = mirrored out (heap w a)"
    and hn: "heap v n = set_conditions cs (observed_cluster rm out p (heap w a))"
    and dp: "dp = or_else (spec_DeletionProtectionEnabled (Spec (heap w a))) (gco_DeletionProtectionEnabled out)"
  shows "\<exists>w'. LateInitialize L rm (Some (Some \<lparr>ko = Some a\<rparr>)) w =
      (Ret (Some (Some \<lparr>ko = Some (Suc (brk v))\<rparr>),
         if dp = None then Some (ackrequeue_NeededAfter L None 5000000000) else None), w') \<and>
    heap w' (Suc (brk v)) = put_conditions
      (if dp = None then late_conditions L ConditionFalse
         ''Late initialization did not complete, requeuing with delay of 5 seconds''
         ''Delayed Late Initialization'' (status_Conditions (Status (heap w a)))
       else late_conditions L ConditionTrue
         ''Late initialization successful'' ''Late initialization successful''
         (status_Conditions (Status (heap w a))))
      (set_protection dp (mirrored out (heap w a)))"
proof -
  let ?k = "heap w a"
  have fields: "spec_DeletionProtectionEnabled (Spec (heap v n)) = gco_DeletionProtectionEnabled out"
    "spec_DeletionProtectionEnabled (Spec (mirrored out ?k)) = spec_DeletionProtectionEnabled (Spec ?k)"
    by (simp_all add: hn observed_cluster_def mirrored_def set_tags_def)
  obtain v2 where late: "lateInitializeFromReadOneOutput (Some (Some \<lparr>ko = Some n\<rparr>))
      (Some (Some \<lparr>ko = Some (brk w)\<rparr>)) v = (Ret (Some (Some \<lparr>ko = Some (Suc (brk v))\<rparr>)), v2)"
    and b2: "Suc (brk v) < brk v2"
    and h2: "heap v2 (Suc (brk v)) = set_protection dp (mirrored out ?k)"
    using lateInitialize_run [OF brk, of n, unfolded hb fields, folded dp] by (elim exE conjE) (rule that)
  obtain v3 where inc: "incompleteLateInitialization (Some (Some \<lparr>ko = Some (Suc (brk v))\<rparr>)) v2 =
      (Ret (dp = None), v3)" and h3: "heap v3 (Suc (brk v)) = set_protection dp (mirrored out ?k)"
    using incomplete_run [OF b2] unfolding h2 by (auto simp: set_protection_def)
  show ?thesis
    by (cases dp)
      (simp_all add: LateInitialize_def lateInitializeFieldNames_def bind_go_run ret_run
        resource_DeepCopy_run read late inc on_conditions_run h3 late_conditions_def Let_def)
qed

lemma set_protection_kept:
  "or_else (spec_DeletionProtectionEnabled (Spec k)) v = None \<Longrightarrow>
   set_protection None (mirrored out k) = mirrored out k"
  by (auto simp: set_protection_def mirrored_def set_tags_def or_else_def
      split: option.splits intro!: Cluster.equality)

lemma LateInitialize_run:
  assumes "aws_law L" "new_tags_law L" "error_law L" "sound (heap w a)" "a < brk w"
  shows "case LateInitialize L rm (Some (Some \<lparr>ko = Some a\<rparr>)) w of (res, w') \<Rightarrow>
    let old = status_Conditions (Status (heap w a)); k = heap w a in
    (\<exists>n. brk w \<le> n \<and>
    (case service_answer rm k (svc w) of
       Found out p \<Rightarrow>
         (case or_else (spec_DeletionProtectionEnabled (Spec k)) (gco_DeletionProtectionEnabled out) of
            None \<Rightarrow>
              res = Ret (Some (Some \<lparr>ko = Some n\<rparr>), Some (ackrequeue_NeededAfter L None 5000000000)) \<and>
              heap w' n = put_conditions (late_conditions L ConditionFalse
                ''Late initialization did not complete, requeuing with delay of 5 seconds''
                ''Delayed Late Initialization'' old) (mirrored out k)
          | Some b \<Rightarrow>
              res = Ret (Some (Some \<lparr>ko = Some n\<rparr>), None) \<and>
              heap w' n = put_conditions (late_conditions L ConditionTrue
                ''Late initialization successful'' ''Late initialization successful'' old)
                (set_protection (Some b) (mirrored out k)))
     | Missing \<Rightarrow>
         res = Ret (Some (Some \<lparr>ko = Some n\<rparr>), Some (reported L (ackerr_NotFound L))) \<and>
         heap w' n = put_conditions (late_conditions L ConditionFalse
           ''Unable to complete Read operation required for late initialization''
           ''Late Initialization Failure'' old) k
     | Failed e \<Rightarrow>
         res = Ret (Some (Some \<lparr>ko = Some n\<rparr>), Some (reported L e)) \<and>
         heap w' n = put_conditions (late_conditions L ConditionFalse
           ''Unable to complete Read operation required for late initialization''
           ''Late Initialization Failure'' old) k))"
proof -
  let ?b = "brk w" and ?k = "heap w a"
  let ?w1 = "w\<lparr>heap := (heap w)(?b := ?k), brk := Suc ?b\<rparr>"
  obtain f v where read: "ReadOne L rm (Some (Some \<lparr>ko = Some ?b\<rparr>)) ?w1 = (f, v)"
    by (cases "ReadOne L rm (Some (Some \<lparr>ko = Some ?b\<rparr>)) ?w1")
  have s1: "sound (heap ?w1 ?b)" "?b < brk ?w1" using assms(4) by simp_all
  note one = ReadOne_run [OF assms(1-3) s1, where rm = rm, unfolded read prod.case]
  have "writes {?b} ?w1 v"
    using keepsD [OF ReadOne_frame(2) read] by simp
  then have brk: "?b < brk v" by (simp add: writes_def)
  show ?thesis
  proof (cases "service_answer rm ?k (svc w)")
    case Missing
    with one obtain n where hb: "heap v ?b = ?k"
      and f: "f = Ret (Some (Some \<lparr>ko = Some n\<rparr>), Some (reported L (ackerr_NotFound L)))" by auto
    from LateInitialize_unread [OF read [unfolded f] hb] Missing show ?thesis
      by (auto simp: Let_def intro!: exI [of _ ?b])
  next
    case (Failed e)
    with one obtain n where hb: "heap v ?b = ?k"
      and f: "f = Ret (Some (Some \<lparr>ko = Some n\<rparr>), Some (reported L e))" by auto
    from LateInitialize_unread [OF read [unfolded f] hb] Failed show ?thesis
      by (auto simp: Let_def intro!: exI [of _ ?b])
  next
    case (Found out p)
    with one obtain n cs where f: "f = Ret (Some (Some \<lparr>ko = Some n\<rparr>), None)"
      and hb: "heap v ?b = mirrored out ?k"
      and hn: "heap v n = set_conditions cs (observed_cluster rm out p ?k)" by auto
    note run = LateInitialize_read [OF read [unfolded f] brk hb hn refl]
    show ?thesis
    proof (cases "or_else (spec_DeletionProtectionEnabled (Spec ?k)) (gco_DeletionProtectionEnabled out)")
      case None
      with run Found brk set_protection_kept [OF None, of out] show ?thesis by (auto simp: Let_def)
    next
      case (Some b)
      with run Found brk show ?thesis by (auto simp: Let_def)
    qed
  qed
qed

text \<open>
  C19.  What \<open>LateInitialize\<close> returns.  The result is a new object with the spec passed in and the
  AWS tags of the service mirrored into its tags; its deletion protection is the one passed in,
  and only where that is nil the observed one.  If neither is set, it asks for a requeue after five
  seconds and marks the resource as not late-initialized and not synced; if the read fails it
  returns the error, marks the resource the same way and leaves the spec alone; otherwise it marks
  it late-initialized.
\<close>

theorem LateInitialize_defaults:
  assumes "aws_law L" "new_tags_law L" "error_law L" "sound (heap w a)" "a < brk w"
  shows "case LateInitialize L rm (Some (Some \<lparr>ko = Some a\<rparr>)) w of (res, w') \<Rightarrow>
    let old = status_Conditions (Status (heap w a)); k = heap w a in
    (\<exists>n. brk w \<le> n \<and>
    (case service_answer rm k (svc w) of
       Found out p \<Rightarrow>
         (case or_else (spec_DeletionProtectionEnabled (Spec k)) (gco_DeletionProtectionEnabled out) of
            None \<Rightarrow>
              res = Ret (Some (Some \<lparr>ko = Some n\<rparr>), Some (ackrequeue_NeededAfter L None 5000000000)) \<and>
              heap w' n = put_conditions (late_conditions L ConditionFalse
                ''Late initialization did not complete, requeuing with delay of 5 seconds''
                ''Delayed Late Initialization'' old) (mirrored out k)
          | Some b \<Rightarrow>
              res = Ret (Some (Some \<lparr>ko = Some n\<rparr>), None) \<and>
              heap w' n = put_conditions (late_conditions L ConditionTrue
                ''Late initialization successful'' ''Late initialization successful'' old)
                (set_protection (Some b) (mirrored out k)))
     | Missing \<Rightarrow>
         res = Ret (Some (Some \<lparr>ko = Some n\<rparr>), Some (reported L (ackerr_NotFound L))) \<and>
         heap w' n = put_conditions (late_conditions L ConditionFalse
           ''Unable to complete Read operation required for late initialization''
           ''Late Initialization Failure'' old) k
     | Failed e \<Rightarrow>
         res = Ret (Some (Some \<lparr>ko = Some n\<rparr>), Some (reported L e)) \<and>
         heap w' n = put_conditions (late_conditions L ConditionFalse
           ''Unable to complete Read operation required for late initialization''
           ''Late Initialization Failure'' old) k))"
  by (rule LateInitialize_run [OF assms])

theorem LateInitialize_defaults_witness:
  "\<exists>w' n. LateInitialize ref_lib ref_rm (Some (Some \<lparr>ko = Some 0\<rparr>)) ref_world =
     (Ret (Some (Some \<lparr>ko = Some n\<rparr>), None), w') \<and>
   spec_DeletionProtectionEnabled (Spec (heap w' n)) = Some True"
proof -
  have "or_else (spec_DeletionProtectionEnabled (Spec (heap ref_world 0)))
      (gco_DeletionProtectionEnabled ref_output) = Some True"
    by (simp add: ref_world_def ref_cluster_def ref_output_def)
  with LateInitialize_defaults [OF ref_aws ref_new_tags ref_error ref_sound ref_allocated,
      where rm = ref_rm]
  show ?thesis by (auto simp: ref_answer Let_def set_protection_def split: prod.splits)
qed


subsection \<open>The conditions stay sound\<close>

lemma set_condition_sound:
  assumes "set_condition_law f t" "\<not> has_nil cs" "\<forall>t. length (of_type t cs) \<le> 1"
  shows "\<not> has_nil (f cs s m r) \<and> (\<forall>t. length (of_type t (f cs s m r)) \<le> 1)"
proof -
  have new: "length (of_type t (f cs s m r)) \<le> max 1 (length (of_type t cs))"
    "has_nil (f cs s m r) \<longrightarrow> has_nil cs"
    "t' \<noteq> t \<Longrightarrow> of_type t' (f cs s m r) = of_type t' cs" for t'
    using assms(1) by (auto simp: set_condition_law_def)
  have "length (of_type t' (f cs s m r)) \<le> 1" for t'
    using new(1,3) assms(3) by (cases "t' = t") (metis max_def order_trans, metis)
  with new(2) assms(2) show ?thesis by blast
qed

lemma sound_elements:
  "sound k \<longleftrightarrow> \<not> has_nil (status_Conditions (Status k)) \<and>
     (\<forall>t. length (of_type t (status_Conditions (Status k))) \<le> 1)"
  by (auto simp: sound_def condition_list_def of_type_def split: option.split)

lemma late_sound:
  assumes "condition_law L" "sound k"
  shows "sound (put_conditions (late_conditions L st msg reason (status_Conditions (Status k))) k')"
  using assms set_condition_sound unfolding sound_elements condition_law_def late_conditions_def Let_def
  by (auto split: if_splits)

lemma LateInitialize_sound:
  assumes "aws_law L" "new_tags_law L" "error_law L" "condition_law L" "sound (heap w a)" "a < brk w"
  shows "case LateInitialize L rm (Some (Some \<lparr>ko = Some a\<rparr>)) w of (res, w') \<Rightarrow> sound_result w' res"
proof -
  obtain res w' where run: "LateInitialize L rm (Some (Some \<lparr>ko = Some a\<rparr>)) w = (res, w')"
    by (cases "LateInitialize L rm (Some (Some \<lparr>ko = Some a\<rparr>)) w")
  note late = LateInitialize_run [OF assms(1-3,5,6), where rm = rm, unfolded run prod.case Let_def]
  show ?thesis
  proof (cases "service_answer rm (heap w a) (svc w)")
    case (Found out p)
    with late run late_sound [OF assms(4,5)] show ?thesis
      by (cases "or_else (spec_DeletionProtectionEnabled (Spec (heap w a))) (gco_DeletionProtectionEnabled out)") auto
  qed (use late run late_sound [OF assms(4,5)] in auto)
qed

text \<open>
  C10.  The conditions of a resource stay sound: when those of the objects passed in hold no nil and
  no type twice, and the runtime's two setters keep that, the same is true of the object each of
  \<open>ReadOne\<close>, \<open>Create\<close>, \<open>Update\<close>, \<open>Delete\<close> and \<open>LateInitialize\<close> returns, whether it succeeds or fails and
  whatever the service answers; only a successful delete returns none.
\<close>

theorem operations_keep_conditions_sound:
  assumes "aws_law L" "new_tags_law L" "error_law L" "condition_law L"
    and "sound (heap w a)" "sound (heap w d)" "a < brk w" "d < brk w"
  shows "(case ReadOne L rm (Some (Some \<lparr>ko = Some a\<rparr>)) w of (res, w') \<Rightarrow> sound_result w' res) \<and>
    (case Create L rm (Some (Some \<lparr>ko = Some a\<rparr>)) w of (res, w') \<Rightarrow> sound_result w' res) \<and>
    (case Update L rm (Some (Some \<lparr>ko = Some d\<rparr>)) (Some (Some \<lparr>ko = Some a\<rparr>)) delta w of
       (res, w') \<Rightarrow> sound_result w' res) \<and>
    (case Delete L rm (Some (Some \<lparr>ko = Some a\<rparr>)) w of (res, w') \<Rightarrow> sound_result w' res) \<and>
    (case LateInitialize L rm (Some (Some \<lparr>ko = Some a\<rparr>)) w of (res, w') \<Rightarrow> sound_result w' res)"
  using ReadOne_sound [OF assms(1-3,5,7), of rm] Create_sound [OF assms(1,3,5,7), of rm]
    Update_sound [OF assms(1,3,5-8), of rm delta] Delete_sound [OF assms(3,5), of rm]
    LateInitialize_sound [OF assms(1-5,7), of rm] by blast

theorem operations_keep_conditions_sound_witness:
  "\<exists>n w'. LateInitialize ref_lib ref_rm (Some (Some \<lparr>ko = Some 0\<rparr>)) ref_world =
      (Ret (Some (Some \<lparr>ko = Some n\<rparr>), None), w') \<and> sound (heap w' n)"
proof -
  have "or_else (spec_DeletionProtectionEnabled (Spec (heap ref_world 0)))
      (gco_DeletionProtectionEnabled ref_output) = Some True"
    by (simp add: ref_world_def ref_cluster_def ref_output_def)
  then obtain n w' where run: "LateInitialize ref_lib ref_rm (Some (Some \<lparr>ko = Some 0\<rparr>)) ref_world =
      (Ret (Some (Some \<lparr>ko = Some n\<rparr>), None), w')"
    using LateInitialize_run [OF ref_aws ref_new_tags ref_error ref_sound ref_allocated, where rm = ref_rm]
    by (auto simp: ref_answer Let_def split: prod.splits)
  with operations_keep_conditions_sound [OF ref_aws ref_new_tags ref_error ref_condition ref_sound ref_sound
      ref_allocated ref_allocated, where rm = ref_rm and delta = "[]"]
  show ?thesis by simp
qed

end
