(* ===== verification/Reconcile.thy ===== *)
theory Reconcile
  imports Manager
begin

text \<open>
  A round of the reconciler: \<open>ReadOne\<close>, \<open>newResourceDelta\<close> and \<open>Update\<close> one after the other, the way
  the ACK runtime calls them.  What a service in step with the spec is, that nothing is left to
  update then, and that one round of an accepting service brings it there.
\<close>

section \<open>What a read leaves\<close>

lemma observed_Spec [simp]:
  "Spec (set_conditions cs k) = Spec k" "TypeMeta (set_conditions cs k) = TypeMeta k"
  "status_ACKResourceMetadata (Status (set_conditions cs k)) = status_ACKResourceMetadata (Status k)"
  by (simp_all add: set_conditions_def)

lemma mirrored_fields [simp]:
  "Status (mirrored out k) = Status k"
  "spec_KMSEncryptionKey (Spec (mirrored out k)) = spec_KMSEncryptionKey (Spec k)"
  "spec_KMSEncryptionKeyRef (Spec (mirrored out k)) = spec_KMSEncryptionKeyRef (Spec k)"
  "spec_DeletionProtectionEnabled (Spec (mirrored out k)) = spec_DeletionProtectionEnabled (Spec k)"
  "spec_MultiRegionProperties (Spec (mirrored out k)) = spec_MultiRegionProperties (Spec k)"
  "spec_Policy (Spec (mirrored out k)) = spec_Policy (Spec k)"
  by (simp_all add: mirrored_def set_tags_def)

lemma mirrored_tags [simp]:
  "tag_view (spec_Tags (Spec (mirrored out k))) = syncAWSTags (tag_view (spec_Tags (Spec k))) (out_tags out)"
  by (simp add: mirrored_def set_tags_def)

lemma ref_read:
  "\<exists>w' n. ReadOne ref_lib ref_rm (Some (Some \<lparr>ko = Some 0\<rparr>)) ref_world =
     (Ret (Some (Some \<lparr>ko = Some n\<rparr>), None), w')"
  using ReadOne_run [OF ref_aws ref_new_tags ref_error ref_sound ref_allocated, of ref_rm]
  by (auto simp: ref_answer split: prod.splits)

lemma ReadOne_after_find:
  assumes "sdkFind L rm \<lparr>ko = Some a\<rparr> w = (f, v)"
  shows "silent v (snd (ReadOne L rm (Some (Some \<lparr>ko = Some a\<rparr>)) w))"
proof -
  have "keeps silent (bind_go (mirrorAWSTags L (Some \<lparr>ko = Some a\<rparr>) (fst x))
      (\<lambda>_. outcome_of L rm \<lparr>ko = Some a\<rparr> x))" for x
    by (intro frame)
  then have "silent v (snd (bind_go (mirrorAWSTags L (Some \<lparr>ko = Some a\<rparr>) (fst x))
      (\<lambda>_. outcome_of L rm \<lparr>ko = Some a\<rparr> x) v))" for x
    by (simp add: keeps_def)
  with assms show ?thesis
    by (cases f) (simp_all add: ReadOne_def go_run case_prod_beta silent.R_refl)
qed

section \<open>In step\<close>

text \<open>
  The service is in step with a spec: what it reports differs neither in deletion protection nor, for
  the comparisons of the delta, in the multi-Region properties and the policy; it has the tags of the
  spec, and beyond them only \<open>aws:\<close> tags.
\<close>

definition region_view :: "SdkMultiRegionProperties option \<Rightarrow> MultiRegionProperties option" where
  "region_view = map_option (\<lambda>m. \<lparr>mrp_Clusters = map_option (map Some) (smrp_Clusters m),
     mrp_WitnessRegion = smrp_WitnessRegion m\<rparr>)"

definition in_step :: "acklib \<Rightarrow> GetClusterOutput \<Rightarrow> string option \<Rightarrow> ClusterSpec \<Rightarrow> bool" where
  "in_step L out policy s \<longleftrightarrow>
     gco_DeletionProtectionEnabled out = spec_DeletionProtectionEnabled s \<and>
     \<not> multi_region_differ L (spec_MultiRegionProperties s)
       (region_view (gco_MultiRegionProperties out)) \<and>
     \<not> policies_differ L (spec_Policy s) policy \<and>
     fmfilter (\<lambda>k. \<not> prefix ''aws:'' k) (out_tags out) = fmfilter (\<lambda>k. \<not> prefix ''aws:'' k) (tag_view (spec_Tags s)) \<and>
     fmdom (fmfilter (prefix ''aws:'') (tag_view (spec_Tags s))) |\<subseteq>| fmdom (out_tags out)"

lemma in_stepI:
  assumes "gco_DeletionProtectionEnabled out = spec_DeletionProtectionEnabled s"
    "\<not> multi_region_differ L (spec_MultiRegionProperties s)
       (region_view (gco_MultiRegionProperties out))"
    "\<not> policies_differ L (spec_Policy s) policy" "out_tags out = tag_view (spec_Tags s)"
  shows "in_step L out policy s"
proof -
  have "fmdom (fmfilter (prefix ''aws:'') (out_tags out)) |\<subseteq>| fmdom (out_tags out)" by auto
  then show ?thesis unfolding in_step_def assms(4) [symmetric] using assms(1-3) by blast
qed

lemma in_step_tags:
  assumes "fmfilter (\<lambda>k. \<not> prefix ''aws:'' k) t = fmfilter (\<lambda>k. \<not> prefix ''aws:'' k) s"
    and "fmdom (fmfilter (prefix ''aws:'') s) |\<subseteq>| fmdom t"
  shows "syncAWSTags s t = t"
proof (rule fmap_ext)
  fix k
  have user: "fmlookup (fmfilter (\<lambda>k. \<not> prefix ''aws:'' k) t) k =
      fmlookup (fmfilter (\<lambda>k. \<not> prefix ''aws:'' k) s) k" using assms(1) by simp
  show "fmlookup (syncAWSTags s t) k = fmlookup t k"
  proof (cases "prefix ''aws:'' k \<and> k |\<in>| fmdom t")
    case True
    then show ?thesis by (simp add: syncAWSTags_lookup strings_HasPrefix_def aws_prefix_def)
  next
    case False
    then have s: "fmlookup (syncAWSTags s t) k = fmlookup s k"
      by (auto simp: syncAWSTags_lookup strings_HasPrefix_def aws_prefix_def)
    show ?thesis
    proof (cases "prefix ''aws:'' k")
      case True
      with False have t: "k |\<notin>| fmdom t" by simp
      with True assms(2) have "k |\<notin>| fmdom s" by (metis fmdom_filter ffmember_filter fsubsetD)
      with s t show ?thesis by (simp add: fmdom_notD)
    next
      case False
      with user s show ?thesis by simp
    qed
  qed
qed

lemma observed_region [simp]:
  "spec_MultiRegionProperties (Spec (observed_cluster rm out p k)) = region_view (gco_MultiRegionProperties out)"
  "spec_DeletionProtectionEnabled (Spec (observed_cluster rm out p k)) = gco_DeletionProtectionEnabled out"
  "spec_Policy (Spec (observed_cluster rm out p k)) = p"
  "spec_KMSEncryptionKey (Spec (observed_cluster rm out p k)) = spec_KMSEncryptionKey (Spec k)"
  "spec_KMSEncryptionKeyRef (Spec (observed_cluster rm out p k)) = spec_KMSEncryptionKeyRef (Spec k)"
  by (simp_all add: observed_cluster_def region_view_def)

text \<open>The delta after a read: the desired spec with the mirrored tags against what was reported.\<close>

lemma delta_after_read:
  assumes "delta_law L" "compare_law L" "new_tags_law L"
    and "heap w' a = mirrored out (heap w a)"
    and "heap w' n = set_conditions cs (observed_cluster rm out p (heap w a))"
  shows "newResourceDelta L (Some \<lparr>ko = Some a\<rparr>) (Some \<lparr>ko = Some n\<rparr>) w' =
      (Ret (spec_delta L (Spec (mirrored out (heap w a))) (Spec (observed_cluster rm out p (heap w a)))), w')"
    and "cluster_fields_differ L (Spec (mirrored out k)) (Spec (observed_cluster rm out p k)) \<longleftrightarrow>
      spec_DeletionProtectionEnabled (Spec k) \<noteq> gco_DeletionProtectionEnabled out \<or>
      multi_region_differ L (spec_MultiRegionProperties (Spec k)) (region_view (gco_MultiRegionProperties out))"
  by (simp_all add: newResourceDelta_run assms(4,5) cluster_fields_differ_def)

lemma in_step_no_delta:
  assumes "aws_law L" "new_tags_law L" "error_law L" "sound (heap w a)" "a < brk w"
    and "ReadOne L rm (Some (Some \<lparr>ko = Some a\<rparr>)) w = (Ret (Some (Some \<lparr>ko = Some n\<rparr>), None), w')"
    and "delta_law L" "compare_law L"
    and "service_answer rm (heap w a) (svc w) = Found out p" "in_step L out p (Spec (heap w a))"
  shows "\<exists>d. newResourceDelta L (Some \<lparr>ko = Some a\<rparr>) (Some \<lparr>ko = Some n\<rparr>) w' = (Ret d, w') \<and>
    \<not> delta_DifferentExcept L d []"
proof -
  obtain cs where h: "heap w' a = mirrored out (heap w a)"
    "heap w' n = set_conditions cs (observed_cluster rm out p (heap w a))"
    using ReadOne_found [OF assms(1-6)] assms(9) by (metis answer.inject(2))
  have "syncAWSTags (tag_view (spec_Tags (Spec (heap w a)))) (out_tags out) = out_tags out"
    by (rule in_step_tags) (use assms(10) in \<open>simp_all only: in_step_def\<close>)
  with assms(10) show ?thesis
    by (simp add: delta_after_read [OF assms(7,8,2) h] spec_delta_any [OF assms(7,8,2)] in_step_def)
qed

text \<open>
  C5. A reconciled cluster stays reconciled: when the service is in step with the desired spec, the
  delta after a read is empty, so the reconciler has nothing to update; the \<open>aws:\<close> tags of the
  service and the fields the service does not report are no difference.
\<close>

theorem reconciled_is_stable:
  assumes "aws_law L" "new_tags_law L" "error_law L" "sound (heap w a)" "a < brk w"
    and "ReadOne L rm (Some (Some \<lparr>ko = Some a\<rparr>)) w = (Ret (Some (Some \<lparr>ko = Some n\<rparr>), None), w')"
    and "delta_law L" "compare_law L"
    and "service_answer rm (heap w a) (svc w) = Found out p" "in_step L out p (Spec (heap w a))"
  shows "\<exists>d. newResourceDelta L (Some \<lparr>ko = Some a\<rparr>) (Some \<lparr>ko = Some n\<rparr>) w' = (Ret d, w') \<and>
    \<not> delta_DifferentExcept L d []"
  by (rule in_step_no_delta [OF assms])

text \<open>A cluster in step with the service, which has an \<open>aws:\<close> tag of its own.\<close>

definition settled_cluster :: Cluster where
  "settled_cluster = ref_cluster\<lparr>Spec := (Spec ref_cluster)
     \<lparr>spec_DeletionProtectionEnabled := Some True,
      spec_Tags := Some (fmap_of_list [(''team'', Some ''a'')])\<rparr>\<rparr>"

definition settled_world :: "ref_svc world" where
  "settled_world = ref_world\<lparr>heap := (\<lambda>_. settled_cluster)\<rparr>"

lemma settled:
  "sound (heap settled_world 0)" "0 < brk settled_world"
  "service_answer ref_rm (heap settled_world 0) (svc settled_world) = Found ref_output None"
  by (simp_all add: settled_world_def settled_cluster_def ref_world_def ref_cluster_def sound_def
      condition_list_def service_answer_def ref_rm_def ref_api_def policy_read_def ref_output_def
      ref_not_found_def)

lemma settled_tags:
  "out_tags ref_output = fmap_of_list [(''team'', ''a''), (''aws:stack'', ''s'')]"
  "tag_view (spec_Tags (Spec (heap settled_world 0))) = fmap_of_list [(''team'', ''a'')]"
  by (simp_all add: out_tags_def ref_output_def settled_world_def settled_cluster_def fmmap_fmupd)

lemma settled_in_step: "in_step ref_lib ref_output None (Spec (heap settled_world 0))"
proof -
  have "fmfilter (\<lambda>k. \<not> prefix ''aws:'' k) (out_tags ref_output) =
      fmfilter (\<lambda>k. \<not> prefix ''aws:'' k) (tag_view (spec_Tags (Spec (heap settled_world 0))))"
    unfolding settled_tags by (rule fmap_ext) auto
  moreover have "fmdom (fmfilter (prefix ''aws:'') (tag_view (spec_Tags (Spec (heap settled_world 0)))))
      |\<subseteq>| fmdom (out_tags ref_output)"
    unfolding settled_tags by auto
  ultimately show ?thesis
    by (simp add: in_step_def policies_differ_def)
      (simp add: settled_world_def settled_cluster_def ref_cluster_def ref_output_def
        multi_region_differ_def region_view_def)
qed

theorem reconciled_is_stable_witness:
  "\<exists>w' n d. ReadOne ref_lib ref_rm (Some (Some \<lparr>ko = Some 0\<rparr>)) settled_world =
      (Ret (Some (Some \<lparr>ko = Some n\<rparr>), None), w') \<and>
    newResourceDelta ref_lib (Some \<lparr>ko = Some 0\<rparr>) (Some \<lparr>ko = Some n\<rparr>) w' = (Ret d, w') \<and>
    \<not> delta_DifferentExcept ref_lib d []"
proof -
  obtain w' n where "ReadOne ref_lib ref_rm (Some (Some \<lparr>ko = Some 0\<rparr>)) settled_world =
      (Ret (Some (Some \<lparr>ko = Some n\<rparr>), None), w')"
    using ReadOne_run [OF ref_aws ref_new_tags ref_error settled(1,2), of ref_rm]
    by (auto simp: settled(3) split: prod.splits)
  with reconciled_is_stable [OF ref_aws ref_new_tags ref_error settled(1,2) this ref_delta ref_compare
      settled(3) settled_in_step]
  show ?thesis by blast
qed

section \<open>One round\<close>

text \<open>
  A service that accepts the calls about the cluster \<open>i\<close> with the ARN \<open>arn\<close>, as its API documents
  them.  \<open>cluster_at\<close> and \<open>policy_at\<close> read the cluster and its policy off the state of the service.
  Reading works in every state, changes nothing and tells what there is.  Changes are accepted in the
  settled states and, as the comment on \<open>transitionalStatuses\<close> says, in PENDING_SETUP; what the service
  answers to them in CREATING, in UPDATING and elsewhere is left open.  Tagging adds or overwrites,
  untagging removes; the policy calls attach and detach; \<open>UpdateCluster\<close>, which may have multi-Region
  properties only in PENDING_SETUP, changes the settings the request has and may change the status; and
  none of the calls touches what another is about.
\<close>

definition changeable :: "GetClusterOutput \<Rightarrow> bool" where
  "changeable c \<longleftrightarrow> gco_Status c \<in> {''ACTIVE'', ''IDLE'', ''INACTIVE'', ''PENDING_SETUP''}"

lemma changeable_tags [simp]: "changeable (c\<lparr>gco_Tags := t\<rparr>) = changeable c"
  by (simp add: changeable_def)

lemma changeable_status:
  assumes "changeable c"
  shows "gco_Status c \<notin> set transitionalStatuses" "gco_Status c \<noteq> ''''"
  using assms by (auto simp: changeable_def transitionalStatuses_def)

definition reads_law :: "'s sdkapi \<Rightarrow> string \<Rightarrow> GetClusterOutput \<Rightarrow> string option \<Rightarrow> 's \<Rightarrow> bool" where
  "reads_law api i c p s \<longleftrightarrow>
     api_GetCluster api \<lparr>gci_Identifier = Some i\<rparr> s = (Inr c, s) \<and>
     snd (api_GetClusterPolicy api \<lparr>gcpi_Identifier = Some i\<rparr> s) = s \<and>
     (case fst (api_GetClusterPolicy api \<lparr>gcpi_Identifier = Some i\<rparr> s) of
        Inl e \<Rightarrow> errors_As is_ResourceNotFoundException e \<noteq> None \<and> p = None
      | Inr out \<Rightarrow> gcpo_Policy out = p)"

definition tags_law ::
  "'s sdkapi \<Rightarrow> string \<Rightarrow> ('s \<Rightarrow> GetClusterOutput option) \<Rightarrow> ('s \<Rightarrow> string option) \<Rightarrow>
   GetClusterOutput \<Rightarrow> 's \<Rightarrow> bool" where
  "tags_law api arn cluster_at policy_at c s \<longleftrightarrow>
     (\<forall>t. case api_TagResource api \<lparr>tri_ResourceArn = Some arn, tri_Tags = t\<rparr> s of (r, s') \<Rightarrow>
        r = Inr () \<and> cluster_at s' = Some (c\<lparr>gco_Tags := Some (out_tags c ++\<^sub>f t)\<rparr>) \<and>
        policy_at s' = policy_at s) \<and>
     (\<forall>ks. case api_UntagResource api \<lparr>uri_ResourceArn = Some arn, uri_TagKeys = ks\<rparr> s of (r, s') \<Rightarrow>
        r = Inr () \<and>
        cluster_at s' = Some (c\<lparr>gco_Tags := Some (fmfilter (\<lambda>k. k \<notin> set ks) (out_tags c))\<rparr>) \<and>
        policy_at s' = policy_at s)"

definition policy_law ::
  "'s sdkapi \<Rightarrow> string \<Rightarrow> ('s \<Rightarrow> GetClusterOutput option) \<Rightarrow> ('s \<Rightarrow> string option) \<Rightarrow> 's \<Rightarrow> bool" where
  "policy_law api i cluster_at policy_at s \<longleftrightarrow>
     (\<forall>p. case api_PutClusterPolicy api \<lparr>pcpi_Identifier = Some i, pcpi_Policy = Some p\<rparr> s of (r, s') \<Rightarrow>
        r = Inr () \<and> cluster_at s' = cluster_at s \<and> policy_at s' = Some p) \<and>
     (case api_DeleteClusterPolicy api \<lparr>dcpi_Identifier = Some i\<rparr> s of (r, s') \<Rightarrow>
        (case r of Inl e \<Rightarrow> errors_As is_ResourceNotFoundException e \<noteq> None \<and> policy_at s = None
          | Inr _ \<Rightarrow> True) \<and>
        cluster_at s' = cluster_at s \<and> policy_at s' = None)"

definition update_law ::
  "'s sdkapi \<Rightarrow> string \<Rightarrow> ('s \<Rightarrow> GetClusterOutput option) \<Rightarrow> ('s \<Rightarrow> string option) \<Rightarrow>
   GetClusterOutput \<Rightarrow> 's \<Rightarrow> bool" where
  "update_law api i cluster_at policy_at c s \<longleftrightarrow>
     (\<forall>u. uci_Identifier u = Some i \<and>
          (uci_MultiRegionProperties u = None \<or> gco_Status c = ''PENDING_SETUP'') \<longrightarrow>
        (case api_UpdateCluster api u s of (r, s') \<Rightarrow> \<exists>out st e.
          r = Inr out \<and> policy_at s' = policy_at s \<and>
          cluster_at s' = Some (c\<lparr>
            gco_DeletionProtectionEnabled := or_else (uci_DeletionProtectionEnabled u) (gco_DeletionProtectionEnabled c),
            gco_MultiRegionProperties := or_else (uci_MultiRegionProperties u) (gco_MultiRegionProperties c),
            gco_EncryptionDetails := e, gco_Status := st\<rparr>)))"

definition dsql_law ::
  "'s sdkapi \<Rightarrow> string \<Rightarrow> string \<Rightarrow> ('s \<Rightarrow> GetClusterOutput option) \<Rightarrow> ('s \<Rightarrow> string option) \<Rightarrow> bool" where
  "dsql_law api i arn cluster_at policy_at \<longleftrightarrow>
     (\<forall>s c. cluster_at s = Some c \<and> gco_Identifier c = Some i \<and> gco_Arn c = Some arn \<longrightarrow>
        reads_law api i c (policy_at s) s \<and>
        (changeable c \<longrightarrow> tags_law api arn cluster_at policy_at c s \<and>
          policy_law api i cluster_at policy_at s \<and> update_law api i cluster_at policy_at c s))"

lemma dsql_reads:
  assumes "dsql_law api i arn cluster_at policy_at"
    and "cluster_at s = Some c" "gco_Identifier c = Some i" "gco_Arn c = Some arn"
  shows "reads_law api i c (policy_at s) s"
  using assms by (simp add: dsql_law_def)

lemma dsqlD:
  assumes "dsql_law api i arn cluster_at policy_at"
    and "cluster_at s = Some c" "gco_Identifier c = Some i" "gco_Arn c = Some arn" "changeable c"
  shows "tags_law api arn cluster_at policy_at c s"
    "policy_law api i cluster_at policy_at s" "update_law api i cluster_at policy_at c s"
  using assms by (simp_all add: dsql_law_def)

text \<open>What the service holds after an \<open>UpdateCluster\<close> it accepts.\<close>

lemma UpdateCluster_accepted:
  assumes "update_law api i cluster_at policy_at c s" "uci_Identifier u = Some i"
    and "uci_MultiRegionProperties u = None \<or> gco_Status c = ''PENDING_SETUP''"
  obtains out s' st e where "api_UpdateCluster api u s = (Inr out, s')" "policy_at s' = policy_at s"
    "cluster_at s' = Some (c\<lparr>
        gco_DeletionProtectionEnabled := or_else (uci_DeletionProtectionEnabled u) (gco_DeletionProtectionEnabled c),
        gco_MultiRegionProperties := or_else (uci_MultiRegionProperties u) (gco_MultiRegionProperties c),
        gco_EncryptionDetails := e, gco_Status := st\<rparr>)"
  using assms unfolding update_law_def by (cases "api_UpdateCluster api u s") fastforce

text \<open>The objects of a world, as opposed to the service and what was sent to it.\<close>

definition same_objects :: "'s world \<Rightarrow> 's world \<Rightarrow> bool" where
  "same_objects w w' \<longleftrightarrow> heap w' = heap w \<and> brk w' = brk w"

interpretation same_objects: step_relation same_objects
  by unfold_locales (auto simp: same_objects_def)

text \<open>The tag calls.\<close>

lemma sync_add_applies:
  assumes "tags_law api arn cluster_at policy_at c (svc w)" "cluster_at (svc w) = Some c" "map_order_law L"
  shows "\<exists>v t. sync_add L api (Some arn) add w = (Ret None, v) \<and> same_objects w v \<and>
    policy_at (svc v) = policy_at (svc w) \<and> cluster_at (svc v) = Some (c\<lparr>gco_Tags := t\<rparr>) \<and>
    out_tags (c\<lparr>gco_Tags := t\<rparr>) = out_tags c ++\<^sub>f add"
proof (cases "add = fmempty")
  case True
  with assms(2) show ?thesis
    by (intro exI [of _ w] exI [of _ "gco_Tags c"])
      (simp add: sync_add_run [OF assms(3)] same_objects_def)
next
  case False
  let ?i = "\<lparr>tri_ResourceArn = Some arn, tri_Tags = add\<rparr>"
  let ?v = "w\<lparr>svc := snd (api_TagResource api ?i (svc w)), requests := requests w @ [TagResourceReq ?i],
    metrics := metrics w @ [(''UPDATE'', ''TagResource'', None)]\<rparr>"
  have "fst (api_TagResource api ?i (svc w)) = Inr ()"
    "cluster_at (svc ?v) = Some (c\<lparr>gco_Tags := Some (out_tags c ++\<^sub>f add)\<rparr>)"
    "policy_at (svc ?v) = policy_at (svc w)"
    using assms(1) by (simp_all add: tags_law_def case_prod_beta)
  with False show ?thesis
    by (intro exI [of _ ?v] exI [of _ "Some (out_tags c ++\<^sub>f add)"])
      (simp add: sync_add_run [OF assms(3)] go_run same_objects_def out_tags_def)
qed

lemma sync_remove_applies:
  assumes "tags_law api arn cluster_at policy_at c (svc w)" "cluster_at (svc w) = Some c" "map_order_law L"
  shows "\<exists>v t. sync_remove L api (Some arn) rem w = (Ret None, v) \<and> same_objects w v \<and>
    policy_at (svc v) = policy_at (svc w) \<and> cluster_at (svc v) = Some (c\<lparr>gco_Tags := t\<rparr>) \<and>
    out_tags (c\<lparr>gco_Tags := t\<rparr>) = fmfilter (\<lambda>k. k |\<notin>| fmdom rem) (out_tags c)"
proof (cases "rem = fmempty")
  case True
  have "fmfilter (\<lambda>k. k |\<notin>| fmdom fmempty) (out_tags c) = out_tags c" by (rule fmap_ext) simp
  with True assms(2) show ?thesis
    by (intro exI [of _ w] exI [of _ "gco_Tags c"]) (simp add: sync_remove_run same_objects_def)
next
  case False
  let ?ks = "map fst (go_map_order L rem)"
  let ?i = "\<lparr>uri_ResourceArn = Some arn, uri_TagKeys = ?ks\<rparr>"
  let ?t = "fmfilter (\<lambda>k. k \<notin> set ?ks) (out_tags c)"
  let ?v = "w\<lparr>svc := snd (api_UntagResource api ?i (svc w)), requests := requests w @ [UntagResourceReq ?i],
    metrics := metrics w @ [(''UPDATE'', ''UntagResource'', None)]\<rparr>"
  have "fst (api_UntagResource api ?i (svc w)) = Inr ()"
    "cluster_at (svc ?v) = Some (c\<lparr>gco_Tags := Some ?t\<rparr>)" "policy_at (svc ?v) = policy_at (svc w)"
    using assms(1) by (simp_all add: tags_law_def case_prod_beta)
  moreover have "?t = fmfilter (\<lambda>k. k |\<notin>| fmdom rem) (out_tags c)"
    by (simp only: order_keys [OF assms(3)])
  ultimately show ?thesis
    using False
    by (intro exI [of _ ?v] exI [of _ "Some ?t"])
      (simp add: sync_remove_run go_run same_objects_def out_tags_def)
qed

lemma sync_Tags_applies:
  assumes law: "dsql_law api i arn cluster_at policy_at"
    and c: "cluster_at (svc w) = Some c" "gco_Identifier c = Some i" "gco_Arn c = Some arn" "changeable c"
    and laws: "new_tags_law L" "tags_difference_law L" "map_order_law L"
    and obs: "out_tags c = tag_view latest"
  shows "\<exists>v t. sync_Tags L desired latest (Some arn) convertToOrderedACKTags api w = (Ret None, v) \<and>
    same_objects w v \<and> policy_at (svc v) = policy_at (svc w) \<and>
    cluster_at (svc v) = Some (c\<lparr>gco_Tags := t\<rparr>) \<and> out_tags (c\<lparr>gco_Tags := t\<rparr>) = tag_view desired"
proof -
  let ?add = "tags_to_add (tag_view latest) (tag_view desired)"
  let ?rem = "tags_to_remove (tag_view latest) (tag_view desired)"
  obtain v t where add: "sync_add L api (Some arn) ?add w = (Ret None, v)" "same_objects w v"
    "policy_at (svc v) = policy_at (svc w)" "cluster_at (svc v) = Some (c\<lparr>gco_Tags := t\<rparr>)"
    "out_tags (c\<lparr>gco_Tags := t\<rparr>) = out_tags c ++\<^sub>f ?add"
    using sync_add_applies [OF dsqlD(1) [OF law c] c(1) laws(3)] by blast
  have "gco_Identifier (c\<lparr>gco_Tags := t\<rparr>) = Some i" "gco_Arn (c\<lparr>gco_Tags := t\<rparr>) = Some arn"
    "changeable (c\<lparr>gco_Tags := t\<rparr>)"
    using c by simp_all
  note tags = dsqlD(1) [OF law add(4) this]
  obtain v' t' where rem: "sync_remove L api (Some arn) ?rem v = (Ret None, v')" "same_objects v v'"
    "policy_at (svc v') = policy_at (svc v)" "cluster_at (svc v') = Some (c\<lparr>gco_Tags := t\<rparr>\<lparr>gco_Tags := t'\<rparr>)"
    "out_tags (c\<lparr>gco_Tags := t\<rparr>\<lparr>gco_Tags := t'\<rparr>) =
      fmfilter (\<lambda>k. k |\<notin>| fmdom ?rem) (out_tags (c\<lparr>gco_Tags := t\<rparr>))"
    using sync_remove_applies [OF tags add(4) laws(3)] by blast
  have "out_tags (c\<lparr>gco_Tags := t'\<rparr>) = tag_view desired"
    using rem(5) unfolding add(5) obs apply_difference by simp
  moreover have "sync_Tags L desired latest (Some arn) convertToOrderedACKTags api w = (Ret None, v')"
    unfolding cluster_tags.sync_Tags_eq [OF laws(1,2)] by (simp add: bind_go_run add(1) rem(1))
  ultimately show ?thesis
    using add(2,3) rem(2-4) same_objects.R_trans by (intro exI [of _ v'] exI [of _ t']) auto
qed


text \<open>The policy calls.\<close>

lemma syncPolicy_applies:
  assumes "policy_law (rm_sdkapi rm) i cluster_at policy_at (svc w)"
    and "status_Identifier (Status (heap w a)) = Some i"
  shows "\<exists>v. syncPolicy rm \<lparr>ko = Some d\<rparr> \<lparr>ko = Some a\<rparr> w = (Ret None, v) \<and> same_objects w v \<and>
    cluster_at (svc v) = cluster_at (svc w) \<and> policy_at (svc v) = wanted_policy (Spec (heap w d)) \<and>
    requests v = requests w @ [case wanted_policy (Spec (heap w d)) of
      Some p \<Rightarrow> PutClusterPolicyReq \<lparr>pcpi_Identifier = Some i, pcpi_Policy = Some p\<rparr>
    | None \<Rightarrow> DeleteClusterPolicyReq \<lparr>dcpi_Identifier = Some i\<rparr>]"
proof (cases "wanted_policy (Spec (heap w d))")
  case None
  have "case fst (api_DeleteClusterPolicy (rm_sdkapi rm) \<lparr>dcpi_Identifier = Some i\<rparr> (svc w)) of
      Inl e \<Rightarrow> errors_As is_ResourceNotFoundException e \<noteq> None \<and> policy_at (svc w) = None | Inr _ \<Rightarrow> True"
    "cluster_at (snd (api_DeleteClusterPolicy (rm_sdkapi rm) \<lparr>dcpi_Identifier = Some i\<rparr> (svc w))) =
      cluster_at (svc w)"
    "policy_at (snd (api_DeleteClusterPolicy (rm_sdkapi rm) \<lparr>dcpi_Identifier = Some i\<rparr> (svc w))) = None"
    using assms(1) by (simp_all add: policy_law_def case_prod_beta)
  with None assms(2) show ?thesis
    by (auto simp: syncPolicy_run Let_def same_objects_def split: sum.splits)
next
  case (Some p)
  let ?i = "\<lparr>pcpi_Identifier = Some i, pcpi_Policy = Some p\<rparr>"
  have "fst (api_PutClusterPolicy (rm_sdkapi rm) ?i (svc w)) = Inr ()"
    "cluster_at (snd (api_PutClusterPolicy (rm_sdkapi rm) ?i (svc w))) = cluster_at (svc w)"
    "policy_at (snd (api_PutClusterPolicy (rm_sdkapi rm) ?i (svc w))) = Some p"
    using assms(1) by (simp_all add: policy_law_def case_prod_beta)
  with Some assms(2) show ?thesis
    by (auto simp: syncPolicy_run Let_def same_objects_def)
qed

text \<open>
  What a round needs: the cluster is in a state in which it may be changed, the spec says what it wants of
  deletion protection (\<open>LateInitialize\<close> sees to that) and its policy is a document the delta can
  compare; and the multi-Region properties agree already or can still be set.
\<close>

definition reconcilable :: "acklib \<Rightarrow> GetClusterOutput \<Rightarrow> ClusterSpec \<Rightarrow> bool" where
  "reconcilable L c s \<longleftrightarrow>
     changeable c \<and>
     spec_DeletionProtectionEnabled s \<noteq> None \<and>
     spec_Policy s \<noteq> Some '''' \<and> \<not> policies_differ L (spec_Policy s) (spec_Policy s) \<and>
     (if gco_Status c = ''PENDING_SETUP'' \<and> spec_MultiRegionProperties s \<noteq> None
      then no_nil_pointers (s\<lparr>spec_Tags := None\<rparr>)
      else \<not> multi_region_differ L (spec_MultiRegionProperties s)
        (region_view (gco_MultiRegionProperties c)))"

text \<open>
  The two resources of the update: \<open>d\<close> the desired one, with the identifier of the cluster, and \<open>a\<close>
  the one observed, which shows the cluster \<open>c\<close>.
\<close>

definition observes ::
  "string \<Rightarrow> string \<Rightarrow> GetClusterOutput \<Rightarrow> string option \<Rightarrow> Cluster \<Rightarrow> Cluster \<Rightarrow> bool" where
  "observes i arn c p k l \<longleftrightarrow>
     status_Identifier (Status k) = Some i \<and> status_Identifier (Status l) = Some i \<and>
     (\<exists>md. status_ACKResourceMetadata (Status l) = Some md \<and> meta_ARN md = Some arn) \<and>
     status_Status (Status l) = (if gco_Status c = '''' then None else Some (gco_Status c)) \<and>
     tag_view (spec_Tags (Spec l)) = out_tags c \<and> spec_Policy (Spec l) = p \<and>
     spec_DeletionProtectionEnabled (Spec l) = gco_DeletionProtectionEnabled c \<and>
     spec_MultiRegionProperties (Spec l) = region_view (gco_MultiRegionProperties c) \<and>
     spec_KMSEncryptionKey (Spec k) = spec_KMSEncryptionKey (Spec l) \<and>
     spec_KMSEncryptionKeyRef (Spec k) = spec_KMSEncryptionKeyRef (Spec l)"

lemma custom_tags_applies:
  assumes law: "dsql_law (rm_sdkapi rm) i arn cluster_at policy_at"
    and c: "cluster_at (svc w) = Some c" "gco_Identifier c = Some i" "gco_Arn c = Some arn" "changeable c"
    and laws: "new_tags_law L" "tags_difference_law L" "map_order_law L" "delta_law L" "compare_law L"
    and obs: "observes i arn c p (heap w d) (heap w a)"
  shows "\<exists>v t. custom_tags L rm \<lparr>ko = Some d\<rparr> \<lparr>ko = Some a\<rparr>
      (spec_delta L (Spec (heap w d)) (Spec (heap w a))) w = (Ret None, v) \<and>
    same_objects w v \<and> policy_at (svc v) = policy_at (svc w) \<and>
    cluster_at (svc v) = Some (c\<lparr>gco_Tags := t\<rparr>) \<and>
    out_tags (c\<lparr>gco_Tags := t\<rparr>) = tag_view (spec_Tags (Spec (heap w d)))"
proof (cases "tag_view (spec_Tags (Spec (heap w d))) = tag_view (spec_Tags (Spec (heap w a)))")
  case True
  with obs c(1) show ?thesis
    by (intro exI [of _ w] exI [of _ "gco_Tags c"])
      (simp add: custom_none(1) spec_delta_Tags [OF laws(4,5,1)] ret_run same_objects_def observes_def)
next
  case False
  have "out_tags c = tag_view (spec_Tags (Spec (heap w a)))" using obs by (simp add: observes_def)
  from sync_Tags_applies [OF law c laws(1-3) this, of "spec_Tags (Spec (heap w d))"] False obs
  show ?thesis
    by (auto simp: custom_tags_def spec_delta_Tags [OF laws(4,5,1)] go_run metadata_ARN_def observes_def)
qed

text \<open>The policy after the hook, and the request for it.\<close>

definition synced_policy :: "acklib \<Rightarrow> ClusterSpec \<Rightarrow> string option \<Rightarrow> string option" where
  "synced_policy L s p = (if policies_differ L (spec_Policy s) p then wanted_policy s else p)"

definition policy_requests :: "acklib \<Rightarrow> string \<Rightarrow> ClusterSpec \<Rightarrow> string option \<Rightarrow> request list" where
  "policy_requests L i s p =
     (if policies_differ L (spec_Policy s) p then
        [case wanted_policy s of
           Some q \<Rightarrow> PutClusterPolicyReq \<lparr>pcpi_Identifier = Some i, pcpi_Policy = Some q\<rparr>
         | None \<Rightarrow> DeleteClusterPolicyReq \<lparr>dcpi_Identifier = Some i\<rparr>]
      else [])"

lemma custom_policy_applies:
  assumes law: "policy_law (rm_sdkapi rm) i cluster_at policy_at (svc w)"
    and laws: "new_tags_law L" "delta_law L" "compare_law L"
    and obs: "status_Identifier (Status (heap w a)) = Some i" "spec_Policy (Spec (heap w a)) = policy_at (svc w)"
  shows "\<exists>v. custom_policy L rm \<lparr>ko = Some d\<rparr> \<lparr>ko = Some a\<rparr>
      (spec_delta L (Spec (heap w d)) (Spec (heap w a))) w = (Ret None, v) \<and>
    same_objects w v \<and> cluster_at (svc v) = cluster_at (svc w) \<and>
    policy_at (svc v) = synced_policy L (Spec (heap w d)) (policy_at (svc w)) \<and>
    requests v = requests w @ policy_requests L i (Spec (heap w d)) (policy_at (svc w))"
proof (cases "policies_differ L (spec_Policy (Spec (heap w d))) (policy_at (svc w))")
  case True
  with syncPolicy_applies [OF law obs(1), of d] obs(2) show ?thesis
    by (simp add: custom_policy_def spec_delta_Policy [OF laws(2,3,1)] synced_policy_def policy_requests_def)
next
  case False
  with obs(2) show ?thesis
    by (simp add: custom_none(2) spec_delta_Policy [OF laws(2,3,1)] ret_run same_objects_def
        synced_policy_def policy_requests_def)
qed

text \<open>The hook does the tags and the policy, and asks to skip the rest when nothing else differs.\<close>

lemma customUpdate_applies:
  assumes law: "dsql_law (rm_sdkapi rm) i arn cluster_at policy_at"
    and c: "cluster_at (svc w) = Some c" "gco_Identifier c = Some i" "gco_Arn c = Some arn" "changeable c"
    and laws: "new_tags_law L" "tags_difference_law L" "map_order_law L" "delta_law L" "compare_law L"
    and obs: "observes i arn c (policy_at (svc w)) (heap w d) (heap w a)"
  shows "\<exists>v t ts. customUpdate L rm \<lparr>ko = Some d\<rparr> \<lparr>ko = Some a\<rparr>
      (spec_delta L (Spec (heap w d)) (Spec (heap w a))) w =
        (Ret (\<not> cluster_fields_differ L (Spec (heap w d)) (Spec (heap w a)), None), v) \<and>
    same_objects w v \<and> cluster_at (svc v) = Some (c\<lparr>gco_Tags := t\<rparr>) \<and>
    out_tags (c\<lparr>gco_Tags := t\<rparr>) = tag_view (spec_Tags (Spec (heap w d))) \<and>
    policy_at (svc v) = synced_policy L (Spec (heap w d)) (policy_at (svc w)) \<and>
    requests v = requests w @ ts @ policy_requests L i (Spec (heap w d)) (policy_at (svc w))"
proof -
  let ?delta = "spec_delta L (Spec (heap w d)) (Spec (heap w a))"
  obtain v t where tags: "custom_tags L rm \<lparr>ko = Some d\<rparr> \<lparr>ko = Some a\<rparr> ?delta w = (Ret None, v)"
    "same_objects w v" "policy_at (svc v) = policy_at (svc w)" "cluster_at (svc v) = Some (c\<lparr>gco_Tags := t\<rparr>)"
    "out_tags (c\<lparr>gco_Tags := t\<rparr>) = tag_view (spec_Tags (Spec (heap w d)))"
    using custom_tags_applies [OF law c laws obs] by blast
  obtain ts where ts: "requests v = requests w @ ts" using custom_tags_requests [OF tags(1)] by blast
  have heap: "heap v = heap w" using tags(2) by (simp add: same_objects_def)
  have "gco_Identifier (c\<lparr>gco_Tags := t\<rparr>) = Some i" "gco_Arn (c\<lparr>gco_Tags := t\<rparr>) = Some arn"
    "changeable (c\<lparr>gco_Tags := t\<rparr>)"
    using c by simp_all
  note pol = dsqlD(2) [OF law tags(4) this]
  have "status_Identifier (Status (heap v a)) = Some i" "spec_Policy (Spec (heap v a)) = policy_at (svc v)"
    using obs tags(3) by (simp_all add: heap observes_def)
  from custom_policy_applies [OF pol laws(1,4,5) this, of d] obtain v' where
    policy: "custom_policy L rm \<lparr>ko = Some d\<rparr> \<lparr>ko = Some a\<rparr> ?delta v = (Ret None, v')"
    "same_objects v v'" "cluster_at (svc v') = cluster_at (svc v)"
    "policy_at (svc v') = synced_policy L (Spec (heap w d)) (policy_at (svc w))"
    "requests v' = requests v @ policy_requests L i (Spec (heap w d)) (policy_at (svc w))"
    by (auto simp: heap tags(3))
  have "customUpdate L rm \<lparr>ko = Some d\<rparr> \<lparr>ko = Some a\<rparr> ?delta w =
      (Ret (\<not> cluster_fields_differ L (Spec (heap w d)) (Spec (heap w a)), None), v')"
    using obs changeable_status [OF c(4)]
    by (simp add: customUpdate_def custom_changes_def bind_go_run requeue_run tags(1) policy(1) ret_run
        spec_delta_others [OF laws(4,5,1)] observes_def)
  with tags(4,5) policy(2-5) ts same_objects.R_trans [OF tags(2) policy(2)] show ?thesis by auto
qed

text \<open>
  Then \<open>UpdateCluster\<close>, when it is needed.  What the service holds of the cluster after the tag calls
  and, if some field \<open>differs\<close>, after the \<open>UpdateCluster\<close>.
\<close>

definition updated_to :: "Cluster \<Rightarrow> GetClusterOutput \<Rightarrow> bool \<Rightarrow> GetClusterOutput \<Rightarrow> bool" where
  "updated_to k c differs c' \<longleftrightarrow>
     gco_Identifier c' = gco_Identifier c \<and> gco_Arn c' = gco_Arn c \<and> out_tags c' = tag_view (spec_Tags (Spec k)) \<and>
     (let u = update_request k (Some (gco_Status c)) in
      gco_DeletionProtectionEnabled c' =
        (if differs then or_else (uci_DeletionProtectionEnabled u) (gco_DeletionProtectionEnabled c)
         else gco_DeletionProtectionEnabled c) \<and>
      gco_MultiRegionProperties c' =
        (if differs then or_else (uci_MultiRegionProperties u) (gco_MultiRegionProperties c)
         else gco_MultiRegionProperties c))"

lemma observes_status: "observes i arn c p k l \<Longrightarrow> changeable c \<Longrightarrow> status_Status (Status l) = Some (gco_Status c)"
  using changeable_status(2) [of c] by (simp add: observes_def)

lemma UpdateCluster_applies:
  assumes "update_law api i cluster_at policy_at (c\<lparr>gco_Tags := t\<rparr>) s" "status_Identifier (Status k) = Some i"
    and "out_tags (c\<lparr>gco_Tags := t\<rparr>) = tag_view (spec_Tags (Spec k))"
  shows "\<exists>out s' c'. api_UpdateCluster api (update_request k (Some (gco_Status c))) s = (Inr out, s') \<and>
    cluster_at s' = Some c' \<and> updated_to k c True c' \<and> policy_at s' = policy_at s"
proof -
  let ?u = "update_request k (Some (gco_Status c))"
  have "uci_Identifier ?u = Some i"
    "uci_MultiRegionProperties ?u = None \<or> gco_Status (c\<lparr>gco_Tags := t\<rparr>) = ''PENDING_SETUP''"
    using assms(2) by (simp_all add: update_request_def)
  from UpdateCluster_accepted [OF assms(1) this] obtain out s' st e where
    up: "api_UpdateCluster api ?u s = (Inr out, s')" "policy_at s' = policy_at s"
    "cluster_at s' = Some (c\<lparr>gco_Tags := t,
        gco_DeletionProtectionEnabled := or_else (uci_DeletionProtectionEnabled ?u)
          (gco_DeletionProtectionEnabled (c\<lparr>gco_Tags := t\<rparr>)),
        gco_MultiRegionProperties := or_else (uci_MultiRegionProperties ?u)
          (gco_MultiRegionProperties (c\<lparr>gco_Tags := t\<rparr>)),
        gco_EncryptionDetails := e, gco_Status := st\<rparr>)" .
  then show ?thesis using assms(3) by (auto simp: updated_to_def out_tags_def Let_def)
qed

lemma sdkUpdate_applies:
  assumes law: "dsql_law (rm_sdkapi rm) i arn cluster_at policy_at"
    and c: "cluster_at (svc w) = Some c" "gco_Identifier c = Some i" "gco_Arn c = Some arn" "changeable c"
    and laws: "new_tags_law L" "tags_difference_law L" "map_order_law L" "delta_law L" "compare_law L" "aws_law L"
    and obs: "observes i arn c (policy_at (svc w)) (heap w d) (heap w a)"
    and snd: "sound (heap w d)" "d < brk w"
  shows "\<exists>b v c' before after. sdkUpdate L rm \<lparr>ko = Some d\<rparr> \<lparr>ko = Some a\<rparr>
      (spec_delta L (Spec (heap w d)) (Spec (heap w a))) w = (Ret (Some \<lparr>ko = Some b\<rparr>, None), v) \<and>
    heap v d = heap w d \<and> brk w \<le> brk v \<and> sound (heap v b) \<and> cluster_at (svc v) = Some c' \<and>
    updated_to (heap w d) c (cluster_fields_differ L (Spec (heap w d)) (Spec (heap w a))) c' \<and>
    policy_at (svc v) = synced_policy L (Spec (heap w d)) (policy_at (svc w)) \<and>
    requests v = requests w @ before @ policy_requests L i (Spec (heap w d)) (policy_at (svc w)) @ after"
proof -
  let ?s = "Spec (heap w d)"
  obtain v t ts where hook: "customUpdate L rm \<lparr>ko = Some d\<rparr> \<lparr>ko = Some a\<rparr>
      (spec_delta L ?s (Spec (heap w a))) w = (Ret (\<not> cluster_fields_differ L ?s (Spec (heap w a)), None), v)"
    "same_objects w v" "cluster_at (svc v) = Some (c\<lparr>gco_Tags := t\<rparr>)"
    "out_tags (c\<lparr>gco_Tags := t\<rparr>) = tag_view (spec_Tags ?s)"
    "policy_at (svc v) = synced_policy L ?s (policy_at (svc w))"
    "requests v = requests w @ ts @ policy_requests L i ?s (policy_at (svc w))"
    using customUpdate_applies [OF law c laws(1-5) obs] by blast
  have heap: "heap v = heap w" "brk v = brk w" using hook(2) by (simp_all add: same_objects_def)
  show ?thesis
  proof (cases "cluster_fields_differ L ?s (Spec (heap w a))")
    case False
    with hook(4) have "updated_to (heap w d) c False (c\<lparr>gco_Tags := t\<rparr>)" by (simp add: updated_to_def Let_def)
    with False hook(1,3,5,6) heap snd show ?thesis
      by (intro exI [of _ d] exI [of _ v] exI [of _ "c\<lparr>gco_Tags := t\<rparr>"] exI [of _ ts] exI [of _ "[]"])
        (simp add: sdkUpdate_run [OF laws(6)])
  next
    case True
    have ids: "gco_Identifier (c\<lparr>gco_Tags := t\<rparr>) = Some i" "gco_Arn (c\<lparr>gco_Tags := t\<rparr>) = Some arn"
      "changeable (c\<lparr>gco_Tags := t\<rparr>)" "status_Identifier (Status (heap w d)) = Some i"
      using c obs by (simp_all add: observes_def)
    obtain out s' c' where
      up: "api_UpdateCluster (rm_sdkapi rm) (update_request (heap w d) (Some (gco_Status c))) (svc v) = (Inr out, s')"
        "cluster_at s' = Some c'" "updated_to (heap w d) c True c'" "policy_at s' = policy_at (svc v)"
      using UpdateCluster_applies [OF dsqlD(3) [OF law hook(3) ids(1-3)] ids(4) hook(4)] by blast
    with True hook(1,5,6) heap snd observes_status [OF obs c(4)] show ?thesis
      by (intro exI [of _ "brk w"] exI [of _ "snd (sdkUpdate L rm \<lparr>ko = Some d\<rparr> \<lparr>ko = Some a\<rparr>
          (spec_delta L ?s (Spec (heap w a))) w)"] exI [of _ c'] exI [of _ ts]
          exI [of _ "[UpdateClusterReq (update_request (heap w d) (Some (gco_Status c)))]"])
        (simp add: sdkUpdate_run [OF laws(6)] Let_def)
  qed
qed

text \<open>With or without it the service is in step with the spec, when that can be reached.\<close>

lemma settings_applied:
  assumes "reconcilable L c s" "compare_law L" "u = update_request k (Some (gco_Status c))" "Spec k = s"
  shows "or_else (uci_DeletionProtectionEnabled u) (gco_DeletionProtectionEnabled c) =
      spec_DeletionProtectionEnabled s"
    and "\<not> multi_region_differ L (spec_MultiRegionProperties s)
      (region_view (or_else (uci_MultiRegionProperties u) (gco_MultiRegionProperties c)))"
proof -
  show "or_else (uci_DeletionProtectionEnabled u) (gco_DeletionProtectionEnabled c) =
      spec_DeletionProtectionEnabled s"
    using assms(1,3,4) by (auto simp: reconcilable_def update_request_def)
  have same: "\<not> multi_region_differ L m m" for m
    using assms(2) by (cases m) (auto simp: multi_region_differ_def clusters_differ_def compare_law_def)
  show "\<not> multi_region_differ L (spec_MultiRegionProperties s)
      (region_view (or_else (uci_MultiRegionProperties u) (gco_MultiRegionProperties c)))"
  proof (cases "gco_Status c = ''PENDING_SETUP'' \<and> spec_MultiRegionProperties s \<noteq> None")
    case True
    with assms(1) have "no_nil_pointers (s\<lparr>spec_Tags := None\<rparr>)" by (simp add: reconcilable_def)
    from sent_region_back [OF this] True assms(3,4) same show ?thesis
      by (auto simp: update_request_def region_view_def)
  next
    case False
    with assms(1,3,4) have "uci_MultiRegionProperties u = None" by (auto simp: update_request_def)
    with False assms(1) show ?thesis by (auto simp: reconcilable_def)
  qed
qed

lemma updated_in_step:
  assumes "updated_to k c (cluster_fields_differ L (Spec k) (Spec l)) c'"
    and "reconcilable L c (Spec k)" "compare_law L" "observes i arn c p k l"
  shows "in_step L c' (synced_policy L (Spec k) p') (Spec k)"
proof -
  have "gco_DeletionProtectionEnabled c' = spec_DeletionProtectionEnabled (Spec k) \<and>
      \<not> multi_region_differ L (spec_MultiRegionProperties (Spec k)) (region_view (gco_MultiRegionProperties c'))"
  proof (cases "cluster_fields_differ L (Spec k) (Spec l)")
    case True
    with assms(1) settings_applied [OF assms(2,3) refl refl] show ?thesis by (simp add: updated_to_def Let_def)
  next
    case False
    with assms(1,4) show ?thesis by (simp add: updated_to_def Let_def cluster_fields_differ_def observes_def)
  qed
  moreover have "\<not> policies_differ L (spec_Policy (Spec k)) (synced_policy L (Spec k) p')"
    using assms(2) by (auto simp: synced_policy_def wanted_policy_def reconcilable_def split: option.splits)
  ultimately show ?thesis using assms(1) by (intro in_stepI) (simp_all add: updated_to_def)
qed

text \<open>The three calls of a round.\<close>

lemma ReadOne_reads:
  assumes "reads_law (rm_sdkapi rm) i c p (svc w)" "gco_Identifier c = Some i"
    and "status_Identifier (Status (heap w a)) = Some i"
  shows "service_answer rm (heap w a) (svc w) = Found c p"
    and "svc (snd (ReadOne L rm (Some (Some \<lparr>ko = Some a\<rparr>)) w)) = svc w"
proof -
  note r = assms(1) [unfolded reads_law_def]
  show "service_answer rm (heap w a) (svc w) = Found c p"
    using r assms(2,3) by (auto simp: service_answer_def policy_read_def split: sum.splits)
  obtain f v where find: "sdkFind L rm \<lparr>ko = Some a\<rparr> w = (f, v)"
    by (cases "sdkFind L rm \<lparr>ko = Some a\<rparr> w")
  have "svc (snd (sdkFind L rm \<lparr>ko = Some a\<rparr> w)) = svc w"
    using r assms(2,3)
    by (auto simp: sdkFind_def go_run setResourcePolicy_def merge_GetCluster_def Let_def
        split: option.split sum.split)
  with find ReadOne_after_find [OF find] show
    "svc (snd (ReadOne L rm (Some (Some \<lparr>ko = Some a\<rparr>)) w)) = svc w"
    by (simp add: silent_def)
qed

lemma read_observes:
  assumes "gco_Identifier c = Some i" "gco_Arn c = Some arn" "status_Identifier (Status k) = Some i"
  shows "observes i arn c p (mirrored c k) (set_conditions cs (observed_cluster rm c p k))"
proof -
  have "status_Status (Status (observed_cluster rm c p k)) = (if gco_Status c = '''' then None else Some (gco_Status c))"
    by (simp add: observed_cluster_def)
  moreover have "status_ACKResourceMetadata (Status (observed_cluster rm c p k)) =
      Some (recorded_metadata rm (Some arn) (status_ACKResourceMetadata (Status k)))"
    by (simp add: observed_cluster_def assms(2))
  ultimately show ?thesis
    using assms(1,3) by (simp add: observes_def recorded_metadata_def Let_def)
qed

text \<open>A read of a cluster that is there: both resources and the service afterwards.\<close>

lemma ReadOne_observes:
  assumes "dsql_law (rm_sdkapi rm) i arn cluster_at policy_at"
    and "cluster_at (svc w) = Some c" "gco_Identifier c = Some i" "gco_Arn c = Some arn"
    and "aws_law L" "new_tags_law L" "error_law L" "sound (heap w a)" "a < brk w"
    and "status_Identifier (Status (heap w a)) = Some i"
  shows "\<exists>n w'. ReadOne L rm (Some (Some \<lparr>ko = Some a\<rparr>)) w = (Ret (Some (Some \<lparr>ko = Some n\<rparr>), None), w') \<and>
    svc w' = svc w \<and> heap w' a = mirrored c (heap w a) \<and> sound (heap w' a) \<and> a < brk w' \<and>
    sound (heap w' n) \<and> n < brk w' \<and> observes i arn c (policy_at (svc w)) (heap w' a) (heap w' n)"
proof -
  note ask = ReadOne_reads [OF dsql_reads [OF assms(1-4)] assms(3,10)]
  obtain n w' where read: "ReadOne L rm (Some (Some \<lparr>ko = Some a\<rparr>)) w =
      (Ret (Some (Some \<lparr>ko = Some n\<rparr>), None), w')"
    using ReadOne_run [OF assms(5-9), of rm] ask(1) by (auto split: prod.splits)
  obtain cs where h: "heap w' a = mirrored c (heap w a)" "sound (heap w' a)" "a < brk w'"
    "heap w' n = set_conditions cs (observed_cluster rm c (policy_at (svc w)) (heap w a))"
    "sound (heap w' n)" "n < brk w'"
    using ReadOne_found [OF assms(5-9) read] ask(1) by (metis answer.inject(2))
  have "svc w' = svc w" using ask(2) [of L] read by simp
  moreover have "observes i arn c (policy_at (svc w)) (heap w' a) (heap w' n)"
    unfolding h(1,4) by (rule read_observes [OF assms(3,4,10)])
  ultimately show ?thesis using read h by blast
qed

lemma Update_applies:
  assumes law: "dsql_law (rm_sdkapi rm) i arn cluster_at policy_at"
    and c: "cluster_at (svc w) = Some c" "gco_Identifier c = Some i" "gco_Arn c = Some arn" "changeable c"
    and laws: "new_tags_law L" "tags_difference_law L" "map_order_law L" "delta_law L" "compare_law L" "aws_law L"
    and obs: "observes i arn c (policy_at (svc w)) (heap w d) (heap w a)"
    and snd: "sound (heap w d)" "d < brk w"
  shows "\<exists>u v c' before after. Update L rm (Some (Some \<lparr>ko = Some d\<rparr>)) (Some (Some \<lparr>ko = Some a\<rparr>))
      (spec_delta L (Spec (heap w d)) (Spec (heap w a))) w = (Ret (Some (Some \<lparr>ko = Some u\<rparr>), None), v) \<and>
    heap v d = heap w d \<and> d < brk v \<and> cluster_at (svc v) = Some c' \<and>
    updated_to (heap w d) c (cluster_fields_differ L (Spec (heap w d)) (Spec (heap w a))) c' \<and>
    policy_at (svc v) = synced_policy L (Spec (heap w d)) (policy_at (svc w)) \<and>
    requests v = requests w @ before @ policy_requests L i (Spec (heap w d)) (policy_at (svc w)) @ after"
proof -
  obtain b v c' before after where run: "sdkUpdate L rm \<lparr>ko = Some d\<rparr> \<lparr>ko = Some a\<rparr>
      (spec_delta L (Spec (heap w d)) (Spec (heap w a))) w = (Ret (Some \<lparr>ko = Some b\<rparr>, None), v)"
    and v: "heap v d = heap w d" "brk w \<le> brk v" "sound (heap v b)" "cluster_at (svc v) = Some c'"
      "updated_to (heap w d) c (cluster_fields_differ L (Spec (heap w d)) (Spec (heap w a))) c'"
      "policy_at (svc v) = synced_policy L (Spec (heap w d)) (policy_at (svc w))"
      "requests v = requests w @ before @ policy_requests L i (Spec (heap w d)) (policy_at (svc w)) @ after"
    using sdkUpdate_applies [OF law c laws obs snd] by blast
  have "Update L rm (Some (Some \<lparr>ko = Some d\<rparr>)) (Some (Some \<lparr>ko = Some a\<rparr>))
      (spec_delta L (Spec (heap w d)) (Spec (heap w a))) w =
      outcome_of L rm \<lparr>ko = Some a\<rparr> (Some \<lparr>ko = Some b\<rparr>, None) v"
    by (simp add: Update_def go_run run)
  with outcome_success [OF v(3), of L rm "\<lparr>ko = Some a\<rparr>"] v(1,2,4-7) snd(2) show ?thesis by auto
qed

text \<open>
  One round, from a state in which the cluster may be changed: the update is accepted, and the cluster
  can be read again.
\<close>

lemma round_runs:
  assumes "dsql_law (rm_sdkapi rm) i arn cluster_at policy_at"
    and "cluster_at (svc w) = Some c" "gco_Identifier c = Some i" "gco_Arn c = Some arn" "changeable c"
    and "new_tags_law L" "tags_difference_law L" "map_order_law L" "delta_law L" "compare_law L"
    and "aws_law L" "error_law L" "sound (heap w a)" "a < brk w"
    and "status_Identifier (Status (heap w a)) = Some i"
  obtains n w1 u w2 c' before after m w3 where
    "ReadOne L rm (Some (Some \<lparr>ko = Some a\<rparr>)) w = (Ret (Some (Some \<lparr>ko = Some n\<rparr>), None), w1)"
    "heap w1 a = mirrored c (heap w a)" "svc w1 = svc w"
    "observes i arn c (policy_at (svc w)) (heap w1 a) (heap w1 n)"
    "Update L rm (Some (Some \<lparr>ko = Some a\<rparr>)) (Some (Some \<lparr>ko = Some n\<rparr>))
      (spec_delta L (Spec (heap w1 a)) (Spec (heap w1 n))) w1 = (Ret (Some (Some \<lparr>ko = Some u\<rparr>), None), w2)"
    "updated_to (heap w1 a) c (cluster_fields_differ L (Spec (heap w1 a)) (Spec (heap w1 n))) c'"
    "policy_at (svc w2) = synced_policy L (Spec (heap w1 a)) (policy_at (svc w))"
    "requests w2 = requests w1 @ before @ policy_requests L i (Spec (heap w1 a)) (policy_at (svc w)) @ after"
    "heap w2 a = heap w1 a" "sound (heap w2 a)" "a < brk w2"
    "service_answer rm (heap w2 a) (svc w2) = Found c' (policy_at (svc w2))"
    "ReadOne L rm (Some (Some \<lparr>ko = Some a\<rparr>)) w2 = (Ret (Some (Some \<lparr>ko = Some m\<rparr>), None), w3)"
    "heap w3 a = mirrored c' (heap w1 a)"
    "observes i arn c' (policy_at (svc w2)) (heap w3 a) (heap w3 m)"
proof -
  obtain n w1 where r1: "ReadOne L rm (Some (Some \<lparr>ko = Some a\<rparr>)) w = (Ret (Some (Some \<lparr>ko = Some n\<rparr>), None), w1)"
    and w1: "svc w1 = svc w" and h: "heap w1 a = mirrored c (heap w a)" "sound (heap w1 a)" "a < brk w1"
    and obs: "observes i arn c (policy_at (svc w)) (heap w1 a) (heap w1 n)"
    using ReadOne_observes [OF assms(1-4,11,6,12-15)] by metis
  have at1: "cluster_at (svc w1) = Some c" by (simp add: w1 assms(2))
  obtain u w2 c' before after where up: "Update L rm (Some (Some \<lparr>ko = Some a\<rparr>)) (Some (Some \<lparr>ko = Some n\<rparr>))
      (spec_delta L (Spec (heap w1 a)) (Spec (heap w1 n))) w1 = (Ret (Some (Some \<lparr>ko = Some u\<rparr>), None), w2)"
    and w2: "heap w2 a = heap w1 a" "a < brk w2" "cluster_at (svc w2) = Some c'"
      "updated_to (heap w1 a) c (cluster_fields_differ L (Spec (heap w1 a)) (Spec (heap w1 n))) c'"
      "policy_at (svc w2) = synced_policy L (Spec (heap w1 a)) (policy_at (svc w))"
      "requests w2 = requests w1 @ before @ policy_requests L i (Spec (heap w1 a)) (policy_at (svc w)) @ after"
    using Update_applies [OF assms(1) at1 assms(3-11) obs [folded w1] h(2,3)] unfolding w1 by blast
  have s2: "sound (heap w2 a)" "status_Identifier (Status (heap w2 a)) = Some i"
    using h(1,2) assms(15) by (simp_all add: w2(1))
  have ids: "gco_Identifier c' = Some i" "gco_Arn c' = Some arn" using w2(4) assms(3,4) by (simp_all add: updated_to_def)
  note ask = ReadOne_reads(1) [OF dsql_reads [OF assms(1) w2(3) ids] ids(1) s2(2)]
  obtain m w3 where r2: "ReadOne L rm (Some (Some \<lparr>ko = Some a\<rparr>)) w2 = (Ret (Some (Some \<lparr>ko = Some m\<rparr>), None), w3)"
    "heap w3 a = mirrored c' (heap w2 a)" "observes i arn c' (policy_at (svc w2)) (heap w3 a) (heap w3 m)"
    using ReadOne_observes [OF assms(1) w2(3) ids assms(11,6,12) s2(1) w2(2) s2(2)] by metis
  show ?thesis
    by (rule that [OF r1 h(1) w1 obs up w2(4-6,1) s2(1) w2(2) ask r2(1) r2(2) [unfolded w2(1)] r2(3)])
qed

lemma round_settles:
  assumes "dsql_law (rm_sdkapi rm) i arn cluster_at policy_at"
    and "cluster_at (svc w) = Some c" "gco_Identifier c = Some i" "gco_Arn c = Some arn"
    and "new_tags_law L" "tags_difference_law L" "map_order_law L" "delta_law L" "compare_law L"
    and "aws_law L" "error_law L" "sound (heap w a)" "a < brk w"
    and "status_Identifier (Status (heap w a)) = Some i" "reconcilable L c (Spec (heap w a))"
  shows "\<exists>n w1 d u w2 m w3 d'.
    ReadOne L rm (Some (Some \<lparr>ko = Some a\<rparr>)) w = (Ret (Some (Some \<lparr>ko = Some n\<rparr>), None), w1) \<and>
    newResourceDelta L (Some \<lparr>ko = Some a\<rparr>) (Some \<lparr>ko = Some n\<rparr>) w1 = (Ret d, w1) \<and>
    Update L rm (Some (Some \<lparr>ko = Some a\<rparr>)) (Some (Some \<lparr>ko = Some n\<rparr>)) d w1 =
      (Ret (Some (Some \<lparr>ko = Some u\<rparr>), None), w2) \<and>
    ReadOne L rm (Some (Some \<lparr>ko = Some a\<rparr>)) w2 = (Ret (Some (Some \<lparr>ko = Some m\<rparr>), None), w3) \<and>
    newResourceDelta L (Some \<lparr>ko = Some a\<rparr>) (Some \<lparr>ko = Some m\<rparr>) w3 = (Ret d', w3) \<and>
    \<not> delta_DifferentExcept L d' []"
proof -
  have ch: "changeable c" using assms(15) by (simp add: reconcilable_def)
  obtain n w1 u w2 c' before after m w3 where
    r1: "ReadOne L rm (Some (Some \<lparr>ko = Some a\<rparr>)) w = (Ret (Some (Some \<lparr>ko = Some n\<rparr>), None), w1)"
    and h: "heap w1 a = mirrored c (heap w a)" and w1: "svc w1 = svc w"
    and obs: "observes i arn c (policy_at (svc w)) (heap w1 a) (heap w1 n)"
    and up: "Update L rm (Some (Some \<lparr>ko = Some a\<rparr>)) (Some (Some \<lparr>ko = Some n\<rparr>))
      (spec_delta L (Spec (heap w1 a)) (Spec (heap w1 n))) w1 = (Ret (Some (Some \<lparr>ko = Some u\<rparr>), None), w2)"
    and upd: "updated_to (heap w1 a) c (cluster_fields_differ L (Spec (heap w1 a)) (Spec (heap w1 n))) c'"
    and pol: "policy_at (svc w2) = synced_policy L (Spec (heap w1 a)) (policy_at (svc w))"
    and "requests w2 = requests w1 @ before @ policy_requests L i (Spec (heap w1 a)) (policy_at (svc w)) @ after"
    and w2: "heap w2 a = heap w1 a" "sound (heap w2 a)" "a < brk w2"
    and ask: "service_answer rm (heap w2 a) (svc w2) = Found c' (policy_at (svc w2))"
    and r2: "ReadOne L rm (Some (Some \<lparr>ko = Some a\<rparr>)) w2 = (Ret (Some (Some \<lparr>ko = Some m\<rparr>), None), w3)"
    by (rule round_runs [OF assms(1-4) ch assms(5-14)])
  have "reconcilable L c (Spec (heap w1 a))"
    using assms(15) by (auto simp: reconcilable_def h no_nil_pointers_def split: if_splits)
  from updated_in_step [OF upd this assms(9) obs] have "in_step L c' (policy_at (svc w2)) (Spec (heap w2 a))"
    by (simp add: pol w2(1))
  from in_step_no_delta [OF assms(10,5,11) w2(2,3) r2 assms(8,9) ask this] r1 up r2 show ?thesis
    by (fastforce simp: newResourceDelta_run)
qed

text \<open>
  What may have happened before: any of the operations, with any arguments and any outcome, panics
  included, and changes of the service on its own.  Of the desired resource they leave everything but
  its tags, to which a read adds.
\<close>

inductive reconciles :: "acklib \<Rightarrow> 's resourceManager \<Rightarrow> addr \<Rightarrow> 's world \<Rightarrow> 's world \<Rightarrow> bool"
  for L rm a where
    read: "reconciles L rm a w (snd (ReadOne L rm (Some (Some \<lparr>ko = Some a\<rparr>)) w))"
  | create: "reconciles L rm a w (snd (Create L rm res w))"
  | update: "reconciles L rm a w (snd (Update L rm res latest delta w))"
  | delete: "reconciles L rm a w (snd (Delete L rm res w))"
  | late: "reconciles L rm a w (snd (LateInitialize L rm res w))"
  | service: "reconciles L rm a w (w\<lparr>svc := s\<rparr>)"

lemma manager_writes:
  "keeps (writes {}) (Create L rm res)"
  "keeps (writes {}) (Update L rm res latest delta)"
  "keeps (writes {}) (Delete L rm res)"
  unfolding Create_def Update_def Delete_def by (intro frame)+

lemma reconciles_step:
  assumes "aws_law L" "new_tags_law L" "error_law L" "reconciles L rm a w w'" "sound (heap w a)" "a < brk w"
  shows "(\<exists>t. heap w' a = set_tags t (heap w a)) \<and> a < brk w'"
proof -
  have same: "set_tags (spec_Tags (Spec k)) k = k" for k by (simp add: set_tags_def)
  have frame: "(\<exists>t. heap v a = set_tags t (heap w a)) \<and> a < brk v" if "writes {} w v" for v
  proof -
    from that assms(6) have "heap v a = heap w a" "a < brk v" by (auto simp: writes_def)
    with same [of "heap w a"] show ?thesis by metis
  qed
  have op: "(\<exists>t. heap (snd (m w)) a = set_tags t (heap w a)) \<and> a < brk (snd (m w))"
    if "keeps (writes {}) m" for m :: "('a world, 'b) go"
    using that by (intro frame) (simp add: keeps_def)
  from assms(4) show ?thesis
  proof cases
    case read
    obtain f v where r: "ReadOne L rm (Some (Some \<lparr>ko = Some a\<rparr>)) w = (f, v)"
      by (cases "ReadOne L rm (Some (Some \<lparr>ko = Some a\<rparr>)) w")
    have "brk w \<le> brk v" using keepsD [OF ReadOne_frame(2) r] by (simp add: writes_def)
    moreover have "heap v a = heap w a \<or> (\<exists>out. heap v a = mirrored out (heap w a))"
      using ReadOne_run [OF assms(1-3,5,6), of rm] r by (auto split: answer.splits)
    moreover have "(\<exists>t. heap v a = set_tags t (heap w a)) \<and> a < brk v"
      if "brk w \<le> brk v" "heap v a = heap w a \<or> (\<exists>out. heap v a = mirrored out (heap w a))"
      using that same [of "heap w a", symmetric] assms(6) unfolding mirrored_def by auto
    ultimately show ?thesis using read r by simp
  next
    case (service s)
    have "writes {} w (w\<lparr>svc := s\<rparr>)" by (simp add: writes_def)
    from frame [OF this] service show ?thesis by simp
  next
    case (create res)
    then show ?thesis using op [OF manager_writes(1)] by simp
  next
    case (update res latest delta)
    then show ?thesis using op [OF manager_writes(2)] by simp
  next
    case (delete res)
    then show ?thesis using op [OF manager_writes(3)] by simp
  next
    case (late res)
    then show ?thesis using op [OF LateInitialize_frame(1)] by simp
  qed
qed

lemma reconciles_star:
  assumes "aws_law L" "new_tags_law L" "error_law L" "sound (heap w a)" "a < brk w"
    and "(reconciles L rm a)\<^sup>*\<^sup>* w w'"
  shows "(\<exists>t. heap w' a = set_tags t (heap w a)) \<and> a < brk w'"
  using assms(6)
proof (induction rule: rtranclp_induct)
  case base
  have "heap w a = set_tags (spec_Tags (Spec (heap w a))) (heap w a)" by (simp add: set_tags_def)
  with assms(5) show ?case by blast
next
  case (step u v)
  then obtain t where t: "heap u a = set_tags t (heap w a)" "a < brk u" by blast
  have "sound (heap u a)" using assms(4) by (simp add: t(1) sound_def)
  from reconciles_step [OF assms(1-3) step.hyps(2) this t(2)] t(1) show ?case
    by (auto simp: set_tags_def)
qed


text \<open>The small service accepts every call; the spec wants other tags, another protection and a policy.\<close>

lemma ref_dsql: "dsql_law ref_api ''c1'' arn rs_cluster rs_policy"
proof -
  have tags: "ref_tags_at s = out_tags c" if "rs_cluster s = Some c" for s c
    using that by (simp add: ref_tags_at_def out_tags_def)
  have reads: "reads_law ref_api i c (rs_policy s) s" and pol: "policy_law ref_api i rs_cluster rs_policy s"
    if "rs_cluster s = Some c" for s c i
    using that by (simp_all add: reads_law_def policy_law_def ref_api_def ref_not_found_def case_prod_beta
        split: option.split)
  have tag: "tags_law ref_api arn rs_cluster rs_policy c s" if "rs_cluster s = Some c" for s c
    unfolding tags_law_def ref_api_def sdkapi.simps ref_set_tags_def tags [OF that]
    using that by simp
  have up: "update_law ref_api i rs_cluster rs_policy c s" if "rs_cluster s = Some c" for s c i
    unfolding update_law_def
    by (intro allI impI, simp add: ref_api_def that or_else_def case_prod_beta,
        rule exI [of _ "''UPDATING''"], rule exI [of _ "gco_EncryptionDetails c"])
      (auto intro: GetClusterOutput.equality split: option.split)
  from reads pol tag up show ?thesis by (simp add: dsql_law_def)
qed

definition drifted_cluster :: Cluster where
  "drifted_cluster = ref_cluster\<lparr>Spec := (Spec ref_cluster)
     \<lparr>spec_DeletionProtectionEnabled := Some False, spec_Policy := Some ''{}''\<rparr>\<rparr>"

definition drifted_world :: "ref_svc world" where
  "drifted_world = ref_world\<lparr>heap := (\<lambda>_. drifted_cluster)\<rparr>"



section \<open>A policy that never settles\<close>


definition empty_policy_world :: "ref_svc world" where
  "empty_policy_world = ref_world\<lparr>heap := (\<lambda>_. ref_cluster\<lparr>Spec := (Spec ref_cluster)\<lparr>spec_Policy := Some ''''\<rparr>\<rparr>)\<rparr>"


end
