(* ===== verification/Deletion.thy ===== *)
theory Deletion
  imports Reconcile Resource
begin

text \<open>
  The way to a delete: the cluster is read, \<open>DeltaForPreDelete\<close> compares what may keep it from being
  deleted and merges it into the observed resource, \<open>Update\<close> sends that, and \<open>Delete\<close> follows.
\<close>

section \<open>The update before the delete\<close>

text \<open>
  With the delta before a delete there are no tag and no policy calls: the hook only waits for
  transitional states, and asks for \<open>UpdateCluster\<close> exactly when deletion protection differs.
\<close>

lemma customUpdate_before_delete:
  assumes "delta_law L" "compare_law L"
    and "(case status_Status (Status (heap w n)) of None \<Rightarrow> True | Some st \<Rightarrow> st \<notin> set transitionalStatuses)"
  shows "customUpdate L rm \<lparr>ko = Some m\<rparr> \<lparr>ko = Some n\<rparr> (protection_delta L k l) w =
    (Ret (spec_DeletionProtectionEnabled (Spec k) = spec_DeletionProtectionEnabled (Spec l), None), w)"
  using assms(3)
  by (cases "status_Status (Status (heap w n))")
    (simp_all add: customUpdate_def custom_changes_def bind_go_run requeue_run ret_run
      custom_none protection_delta_decides [OF assms(1,2)])

lemma Update_before_delete:
  assumes "aws_law L" "delta_law L" "compare_law L"
    and "update_law (rm_sdkapi rm) i cluster_at policy_at c (svc w)" "cluster_at (svc w) = Some c"
    and "observes i arn c p k (heap w n)" "changeable c"
    and "heap w m = with_protection (spec_DeletionProtectionEnabled (Spec k)) (heap w n)"
    and "sound (heap w n)" "n < brk w"
  shows "\<exists>u w' c'. Update L rm (Some (Some \<lparr>ko = Some m\<rparr>)) (Some (Some \<lparr>ko = Some n\<rparr>))
      (protection_delta L k (heap w n)) w = (Ret (Some (Some \<lparr>ko = Some u\<rparr>), None), w') \<and>
    heap w' n = heap w n \<and>
    requests w' = requests w @
      (if spec_DeletionProtectionEnabled (Spec k) = gco_DeletionProtectionEnabled c then []
       else [UpdateClusterReq (update_request (heap w m) (status_Status (Status (heap w n))))]) \<and>
    policy_at (svc w') = policy_at (svc w) \<and>
    cluster_at (svc w') = Some c' \<and> gco_Identifier c' = gco_Identifier c \<and> gco_Tags c' = gco_Tags c \<and>
    gco_DeletionProtectionEnabled c' =
      or_else (spec_DeletionProtectionEnabled (Spec k)) (gco_DeletionProtectionEnabled c)"
proof -
  let ?p = "spec_DeletionProtectionEnabled (Spec k)" and ?q = "gco_DeletionProtectionEnabled c"
  let ?u = "update_request (heap w m) (status_Status (Status (heap w n)))"
  have q: "spec_DeletionProtectionEnabled (Spec (heap w n)) = ?q" using assms(6) by (simp add: observes_def)
  have m: "sound (heap w m)" using assms(8,9) by (simp add: sound_def condition_list_def)
  have st: "case status_Status (Status (heap w n)) of None \<Rightarrow> True | Some st \<Rightarrow> st \<notin> set transitionalStatuses"
    using observes_status [OF assms(6,7)] changeable_status(1) [OF assms(7)] by simp
  have hook: "customUpdate L rm \<lparr>ko = Some m\<rparr> \<lparr>ko = Some n\<rparr> (protection_delta L k (heap w n)) w =
      (Ret (?p = ?q, None), w)"
    using customUpdate_before_delete [OF assms(2,3) st] by (simp add: q)
  have op: "Update L rm (Some (Some \<lparr>ko = Some m\<rparr>)) (Some (Some \<lparr>ko = Some n\<rparr>))
      (protection_delta L k (heap w n)) w =
      (case sdkUpdate L rm \<lparr>ko = Some m\<rparr> \<lparr>ko = Some n\<rparr> (protection_delta L k (heap w n)) w of
        (Ret x, v) \<Rightarrow> outcome_of L rm \<lparr>ko = Some n\<rparr> x v | (Panic e, v) \<Rightarrow> (Panic e, v))"
    by (simp add: Update_def go_run split: prod.split outcome.split)
  show ?thesis
  proof (cases "?p = ?q")
    case True
    then show ?thesis
      using assms(5,10)
      by (simp add: op sdkUpdate_run [OF assms(1)] hook outcome_success [OF m])
        (cases ?q; simp)
  next
    case False
    have id: "uci_Identifier ?u = Some i" "uci_DeletionProtectionEnabled ?u = ?p"
      "uci_MultiRegionProperties ?u = None \<or> gco_Status c = ''PENDING_SETUP''"
      using assms(6) observes_status [OF assms(6,7)] by (auto simp: update_request_def observes_def assms(8))
    obtain out s' st e where up: "api_UpdateCluster (rm_sdkapi rm) ?u (svc w) = (Inr out, s')"
      "policy_at s' = policy_at (svc w)" "cluster_at s' = Some (c\<lparr>
        gco_DeletionProtectionEnabled := or_else (uci_DeletionProtectionEnabled ?u) ?q,
        gco_MultiRegionProperties := or_else (uci_MultiRegionProperties ?u) (gco_MultiRegionProperties c),
        gco_EncryptionDetails := e, gco_Status := st\<rparr>)"
      by (rule UpdateCluster_accepted [OF assms(4) id(1,3)])
    note up = up [unfolded id(2)]
    let ?v = "w\<lparr>svc := s', requests := requests w @ [UpdateClusterReq ?u],
      metrics := metrics w @ [(''UPDATE'', ''UpdateCluster'', None)],
      heap := (heap w)(brk w := updated_cluster rm out (heap w m)), brk := Suc (brk w)\<rparr>"
    have "sound (heap ?v (brk w))" using m by simp
    from outcome_success [OF this] False assms(10) up show ?thesis
      by (simp add: op sdkUpdate_run [OF assms(1)] hook Let_def)
  qed
qed

section \<open>The delete\<close>

text \<open>
  \<open>DeleteCluster\<close> as DSQL documents it.  In CREATING and UPDATING it is rejected like every other change;
  where changes are accepted, it is refused with a ValidationException for a cluster with deletion
  protection, and any other cluster is gone or on its way out.  A call that fails changes nothing.
\<close>

definition api_code :: "error \<Rightarrow> string option" where
  "api_code e = map_option ErrorCode (errors_As is_APIError e)"

definition deletion_under_way :: "('s \<Rightarrow> GetClusterOutput option) \<Rightarrow> 's \<Rightarrow> bool" where
  "deletion_under_way cluster_at s \<longleftrightarrow>
     (case cluster_at s of None \<Rightarrow> True | Some c \<Rightarrow> gco_Status c \<in> {''DELETING'', ''PENDING_DELETE'', ''DELETED''})"

definition delete_law ::
  "'s sdkapi \<Rightarrow> string \<Rightarrow> ('s \<Rightarrow> GetClusterOutput option) \<Rightarrow> ('s \<Rightarrow> string option) \<Rightarrow> bool" where
  "delete_law api i cluster_at policy_at \<longleftrightarrow>
     (\<forall>s c. cluster_at s = Some c \<and> gco_Identifier c = Some i \<longrightarrow>
       (case api_DeleteCluster api \<lparr>dci_Identifier = Some i\<rparr> s of (r, s') \<Rightarrow>
          (case r of Inl e \<Rightarrow> cluster_at s' = Some c \<and> policy_at s' = policy_at s | Inr _ \<Rightarrow> True) \<and>
          (gco_Status c \<in> {''CREATING'', ''UPDATING''} \<longrightarrow>
             (\<exists>e. r = Inl e \<and> api_code e = Some ''ConflictException'' \<and> errors_As is_TerminalError e = None)) \<and>
          (changeable c \<and> gco_DeletionProtectionEnabled c = Some True \<longrightarrow>
             (\<exists>e. r = Inl e \<and> api_code e = Some ''ValidationException'')) \<and>
          (changeable c \<and> gco_DeletionProtectionEnabled c \<noteq> Some True \<longrightarrow>
             r = Inr () \<and> deletion_under_way cluster_at s')))"

text \<open>The two errors of the runtime about secrets are no errors of an API.\<close>

definition secret_errors_law :: "acklib \<Rightarrow> bool" where
  "secret_errors_law L \<longleftrightarrow>
     api_code (ackerr_SecretTypeNotSupported L) = None \<and> api_code (ackerr_SecretNotFound L) = None"

text \<open>A result with an error and a resource whose condition of the type \<open>t\<close> is raised.\<close>

definition raises ::
  "condition_type \<Rightarrow> error \<Rightarrow> 's world \<Rightarrow> (AWSResource \<times> error option) outcome \<Rightarrow> bool" where
  "raises t e w r \<longleftrightarrow>
     (\<exists>n c. r = Ret (Some (Some \<lparr>ko = Some n\<rparr>), Some e) \<and>
        current t (condition_list (heap w n)) = Some c \<and> cond_Status c = ConditionTrue)"

lemma outcome_raises:
  assumes "error_law L" "sound (heap w a)"
  shows "\<exists>r w'. outcome_of L rm \<lparr>ko = Some a\<rparr> (None, Some e) w = (r, w') \<and>
    (if is_terminal L (Some e) then raises ConditionTypeTerminal (ackerr_Terminal L) w' r
     else raises ConditionTypeRecoverable e w' r) \<and>
    svc w' = svc w \<and> requests w' = requests w"
proof (cases "is_terminal L (Some e)")
  case True
  with assms(1) obtain msg where "terminal_text L e = Some msg" using terminal_text_ok by fastforce
  from updated_terminal(1) [OF True this] obtain c where
    "current ConditionTypeTerminal (updated_conditions L (Some e) (condition_list (heap w a))) = Some c"
    "cond_Status c = ConditionTrue" by blast
  with True show ?thesis by (simp add: outcome_error [OF assms] raises_def updated_object_def)
next
  case False
  from updated_recoverable(1) [OF this] obtain c where
    "current ConditionTypeRecoverable (updated_conditions L (Some e) (condition_list (heap w a))) = Some c"
    "cond_Status c = ConditionTrue" by blast
  with False show ?thesis by (simp add: outcome_error [OF assms] raises_def updated_object_def)
qed

text \<open>What \<open>Delete\<close> makes of the answer to a cluster \<open>c\<close>.\<close>

definition delete_result ::
  "acklib \<Rightarrow> ('s \<Rightarrow> GetClusterOutput option) \<Rightarrow> ('s \<Rightarrow> string option) \<Rightarrow> GetClusterOutput \<Rightarrow> string option \<Rightarrow>
   's world \<Rightarrow> (AWSResource \<times> error option) outcome \<Rightarrow> bool" where
  "delete_result L cluster_at policy_at c p w r \<longleftrightarrow>
     (gco_Status c \<in> {''CREATING'', ''UPDATING''} \<longrightarrow>
        (\<exists>e. api_code e = Some ''ConflictException'' \<and> raises ConditionTypeRecoverable e w r) \<and>
        cluster_at (svc w) = Some c \<and> policy_at (svc w) = p) \<and>
     (changeable c \<and> gco_DeletionProtectionEnabled c = Some True \<longrightarrow>
        raises ConditionTypeTerminal (ackerr_Terminal L) w r \<and>
        cluster_at (svc w) = Some c \<and> policy_at (svc w) = p) \<and>
     (changeable c \<and> gco_DeletionProtectionEnabled c \<noteq> Some True \<longrightarrow>
        r = Ret (None, None) \<and> deletion_under_way cluster_at (svc w))"

lemma Delete_applies:
  assumes "delete_law (rm_sdkapi rm) i cluster_at policy_at" "error_law L" "secret_errors_law L"
    and "cluster_at (svc w) = Some c" "gco_Identifier c = Some i"
    and "sound (heap w n)" "status_Identifier (Status (heap w n)) = Some i"
  shows "case Delete L rm (Some (Some \<lparr>ko = Some n\<rparr>)) w of (r, w') \<Rightarrow>
    requests w' = requests w @ [DeleteClusterReq \<lparr>dci_Identifier = Some i\<rparr>] \<and>
    delete_result L cluster_at policy_at c (policy_at (svc w)) w' r"
proof -
  let ?v = "snd (sdkDelete rm \<lparr>ko = Some n\<rparr> w)"
  obtain res s' where del: "api_DeleteCluster (rm_sdkapi rm) \<lparr>dci_Identifier = Some i\<rparr> (svc w) = (res, s')"
    by (cases "api_DeleteCluster (rm_sdkapi rm) \<lparr>dci_Identifier = Some i\<rparr> (svc w)")
  have ans: "case res of Inl e \<Rightarrow> cluster_at s' = Some c \<and> policy_at s' = policy_at (svc w) | Inr _ \<Rightarrow> True"
    "gco_Status c \<in> {''CREATING'', ''UPDATING''} \<Longrightarrow>
      \<exists>e. res = Inl e \<and> api_code e = Some ''ConflictException'' \<and> errors_As is_TerminalError e = None"
    "changeable c \<Longrightarrow> gco_DeletionProtectionEnabled c = Some True \<Longrightarrow>
      \<exists>e. res = Inl e \<and> api_code e = Some ''ValidationException''"
    "changeable c \<Longrightarrow> gco_DeletionProtectionEnabled c \<noteq> Some True \<Longrightarrow> res = Inr () \<and> deletion_under_way cluster_at s'"
    using assms(1) [unfolded delete_law_def, rule_format, of "svc w" c] assms(4,5) unfolding del prod.case
    by (cases res; simp)+
  have h: "sound (heap ?v n)" "svc ?v = s'"
    "requests ?v = requests w @ [DeleteClusterReq \<lparr>dci_Identifier = Some i\<rparr>]"
    using assms(6,7) del by (simp_all add: sdkDelete_run Let_def)
  have op: "Delete L rm (Some (Some \<lparr>ko = Some n\<rparr>)) w = outcome_of L rm \<lparr>ko = Some n\<rparr> (None, err_of res) ?v"
    using assms(7) del by (simp add: Delete_def go_run sdkDelete_run Let_def)
  have no: "gco_Status c \<notin> {''CREATING'', ''UPDATING''}" if "changeable c"
    using that by (auto simp: changeable_def)
  show ?thesis
  proof (cases res)
    case (Inl e)
    have terminal: "is_terminal L (Some e) \<longleftrightarrow> api_code e = Some ''ValidationException'' \<or> errors_As is_TerminalError e \<noteq> None"
      if "api_code e \<noteq> None"
      using assms(3) that by (auto simp: is_terminal_errors api_code_def secret_errors_law_def)
    obtain r w' where run: "outcome_of L rm \<lparr>ko = Some n\<rparr> (None, Some e) ?v = (r, w')"
      and w': "svc w' = s'" "requests w' = requests w @ [DeleteClusterReq \<lparr>dci_Identifier = Some i\<rparr>]"
      and "if is_terminal L (Some e) then raises ConditionTypeTerminal (ackerr_Terminal L) w' r
        else raises ConditionTypeRecoverable e w' r"
      using outcome_raises [OF assms(2) h(1), of rm e] unfolding h(2,3) by blast
    with terminal ans no Inl show ?thesis by (auto simp: op delete_result_def)
  next
    case (Inr x)
    with ans no h show ?thesis by (auto simp: op outcome_nothing delete_result_def)
  qed
qed

section \<open>From the read to the delete\<close>

text \<open>
  C6. A delete does what the spec says about deletion protection.  Of a cluster in a state in which
  changes are accepted, the read, the comparison before the delete and the update of the merged resource
  all succeed; they send one \<open>UpdateCluster\<close> with the desired protection when it is not what the service
  has, and no request about tags or the policy, however far these have drifted.  The service may
  move the cluster on to other states before the \<open>Delete\<close> of the observed resource, which sends one
  \<open>DeleteCluster\<close>.  While the cluster is still updating, the error of the service comes back as it is,
  with the Recoverable condition, so that the runtime tries again.  Once changes are accepted again: when
  the spec switches the protection off, or leaves it open and it is off at the service, the delete
  succeeds and returns nothing; when the spec wants it, or leaves it open and the service has it, the
  delete returns the Terminal error, with the Terminal condition, and the cluster is still there with
  its tags and its policy.
\<close>

theorem deletion_follows_protection:
  assumes "dsql_law (rm_sdkapi rm) i arn cluster_at policy_at" "delete_law (rm_sdkapi rm) i cluster_at policy_at"
    and "cluster_at (svc w) = Some c" "gco_Identifier c = Some i" "gco_Arn c = Some arn" "changeable c"
    and "aws_law L" "new_tags_law L" "error_law L" "secret_errors_law L" "delta_law L" "compare_law L"
    and "sound (heap w a)" "a < brk w" "status_Identifier (Status (heap w a)) = Some i"
    and "desired = spec_DeletionProtectionEnabled (Spec (heap w a))" "had = gco_DeletionProtectionEnabled c"
  shows "\<exists>n w1 d m w2 u w3 c'.
    ReadOne L rm (Some (Some \<lparr>ko = Some a\<rparr>)) w = (Ret (Some (Some \<lparr>ko = Some n\<rparr>), None), w1) \<and>
    DeltaForPreDelete L (Some (Some \<lparr>ko = Some a\<rparr>)) (Some (Some \<lparr>ko = Some n\<rparr>)) w1 =
      (Ret (d, Some (Some \<lparr>ko = Some m\<rparr>)), w2) \<and>
    Update L rm (Some (Some \<lparr>ko = Some m\<rparr>)) (Some (Some \<lparr>ko = Some n\<rparr>)) d w2 =
      (Ret (Some (Some \<lparr>ko = Some u\<rparr>), None), w3) \<and>
    requests w3 = requests w1 @
      (if desired = had then []
       else [UpdateClusterReq (update_request (with_protection desired (heap w2 n)) (Some (gco_Status c)))]) \<and>
    cluster_at (svc w3) = Some c' \<and> gco_Identifier c' = Some i \<and> gco_Tags c' = gco_Tags c \<and>
    gco_DeletionProtectionEnabled c' = or_else desired had \<and> policy_at (svc w3) = policy_at (svc w) \<and>
    (\<forall>s now. cluster_at s = Some now \<and> gco_Identifier now = Some i \<and>
        gco_DeletionProtectionEnabled now = gco_DeletionProtectionEnabled c' \<longrightarrow>
      (case Delete L rm (Some (Some \<lparr>ko = Some n\<rparr>)) (w3\<lparr>svc := s\<rparr>) of (r, w4) \<Rightarrow>
         requests w4 = requests w3 @ [DeleteClusterReq \<lparr>dci_Identifier = Some i\<rparr>] \<and>
         (gco_Status now \<in> {''CREATING'', ''UPDATING''} \<longrightarrow>
            (\<exists>e. api_code e = Some ''ConflictException'' \<and> raises ConditionTypeRecoverable e w4 r) \<and>
            cluster_at (svc w4) = Some now \<and> policy_at (svc w4) = policy_at s) \<and>
         (changeable now \<and> or_else desired had = Some True \<longrightarrow>
            raises ConditionTypeTerminal (ackerr_Terminal L) w4 r \<and>
            cluster_at (svc w4) = Some now \<and> policy_at (svc w4) = policy_at s) \<and>
         (changeable now \<and> or_else desired had \<noteq> Some True \<longrightarrow>
            r = Ret (None, None) \<and> deletion_under_way cluster_at (svc w4))))"
proof -
  obtain n w1 where read: "ReadOne L rm (Some (Some \<lparr>ko = Some a\<rparr>)) w =
      (Ret (Some (Some \<lparr>ko = Some n\<rparr>), None), w1)"
    and svc1: "svc w1 = svc w" and h: "heap w1 a = mirrored c (heap w a)" "sound (heap w1 n)" "n < brk w1"
    and obs1: "observes i arn c (policy_at (svc w)) (heap w1 a) (heap w1 n)"
    using ReadOne_observes [OF assms(1,3-5,7-9,13-15)] by metis
  have p: "spec_DeletionProtectionEnabled (Spec (heap w1 a)) = desired" by (simp add: h(1) assms(16))
  define w2 where "w2 = w1\<lparr>heap := (heap w1)(brk w1 := with_protection desired (heap w1 n)), brk := Suc (brk w1)\<rparr>"
  let ?d = "protection_delta L (heap w1 a) (heap w1 n)"
  have delta: "DeltaForPreDelete L (Some (Some \<lparr>ko = Some a\<rparr>)) (Some (Some \<lparr>ko = Some n\<rparr>)) w1 =
      (Ret (?d, Some (Some \<lparr>ko = Some (brk w1)\<rparr>)), w2)"
    by (simp add: DeltaForPreDelete_def go_run newResourceDeltaForPreDelete_run p w2_def)
  have same: "heap w2 n = heap w1 n" "svc w2 = svc w" "requests w2 = requests w1" "n < brk w2"
    "heap w2 (brk w1) = with_protection desired (heap w1 n)"
    using h(3) by (simp_all add: w2_def svc1)
  note obs = obs1 [folded same(1)]
  obtain u w3 c' where up: "Update L rm (Some (Some \<lparr>ko = Some (brk w1)\<rparr>)) (Some (Some \<lparr>ko = Some n\<rparr>))
      ?d w2 = (Ret (Some (Some \<lparr>ko = Some u\<rparr>), None), w3)"
    and w3: "heap w3 n = heap w1 n" "requests w3 = requests w1 @ (if desired = had then []
       else [UpdateClusterReq (update_request (with_protection desired (heap w1 n)) (Some (gco_Status c)))])"
      "policy_at (svc w3) = policy_at (svc w)" "cluster_at (svc w3) = Some c'" "gco_Identifier c' = Some i"
      "gco_Tags c' = gco_Tags c" "gco_DeletionProtectionEnabled c' = or_else desired had"
    using Update_before_delete [OF assms(7,11,12) _ _ obs assms(6), of rm cluster_at policy_at "brk w1"]
      dsqlD(3) [OF assms(1,3-6)] assms(3,4,17) h(2) same p observes_status [OF obs assms(6)] by auto
  have obj: "sound (heap (w3\<lparr>svc := s\<rparr>) n)" "status_Identifier (Status (heap (w3\<lparr>svc := s\<rparr>) n)) = Some i" for s
    using h(2) obs by (simp_all add: w3(1) same(1) observes_def)
  have del: "case Delete L rm (Some (Some \<lparr>ko = Some n\<rparr>)) (w3\<lparr>svc := s\<rparr>) of (r, w4) \<Rightarrow>
      requests w4 = requests w3 @ [DeleteClusterReq \<lparr>dci_Identifier = Some i\<rparr>] \<and> 
      delete_result L cluster_at policy_at now (policy_at s) w4 r"
    if "cluster_at s = Some now" "gco_Identifier now = Some i" for s now
    using Delete_applies [OF assms(2,9,10) _ that(2) obj, of s] that(1) by simp
  show ?thesis
    by (rule exI [of _ n], rule exI [of _ w1], rule exI [of _ ?d], rule exI [of _ "brk w1"],
        rule exI [of _ w2], rule exI [of _ u], rule exI [of _ w3], rule exI [of _ c'])
      (use read delta up w3 same del in \<open>fastforce simp: delete_result_def split: prod.splits\<close>)
qed

text \<open>
  The small service: with the protection switched off the cluster goes as soon as it is active again,
  with it on it stays.
\<close>

lemma ref_delete: "delete_law ref_api i rs_cluster rs_policy"
  by (auto simp: delete_law_def ref_api_def deletion_under_way_def api_code_def ref_validation_def
      ref_conflict_def changeable_def)

lemma ref_secrets: "secret_errors_law ref_lib"
  by (simp add: secret_errors_law_def api_code_def ref_lib_def sentinel_def)

definition active_unprotected :: ref_svc where
  "active_unprotected = \<lparr>rs_cluster = Some (ref_output\<lparr>gco_DeletionProtectionEnabled := Some False\<rparr>), rs_policy = None\<rparr>"

definition still_updating :: ref_svc where
  "still_updating = \<lparr>rs_cluster = Some (ref_output\<lparr>gco_DeletionProtectionEnabled := Some False,
     gco_Status := ''UPDATING''\<rparr>), rs_policy = None\<rparr>"

theorem deletion_follows_protection_witness:
  "\<exists>n w1 d m w2 u w3 w4.
     ReadOne ref_lib ref_rm (Some (Some \<lparr>ko = Some 0\<rparr>)) drifted_world = (Ret (Some (Some \<lparr>ko = Some n\<rparr>), None), w1) \<and>
     DeltaForPreDelete ref_lib (Some (Some \<lparr>ko = Some 0\<rparr>)) (Some (Some \<lparr>ko = Some n\<rparr>)) w1 =
       (Ret (d, Some (Some \<lparr>ko = Some m\<rparr>)), w2) \<and>
     Update ref_lib ref_rm (Some (Some \<lparr>ko = Some m\<rparr>)) (Some (Some \<lparr>ko = Some n\<rparr>)) d w2 =
       (Ret (Some (Some \<lparr>ko = Some u\<rparr>), None), w3) \<and>
     Delete ref_lib ref_rm (Some (Some \<lparr>ko = Some n\<rparr>)) (w3\<lparr>svc := active_unprotected\<rparr>) = (Ret (None, None), w4) \<and>
     deletion_under_way rs_cluster (svc w4) \<and>
     (case Delete ref_lib ref_rm (Some (Some \<lparr>ko = Some n\<rparr>)) (w3\<lparr>svc := still_updating\<rparr>) of (r, w5) \<Rightarrow>
        \<exists>e. raises ConditionTypeRecoverable e w5 r)"
proof -
  have at: "rs_cluster (svc drifted_world) = Some ref_output"
    and k: "sound (heap drifted_world 0)" "0 < brk drifted_world"
      "status_Identifier (Status (heap drifted_world 0)) = Some ''c1''"
    and p: "Some False = spec_DeletionProtectionEnabled (Spec (heap drifted_world 0))"
    by (simp_all add: drifted_world_def drifted_cluster_def ref_world_def ref_cluster_def sound_def
        condition_list_def)
  have i: "gco_Identifier ref_output = Some ''c1''" "gco_Arn ref_output = Some ''arn:aws:dsql:r:1:cluster/c1''"
    "changeable ref_output" and q: "Some True = gco_DeletionProtectionEnabled ref_output"
    by (simp_all add: ref_output_def changeable_def)
  have law: "dsql_law (rm_sdkapi ref_rm) ''c1'' ''arn:aws:dsql:r:1:cluster/c1'' rs_cluster rs_policy"
    "delete_law (rm_sdkapi ref_rm) ''c1'' rs_cluster rs_policy"
    by (simp_all add: ref_rm_def ref_dsql ref_delete)
  from deletion_follows_protection [OF law at i ref_aws ref_new_tags ref_error ref_secrets ref_delta
      ref_compare k p q] obtain n w1 d m w2 u w3 and c' :: GetClusterOutput where
    run: "ReadOne ref_lib ref_rm (Some (Some \<lparr>ko = Some 0\<rparr>)) drifted_world = (Ret (Some (Some \<lparr>ko = Some n\<rparr>), None), w1)"
      "DeltaForPreDelete ref_lib (Some (Some \<lparr>ko = Some 0\<rparr>)) (Some (Some \<lparr>ko = Some n\<rparr>)) w1 =
       (Ret (d, Some (Some \<lparr>ko = Some m\<rparr>)), w2)"
      "Update ref_lib ref_rm (Some (Some \<lparr>ko = Some m\<rparr>)) (Some (Some \<lparr>ko = Some n\<rparr>)) d w2 =
       (Ret (Some (Some \<lparr>ko = Some u\<rparr>), None), w3)"
    and c': "gco_DeletionProtectionEnabled c' = or_else (Some False) (Some True)"
    and del: "\<forall>s now. rs_cluster s = Some now \<and> gco_Identifier now = Some ''c1'' \<and>
        gco_DeletionProtectionEnabled now = gco_DeletionProtectionEnabled c' \<longrightarrow>
      (case Delete ref_lib ref_rm (Some (Some \<lparr>ko = Some n\<rparr>)) (w3\<lparr>svc := s\<rparr>) of (r, w4) \<Rightarrow>
         requests w4 = requests w3 @ [DeleteClusterReq \<lparr>dci_Identifier = Some ''c1''\<rparr>] \<and>
         (gco_Status now \<in> {''CREATING'', ''UPDATING''} \<longrightarrow>
            (\<exists>e. api_code e = Some ''ConflictException'' \<and> raises ConditionTypeRecoverable e w4 r) \<and>
            rs_cluster (svc w4) = Some now \<and> rs_policy (svc w4) = rs_policy s) \<and>
         (changeable now \<and> or_else (Some False) (Some True) = Some True \<longrightarrow>
            raises ConditionTypeTerminal (ackerr_Terminal ref_lib) w4 r \<and>
            rs_cluster (svc w4) = Some now \<and> rs_policy (svc w4) = rs_policy s) \<and>
         (changeable now \<and> or_else (Some False) (Some True) \<noteq> Some True \<longrightarrow>
            r = Ret (None, None) \<and> deletion_under_way rs_cluster (svc w4)))"
    by (elim exE conjE) (rule that)
  have "case Delete ref_lib ref_rm (Some (Some \<lparr>ko = Some n\<rparr>)) (w3\<lparr>svc := active_unprotected\<rparr>) of (r, w4) \<Rightarrow>
      r = Ret (None, None) \<and> deletion_under_way rs_cluster (svc w4)"
    using del [rule_format, of active_unprotected "ref_output\<lparr>gco_DeletionProtectionEnabled := Some False\<rparr>"] i(1) c'
    by (simp add: active_unprotected_def changeable_def ref_output_def split: prod.splits)
  moreover have "case Delete ref_lib ref_rm (Some (Some \<lparr>ko = Some n\<rparr>)) (w3\<lparr>svc := still_updating\<rparr>) of (r, w5) \<Rightarrow>
      \<exists>e. raises ConditionTypeRecoverable e w5 r"
    using del [rule_format, of still_updating "ref_output\<lparr>gco_DeletionProtectionEnabled := Some False, gco_Status := ''UPDATING''\<rparr>"] i(1) c'
    by (auto simp: still_updating_def split: prod.splits)
  ultimately show ?thesis using run by (auto split: prod.splits)
qed

end
