(* ===== verification/Requests.thy ===== *)
theory Requests
  imports Manager
begin

text \<open>
  How many requests an operation sends to the service, at most.  \<open>grows n\<close>: at most \<open>n\<close> requests were
  added.  The bounds of the parts add up along the sequence of calls; a branch takes the larger one.
\<close>

section \<open>Counting\<close>

definition grows :: "nat \<Rightarrow> 's world \<Rightarrow> 's world \<Rightarrow> bool" where
  "grows n w w' \<longleftrightarrow> length (requests w') \<le> length (requests w) + n"

lemma grows_silent: "keeps silent m \<Longrightarrow> keeps (grows n) m"
  by (erule keeps_mono) (simp add: grows_def silent_def)

lemma grows_bind:
  assumes "keeps (grows i) m" "\<And>x. keeps (grows j) (f x)"
  shows "keeps (grows (i + j)) (bind_go m f)"
proof (rule keepsI)
  fix w
  obtain r v where m: "m w = (r, v)" by (cases "m w")
  then have v: "grows i w v" using keepsD [OF assms(1)] by blast
  show "grows (i + j) w (snd (bind_go m f w))"
  proof (cases r)
    case (Ret x)
    have "grows j v (snd (f x v))" using assms(2) [of x] by (simp add: keeps_def)
    with v m Ret show ?thesis by (simp add: bind_go_run grows_def)
  next
    case (Panic p)
    with v m show ?thesis by (simp add: bind_go_run grows_def)
  qed
qed

lemma grows_sum: "keeps (grows i) m \<Longrightarrow> (\<And>x. keeps (grows j) (f x)) \<Longrightarrow> n = i + j \<Longrightarrow> keeps (grows n) (bind_go m f)"
  using grows_bind by blast

lemma grows_call: "keeps (grows (Suc 0)) (call_api op req t i input)"
  by (rule keepsI) (simp add: grows_def go_run)

lemma grows_then: "(\<And>x. keeps (grows n) (f x)) \<Longrightarrow> keeps (grows (Suc n)) (bind_go (call_api op req t i input) f)"
  by (rule grows_sum [OF grows_call]) simp_all

lemma grows_after: "keeps silent m \<Longrightarrow> (\<And>x. keeps (grows n) (f x)) \<Longrightarrow> keeps (grows n) (bind_go m f)"
  by (rule grows_sum [where i = 0 and j = n]) (simp_all add: grows_silent)

lemmas counting = keeps_if keeps_let keeps_option keeps_sum keeps_prod grows_then grows_after

section \<open>The operations\<close>

lemma payload_silent [frame]:
  "keeps silent (requiredFieldsMissingFromReadOneInput r)"
  "keeps silent (newDescribeRequestPayload r)"
  "keeps silent (newCreateRequestPayload L r)"
  "keeps silent (newUpdateRequestPayload L r)"
  "keeps silent (newDeleteRequestPayload r)"
  unfolding requiredFieldsMissingFromReadOneInput_def newDescribeRequestPayload_def
    newCreateRequestPayload_def newUpdateRequestPayload_def newDeleteRequestPayload_def Let_def
  by (intro frame)+

lemma setResourcePolicy_grows: "keeps (grows 1) (setResourcePolicy rm p)"
  unfolding setResourcePolicy_def One_nat_def
  by (rule counting | rule grows_silent | intro frame)+

lemma sdkFind_grows: "keeps (grows 2) (sdkFind L rm r)"
  unfolding sdkFind_def numeral_2_eq_2
  by (rule grows_sum [OF setResourcePolicy_grows, where j = 0] counting | rule grows_silent |
      intro frame | simp)+

lemma sync_grows:
  "keeps (grows 1) (sync_add L api arn t)" "keeps (grows 1) (sync_remove L api arn t)"
  unfolding sync_add_def sync_remove_def One_nat_def
  by (rule counting | rule grows_silent | intro frame)+

lemma sync_Tags_grows: "keeps (grows 2) (sync_Tags L desired latest arn conv api)"
  unfolding sync_Tags_def
  by (rule sync_grows grows_sum [OF sync_grows(1), where j = 1] keeps_if keeps_let keeps_option keeps_prod |
      rule grows_silent | intro frame | simp)+

lemma syncPolicy_grows: "keeps (grows 1) (syncPolicy rm desired latest)"
  unfolding syncPolicy_def One_nat_def
  by (rule counting | rule grows_silent | intro frame)+

lemma custom_grows:
  "keeps (grows 2) (custom_tags L rm desired latest delta)"
  "keeps (grows 1) (custom_policy L rm desired latest delta)"
  unfolding custom_tags_def custom_policy_def
  by (rule sync_Tags_grows syncPolicy_grows keeps_if grows_after | rule grows_silent | intro frame)+

lemma customUpdate_grows: "keeps (grows 3) (customUpdate L rm desired latest delta)"
  unfolding customUpdate_def custom_changes_def
  by (rule grows_sum [OF custom_grows(1), where j = 1] grows_sum [OF custom_grows(2), where j = 0]
      keeps_if keeps_option grows_after | rule grows_silent | intro frame | simp)+

lemma sdkUpdate_grows: "keeps (grows 4) (sdkUpdate L rm desired latest delta)"
  unfolding sdkUpdate_def
  by (rule grows_sum [OF customUpdate_grows, where j = "Suc 0"] keeps_if keeps_let keeps_option keeps_sum
      keeps_prod grows_then grows_after | rule grows_silent | intro frame | simp)+

lemma sdk_write_grows: "keeps (grows 1) (sdkCreate L rm desired)" "keeps (grows 1) (sdkDelete rm r)"
  unfolding sdkCreate_def sdkDelete_def deferred_create_def One_nat_def
  by (rule counting | rule grows_silent | intro frame)+


lemma manager_grows:
  "keeps (grows 2) (ReadOne L rm res)"
  "keeps (grows 1) (Create L rm res)"
  "keeps (grows 4) (Update L rm res resLatest delta)"
  "keeps (grows 1) (Delete L rm res)"
  unfolding ReadOne_def Create_def Update_def Delete_def
  by (rule grows_sum [OF sdkFind_grows, where j = 0] grows_sum [OF sdkUpdate_grows, where j = 0]
      grows_sum [OF sdk_write_grows(1), where j = 0] grows_sum [OF sdk_write_grows(2), where j = 0]
      keeps_if keeps_option keeps_prod grows_after | rule grows_silent | intro frame | simp)+

lemma LateInitialize_grows: "keeps (grows 2) (LateInitialize L rm latest)"
  unfolding LateInitialize_def
  by (rule grows_sum [OF manager_grows(1), where j = 0]
      keeps_if keeps_option keeps_prod grows_after | rule grows_silent | intro frame | simp)+

section \<open>An update that needs them all\<close>

definition busy_cluster :: Cluster where
  "busy_cluster = ref_cluster\<lparr>Spec := (Spec ref_cluster)\<lparr>spec_DeletionProtectionEnabled := Some False,
     spec_Policy := Some ''{}'', spec_Tags := Some (fmap_of_list [(''b'', Some ''1'')])\<rparr>,
     Status := (Status ref_cluster)\<lparr>status_ACKResourceMetadata := Some
       \<lparr>meta_ARN = Some ''arn'', meta_OwnerAccountID = None, meta_Region = None, meta_Partition = None\<rparr>\<rparr>\<rparr>"

definition busy_world :: "ref_svc world" where
  "busy_world = ref_world\<lparr>heap := (\<lambda>a. if a = 0 then busy_cluster else
     busy_cluster\<lparr>Spec := (Spec ref_cluster)\<rparr>)\<rparr>"

definition busy_delta :: delta where
  "busy_delta = [(''Spec.DeletionProtectionEnabled'', BoolV (Some False), BoolV None),
     (''Spec.Policy'', StringV (Some ''{}''), StringV None), (''Spec.Tags'', TagsV None, TagsV None)]"

lemma busy_delta:
  "delta_DifferentAt ref_lib busy_delta ''Spec.Tags''" "delta_DifferentAt ref_lib busy_delta ''Spec.Policy''"
  "delta_DifferentExcept ref_lib busy_delta [''Spec.Tags'', ''Spec.Policy'']"
  by (simp_all add: busy_delta_def ref_lib_def tag_paths policy_paths) 

lemma busy_tags:
  "tags_to_add (tag_view (spec_Tags (Spec ref_cluster))) (tag_view (spec_Tags (Spec busy_cluster))) =
     fmap_of_list [(''b'', ''1'')]"
  "tags_to_remove (tag_view (spec_Tags (Spec ref_cluster))) (tag_view (spec_Tags (Spec busy_cluster))) =
     fmap_of_list [(''team'', ''b'')]"
  by (rule fmap_ext, auto simp: tags_to_add_def tags_to_remove_def ref_cluster_def busy_cluster_def fmmap_fmupd)+

lemma Update_requests:
  "requests (snd (Update L rm (Some (Some \<lparr>ko = Some d\<rparr>)) (Some (Some \<lparr>ko = Some a\<rparr>)) delta w)) =
     requests (snd (sdkUpdate L rm \<lparr>ko = Some d\<rparr> \<lparr>ko = Some a\<rparr> delta w))"
proof -
  have "requests (snd (outcome_of L rm \<lparr>ko = Some a\<rparr> x v)) = requests v" for x v
    using outcome_of_silent [of L rm "\<lparr>ko = Some a\<rparr>" x] by (simp add: keeps_def silent_def)
  then show ?thesis by (simp add: Update_def go_run bind_go_run split: prod.split outcome.split)
qed

lemma busy_objects:
  "Spec (heap busy_world 0) = Spec busy_cluster" "Spec (heap busy_world (Suc 0)) = Spec ref_cluster"
  "status_ACKResourceMetadata (Status (heap busy_world (Suc 0))) = Some
     \<lparr>meta_ARN = Some ''arn'', meta_OwnerAccountID = None, meta_Region = None, meta_Partition = None\<rparr>"
  "status_Status (Status (heap busy_world (Suc 0))) = None"
  "spec_Policy (Spec busy_cluster) = Some ''{}''" "requests busy_world = []" "rs_cluster (svc busy_world) \<noteq> None"
  by (simp_all add: busy_world_def busy_cluster_def ref_cluster_def ref_world_def)

lemma ref_answers:
  assumes "rs_cluster s \<noteq> None"
  shows "fst (api_TagResource (rm_sdkapi ref_rm) t s) = Inr ()"
    "rs_cluster (snd (api_TagResource (rm_sdkapi ref_rm) t s)) \<noteq> None"
    "fst (api_UntagResource (rm_sdkapi ref_rm) u s) = Inr ()"
    "fst (api_PutClusterPolicy (rm_sdkapi ref_rm) p s) = Inr ()"
  using assms by (auto simp: ref_rm_def ref_api_def ref_set_tags_def)

lemma busy_hook:
  "\<exists>v. customUpdate ref_lib ref_rm \<lparr>ko = Some 0\<rparr> \<lparr>ko = Some (Suc 0)\<rparr> busy_delta busy_world = (Ret (False, None), v) \<and>
     length (requests v) = 3"
proof -
  have "\<exists>v. custom_tags ref_lib ref_rm \<lparr>ko = Some 0\<rparr> \<lparr>ko = Some (Suc 0)\<rparr> busy_delta busy_world = (Ret None, v) \<and>
      length (requests v) = 2 \<and> heap v = heap busy_world"
    unfolding custom_tags_def
    by (simp add: busy_delta go_run metadata_ARN_def busy_objects busy_tags
        cluster_tags.sync_Tags_eq [OF ref_new_tags ref_tags_difference]
        sync_add_run [OF ref_map_order] ref_answers)
  then obtain v where v: "custom_tags ref_lib ref_rm \<lparr>ko = Some 0\<rparr> \<lparr>ko = Some (Suc 0)\<rparr> busy_delta busy_world = (Ret None, v)"
    "length (requests v) = 2" "heap v = heap busy_world" by blast
  have "\<exists>u. custom_policy ref_lib ref_rm \<lparr>ko = Some 0\<rparr> \<lparr>ko = Some (Suc 0)\<rparr> busy_delta v = (Ret None, u) \<and>
      length (requests u) = 3"
    unfolding custom_policy_def syncPolicy_def
    by (simp add: busy_delta go_run v busy_objects ref_rm_def ref_api_def)
  then show ?thesis
    by (auto simp: customUpdate_def custom_changes_def bind_go_run requeue_run busy_objects v(1) ret_run busy_delta)
qed

lemma busy_update:
  "length (requests (snd (Update ref_lib ref_rm (Some (Some \<lparr>ko = Some 0\<rparr>)) (Some (Some \<lparr>ko = Some (Suc 0)\<rparr>))
     busy_delta busy_world))) = length (requests busy_world) + 4"
proof -
  obtain v where v: "customUpdate ref_lib ref_rm \<lparr>ko = Some 0\<rparr> \<lparr>ko = Some (Suc 0)\<rparr> busy_delta busy_world =
      (Ret (False, None), v)" "length (requests v) = 3" using busy_hook by blast
  obtain res w' where run: "sdkUpdate ref_lib ref_rm \<lparr>ko = Some 0\<rparr> \<lparr>ko = Some (Suc 0)\<rparr> busy_delta busy_world =
      (res, w')" by (cases "sdkUpdate ref_lib ref_rm \<lparr>ko = Some 0\<rparr> \<lparr>ko = Some (Suc 0)\<rparr> busy_delta busy_world")
  have "\<exists>u. requests w' = requests v @ [u]"
    using sdkUpdate_sent [OF ref_aws v(1) run prod.collapse [symmetric]] by blast
  with v(2) run show ?thesis
    by (auto simp: Update_requests busy_objects)
qed

section \<open>Properties\<close>

text \<open>
  C7. What an operation costs: whatever the resources, the delta and the answers of the service, and
  also when it panics, a read sends at most two requests, a create and a delete at most one, an
  update at most four (tag, untag, policy, cluster), and late initialization no more than the read it
  does.  No operation retries, and no loop sends a request for each tag.  There is an update that
  sends four.
\<close>

theorem requests_bounded:
  "length (requests (snd (ReadOne L rm res w))) \<le> length (requests w) + 2 \<and>
   length (requests (snd (Create L rm res w))) \<le> length (requests w) + 1 \<and>
   length (requests (snd (Update L rm res resLatest delta w))) \<le> length (requests w) + 4 \<and>
   length (requests (snd (Delete L rm res w))) \<le> length (requests w) + 1 \<and>
   length (requests (snd (LateInitialize L rm res w))) \<le> length (requests w) + 2 \<and>
   (\<exists>(L1 :: acklib) (rm1 :: ref_svc resourceManager) desired latest delta1 w1.
      length (requests (snd (Update L1 rm1 desired latest delta1 w1))) = length (requests w1) + 4)"
proof (intro conjI)
  show "\<exists>(L1 :: acklib) (rm1 :: ref_svc resourceManager) desired latest delta1 w1.
      length (requests (snd (Update L1 rm1 desired latest delta1 w1))) = length (requests w1) + 4"
    using busy_update by blast
qed (use manager_grows [of L rm] LateInitialize_grows [of L rm] in \<open>simp_all add: keeps_def grows_def\<close>)

end
