(* ===== verification/References.thy ===== *)
theory References
  imports Manager
begin

text \<open>
  \<open>pkg/resource/cluster/references.go\<close>: a cluster may name its KMS key through a reference to a
  \<open>Key\<close> resource of the KMS controller; the reference is resolved to the ARN of the key before the
  cluster is reconciled, and the ARN is cleared again before the spec is written back.  The
  \<open>Key\<close> type and the Kubernetes reader are not code of this repository: the record below has the
  fields the code reads, and the reader is a parameter, a function from the namespace and name to
  an error or the object it would fill in.
\<close>

section \<open>The code\<close>

record Key =
  key_Conditions :: conditions
  key_ACKResourceMetadata :: "ResourceMetadata option"

type_synonym apiReader = "string \<Rightarrow> string \<Rightarrow> error + Key"

definition set_key :: "string option \<Rightarrow> Cluster \<Rightarrow> Cluster" where
  "set_key v k = k\<lparr>Spec := (Spec k)\<lparr>spec_KMSEncryptionKey := v\<rparr>\<rparr>"

definition ClearResolvedReferences :: "AWSResource \<Rightarrow> ('s world, AWSResource) go" where
  "ClearResolvedReferences res =
     bind_go (concreteResource res) (\<lambda>r.
     bind_go (resource_ko r) (\<lambda>p.
     bind_go (Cluster_DeepCopy p) (\<lambda>p.
     bind_go (deref p) (\<lambda>k.
     bind_go (if spec_KMSEncryptionKeyRef (Spec k) \<noteq> None then modify_obj (set_key None) p else ret ()) (\<lambda>_.
     ret (Some (Some \<lparr>ko = p\<rparr>)))))))"

definition validateReferenceFields :: "acklib \<Rightarrow> Cluster \<Rightarrow> error option" where
  "validateReferenceFields L k =
     (if spec_KMSEncryptionKeyRef (Spec k) \<noteq> None \<and> spec_KMSEncryptionKey (Spec k) \<noteq> None
      then Some (ackerr_ResourceReferenceAndIDNotSupportedFor L ''KMSEncryptionKey'' ''KMSEncryptionKeyRef'')
      else None)"

text \<open>The second loop over the conditions of the key; the first is the one of \<open>onError\<close>.\<close>

fun synced_loop :: "Condition option list \<Rightarrow> bool \<Rightarrow> ('w, bool) go" where
  "synced_loop [] refResourceSynced = ret refResourceSynced"
| "synced_loop (None # cs) refResourceSynced = panic nil_deref"
| "synced_loop (Some c # cs) refResourceSynced =
     synced_loop cs
       (if cond_Type c = ConditionTypeResourceSynced \<and> cond_Status c = ConditionTrue then True
        else refResourceSynced)"

definition key_conditions :: "Key \<Rightarrow> Condition option list" where
  "key_conditions k = (case key_Conditions k of None \<Rightarrow> [] | Some l \<Rightarrow> l)"

text \<open>\<open>refResourceTerminal\<close> is never assigned, so the test after the first loop is false.\<close>

definition getReferencedResourceState_Key ::
  "acklib \<Rightarrow> apiReader \<Rightarrow> string \<Rightarrow> string \<Rightarrow> ('s world, error + Key) go" where
  "getReferencedResourceState_Key L apiReader name namespace =
     (case apiReader namespace name of
        Inl err \<Rightarrow> ret (Inl err)
      | Inr key \<Rightarrow>
          bind_go (any_terminal (key_conditions key)) (\<lambda>terminal.
          if terminal then ret (Inl (ackerr_ResourceReferenceTerminalFor L ''Key'' namespace name))
          else
            let refResourceTerminal = False in
            if refResourceTerminal
            then ret (Inl (ackerr_ResourceReferenceTerminalFor L ''Key'' namespace name))
            else
              bind_go (synced_loop (key_conditions key) False) (\<lambda>refResourceSynced.
              if \<not> refResourceSynced
              then ret (Inl (ackerr_ResourceReferenceNotSyncedFor L ''Key'' namespace name))
              else
                (case key_ACKResourceMetadata key of
                   None \<Rightarrow> ret (Inl (ackerr_ResourceReferenceMissingTargetFieldFor L ''Key'' namespace
                     name ''Status.ACKResourceMetadata.ARN''))
                 | Some md \<Rightarrow>
                     if meta_ARN md = None
                     then ret (Inl (ackerr_ResourceReferenceMissingTargetFieldFor L ''Key'' namespace
                       name ''Status.ACKResourceMetadata.ARN''))
                     else ret (Inr key)))))"

definition resolveReferenceForKMSEncryptionKey ::
  "acklib \<Rightarrow> 's resourceManager \<Rightarrow> apiReader \<Rightarrow> addr option \<Rightarrow> ('s world, bool \<times> error option) go"
where
  "resolveReferenceForKMSEncryptionKey L rm apiReader p =
     bind_go (deref p) (\<lambda>k.
     case Option.bind (spec_KMSEncryptionKeyRef (Spec k)) ref_From of
       None \<Rightarrow> ret (False, None)
     | Some arr \<Rightarrow>
         (case ref_Name arr of
            None \<Rightarrow> ret (True, Some (fmt_Errorf
              ''provided resource reference is nil or empty: KMSEncryptionKeyRef''))
          | Some name \<Rightarrow>
              if name = '''' then ret (True, Some (fmt_Errorf
                ''provided resource reference is nil or empty: KMSEncryptionKeyRef''))
              else
                (case ackrt_ValidateCrossNamespaceReference L (cfg_EnableCrossNamespace (rm_cfg rm))
                        (om_Namespace (ObjectMeta k)) (ref_Namespace arr) name of
                   Inl err \<Rightarrow> ret (True, Some err)
                 | Inr namespace \<Rightarrow>
                     bind_go (getReferencedResourceState_Key L apiReader name namespace) (\<lambda>st.
                     case st of
                       Inl err \<Rightarrow> ret (True, Some err)
                     | Inr key \<Rightarrow>
                         (case key_ACKResourceMetadata key of
                            None \<Rightarrow> panic nil_deref
                          | Some md \<Rightarrow>
                              bind_go (modify_obj (set_key (meta_ARN md)) p) (\<lambda>_.
                              ret (True, None)))))))"

definition ResolveReferences ::
  "acklib \<Rightarrow> 's resourceManager \<Rightarrow> apiReader \<Rightarrow> AWSResource \<Rightarrow>
   ('s world, AWSResource \<times> bool \<times> error option) go" where
  "ResolveReferences L rm apiReader res =
     bind_go (concreteResource res) (\<lambda>r.
     bind_go (resource_ko r) (\<lambda>p.
     bind_go (deref p) (\<lambda>k.
     let err = validateReferenceFields L k in
     bind_go (resolveReferenceForKMSEncryptionKey L rm apiReader p) (\<lambda>(fieldHasReferences, err2).
     if err2 \<noteq> None then ret (Some (Some \<lparr>ko = p\<rparr>), False \<or> fieldHasReferences, err2)
     else ret (Some (Some \<lparr>ko = p\<rparr>), False \<or> fieldHasReferences, err)))))"

section \<open>What a reference stands for\<close>

definition is_true :: "condition_type \<Rightarrow> Condition option \<Rightarrow> bool" where
  "is_true t c = (case c of None \<Rightarrow> False | Some c \<Rightarrow> cond_Type c = t \<and> cond_Status c = ConditionTrue)"

text \<open>
  The state of a key that was read: terminal, not synced, without an ARN, or its ARN; and the
  target of the reference of a cluster, if it has one: the reason why it does not resolve, or the
  ARN of the key.
\<close>

definition key_target :: "acklib \<Rightarrow> string \<Rightarrow> string \<Rightarrow> Key \<Rightarrow> error + string" where
  "key_target L namespace name key =
     (if list_ex (is_true ConditionTypeTerminal) (key_conditions key)
      then Inl (ackerr_ResourceReferenceTerminalFor L ''Key'' namespace name)
      else if \<not> list_ex (is_true ConditionTypeResourceSynced) (key_conditions key)
      then Inl (ackerr_ResourceReferenceNotSyncedFor L ''Key'' namespace name)
      else case Option.bind (key_ACKResourceMetadata key) meta_ARN of
        None \<Rightarrow> Inl (ackerr_ResourceReferenceMissingTargetFieldFor L ''Key'' namespace name
          ''Status.ACKResourceMetadata.ARN'')
      | Some arn \<Rightarrow> Inr arn)"

definition reference_target ::
  "acklib \<Rightarrow> 's resourceManager \<Rightarrow> apiReader \<Rightarrow> Cluster \<Rightarrow> (error + string) option" where
  "reference_target L rm apiReader k =
     (case Option.bind (spec_KMSEncryptionKeyRef (Spec k)) ref_From of
        None \<Rightarrow> None
      | Some arr \<Rightarrow> Some
          (let name = str_or_empty (ref_Name arr) in
           if name = '''' then Inl (fmt_Errorf
             ''provided resource reference is nil or empty: KMSEncryptionKeyRef'')
           else case ackrt_ValidateCrossNamespaceReference L (cfg_EnableCrossNamespace (rm_cfg rm))
                  (om_Namespace (ObjectMeta k)) (ref_Namespace arr) name of
             Inl err \<Rightarrow> Inl err
           | Inr namespace \<Rightarrow>
               (case apiReader namespace name of
                  Inl err \<Rightarrow> Inl err
                | Inr key \<Rightarrow> key_target L namespace name key)))"

definition reader_sound :: "apiReader \<Rightarrow> bool" where
  "reader_sound apiReader \<longleftrightarrow>
     (\<forall>namespace name key. apiReader namespace name = Inr key \<longrightarrow> None \<notin> set (key_conditions key))"

lemma target_has_reference:
  "reference_target L rm apiReader k = Some t \<Longrightarrow> spec_KMSEncryptionKeyRef (Spec k) \<noteq> None"
  by (cases "spec_KMSEncryptionKeyRef (Spec k)") (simp_all add: reference_target_def)

lemma any_terminal_key:
  "None \<notin> set cs \<Longrightarrow> any_terminal cs w = (Ret (list_ex (is_true ConditionTypeTerminal) cs), w)"
  by (induction cs rule: any_terminal.induct) (auto simp: go_run is_true_def)

lemma synced_loop_run:
  "None \<notin> set cs \<Longrightarrow>
   synced_loop cs b w = (Ret (b \<or> list_ex (is_true ConditionTypeResourceSynced) cs), w)"
  by (induction cs b rule: synced_loop.induct) (auto simp: go_run is_true_def)

lemma key_state_run:
  assumes "reader_sound apiReader"
  shows "case apiReader namespace name of
      Inl err \<Rightarrow> getReferencedResourceState_Key L apiReader name namespace w = (Ret (Inl err), w)
    | Inr key \<Rightarrow>
        (case key_target L namespace name key of
           Inl err \<Rightarrow> getReferencedResourceState_Key L apiReader name namespace w = (Ret (Inl err), w)
         | Inr arn \<Rightarrow> getReferencedResourceState_Key L apiReader name namespace w = (Ret (Inr key), w) \<and>
             (\<exists>md. key_ACKResourceMetadata key = Some md \<and> meta_ARN md = Some arn))"
  using assms
  by (auto simp: getReferencedResourceState_Key_def key_target_def any_terminal_key synced_loop_run
      reader_sound_def go_run split: sum.split option.split)

lemma resolve_run:
  assumes "reader_sound apiReader"
  shows "resolveReferenceForKMSEncryptionKey L rm apiReader (Some a) w =
    (case reference_target L rm apiReader (heap w a) of
       None \<Rightarrow> (Ret (False, None), w)
     | Some (Inl err) \<Rightarrow> (Ret (True, Some err), w)
     | Some (Inr arn) \<Rightarrow>
         (Ret (True, None), w\<lparr>heap := (heap w)(a := set_key (Some arn) (heap w a))\<rparr>))"
proof (cases "Option.bind (spec_KMSEncryptionKeyRef (Spec (heap w a))) ref_From")
  case None
  then show ?thesis
    by (simp add: resolveReferenceForKMSEncryptionKey_def reference_target_def go_run)
next
  case (Some arr)
  show ?thesis
  proof (cases "str_or_empty (ref_Name arr) = ''''")
    case True
    with Some show ?thesis
      by (auto simp: resolveReferenceForKMSEncryptionKey_def reference_target_def go_run
          str_or_empty_def split: option.splits)
  next
    case False
    then obtain name where name: "ref_Name arr = Some name" "name \<noteq> ''''"
      by (auto simp: str_or_empty_def split: option.splits)
    show ?thesis
    proof (cases "ackrt_ValidateCrossNamespaceReference L (cfg_EnableCrossNamespace (rm_cfg rm))
        (om_Namespace (ObjectMeta (heap w a))) (ref_Namespace arr) name")
      case (Inl err)
      with Some name show ?thesis
        by (simp add: resolveReferenceForKMSEncryptionKey_def reference_target_def go_run)
    next
      case (Inr namespace)
      with Some name key_state_run [OF assms, where namespace = namespace and name = name and L = L
          and w = w] show ?thesis
        by (auto simp: resolveReferenceForKMSEncryptionKey_def reference_target_def go_run
            split: sum.splits)
    qed
  qed
qed

lemma resolve_references_run:
  assumes "reader_sound apiReader"
  shows "ResolveReferences L rm apiReader (Some (Some \<lparr>ko = Some a\<rparr>)) w =
    (let same = Some (Some \<lparr>ko = Some a\<rparr>); err = validateReferenceFields L (heap w a) in
     case reference_target L rm apiReader (heap w a) of
       None \<Rightarrow> (Ret (same, False, err), w)
     | Some (Inl err) \<Rightarrow> (Ret (same, True, Some err), w)
     | Some (Inr arn) \<Rightarrow>
         (Ret (same, True, err), w\<lparr>heap := (heap w)(a := set_key (Some arn) (heap w a))\<rparr>))"
  by (simp add: ResolveReferences_def go_run resolve_run [OF assms] Let_def
      split: option.split sum.split)

section \<open>Properties\<close>

text \<open>
  C12.  Resolving references: the result is the very object passed in.  Without a reference nothing
  changes; a reference that does not resolve (an empty name, a namespace that is not allowed, a key
  that cannot be read, is terminal, is not synced or has no ARN) is reported by its own error and
  nothing changes; a reference that resolves puts the ARN of the key into that object, and only
  there.  A conflict between the reference and a key that is set is reported only in the last case
  and when there is no reference to resolve.  It never panics.
\<close>

theorem ResolveReferences_refines:
  assumes "reader_sound apiReader"
  shows "ResolveReferences L rm apiReader (Some (Some \<lparr>ko = Some a\<rparr>)) w =
    (let same = Some (Some \<lparr>ko = Some a\<rparr>); err = validateReferenceFields L (heap w a) in
     case reference_target L rm apiReader (heap w a) of
       None \<Rightarrow> (Ret (same, False, err), w)
     | Some (Inl err) \<Rightarrow> (Ret (same, True, Some err), w)
     | Some (Inr arn) \<Rightarrow>
         (Ret (same, True, err), w\<lparr>heap := (heap w)(a := set_key (Some arn) (heap w a))\<rparr>))"
  by (rule resolve_references_run [OF assms])

definition ref_reader :: apiReader where
  "ref_reader namespace name =
     (if name = ''k'' then
        Inr \<lparr>key_Conditions = Some [Some ((new_condition ConditionTypeResourceSynced)
               \<lparr>cond_Status := ConditionTrue\<rparr>)],
             key_ACKResourceMetadata = Some (empty_ResourceMetadata\<lparr>meta_ARN := Some ''arn:k''\<rparr>)\<rparr>
      else Inl ref_not_found)"

definition ref_referring :: "string option \<Rightarrow> Cluster" where
  "ref_referring key = ref_cluster\<lparr>Spec := (Spec ref_cluster)\<lparr>spec_KMSEncryptionKey := key,
     spec_KMSEncryptionKeyRef := Some \<lparr>ref_From = Some \<lparr>ref_Name = Some ''k'',
       ref_Namespace = None\<rparr>\<rparr>\<rparr>\<rparr>"

definition referring_world :: "string option \<Rightarrow> ref_svc world" where
  "referring_world key = ref_world\<lparr>heap := (\<lambda>_. ref_referring key)\<rparr>"

lemma ref_reader_sound: "reader_sound ref_reader"
  by (auto simp: reader_sound_def ref_reader_def key_conditions_def split: if_splits)

lemma ref_target: "reference_target ref_lib ref_rm ref_reader (ref_referring key) = Some (Inr ''arn:k'')"
  by (simp add: reference_target_def ref_referring_def ref_lib_def ref_reader_def key_target_def
      key_conditions_def is_true_def new_condition_def)

theorem ResolveReferences_refines_witness:
  "ResolveReferences ref_lib ref_rm ref_reader (Some (Some \<lparr>ko = Some 0\<rparr>)) (referring_world None) =
     (Ret (Some (Some \<lparr>ko = Some 0\<rparr>), True, None), (referring_world None)
        \<lparr>heap := (heap (referring_world None))(0 := set_key (Some ''arn:k'') (ref_referring None))\<rparr>)"
  using ResolveReferences_refines [OF ref_reader_sound, where L = ref_lib and rm = ref_rm and a = 0
      and w = "referring_world None"]
  by (simp add: referring_world_def ref_target Let_def validateReferenceFields_def)
    (simp add: ref_referring_def ref_cluster_def)

text \<open>
  C35.  A cluster that gives both a key and a reference that resolves is refused with the conflict
  error, but by then its key has been overwritten, in the object that was passed in.
\<close>

theorem ResolveReferences_overwrites_on_conflict:
  assumes "reader_sound apiReader"
    and "spec_KMSEncryptionKey (Spec (heap w a)) = Some given"
    and "reference_target L rm apiReader (heap w a) = Some (Inr arn)"
  shows "\<exists>w'. ResolveReferences L rm apiReader (Some (Some \<lparr>ko = Some a\<rparr>)) w =
      (Ret (Some (Some \<lparr>ko = Some a\<rparr>), True, Some (ackerr_ResourceReferenceAndIDNotSupportedFor L
         ''KMSEncryptionKey'' ''KMSEncryptionKeyRef'')), w') \<and>
    spec_KMSEncryptionKey (Spec (heap w' a)) = Some arn"
proof -
  have "spec_KMSEncryptionKeyRef (Spec (heap w a)) \<noteq> None"
    using target_has_reference [OF assms(3)] .
  with assms(2,3) show ?thesis
    by (simp add: resolve_references_run [OF assms(1)] validateReferenceFields_def set_key_def)
qed

theorem ResolveReferences_overwrites_on_conflict_witness:
  "\<exists>w' e. ResolveReferences ref_lib ref_rm ref_reader (Some (Some \<lparr>ko = Some 0\<rparr>))
      (referring_world (Some ''mine'')) = (Ret (Some (Some \<lparr>ko = Some 0\<rparr>), True, Some e), w') \<and>
    spec_KMSEncryptionKey (Spec (heap w' 0)) = Some ''arn:k''"
proof -
  have 1: "spec_KMSEncryptionKey (Spec (heap (referring_world (Some ''mine'')) 0)) = Some ''mine''"
    by (simp add: referring_world_def ref_referring_def)
  have 2: "reference_target ref_lib ref_rm ref_reader (heap (referring_world (Some ''mine'')) 0) =
      Some (Inr ''arn:k'')"
    by (simp add: referring_world_def ref_target)
  from ResolveReferences_overwrites_on_conflict [OF ref_reader_sound 1 2] show ?thesis by blast
qed

text \<open>
  C34.  Round trip: when resolving reports no error, clearing the resolved references gives a new
  object whose spec is the one before, and the resolved object is left as it is.
\<close>

theorem resolve_clear_roundtrip:
  assumes "reader_sound apiReader" "a < brk w"
    and "ResolveReferences L rm apiReader (Some (Some \<lparr>ko = Some a\<rparr>)) w = (Ret (res, has, None), w1)"
  shows "case ClearResolvedReferences res w1 of (res2, w2) \<Rightarrow>
    \<exists>n. res2 = Ret (Some (Some \<lparr>ko = Some n\<rparr>)) \<and> brk w \<le> n \<and>
      Spec (heap w2 n) = Spec (heap w a) \<and> heap w2 a = heap w1 a"
proof -
  have res: "res = Some (Some \<lparr>ko = Some a\<rparr>)" and valid: "validateReferenceFields L (heap w a) = None"
    and brk: "brk w1 = brk w"
    and spec: "heap w1 a = heap w a \<and> reference_target L rm apiReader (heap w a) = None \<or>
      (\<exists>arn. heap w1 a = set_key (Some arn) (heap w a)) \<and> spec_KMSEncryptionKeyRef (Spec (heap w a)) \<noteq> None"
    using assms(3) unfolding resolve_references_run [OF assms(1)]
    by (auto simp: Let_def dest: target_has_reference split: option.splits sum.splits)
  have clear: "ClearResolvedReferences res w1 = (Ret (Some (Some \<lparr>ko = Some (brk w)\<rparr>)),
      w1\<lparr>heap := (heap w1)(brk w := (if spec_KMSEncryptionKeyRef (Spec (heap w1 a)) \<noteq> None
           then set_key None (heap w1 a) else heap w1 a)), brk := Suc (brk w)\<rparr>)"
    by (simp add: ClearResolvedReferences_def res go_run brk)
  have "Spec (if spec_KMSEncryptionKeyRef (Spec (heap w1 a)) \<noteq> None
      then set_key None (heap w1 a) else heap w1 a) = Spec (heap w a)"
    using spec valid
    by (auto simp: set_key_def validateReferenceFields_def split: if_splits
        intro!: ClusterSpec.equality)
  then show ?thesis
    unfolding clear using assms(2) by auto
qed

theorem resolve_clear_roundtrip_witness:
  "\<exists>w1 w2 n. ResolveReferences ref_lib ref_rm ref_reader (Some (Some \<lparr>ko = Some 0\<rparr>)) (referring_world None) =
      (Ret (Some (Some \<lparr>ko = Some 0\<rparr>), True, None), w1) \<and>
    ClearResolvedReferences (Some (Some \<lparr>ko = Some 0\<rparr>)) w1 = (Ret (Some (Some \<lparr>ko = Some n\<rparr>)), w2) \<and>
    Spec (heap w2 n) = Spec (ref_referring None)"
proof -
  have a: "0 < brk (referring_world None)" by (simp add: referring_world_def ref_world_def)
  have r: "\<exists>w1. ResolveReferences ref_lib ref_rm ref_reader (Some (Some \<lparr>ko = Some 0\<rparr>)) (referring_world None) =
      (Ret (Some (Some \<lparr>ko = Some 0\<rparr>), True, None), w1)"
    using resolve_references_run [OF ref_reader_sound, where L = ref_lib and rm = ref_rm and a = 0
        and w = "referring_world None"]
    by (simp add: referring_world_def ref_target Let_def validateReferenceFields_def)
      (simp add: ref_referring_def ref_cluster_def)
  then obtain w1 where w1: "ResolveReferences ref_lib ref_rm ref_reader (Some (Some \<lparr>ko = Some 0\<rparr>))
      (referring_world None) = (Ret (Some (Some \<lparr>ko = Some 0\<rparr>), True, None), w1)" by blast
  from resolve_clear_roundtrip [OF ref_reader_sound a w1] w1 show ?thesis
    by (auto simp: referring_world_def split: prod.splits)
qed

end
