(* ===== verification/Factory.thy ===== *)
theory Factory
  imports Reference_Lib
begin

text \<open>
  \<open>pkg/resource/cluster/manager_factory.go\<close> and \<open>newResourceManager\<close> of \<open>manager.go\<close>: one
  resource manager per account, region and role, kept in a map that many goroutines read and write
  under a read-write lock.  \<open>ManagerFor\<close> is modelled twice: as a function that runs alone, and as
  the atomic steps of the goroutines that run it at the same time.  A \<open>*resourceManager\<close> is the
  index of the manager in the list of the managers created so far.
\<close>

section \<open>Requests and keys\<close>

record ManagerRequest =
  req_cfg :: Config
  req_clientcfg :: handle
  req_log :: handle
  req_metrics :: handle
  req_rr :: handle
  req_id :: string
  req_region :: string
  req_roleARN :: string

definition rmId :: "ManagerRequest \<Rightarrow> string" where
  "rmId req = req_id req @ ''/'' @ req_region req @ ''/'' @ req_roleARN req"

text \<open>\<open>svcsdk.NewFromConfig\<close> is a parameter: the client for a client configuration.\<close>

definition newResourceManager ::
  "(handle \<Rightarrow> 's sdkapi) \<Rightarrow> Config \<Rightarrow> handle \<Rightarrow> handle \<Rightarrow> handle \<Rightarrow> handle \<Rightarrow> string \<Rightarrow> string \<Rightarrow>
   error + 's resourceManager" where
  "newResourceManager NewFromConfig cfg clientcfg log mtrx rr account region =
     Inr \<lparr>rm_cfg = cfg, rm_clientcfg = clientcfg, rm_log = log, rm_metrics = mtrx, rm_rr = rr,
          rm_awsAccountID = account, rm_awsRegion = region, rm_awsPartition = cfg_Partition cfg,
          rm_sdkapi = NewFromConfig clientcfg\<rparr>"

definition new_for :: "(handle \<Rightarrow> 's sdkapi) \<Rightarrow> ManagerRequest \<Rightarrow> error + 's resourceManager" where
  "new_for N req =
     newResourceManager N (req_cfg req) (req_clientcfg req) (req_log req) (req_metrics req)
       (req_rr req) (req_id req) (req_region req)"

section \<open>The factory\<close>

datatype result = Found_rm nat | Error_rm error

datatype pc =
    Start
  | Reading                       \<comment> \<open>after \<open>f.RLock()\<close>\<close>
  | Looked "nat option"           \<comment> \<open>after the lookup, before \<open>f.RUnlock()\<close>\<close>
  | Missed                        \<comment> \<open>after \<open>f.RUnlock()\<close>, nothing found\<close>
  | Locked                        \<comment> \<open>after \<open>f.Lock()\<close>\<close>
  | Created nat                   \<comment> \<open>after \<open>newResourceManager\<close>\<close>
  | Leaving result                \<comment> \<open>before the deferred \<open>f.Unlock()\<close>\<close>
  | Done result

type_synonym thread = "ManagerRequest \<times> pc"

record 's resourceManagerFactory =
  rmCache :: "nat gomap"
  managers :: "'s resourceManager list"
  readers :: nat
  writer :: bool
  threads :: "thread list"

definition newResourceManagerFactory :: "'s resourceManagerFactory" where
  "newResourceManagerFactory =
     \<lparr>rmCache = fmempty, managers = [], readers = 0, writer = False, threads = []\<rparr>"

definition IsAdoptable :: bool where
  "IsAdoptable = True"

definition RequeueOnSuccessSeconds :: int where
  "RequeueOnSuccessSeconds = 0"

text \<open>\<open>ManagerFor\<close> when nothing else runs.\<close>

definition ManagerFor ::
  "(handle \<Rightarrow> 's sdkapi) \<Rightarrow> ManagerRequest \<Rightarrow> 's resourceManagerFactory \<Rightarrow>
   result \<times> 's resourceManagerFactory" where
  "ManagerFor N req f =
     (case fmlookup (rmCache f) (rmId req) of
        Some rm \<Rightarrow> (Found_rm rm, f)
      | None \<Rightarrow>
          (case new_for N req of
             Inl err \<Rightarrow> (Error_rm err, f)
           | Inr rm \<Rightarrow>
               (Found_rm (length (managers f)),
                f\<lparr>managers := managers f @ [rm],
                  rmCache := fmupd (rmId req) (length (managers f)) (rmCache f)\<rparr>)))"

text \<open>One atomic step of the goroutine \<open>i\<close>; \<open>None\<close> when it waits for the lock or has returned.\<close>

definition goto :: "nat \<Rightarrow> ManagerRequest \<Rightarrow> pc \<Rightarrow> 's resourceManagerFactory \<Rightarrow> 's resourceManagerFactory" where
  "goto i req p f = f\<lparr>threads := (threads f)[i := (req, p)]\<rparr>"

inductive step ::
  "(handle \<Rightarrow> 's sdkapi) \<Rightarrow> nat \<Rightarrow> 's resourceManagerFactory \<Rightarrow> 's resourceManagerFactory \<Rightarrow> bool"
  for N :: "handle \<Rightarrow> 's sdkapi" where
  RLock: "\<lbrakk>i < length (threads f); threads f ! i = (req, Start); \<not> writer f\<rbrakk> \<Longrightarrow>
     step N i f (goto i req Reading (f\<lparr>readers := Suc (readers f)\<rparr>))"
| Lookup: "\<lbrakk>i < length (threads f); threads f ! i = (req, Reading)\<rbrakk> \<Longrightarrow>
     step N i f (goto i req (Looked (fmlookup (rmCache f) (rmId req))) f)"
| RUnlock_found: "\<lbrakk>i < length (threads f); threads f ! i = (req, Looked (Some m))\<rbrakk> \<Longrightarrow>
     step N i f (goto i req (Done (Found_rm m)) (f\<lparr>readers := readers f - 1\<rparr>))"
| RUnlock_missed: "\<lbrakk>i < length (threads f); threads f ! i = (req, Looked None)\<rbrakk> \<Longrightarrow>
     step N i f (goto i req Missed (f\<lparr>readers := readers f - 1\<rparr>))"
| Lock: "\<lbrakk>i < length (threads f); threads f ! i = (req, Missed); \<not> writer f; readers f = 0\<rbrakk> \<Longrightarrow>
     step N i f (goto i req Locked (f\<lparr>writer := True\<rparr>))"
| Create_fails: "\<lbrakk>i < length (threads f); threads f ! i = (req, Locked); new_for N req = Inl err\<rbrakk> \<Longrightarrow>
     step N i f (goto i req (Leaving (Error_rm err)) f)"
| Create: "\<lbrakk>i < length (threads f); threads f ! i = (req, Locked); new_for N req = Inr rm\<rbrakk> \<Longrightarrow>
     step N i f (goto i req (Created (length (managers f))) (f\<lparr>managers := managers f @ [rm]\<rparr>))"
| Store: "\<lbrakk>i < length (threads f); threads f ! i = (req, Created m)\<rbrakk> \<Longrightarrow>
     step N i f (goto i req (Leaving (Found_rm m)) (f\<lparr>rmCache := fmupd (rmId req) m (rmCache f)\<rparr>))"
| Unlock: "\<lbrakk>i < length (threads f); threads f ! i = (req, Leaving r)\<rbrakk> \<Longrightarrow>
     step N i f (goto i req (Done r) (f\<lparr>writer := False\<rparr>))"

inductive_cases stepE: "step N i f f'"

text \<open>The states in which goroutines may be: a call may start at any time.\<close>

inductive reachable :: "(handle \<Rightarrow> 's sdkapi) \<Rightarrow> 's resourceManagerFactory \<Rightarrow> bool"
  for N :: "handle \<Rightarrow> 's sdkapi" where
  new: "reachable N newResourceManagerFactory"
| call: "reachable N f \<Longrightarrow> reachable N (f\<lparr>threads := threads f @ [(req, Start)]\<rparr>)"
| move: "reachable N f \<Longrightarrow> step N i f f' \<Longrightarrow> reachable N f'"

text \<open>The same step as a function, to run a schedule.\<close>

definition exec ::
  "(handle \<Rightarrow> 's sdkapi) \<Rightarrow> nat \<Rightarrow> 's resourceManagerFactory \<Rightarrow> 's resourceManagerFactory option" where
  "exec N i f =
     (if length (threads f) \<le> i then None
      else case threads f ! i of (req, p) \<Rightarrow>
        (case p of
           Start \<Rightarrow> if writer f then None else Some (goto i req Reading (f\<lparr>readers := Suc (readers f)\<rparr>))
         | Reading \<Rightarrow> Some (goto i req (Looked (fmlookup (rmCache f) (rmId req))) f)
         | Looked found \<Rightarrow> Some (goto i req
             (case found of Some m \<Rightarrow> Done (Found_rm m) | None \<Rightarrow> Missed) (f\<lparr>readers := readers f - 1\<rparr>))
         | Missed \<Rightarrow>
             if writer f \<or> readers f \<noteq> 0 then None else Some (goto i req Locked (f\<lparr>writer := True\<rparr>))
         | Locked \<Rightarrow> Some
             (case new_for N req of
                Inl err \<Rightarrow> goto i req (Leaving (Error_rm err)) f
              | Inr rm \<Rightarrow> goto i req (Created (length (managers f))) (f\<lparr>managers := managers f @ [rm]\<rparr>))
         | Created m \<Rightarrow> Some (goto i req (Leaving (Found_rm m))
             (f\<lparr>rmCache := fmupd (rmId req) m (rmCache f)\<rparr>))
         | Leaving r \<Rightarrow> Some (goto i req (Done r) (f\<lparr>writer := False\<rparr>))
         | Done r \<Rightarrow> None))"

lemma exec_step: "exec N i f = Some f' \<longleftrightarrow> step N i f f'"
proof
  assume run: "exec N i f = Some f'"
  then have i: "i < length (threads f)" by (simp add: exec_def split: if_splits)
  obtain req p where t: "threads f ! i = (req, p)" by (cases "threads f ! i")
  note rules = step.RLock [OF i, of req N] step.Lookup [OF i, of req N]
    step.RUnlock_found [OF i, of req _ N] step.RUnlock_missed [OF i, of req N]
    step.Lock [OF i, of req N] step.Create_fails [OF i, of req N] step.Create [OF i, of req N]
    step.Store [OF i, of req _ N] step.Unlock [OF i, of req _ N]
  show "step N i f f'"
    using run i t rules by (cases p) (auto simp: exec_def split: if_splits option.splits sum.splits)
next
  assume "step N i f f'"
  then show "exec N i f = Some f'"
    by cases (simp_all add: exec_def)
qed

fun run_schedule ::
  "(handle \<Rightarrow> 's sdkapi) \<Rightarrow> nat list \<Rightarrow> 's resourceManagerFactory \<Rightarrow> 's resourceManagerFactory option" where
  "run_schedule N [] f = Some f"
| "run_schedule N (i # sched) f =
     (case exec N i f of None \<Rightarrow> None | Some f' \<Rightarrow> run_schedule N sched f')"

lemma run_schedule_reachable:
  "reachable N f \<Longrightarrow> run_schedule N sched f = Some f' \<Longrightarrow> reachable N f'"
proof (induction N sched f rule: run_schedule.induct)
  case (2 N i sched f)
  then show ?case by (auto simp: exec_step split: option.splits intro: reachable.move)
qed simp

section \<open>The lock\<close>

text \<open>The goroutines that hold the lock for reading, and the one that holds it for writing.\<close>

fun reads :: "pc \<Rightarrow> bool" where
  "reads Reading = True"
| "reads (Looked found) = True"
| "reads _ = False"

fun owns :: "pc \<Rightarrow> bool" where
  "owns Locked = True"
| "owns (Created m) = True"
| "owns (Leaving r) = True"
| "owns _ = False"

definition count :: "(pc \<Rightarrow> bool) \<Rightarrow> thread list \<Rightarrow> nat" where
  "count P ts = length (filter (\<lambda>t. P (snd t)) ts)"

lemma count_simps [simp]:
  "count P [] = 0"
  "count P (ts @ [t]) = count P ts + (if P (snd t) then 1 else 0)"
  by (simp_all add: count_def)

lemma count_update:
  "i < length ts \<Longrightarrow> ts ! i = (req, p) \<Longrightarrow>
   count P (ts[i := (req, q)]) + (if P p then 1 else 0) = count P ts + (if P q then 1 else 0)"
proof (induction ts arbitrary: i)
  case (Cons t ts)
  then show ?case by (cases i) (auto simp: count_def)
qed simp

lemma count_pos: "i < length ts \<Longrightarrow> P (snd (ts ! i)) \<Longrightarrow> 0 < count P ts"
  by (auto simp: count_def filter_empty_conv intro!: bexI [of _ "ts ! i"])

lemma count_two:
  assumes "i < length ts" "j < length ts" "i \<noteq> j" "P (snd (ts ! i))" "P (snd (ts ! j))"
  shows "2 \<le> count P ts"
proof -
  have "count P ts = card {k. k < length ts \<and> P (snd (ts ! k))}"
    by (simp add: count_def length_filter_conv_card)
  moreover have "{i, j} \<subseteq> {k. k < length ts \<and> P (snd (ts ! k))}" using assms by auto
  then have "card {i, j} \<le> card {k. k < length ts \<and> P (snd (ts ! k))}" by (intro card_mono) auto
  ultimately show ?thesis using assms(3) by simp
qed

definition lock_inv :: "'s resourceManagerFactory \<Rightarrow> bool" where
  "lock_inv f \<longleftrightarrow>
     readers f = count reads (threads f) \<and>
     count owns (threads f) = (if writer f then 1 else 0) \<and>
     (writer f \<longrightarrow> readers f = 0)"

lemma goto_simps [simp]:
  "threads (goto i req p f) = (threads f)[i := (req, p)]"
  "readers (goto i req p f) = readers f"
  "writer (goto i req p f) = writer f"
  "rmCache (goto i req p f) = rmCache f"
  "managers (goto i req p f) = managers f"
  by (simp_all add: goto_def)

text \<open>One goroutine moves from \<open>p\<close> to \<open>q\<close>: the lock must count what that changes.\<close>

lemma lock_goto:
  assumes "lock_inv f" "i < length (threads f)" "threads f ! i = (req, p)" "threads g = threads f"
    and "readers g + (if reads p then 1 else 0) = readers f + (if reads q then 1 else 0)"
    and "(if writer g then 1 else 0) + (if owns p then 1 else 0) =
      (if writer f then 1 else 0) + (if owns q then 1 else (0 :: nat))"
    and "writer g \<Longrightarrow> readers g = 0"
  shows "lock_inv (goto i req q g)"
  using assms count_update [OF assms(2,3), of reads q] count_update [OF assms(2,3), of owns q]
  by (simp add: lock_inv_def)

lemma lock_invD:
  assumes "lock_inv f" "i < length (threads f)" "threads f ! i = (req, p)"
  shows "reads p \<Longrightarrow> 0 < readers f \<and> \<not> writer f" and "owns p \<Longrightarrow> writer f \<and> readers f = 0"
  using assms count_pos [OF assms(2), of reads] count_pos [OF assms(2), of owns]
  by (auto simp: lock_inv_def split: if_splits)

lemma lock_step: "step N i f f' \<Longrightarrow> lock_inv f \<Longrightarrow> lock_inv f'"
proof (induction rule: step.induct)
  case (RLock i f req)
  then show ?case by (intro lock_goto [OF RLock(4,1,2)]) (simp_all add: lock_inv_def)
next
  case (Lookup i f req)
  with lock_invD [OF Lookup(3,1,2)] show ?case by (intro lock_goto [OF Lookup(3,1,2)]) simp_all
next
  case (RUnlock_found i f req m)
  with lock_invD [OF RUnlock_found(3,1,2)] show ?case
    by (intro lock_goto [OF RUnlock_found(3,1,2)]) simp_all
next
  case (RUnlock_missed i f req)
  with lock_invD [OF RUnlock_missed(3,1,2)] show ?case
    by (intro lock_goto [OF RUnlock_missed(3,1,2)]) simp_all
next
  case (Lock i f req)
  then show ?case by (intro lock_goto [OF Lock(5,1,2)]) simp_all
next
  case (Create_fails i f req err)
  with lock_invD [OF Create_fails(4,1,2)] show ?case by (intro lock_goto [OF Create_fails(4,1,2)]) simp_all
next
  case (Create i f req rm)
  with lock_invD [OF Create(4,1,2)] show ?case by (intro lock_goto [OF Create(4,1,2)]) simp_all
next
  case (Store i f req m)
  with lock_invD [OF Store(3,1,2)] show ?case by (intro lock_goto [OF Store(3,1,2)]) simp_all
next
  case (Unlock i f req r)
  with lock_invD [OF Unlock(3,1,2)] show ?case by (intro lock_goto [OF Unlock(3,1,2)]) simp_all
qed

lemma reachable_lock: "reachable N f \<Longrightarrow> lock_inv f"
proof (induction rule: reachable.induct)
  case (move f i f')
  then show ?case using lock_step by blast
qed (auto simp: lock_inv_def newResourceManagerFactory_def)

section \<open>The cache\<close>

text \<open>What the factory relies on of the map: a store is seen at its key and nowhere else.\<close>

locale keyed_cache =
  fixes lookup :: "'c \<Rightarrow> 'k \<Rightarrow> 'm option"
    and store :: "'k \<Rightarrow> 'm \<Rightarrow> 'c \<Rightarrow> 'c"
  assumes lookup_store: "lookup (store k m c) j = (if j = k then Some m else lookup c j)"
begin

lemma hit: "lookup (store k m c) k = Some m"
  by (simp add: lookup_store)

lemma entries_store:
  assumes "\<And>k m. lookup c k = Some m \<Longrightarrow> P k m" and "P key v"
    and "lookup (store key v c) k = Some m"
  shows "P k m"
  using assms by (auto simp: lookup_store split: if_splits)

end

interpretation manager_cache: keyed_cache fmlookup fmupd
  by unfold_locales simp

definition callers :: "'s resourceManagerFactory \<Rightarrow> ManagerRequest set" where
  "callers f = fst ` set (threads f)"

definition made :: "(handle \<Rightarrow> 's sdkapi) \<Rightarrow> 's resourceManagerFactory \<Rightarrow> string \<Rightarrow> nat \<Rightarrow> bool" where
  "made N f key m \<longleftrightarrow> m < length (managers f) \<and>
     (\<exists>req \<in> callers f. rmId req = key \<and> new_for N req = Inr (managers f ! m))"

fun held :: "pc \<Rightarrow> nat option" where
  "held (Looked found) = found"
| "held (Created m) = Some m"
| "held (Leaving (Found_rm m)) = Some m"
| "held (Done (Found_rm m)) = Some m"
| "held _ = None"

definition data_inv :: "(handle \<Rightarrow> 's sdkapi) \<Rightarrow> 's resourceManagerFactory \<Rightarrow> bool" where
  "data_inv N f \<longleftrightarrow>
     (\<forall>k m. fmlookup (rmCache f) k = Some m \<longrightarrow> made N f k m) \<and>
     (\<forall>t \<in> set (threads f). \<forall>m. held (snd t) = Some m \<longrightarrow> made N f (rmId (fst t)) m)"

lemma made_mono:
  assumes "made N f key m" "callers f \<subseteq> callers g"
    and "managers g = managers f @ ms"
  shows "made N g key m"
  using assms by (fastforce simp: made_def nth_append)

lemma callers_goto:
  assumes "threads f ! i = (req, p)" shows "callers (goto i req q f) = callers f"
proof (cases "i < length (threads f)")
  case True
  have "map fst ((threads f)[i := (req, q)]) = (map fst (threads f))[i := map fst (threads f) ! i]"
    using True assms by (simp add: map_update)
  then have "map fst ((threads f)[i := (req, q)]) = map fst (threads f)" by simp
  then have "set (map fst ((threads f)[i := (req, q)])) = set (map fst (threads f))" by (rule arg_cong)
  then show ?thesis by (simp add: callers_def)
qed (simp add: callers_def list_update_beyond)

text \<open>A step of one goroutine: it may add a manager, and its new position may hold one.\<close>

lemma data_goto:
  assumes inv: "data_inv N f" and i: "i < length (threads f)" "threads f ! i = (req, p)"
    and g: "threads g = threads f" "managers g = managers f @ ms"
    and cache: "\<And>k m. fmlookup (rmCache g) k = Some m \<Longrightarrow> made N (goto i req q g) k m"
    and pos: "\<And>m. held q = Some m \<Longrightarrow> made N (goto i req q g) (rmId req) m"
  shows "data_inv N (goto i req q g)"
proof -
  have same: "callers (goto i req q g) = callers f"
    using callers_goto [of g i req p q] i(2) g(1) by (simp add: callers_def)
  have "made N (goto i req q g) (rmId (fst t)) m"
    if t: "t \<in> set (threads (goto i req q g))" "held (snd t) = Some m" for t m
  proof (cases "t = (req, q)")
    case True
    with t pos show ?thesis by simp
  next
    case False
    with t have "t \<in> set (threads f)"
      using set_update_subset_insert [of "threads f" i "(req, q)"] by (auto simp: g)
    with inv t have "made N f (rmId (fst t)) m" by (auto simp: data_inv_def)
    then show ?thesis by (rule made_mono) (simp_all only: same g goto_simps order_refl)
  qed
  with cache show ?thesis by (auto simp: data_inv_def)
qed

lemma made_goto:
  assumes "made N f key m" "threads f ! i = (req, p)" "threads g = threads f"
    and "managers g = managers f @ ms"
  shows "made N (goto i req q g) key m"
  using assms(1)
proof (rule made_mono)
  show "callers f \<subseteq> callers (goto i req q g)"
    using callers_goto [of g i req p q] assms(2,3) by (simp add: callers_def)
  show "managers (goto i req q g) = managers f @ ms" using assms(4) by simp
qed

lemma held_made:
  "data_inv N f \<Longrightarrow> i < length (threads f) \<Longrightarrow> threads f ! i = (req, p) \<Longrightarrow> held p = Some m \<Longrightarrow>
   made N f (rmId req) m"
  using nth_mem [of i "threads f"] by (fastforce simp: data_inv_def)

lemma cached_made: "data_inv N f \<Longrightarrow> fmlookup (rmCache f) k = Some m \<Longrightarrow> made N f k m"
  by (simp add: data_inv_def)

text \<open>The step that makes a manager, and the one that stores it.\<close>

lemma data_create:
  assumes "i < length (threads f)" "threads f ! i = (req, Locked)" "new_for N req = Inr rm" "data_inv N f"
  shows "data_inv N (goto i req (Created (length (managers f))) (f\<lparr>managers := managers f @ [rm]\<rparr>))"
proof -
  let ?g = "f\<lparr>managers := managers f @ [rm]\<rparr>"
  note keep = made_goto [OF _ assms(2), where ms = "[rm]" and N = N]
  have "req \<in> callers f"
    using assms(1,2) by (metis callers_def fst_conv image_eqI nth_mem)
  then have "made N (goto i req (Created (length (managers f))) ?g) (rmId req) (length (managers f))"
    using assms(2,3) callers_goto [of ?g i req Locked "Created (length (managers f))"]
    by (auto simp: made_def callers_def)
  then show ?thesis
    by (intro data_goto [OF assms(4,1,2), where ms = "[rm]"])
      (simp_all add: keep cached_made [OF assms(4)])
qed

lemma data_store:
  assumes "i < length (threads f)" "threads f ! i = (req, Created m)" "data_inv N f"
  shows "data_inv N (goto i req (Leaving (Found_rm m)) (f\<lparr>rmCache := fmupd (rmId req) m (rmCache f)\<rparr>))"
proof -
  let ?g = "f\<lparr>rmCache := fmupd (rmId req) m (rmCache f)\<rparr>"
  note keep = made_goto [OF _ assms(2), where ms = "[]" and N = N]
  have m: "made N (goto i req (Leaving (Found_rm m)) ?g) (rmId req) m"
    by (rule keep [OF held_made [OF assms(3,1,2)]]) simp_all
  show ?thesis
  proof (rule data_goto [OF assms(3,1,2), where ms = "[]"])
    fix k m' assume "fmlookup (rmCache ?g) k = Some m'"
    then show "made N (goto i req (Leaving (Found_rm m)) ?g) k m'"
      using manager_cache.entries_store [of "rmCache f" "made N (goto i req (Leaving (Found_rm m)) ?g)"
          "rmId req" m k m'] m keep [OF cached_made [OF assms(3)], of _ _ ?g "Leaving (Found_rm m)"]
      by simp
  qed (simp_all add: m)
qed

text \<open>A step that makes no manager and stores none.\<close>

lemma data_stay:
  assumes "data_inv N f" "i < length (threads f)" "threads f ! i = (req, p)"
    and g: "threads g = threads f" "managers g = managers f" "rmCache g = rmCache f"
    and "\<And>m. held q = Some m \<Longrightarrow> held p = Some m \<or> fmlookup (rmCache f) (rmId req) = Some m"
  shows "data_inv N (goto i req q g)"
proof -
  have keep: "made N (goto i req q g) k m" if "made N f k m" for k m
    using made_goto [OF that assms(3) g(1), where ms = "[]"] g(2) by simp
  show ?thesis
  proof (rule data_goto [OF assms(1-4), where ms = "[]"])
    fix m assume "held q = Some m"
    with assms(7) have "made N f (rmId req) m"
      using held_made [OF assms(1-3)] cached_made [OF assms(1)] by blast
    then show "made N (goto i req q g) (rmId req) m" by (rule keep)
  qed (use g keep cached_made [OF assms(1)] in simp_all)
qed

lemma data_step: "step N i f f' \<Longrightarrow> data_inv N f \<Longrightarrow> data_inv N f'"
proof (induction rule: step.induct)
  case (RLock i f req)
  show ?case by (rule data_stay [OF RLock(4,1,2)]) simp_all
next
  case (Lookup i f req)
  show ?case by (rule data_stay [OF Lookup(3,1,2)]) simp_all
next
  case (RUnlock_found i f req m)
  show ?case by (rule data_stay [OF RUnlock_found(3,1,2)]) simp_all
next
  case (RUnlock_missed i f req)
  show ?case by (rule data_stay [OF RUnlock_missed(3,1,2)]) simp_all
next
  case (Lock i f req)
  show ?case by (rule data_stay [OF Lock(5,1,2)]) simp_all
next
  case (Create_fails i f req err)
  show ?case by (rule data_stay [OF Create_fails(4,1,2)]) simp_all
next
  case (Create i f req rm)
  then show ?case by (rule data_create)
next
  case (Store i f req m)
  then show ?case by (intro data_store)
next
  case (Unlock i f req r)
  show ?case by (rule data_stay [OF Unlock(3,1,2)]) (cases r; simp)+
qed

lemma data_call:
  assumes "data_inv N f"
  shows "data_inv N (f\<lparr>threads := threads f @ [(req, Start)]\<rparr>)"
proof -
  have "made N (f\<lparr>threads := threads f @ [(req, Start)]\<rparr>) k m" if "made N f k m" for k m
    using that by (rule made_mono [where ms = "[]"]) (auto simp: callers_def)
  with assms show ?thesis by (auto simp: data_inv_def)
qed

lemma reachable_data: "reachable N f \<Longrightarrow> data_inv N f"
proof (induction rule: reachable.induct)
  case (call f req)
  then show ?case by (intro data_call)
next
  case (move f i f')
  then show ?case using data_step by blast
qed (simp add: data_inv_def newResourceManagerFactory_def)


section \<open>Progress\<close>

text \<open>How many more steps a goroutine takes at most.\<close>

fun rank :: "pc \<Rightarrow> nat" where
  "rank Start = 7"
| "rank Reading = 6"
| "rank (Looked found) = 5"
| "rank Missed = 4"
| "rank Locked = 3"
| "rank (Created m) = 2"
| "rank (Leaving r) = 1"
| "rank (Done r) = 0"

definition work :: "thread list \<Rightarrow> nat" where
  "work ts = sum_list (map (\<lambda>t. rank (snd t)) ts)"

lemma work_update:
  assumes "i < length ts" "ts ! i = (req, p)" "rank q < rank p"
  shows "work (ts[i := (req, q)]) < work ts"
proof -
  have "work (ts[i := (req, q)]) + rank p = work ts + rank q"
    using assms(1,2)
  proof (induction ts arbitrary: i)
    case (Cons t ts)
    show ?case
    proof (cases i)
      case 0
      with Cons.prems show ?thesis by (simp add: work_def)
    next
      case (Suc k)
      with Cons show ?thesis by (fastforce simp: work_def)
    qed
  qed simp
  with assms(3) show ?thesis by simp
qed

lemma step_work: "step N i f f' \<Longrightarrow> work (threads f') < work (threads f)"
  by (induction rule: step.induct) (simp_all add: work_update)

lemma run_work: "run_schedule N sched f = Some f' \<Longrightarrow> length sched + work (threads f') \<le> work (threads f)"
proof (induction N sched f rule: run_schedule.induct)
  case (2 N i sched f)
  then obtain g where "exec N i f = Some g" "run_schedule N sched g = Some f'"
    by (auto split: option.splits)
  with 2(1) [of g] step_work [of N i f g] show ?case by (simp add: exec_step)
qed simp

lemma work_bound: "work ts \<le> 7 * length ts"
proof (induction ts)
  case (Cons t ts)
  have "rank (snd t) \<le> 7" by (cases "snd t") simp_all
  with Cons show ?case by (simp add: work_def)
qed (simp add: work_def)

fun finished :: "pc \<Rightarrow> bool" where
  "finished (Done r) = True"
| "finished _ = False"

lemma count_exists: "0 < count P ts \<Longrightarrow> \<exists>i < length ts. P (snd (ts ! i))"
  by (fastforce simp: count_def filter_empty_conv in_set_conv_nth)

lemma waiting_only:
  assumes stuck: "\<And>i. exec N i f = None" and i: "i < length (threads f)"
  shows "(snd (threads f ! i) = Start \<and> writer f) \<or>
    (snd (threads f ! i) = Missed \<and> (writer f \<or> readers f \<noteq> 0)) \<or> finished (snd (threads f ! i))"
proof -
  obtain req p where t: "threads f ! i = (req, p)" by (cases "threads f ! i")
  show ?thesis
    using stuck [of i] i t by (cases p) (auto simp: exec_def split: if_splits)
qed

lemma no_deadlock:
  assumes "lock_inv f" and "i < length (threads f)" and "\<not> finished (snd (threads f ! i))"
  shows "\<exists>j f'. exec N j f = Some f'"
proof (rule ccontr)
  assume "\<nexists>j f'. exec N j f = Some f'"
  then have stuck: "\<And>j. exec N j f = None" by (metis not_None_eq)
  note waits = waiting_only [OF stuck]
  have "\<not> writer f"
  proof
    assume "writer f"
    with assms(1) obtain j where "j < length (threads f)" "owns (snd (threads f ! j))"
      using count_exists [of owns "threads f"] by (auto simp: lock_inv_def)
    with waits [of j] show False by (cases "snd (threads f ! j)") auto
  qed
  moreover have "readers f = 0"
  proof (rule ccontr)
    assume "readers f \<noteq> 0"
    with assms(1) obtain j where "j < length (threads f)" "reads (snd (threads f ! j))"
      using count_exists [of reads "threads f"] by (auto simp: lock_inv_def)
    with waits [of j] \<open>\<not> writer f\<close> show False by (cases "snd (threads f ! j)") auto
  qed
  ultimately show False using waits [OF assms(2)] assms(3) by simp
qed

lemma can_finish:
  "reachable N f \<Longrightarrow>
   \<exists>sched f'. run_schedule N sched f = Some f' \<and> list_all (\<lambda>t. finished (snd t)) (threads f')"
proof (induction "work (threads f)" arbitrary: f rule: less_induct)
  case less
  show ?case
  proof (cases "list_all (\<lambda>t. finished (snd t)) (threads f)")
    case True
    then have "run_schedule N [] f = Some f \<and> list_all (\<lambda>t. finished (snd t)) (threads f)" by simp
    then show ?thesis by blast
  next
    case False
    then obtain i where "i < length (threads f)" "\<not> finished (snd (threads f ! i))"
      by (auto simp: list_all_length)
    then obtain j g where g: "exec N j f = Some g"
      using no_deadlock [OF reachable_lock [OF less(2)]] by blast
    then have "step N j f g" by (simp add: exec_step)
    then obtain sched f' where "run_schedule N sched g = Some f'"
      "list_all (\<lambda>t. finished (snd t)) (threads f')"
      using less(1) [OF step_work, of N j g] reachable.move [OF less(2)] by blast
    with g have "run_schedule N (j # sched) f = Some f' \<and> list_all (\<lambda>t. finished (snd t)) (threads f')"
      by simp
    then show ?thesis by blast
  qed
qed


section \<open>What the factory guarantees\<close>

text \<open>Two concurrent callers with the same account, region and role, and their interleaving.\<close>

definition ref_request :: ManagerRequest where
  "ref_request =
     \<lparr>req_cfg = rm_cfg ref_rm, req_clientcfg = rm_clientcfg ref_rm, req_log = rm_log ref_rm,
      req_metrics = rm_metrics ref_rm, req_rr = rm_rr ref_rm, req_id = ''111122223333'',
      req_region = ''us-east-1'', req_roleARN = ''''\<rparr>"

definition ref_client :: "handle \<Rightarrow> ref_svc sdkapi" where
  "ref_client cc = rm_sdkapi ref_rm"

definition two_callers :: "ManagerRequest \<Rightarrow> 's resourceManagerFactory" where
  "two_callers req = newResourceManagerFactory\<lparr>threads := [(req, Start), (req, Start)]\<rparr>"

lemma two_callers_reachable: "reachable N (two_callers req)"
proof -
  from reachable.call [OF reachable.call [OF reachable.new [of N], of req], of req] show ?thesis
    by (simp add: two_callers_def newResourceManagerFactory_def)
qed

lemmas run_simps = exec_def goto_def two_callers_def newResourceManagerFactory_def new_for_def
  newResourceManager_def

text \<open>
  C16. The lock of the factory excludes: in every state that goroutines calling \<open>ManagerFor\<close> can
  reach, while one of them is between \<open>f.Lock()\<close> and the deferred \<open>f.Unlock()\<close> no other one is
  there, and none is between \<open>f.RLock()\<close> and \<open>f.RUnlock()\<close>; so the map is never written while it
  is read or written.
\<close>

theorem ManagerFor_mutual_exclusion:
  assumes "reachable N f" "i < length (threads f)" "j < length (threads f)" "i \<noteq> j"
    and "owns (snd (threads f ! i))"
  shows "\<not> owns (snd (threads f ! j)) \<and> \<not> reads (snd (threads f ! j))"
proof -
  from reachable_lock [OF assms(1)] have inv: "lock_inv f" .
  have "\<not> owns (snd (threads f ! j))"
    using inv count_two [OF assms(2,3,4), of owns] assms(5) by (auto simp: lock_inv_def split: if_splits)
  moreover have "\<not> reads (snd (threads f ! j))"
    using inv count_pos [OF assms(2), of owns] count_pos [OF assms(3), of reads] assms(5)
    by (auto simp: lock_inv_def split: if_splits)
  ultimately show ?thesis by simp
qed

lemma writing_reachable:
  "\<exists>f. run_schedule ref_client [0, 0, 0, 0] (two_callers ref_request) = Some f \<and>
     length (threads f) = 2 \<and> owns (snd (threads f ! 0))"
  by (simp add: run_simps)

theorem ManagerFor_mutual_exclusion_witness:
  "\<exists>f. reachable ref_client f \<and> owns (snd (threads f ! 0)) \<and>
     \<not> owns (snd (threads f ! 1)) \<and> \<not> reads (snd (threads f ! 1))"
proof -
  obtain f where f: "run_schedule ref_client [0, 0, 0, 0] (two_callers ref_request) = Some f"
    "length (threads f) = 2" "owns (snd (threads f ! 0))" using writing_reachable by blast
  have "reachable ref_client f"
    using run_schedule_reachable [OF two_callers_reachable f(1)] .
  with ManagerFor_mutual_exclusion [of ref_client f 0 1] f(2,3) show ?thesis by auto
qed

text \<open>The three parts of a key can be told apart when account and region contain no slash.\<close>

lemma split_at_slash:
  "a @ CHR ''/'' # s = b @ CHR ''/'' # t \<Longrightarrow> CHR ''/'' \<notin> set a \<Longrightarrow> CHR ''/'' \<notin> set b \<Longrightarrow>
   a = b \<and> s = t"
  by (auto simp: append_eq_append_conv2 append_eq_Cons_conv Cons_eq_append_conv)

definition slash_free :: "ManagerRequest \<Rightarrow> bool" where
  "slash_free req \<longleftrightarrow> CHR ''/'' \<notin> set (req_id req) \<and> CHR ''/'' \<notin> set (req_region req)"

lemma rmId_inject:
  assumes "rmId r = rmId q" "slash_free r" "slash_free q"
  shows "req_id r = req_id q \<and> req_region r = req_region q \<and> req_roleARN r = req_roleARN q"
proof -
  from assms(1) have keys: "req_id r @ CHR ''/'' # req_region r @ CHR ''/'' # req_roleARN r =
      req_id q @ CHR ''/'' # req_region q @ CHR ''/'' # req_roleARN q" by (simp add: rmId_def)
  from split_at_slash [OF keys] assms(2,3) have "req_id r = req_id q"
    "req_region r @ CHR ''/'' # req_roleARN r = req_region q @ CHR ''/'' # req_roleARN q"
    by (simp_all add: slash_free_def)
  with split_at_slash [OF this(2)] assms(2,3) show ?thesis by (simp add: slash_free_def)
qed

text \<open>
  C17. A goroutine gets the manager of its own account: whatever the interleaving, the manager
  \<open>ManagerFor\<close> returns exists and was made for a caller with the same account, region and role, so
  its account and region are those of the request.  That holds because account identifiers and
  region names contain no slash, the separator of the keys.
\<close>

theorem ManagerFor_identity:
  assumes "reachable N f" "i < length (threads f)" "threads f ! i = (req, Done (Found_rm m))"
    and "\<forall>r \<in> callers f. slash_free r"
  shows "m < length (managers f) \<and>
    rm_awsAccountID (managers f ! m) = req_id req \<and> rm_awsRegion (managers f ! m) = req_region req \<and>
    (\<exists>r \<in> callers f. req_roleARN r = req_roleARN req \<and> new_for N r = Inr (managers f ! m))"
proof -
  have "made N f (rmId req) m"
    using held_made [OF reachable_data [OF assms(1)] assms(2,3)] by simp
  then obtain r where r: "m < length (managers f)" "r \<in> callers f" "rmId r = rmId req"
      "new_for N r = Inr (managers f ! m)" by (auto simp: made_def)
  have "req \<in> callers f" using assms(2,3) by (metis callers_def fst_conv image_eqI nth_mem)
  with r(2,3) assms(4) have "req_id r = req_id req \<and> req_region r = req_region req \<and>
      req_roleARN r = req_roleARN req" by (intro rmId_inject) auto
  moreover have "rm_awsAccountID (managers f ! m) = req_id r \<and> rm_awsRegion (managers f ! m) = req_region r"
    using r(4) by (simp add: new_for_def newResourceManager_def split: if_splits) (metis resourceManager.select_convs)
  ultimately show ?thesis using r by auto
qed

lemma raced:
  "\<exists>f. run_schedule N [0, 0, 0, 1, 1, 1, 0, 0, 0, 0, 1, 1, 1, 1] (two_callers req) = Some f \<and>
     threads f = [(req, Done (Found_rm 0)), (req, Done (Found_rm 1))] \<and> length (managers f) = 2 \<and>
     fmlookup (rmCache f) (rmId req) = Some 1"
  by (simp add: run_simps)

theorem ManagerFor_identity_witness:
  "\<exists>f. reachable ref_client f \<and> rm_awsAccountID (managers f ! 0) = ''111122223333''"
proof -
  obtain f where f: "run_schedule ref_client [0, 0, 0, 1, 1, 1, 0, 0, 0, 0, 1, 1, 1, 1]
      (two_callers ref_request) = Some f"
    "threads f = [(ref_request, Done (Found_rm 0)), (ref_request, Done (Found_rm 1))]"
    using raced [of ref_client ref_request] by blast
  have r: "reachable ref_client f" using run_schedule_reachable [OF two_callers_reachable f(1)] .
  have "\<forall>r \<in> callers f. slash_free r"
    by (simp add: callers_def f(2) slash_free_def ref_request_def)
  with ManagerFor_identity [of ref_client f 0 ref_request 0] r f(2)
  have "rm_awsAccountID (managers f ! 0) = ''111122223333''" by (simp add: ref_request_def)
  with r show ?thesis by blast
qed

text \<open>
  C33. Two goroutines with the same account, region and role can end with two different managers:
  both miss the cache before either takes the write lock, and \<open>ManagerFor\<close> does not look again once
  it holds it; the second manager replaces the first one in the cache.
\<close>

theorem ManagerFor_may_create_two:
  "\<exists>f. reachable N f \<and>
     threads f = [(req, Done (Found_rm 0)), (req, Done (Found_rm 1))] \<and> length (managers f) = 2 \<and>
     fmlookup (rmCache f) (rmId req) = Some 1"
  using raced [of N req] run_schedule_reachable [OF two_callers_reachable, of N _ req] by blast

text \<open>
  C18. No interleaving blocks: from every reachable state the goroutines can be run until each has
  returned, and a schedule of \<open>k\<close> calls never has more than seven steps for each.
\<close>

theorem ManagerFor_terminates:
  assumes "reachable N f"
  shows "(\<exists>sched f'. run_schedule N sched f = Some f' \<and> list_all (\<lambda>t. finished (snd t)) (threads f')) \<and>
    (\<forall>sched f'. run_schedule N sched f = Some f' \<longrightarrow> length sched \<le> 7 * length (threads f))"
proof -
  have "length s \<le> 7 * length (threads f)" if "run_schedule N s f = Some g" for s g
    using run_work [OF that] work_bound [of "threads f"] by simp
  with can_finish [OF assms] show ?thesis by blast
qed

theorem ManagerFor_terminates_witness:
  "\<exists>sched f'. run_schedule ref_client sched (two_callers ref_request) = Some f' \<and>
     list_all (\<lambda>t. finished (snd t)) (threads f') \<and> length sched \<le> 14"
proof -
  have "length (threads (two_callers ref_request :: ref_svc resourceManagerFactory)) = 2"
    by (simp add: two_callers_def)
  with ManagerFor_terminates [OF two_callers_reachable, of ref_client ref_request] show ?thesis
    by fastforce
qed

text \<open>
  C32. Run alone, the steps of \<open>ManagerFor\<close> compute what the function computes: three steps when the
  manager is cached and seven when it is not, and the lock is free again afterwards.  A second call
  with the same request returns the same manager and changes nothing.
\<close>

theorem ManagerFor_alone:
  assumes "i < length (threads f)" "threads f ! i = (req, Start)" "\<not> writer f" "readers f = 0"
  shows "run_schedule N (replicate (if fmlookup (rmCache f) (rmId req) = None then 7 else 3) i) f =
      Some (goto i req (Done (fst (ManagerFor N req f))) (snd (ManagerFor N req f))) \<and>
    \<not> writer (snd (ManagerFor N req f)) \<and> readers (snd (ManagerFor N req f)) = 0 \<and>
    ManagerFor N req (snd (ManagerFor N req f)) = ManagerFor N req f"
proof (cases "fmlookup (rmCache f) (rmId req)")
  case None
  with assms show ?thesis
    by (simp add: eval_nat_numeral exec_def goto_def ManagerFor_def new_for_def newResourceManager_def)
next
  case (Some m)
  with assms show ?thesis
    by (simp add: eval_nat_numeral exec_def goto_def ManagerFor_def)
qed

theorem ManagerFor_alone_witness:
  "run_schedule ref_client [0, 0, 0, 0, 0, 0, 0] (two_callers ref_request) =
     Some (goto 0 ref_request (Done (Found_rm 0)) (snd (ManagerFor ref_client ref_request
       (two_callers ref_request))))"
  using ManagerFor_alone [of 0 "two_callers ref_request" ref_request ref_client]
  by (simp add: two_callers_def newResourceManagerFactory_def ManagerFor_def new_for_def
      newResourceManager_def eval_nat_numeral)

end
