(* ===== verification/Memory.thy ===== *)
theory Memory
  imports Api_Types
begin

text \<open>
  Memory at the level of single Go pointers, and what a deep copy is there.  The reconciler's
  theories treat a \<open>Cluster\<close> as one value at one address; in the program every pointer field, slice
  and map of it is memory of its own, which two clusters may share.  This theory has the memory, the
  contract of a function that copies a value deeply (the locale \<open>deep_copy\<close>), and the ways
  generated copy functions are built: by value, through a pointer, element by element, entry by
  entry and field by field.
\<close>

section \<open>Cells\<close>

type_synonym ptr = "addr option"

record MultiRegionProperties_m =
  mrpm_Clusters :: ptr
  mrpm_WitnessRegion :: ptr

record EncryptionDetails_m =
  encm_EncryptionStatus :: ptr
  encm_EncryptionType :: ptr
  encm_KMSKeyARN :: ptr

record ClusterSummary_m =
  summ_ARN :: ptr
  summ_Identifier :: ptr

record ClusterSpec_m =
  specm_DeletionProtectionEnabled :: ptr
  specm_KMSEncryptionKey :: ptr
  specm_KMSEncryptionKeyRef :: ptr
  specm_MultiRegionProperties :: ptr
  specm_Policy :: ptr
  specm_Tags :: ptr

record ClusterStatus_m =
  statm_ACKResourceMetadata :: ptr
  statm_Conditions :: ptr
  statm_CreationTime :: ptr
  statm_EncryptionDetails :: ptr
  statm_Endpoint :: ptr
  statm_Identifier :: ptr
  statm_Status :: ptr

record Cluster_m =
  clm_TypeMeta :: TypeMeta
  clm_ObjectMeta :: ObjectMeta
  clm_Spec :: ClusterSpec_m
  clm_Status :: ClusterStatus_m

text \<open>Of \<open>metav1.ListMeta\<close> the two fields a list of custom resources has.\<close>

record ListMeta =
  lm_ResourceVersion :: string
  lm_Continue :: string

record ClusterList_m =
  listm_TypeMeta :: TypeMeta
  listm_ListMeta :: ListMeta
  listm_Items :: ptr

text \<open>What an address may hold.  A slice is a pointer to its array, a map a pointer to its table.\<close>

datatype cell =
    BoolCell bool
  | StringCell string
  | TimeCell time
  | WrapperCell AWSResourceReferenceWrapper
  | MetadataCell ResourceMetadata
  | ConditionCell Condition
  | PtrArray "ptr list"
  | TableCell "ptr gomap"
  | MultiRegionCell MultiRegionProperties_m
  | EncryptionCell EncryptionDetails_m
  | SummaryCell ClusterSummary_m
  | SpecCell ClusterSpec_m
  | StatusCell ClusterStatus_m
  | ClusterCell Cluster_m
  | ClusterArray "Cluster_m list"
  | ListCell ClusterList_m

record memory =
  cells :: "addr \<Rightarrow> cell"
  next_addr :: addr

text \<open>
  A type of cell: how its values are put into a cell and read back.  Go's types keep a pointer
  from being read at another type, so what \<open>proj\<close> gives for other cells does not matter.
\<close>

locale cell_type =
  fixes inject :: "'a \<Rightarrow> cell" and proj :: "cell \<Rightarrow> 'a"
  assumes proj_inject [simp]: "proj (inject x) = x"

definition load :: "(cell \<Rightarrow> 'a) \<Rightarrow> addr \<Rightarrow> (memory, 'a) go" where
  "load proj a = (\<lambda>m. (Ret (proj (cells m a)), m))"

definition store :: "('a \<Rightarrow> cell) \<Rightarrow> addr \<Rightarrow> 'a \<Rightarrow> (memory, unit) go" where
  "store inject a x = (\<lambda>m. (Ret (), m\<lparr>cells := (cells m)(a := inject x)\<rparr>))"

definition new_cell :: "('a \<Rightarrow> cell) \<Rightarrow> 'a \<Rightarrow> (memory, addr) go" where
  "new_cell inject x = (\<lambda>m. (Ret (next_addr m),
     m\<lparr>cells := (cells m)(next_addr m := inject x), next_addr := Suc (next_addr m)\<rparr>))"

lemma cell_run [go_run]:
  "load proj a m = (Ret (proj (cells m a)), m)"
  "store inject a x m = (Ret (), m\<lparr>cells := (cells m)(a := inject x)\<rparr>)"
  "new_cell inject x m = (Ret (next_addr m),
     m\<lparr>cells := (cells m)(next_addr m := inject x), next_addr := Suc (next_addr m)\<rparr>)"
  by (simp_all add: load_def store_def new_cell_def)

section \<open>Agreement\<close>

text \<open>
  \<open>agree A\<close>: the two memories have the same cells in \<open>A\<close>.  \<open>extends\<close>: what was allocated before
  is as it was.
\<close>

definition agree :: "addr set \<Rightarrow> memory \<Rightarrow> memory \<Rightarrow> bool" where
  "agree A m m' \<longleftrightarrow> (\<forall>a \<in> A. cells m' a = cells m a)"

definition extends :: "memory \<Rightarrow> memory \<Rightarrow> bool" where
  "extends m m' \<longleftrightarrow> next_addr m \<le> next_addr m' \<and> agree {..<next_addr m} m m'"

interpretation agree: step_relation "agree A" for A
  by unfold_locales (auto simp: agree_def)

interpretation extends: step_relation extends
  by unfold_locales (auto simp: extends_def agree_def)

lemma agree_subset: "agree B m m' \<Longrightarrow> A \<subseteq> B \<Longrightarrow> agree A m m'"
  by (auto simp: agree_def)

lemma agree_Un [simp]: "agree (A \<union> B) m m' \<longleftrightarrow> agree A m m' \<and> agree B m m'"
  by (auto simp: agree_def)

lemma agree_insert [simp]: "agree (insert a A) m m' \<longleftrightarrow> cells m' a = cells m a \<and> agree A m m'"
  by (auto simp: agree_def)

lemma agree_empty [simp]: "agree {} m m'"
  by (simp add: agree_def)

lemma agree_UN [simp]: "agree (\<Union>x \<in> X. f x) m m' \<longleftrightarrow> (\<forall>x \<in> X. agree (f x) m m')"
  by (auto simp: agree_def)

lemma extends_agree: "extends m m' \<Longrightarrow> A \<subseteq> {..<next_addr m} \<Longrightarrow> agree A m m'"
  by (auto simp: extends_def agree_def)

lemma extends_next: "extends m m' \<Longrightarrow> next_addr m \<le> next_addr m'"
  by (simp add: extends_def)

section \<open>Deep copies\<close>

text \<open>
  \<open>view m x\<close> is the value that \<open>x\<close> stands for in the memory \<open>m\<close>, \<open>foot m x\<close> the addresses it is
  spread over.  A deep copy returns something with the same view in memory that was free before, and
  leaves everything that was allocated as it was.
\<close>

locale deep_copy =
  fixes view :: "memory \<Rightarrow> 'l \<Rightarrow> 'v"
    and foot :: "memory \<Rightarrow> 'l \<Rightarrow> addr set"
    and copy :: "'l \<Rightarrow> (memory, 'l) go"
  assumes local: "agree (foot m x) m m' \<Longrightarrow> view m' x = view m x \<and> foot m' x = foot m x"
    and copies: "foot m x \<subseteq> {..<next_addr m} \<Longrightarrow>
      \<exists>y m'. copy x m = (Ret y, m') \<and> extends m m' \<and> view m' y = view m x \<and>
        foot m' y \<subseteq> {next_addr m..<next_addr m'}"
begin

lemma copyE:
  assumes "foot m x \<subseteq> {..<next_addr m}"
  obtains y m' where "copy x m = (Ret y, m')" "extends m m'" "view m' y = view m x"
    "foot m' y \<subseteq> {next_addr m..<next_addr m'}"
  using copies [OF assms] by blast

lemma kept:
  assumes "extends m m'" "foot m x \<subseteq> {..<next_addr m}"
  shows "view m' x = view m x \<and> foot m' x = foot m x"
  using local [OF extends_agree [OF assms]] .

text \<open>The original after the copy, and either of them after any write to the other.\<close>

lemma isolated:
  assumes "foot m x \<subseteq> {..<next_addr m}" "copy x m = (Ret y, m')"
  shows "foot m' x \<inter> foot m' y = {}" and "view m' x = view m x" and "view m' y = view m x"
    and "agree (- foot m' x) m' n \<Longrightarrow> view n y = view m x"
    and "agree (- foot m' y) m' n \<Longrightarrow> view n x = view m x"
proof -
  from copies [OF assms(1)] assms(2) have e: "extends m m'" and v: "view m' y = view m x"
    and f: "foot m' y \<subseteq> {next_addr m..<next_addr m'}" by auto
  from kept [OF e assms(1)] have k: "view m' x = view m x" "foot m' x = foot m x" by simp_all
  have "foot m' x \<inter> foot m' y \<subseteq> {..<next_addr m} \<inter> {next_addr m..<next_addr m'}"
    using f k(2) assms(1) by (intro Int_mono) simp_all
  moreover have "{..<next_addr m} \<inter> {next_addr m..<next_addr m'} = {}" by auto
  ultimately show apart: "foot m' x \<inter> foot m' y = {}" by blast
  show "view m' x = view m x" by (rule k(1))
  show "view m' y = view m x" by (rule v)
  have "foot m' y \<subseteq> - foot m' x" using apart by auto
  from local [OF agree_subset [OF _ this]] v
  show "view n y = view m x" if "agree (- foot m' x) m' n" using that by simp
  have "foot m' x \<subseteq> - foot m' y" using apart by auto
  from local [OF agree_subset [OF _ this]] k(1)
  show "view n x = view m x" if "agree (- foot m' y) m' n" using that by simp
qed

end

section \<open>How generated copy functions are built\<close>

text \<open>A value without pointers: an assignment.\<close>

lemma deep_value: "deep_copy (\<lambda>m x. x) (\<lambda>m x. {}) ret"
  by unfold_locales (auto simp: go_run extends_def agree_def)

text \<open>A function of another package, which copies values of its own types.\<close>

lemma deep_library:
  assumes "\<And>x. f x = x" shows "deep_copy (\<lambda>m x. x) (\<lambda>m x. {}) (\<lambda>x. ret (f x))"
  using deep_value assms by simp

text \<open>
  \<open>if *in != nil { *out = new(T); ... }\<close>: a pointer field.  \<open>zero\<close> is what the new cell holds
  first; for a slice or a map it is \<open>make\<close>, which looks at the length.
\<close>

definition view_pointer :: "(cell \<Rightarrow> 'a) \<Rightarrow> (memory \<Rightarrow> 'a \<Rightarrow> 'v) \<Rightarrow> memory \<Rightarrow> ptr \<Rightarrow> 'v option" where
  "view_pointer proj view m p = map_option (\<lambda>a. view m (proj (cells m a))) p"

definition foot_pointer :: "(cell \<Rightarrow> 'a) \<Rightarrow> (memory \<Rightarrow> 'a \<Rightarrow> addr set) \<Rightarrow> memory \<Rightarrow> ptr \<Rightarrow> addr set" where
  "foot_pointer proj foot m p =
     (case p of None \<Rightarrow> {} | Some a \<Rightarrow> insert a (foot m (proj (cells m a))))"

definition copy_pointer ::
  "(cell \<Rightarrow> 'a) \<Rightarrow> ('a \<Rightarrow> cell) \<Rightarrow> ('a \<Rightarrow> 'a) \<Rightarrow> ('a \<Rightarrow> (memory, 'a) go) \<Rightarrow> ptr \<Rightarrow> (memory, ptr) go" where
  "copy_pointer proj inject zero copy p =
     (case p of
        None \<Rightarrow> ret None
      | Some a \<Rightarrow>
          bind_go (load proj a) (\<lambda>x.
          bind_go (new_cell inject (zero x)) (\<lambda>b.
          bind_go (copy x) (\<lambda>y.
          bind_go (store inject b y) (\<lambda>_. ret (Some b))))))"

lemma pointed_copy:
  assumes cell: "cell_type inject proj" and deep: "deep_copy view foot copy"
    and low: "foot_pointer proj foot m (Some a) \<subseteq> {..<next_addr m}"
  shows "\<exists>q m'. copy_pointer proj inject zero copy (Some a) m = (Ret q, m') \<and> extends m m' \<and>
    view_pointer proj view m' q = view_pointer proj view m (Some a) \<and>
    foot_pointer proj foot m' q \<subseteq> {next_addr m..<next_addr m'}"
proof -
  define x where "x = proj (cells m a)"
  define m1 where "m1 = m\<lparr>cells := (cells m)(next_addr m := inject (zero x)), next_addr := Suc (next_addr m)\<rparr>"
  have x: "foot m x \<subseteq> {..<next_addr m}" using low by (simp add: foot_pointer_def x_def)
  have e1: "extends m m1" by (auto simp: extends_def agree_def m1_def)
  have x1: "view m1 x = view m x" "foot m1 x \<subseteq> {..<next_addr m1}"
    using deep_copy.kept [OF deep e1 x] x by (auto simp: m1_def)
  obtain y m2 where c: "copy x m1 = (Ret y, m2)" and e2: "extends m1 m2" and v: "view m2 y = view m1 x"
    and f: "foot m2 y \<subseteq> {next_addr m1..<next_addr m2}"
    using deep_copy.copyE [OF deep x1(2)] by metis
  define m3 where "m3 = m2\<lparr>cells := (cells m2)(next_addr m := inject y)\<rparr>"
  have "agree (foot m2 y) m2 m3" using f by (auto simp: agree_def m3_def m1_def)
  then have y: "view m3 y = view m2 y" "foot m3 y = foot m2 y"
    using deep_copy.local [OF deep] by auto
  have e3: "extends m m3" using extends.R_trans [OF e1 e2] by (auto simp: extends_def agree_def m3_def)
  have n: "next_addr m < next_addr m2" using extends_next [OF e2] by (simp add: m1_def)
  have new: "proj (cells m3 (next_addr m)) = y" using cell by (simp add: m3_def cell_type.proj_inject)
  have "copy_pointer proj inject zero copy (Some a) m = (Ret (Some (next_addr m)), m3)"
    using c by (simp add: copy_pointer_def go_run x_def m1_def m3_def)
  moreover have "view_pointer proj view m3 (Some (next_addr m)) = view_pointer proj view m (Some a)"
    using y(1) v x1(1) new by (simp add: view_pointer_def x_def)
  moreover have "foot_pointer proj foot m3 (Some (next_addr m)) \<subseteq> {next_addr m..<next_addr m3}"
    using new f n y(2) by (auto simp: foot_pointer_def m1_def m3_def)
  ultimately show ?thesis using e3 by blast
qed

lemma deep_pointer:
  assumes cell: "cell_type inject proj" and deep: "deep_copy view foot copy"
  shows "deep_copy (view_pointer proj view) (foot_pointer proj foot) (copy_pointer proj inject zero copy)"
proof
  fix m m' p
  assume "agree (foot_pointer proj foot m p) m m'"
  then show "view_pointer proj view m' p = view_pointer proj view m p \<and>
      foot_pointer proj foot m' p = foot_pointer proj foot m p"
    using deep_copy.local [OF deep]
    by (auto simp: view_pointer_def foot_pointer_def split: option.splits)
next
  fix m p
  assume "foot_pointer proj foot m p \<subseteq> {..<next_addr m}"
  then show "\<exists>q m'. copy_pointer proj inject zero copy p m = (Ret q, m') \<and> extends m m' \<and>
      view_pointer proj view m' q = view_pointer proj view m p \<and>
      foot_pointer proj foot m' q \<subseteq> {next_addr m..<next_addr m'}"
    using pointed_copy [OF cell deep]
    by (cases p)
      (simp_all add: copy_pointer_def view_pointer_def foot_pointer_def go_run extends.R_refl)
qed

text \<open>Two fields, one after the other.\<close>

definition copy_both ::
  "('a \<Rightarrow> (memory, 'a) go) \<Rightarrow> ('b \<Rightarrow> (memory, 'b) go) \<Rightarrow> 'a \<times> 'b \<Rightarrow> (memory, 'a \<times> 'b) go" where
  "copy_both c d = (\<lambda>(x, y). bind_go (c x) (\<lambda>x'. bind_go (d y) (\<lambda>y'. ret (x', y'))))"

lemma deep_both:
  assumes c: "deep_copy v f c" and d: "deep_copy w g d"
  shows "deep_copy (\<lambda>m (x, y). (v m x, w m y)) (\<lambda>m (x, y). f m x \<union> g m y) (copy_both c d)"
proof
  fix m m' :: memory and p
  assume "agree (case p of (x, y) \<Rightarrow> f m x \<union> g m y) m m'"
  then show "(case p of (x, y) \<Rightarrow> (v m' x, w m' y)) = (case p of (x, y) \<Rightarrow> (v m x, w m y)) \<and>
      (case p of (x, y) \<Rightarrow> f m' x \<union> g m' y) = (case p of (x, y) \<Rightarrow> f m x \<union> g m y)"
    using deep_copy.local [OF c] deep_copy.local [OF d] by (cases p) auto
next
  fix m p
  assume low: "(case p of (x, y) \<Rightarrow> f m x \<union> g m y) \<subseteq> {..<next_addr m}"
  obtain x y where p: "p = (x, y)" by (cases p)
  from low p have x: "f m x \<subseteq> {..<next_addr m}" and y: "g m y \<subseteq> {..<next_addr m}" by auto
  obtain x' m1 where c1: "c x m = (Ret x', m1)" "extends m m1" "v m1 x' = v m x"
    "f m1 x' \<subseteq> {next_addr m..<next_addr m1}" using deep_copy.copyE [OF c x] by metis
  have y1: "w m1 y = w m y" "g m1 y \<subseteq> {..<next_addr m1}"
    using deep_copy.kept [OF d c1(2) y] y extends_next [OF c1(2)] by auto
  obtain y' m2 where d1: "d y m1 = (Ret y', m2)" "extends m1 m2" "w m2 y' = w m1 y"
    "g m2 y' \<subseteq> {next_addr m1..<next_addr m2}" using deep_copy.copyE [OF d y1(2)] by metis
  have "f m1 x' \<subseteq> {..<next_addr m1}" using c1(4) by auto
  from deep_copy.kept [OF c d1(2) this] have x2: "v m2 x' = v m x" "f m2 x' = f m1 x'" using c1(3) by simp_all
  have "copy_both c d p m = (Ret (x', y'), m2)" using c1(1) d1(1) p by (simp add: copy_both_def go_run)
  moreover have "extends m m2" using c1(2) d1(2) by (rule extends.R_trans)
  moreover have "f m2 x' \<union> g m2 y' \<subseteq> {next_addr m..<next_addr m2}"
  proof -
    have "f m1 x' \<subseteq> {next_addr m..<next_addr m2}"
      by (rule order_trans [OF c1(4)]) (use extends_next [OF d1(2)] in auto)
    moreover have "g m2 y' \<subseteq> {next_addr m..<next_addr m2}"
      by (rule order_trans [OF d1(4)]) (use extends_next [OF c1(2)] in auto)
    ultimately show ?thesis using x2(2) by simp
  qed
  ultimately show "\<exists>q m'. copy_both c d p m = (Ret q, m') \<and> extends m m' \<and>
      (case q of (x, y) \<Rightarrow> (v m' x, w m' y)) = (case p of (x, y) \<Rightarrow> (v m x, w m y)) \<and>
      (case q of (x, y) \<Rightarrow> f m' x \<union> g m' y) \<subseteq> {next_addr m..<next_addr m'}"
    using x2(1) d1(3) y1(1) p by (intro exI [of _ "(x', y')"] exI [of _ m2]) simp
qed


text \<open>A struct: its fields are taken out, copied one after the other, and put into the new value.\<close>

lemma deep_record:
  assumes deep: "deep_copy v f c"
    and dest: "\<And>x y. dest (mk x y) = y"
    and view: "\<And>m x. view m x = conv x (v m (dest x))" and conv: "\<And>x y z. conv (mk x y) z = conv x z"
    and foot: "\<And>m x. foot m x = f m (dest x)"
    and copy: "\<And>x. copy x = bind_go (c (dest x)) (\<lambda>y. ret (mk x y))"
  shows "deep_copy view foot copy"
proof
  fix m m' x
  assume "agree (foot m x) m m'"
  then show "view m' x = view m x \<and> foot m' x = foot m x"
    using deep_copy.local [OF deep] by (simp add: view foot)
next
  fix m x
  assume "foot m x \<subseteq> {..<next_addr m}"
  then have "f m (dest x) \<subseteq> {..<next_addr m}" by (simp add: foot)
  then obtain y m' where "c (dest x) m = (Ret y, m')" "extends m m'" "v m' y = v m (dest x)"
    "f m' y \<subseteq> {next_addr m..<next_addr m'}" using deep_copy.copyE [OF deep] by metis
  then show "\<exists>z m'. copy x m = (Ret z, m') \<and> extends m m' \<and> view m' z = view m x \<and>
      foot m' z \<subseteq> {next_addr m..<next_addr m'}"
    by (intro exI [of _ "mk x y"] exI [of _ m']) (simp add: copy go_run view conv foot dest)
qed

text \<open>The loop over the elements of a slice.\<close>

fun copy_each :: "('a \<Rightarrow> (memory, 'a) go) \<Rightarrow> 'a list \<Rightarrow> (memory, 'a list) go" where
  "copy_each c [] = ret []"
| "copy_each c (x # xs) =
     bind_go (c x) (\<lambda>y. bind_go (copy_each c xs) (\<lambda>ys. ret (y # ys)))"

lemma deep_each:
  assumes deep: "deep_copy v f c"
  shows "deep_copy (\<lambda>m. map (v m)) (\<lambda>m xs. \<Union>x \<in> set xs. f m x) (copy_each c)"
proof
  fix m m' :: memory and xs
  assume "agree (\<Union>x \<in> set xs. f m x) m m'"
  then have "v m' x = v m x \<and> f m' x = f m x" if "x \<in> set xs" for x
    using deep_copy.local [OF deep] that by simp
  then show "map (v m') xs = map (v m) xs \<and> (\<Union>x \<in> set xs. f m' x) = (\<Union>x \<in> set xs. f m x)"
    by simp
next
  fix m xs
  assume "(\<Union>x \<in> set xs. f m x) \<subseteq> {..<next_addr m}"
  then show "\<exists>ys m'. copy_each c xs m = (Ret ys, m') \<and> extends m m' \<and> map (v m') ys = map (v m) xs \<and>
      (\<Union>y \<in> set ys. f m' y) \<subseteq> {next_addr m..<next_addr m'}"
  proof (induction xs arbitrary: m)
    case Nil
    show ?case by (simp add: go_run extends.R_refl)
  next
    case (Cons x xs)
    then have x: "f m x \<subseteq> {..<next_addr m}" and xs: "(\<Union>x \<in> set xs. f m x) \<subseteq> {..<next_addr m}" by auto
    obtain y m1 where c1: "c x m = (Ret y, m1)" "extends m m1" "v m1 y = v m x"
      "f m1 y \<subseteq> {next_addr m..<next_addr m1}" using deep_copy.copyE [OF deep x] by metis
    have same: "v m1 z = v m z" "f m1 z = f m z" if "z \<in> set xs" for z
      using deep_copy.kept [OF deep c1(2), of z] xs that by blast+
    have "(\<Union>x \<in> set xs. f m1 x) \<subseteq> {..<next_addr m1}"
      using same(2) xs extends_next [OF c1(2)] by fastforce
    from Cons.IH [OF this] obtain ys m2 where c2: "copy_each c xs m1 = (Ret ys, m2)" "extends m1 m2"
      "map (v m2) ys = map (v m1) xs" "(\<Union>y \<in> set ys. f m2 y) \<subseteq> {next_addr m1..<next_addr m2}" by blast
    have "f m1 y \<subseteq> {..<next_addr m1}" using c1(4) by auto
    from deep_copy.kept [OF deep c2(2) this] have y2: "v m2 y = v m x" "f m2 y = f m1 y" using c1(3) by simp_all
    have "f m1 y \<subseteq> {next_addr m..<next_addr m2}"
      by (rule order_trans [OF c1(4)]) (use extends_next [OF c2(2)] in auto)
    moreover have "(\<Union>y \<in> set ys. f m2 y) \<subseteq> {next_addr m..<next_addr m2}"
      by (rule order_trans [OF c2(4)]) (use extends_next [OF c1(2)] in auto)
    moreover have "map (v m1) xs = map (v m) xs" using same(1) by simp
    ultimately show ?case
      using c1(1) c2(1,3) y2 extends.R_trans [OF c1(2) c2(2)]
      by (intro exI [of _ "y # ys"] exI [of _ m2]) (simp add: go_run)
  qed
qed

text \<open>The loop over the entries of a map, in the order the map is ranged over.\<close>

fun copy_entries ::
  "('a \<Rightarrow> (memory, 'a) go) \<Rightarrow> (string \<times> 'a) list \<Rightarrow> 'a gomap \<Rightarrow> (memory, 'a gomap) go" where
  "copy_entries c [] acc = ret acc"
| "copy_entries c ((k, x) # es) acc = bind_go (c x) (\<lambda>y. copy_entries c es (fmupd k y acc))"

lemma copy_entries_each:
  "copy_entries c es acc =
     bind_go (copy_each c (map snd es)) (\<lambda>ys. ret (store_entries id (zip (map fst es) ys) acc))"
  by (induction c es acc rule: copy_entries.induct) (simp_all add: bind_assoc)

lemma fmlookup_map_of_list: "fmmap f (fmap_of_list es) = fmap_of_list (map (\<lambda>(k, x). (k, f x)) es)"
  by (rule fmap_ext) (simp add: fmlookup_of_list map_of_map)

lemma store_entries_all:
  "distinct (map fst es) \<Longrightarrow> store_entries id es fmempty = fmap_of_list es"
  by (rule fmap_ext) (simp add: store_entries_lookup fmlookup_of_list split: option.split)


lemma fmran_zip: "fmran' (fmap_of_list (zip ks xs)) \<subseteq> set xs"
  by (auto simp: fmran'_alt_def fmlookup_of_list dest!: map_of_SomeD set_zip_rightD elim!: fmranE)

definition copy_table ::
  "('a gomap \<Rightarrow> (string \<times> 'a) list) \<Rightarrow> ('a \<Rightarrow> (memory, 'a) go) \<Rightarrow> 'a gomap \<Rightarrow> (memory, 'a gomap) go" where
  "copy_table order c t = copy_entries c (order t) fmempty"

lemma range_zip:
  assumes "is_range l t"
  obtains ks xs where "l = zip ks xs" "length ks = length xs" "distinct ks"
    "t = fmap_of_list (zip ks xs)" "set xs \<subseteq> fmran' t"
proof
  define ks xs where "ks = map fst l" and "xs = map snd l"
  show zip: "l = zip ks xs" "length ks = length xs" "distinct ks"
    using assms by (simp_all add: ks_def xs_def zip_map_fst_snd is_range_def)
  show t: "t = fmap_of_list (zip ks xs)" using assms zip by (simp add: is_range_def)
  show "set xs \<subseteq> fmran' t"
  proof
    fix x assume "x \<in> set xs"
    then obtain k where "(k, x) \<in> set l" by (auto simp: xs_def)
    with zip have "fmlookup t k = Some x" by (simp add: t fmlookup_of_list)
    then show "x \<in> fmran' t" by (rule fmran'I)
  qed
qed

lemma deep_table:
  assumes deep: "deep_copy v f c" and order: "\<And>t :: 'a gomap. is_range (order t) t"
  shows "deep_copy (\<lambda>m. fmmap (v m)) (\<lambda>m (t :: 'a gomap). \<Union>x \<in> fmran' t. f m x) (copy_table order c)"
proof
  fix m m' :: memory and t :: "'a gomap"
  assume "agree (\<Union>x \<in> fmran' t. f m x) m m'"
  then have "v m' x = v m x \<and> f m' x = f m x" if "x \<in> fmran' t" for x
    using deep_copy.local [OF deep] that by simp
  then show "fmmap (v m') t = fmmap (v m) t \<and> (\<Union>x \<in> fmran' t. f m' x) = (\<Union>x \<in> fmran' t. f m x)"
    by (auto intro!: fmap.map_cong0)
next
  fix m and t :: "'a gomap"
  assume low: "(\<Union>x \<in> fmran' t. f m x) \<subseteq> {..<next_addr m}"
  obtain ks xs where zip: "order t = zip ks xs" "length ks = length xs" "distinct ks"
    and t: "t = fmap_of_list (zip ks xs)" and "set xs \<subseteq> fmran' t"
    using range_zip [OF order] by metis
  with low have "(\<Union>x \<in> set xs. f m x) \<subseteq> {..<next_addr m}" by blast
  from deep_copy.copies [OF deep_each [OF deep] this] obtain ys m' where
    each: "copy_each c xs m = (Ret ys, m')" "extends m m'" "map (v m') ys = map (v m) xs"
      "(\<Union>y \<in> set ys. f m' y) \<subseteq> {next_addr m..<next_addr m'}" by blast
  from each(3) have len: "length ys = length xs" by (metis length_map)
  let ?u = "fmap_of_list (zip ks ys)"
  have "copy_table order c t m = (Ret ?u, m')"
    using each(1) zip len
    by (simp add: copy_table_def copy_entries_each go_run
        store_entries_all)
  moreover have "fmmap (v m') ?u = fmmap (v m) t"
  proof -
    have "map (\<lambda>(k, x). (k, v m' x)) (zip ks ys) = zip ks (map (v m') ys)"
      by (simp add: zip_map2)
    also have "\<dots> = map (\<lambda>(k, x). (k, v m x)) (zip ks xs)" by (simp add: each(3) zip_map2)
    finally show ?thesis by (simp add: t fmlookup_map_of_list)
  qed
  moreover have "(\<Union>y \<in> fmran' ?u. f m' y) \<subseteq> {next_addr m..<next_addr m'}"
    using each(4) fmran_zip [of ks ys] by blast
  ultimately show "\<exists>u m'. copy_table order c t m = (Ret u, m') \<and> extends m m' \<and>
      fmmap (v m') u = fmmap (v m) t \<and> (\<Union>y \<in> fmran' u. f m' y) \<subseteq> {next_addr m..<next_addr m'}"
    using each(2) by blast
qed

end
