(* ===== verification/DeepCopy.thy ===== *)
theory DeepCopy
  imports Memory
begin

text \<open>
  \<open>apis/v1alpha1/zz_generated.deepcopy.go\<close>: the copy functions of the API types, on a memory of
  single pointers (theory \<open>Memory\<close>).  \<open>DeepCopyInto\<close> takes the struct that \<open>in\<close> points to and
  returns the one it leaves at \<open>out\<close>: the code only reads through \<open>in\<close> and only assigns to
  fields of \<open>out\<close>.  The copy functions of types of other packages are a parameter; they are relied
  on to return an equal value (\<open>deepcopy_law\<close>).  The theorems say that a copy shows the same
  cluster as the original in memory of its own, which is what the theories of the reconciler assume
  when they keep a cluster as one value at one address.
\<close>

section \<open>The types in memory\<close>

text \<open>The two API types the reconciler does not use, as values.\<close>

record ClusterSummary =
  summary_ARN :: "string option"
  summary_Identifier :: "string option"

record ClusterList =
  list_TypeMeta :: TypeMeta
  list_ListMeta :: ListMeta
  list_Items :: "Cluster list option"

text \<open>Zero values, which \<open>new\<close> stores.\<close>

definition zero_Condition :: Condition where
  "zero_Condition = new_condition (OtherCondition '''')"

definition zero_Wrapper :: AWSResourceReferenceWrapper where
  "zero_Wrapper = \<lparr>ref_From = None\<rparr>"

definition zero_TypeMeta :: TypeMeta where
  "zero_TypeMeta = \<lparr>tm_Kind = '''', tm_APIVersion = ''''\<rparr>"

definition zero_ObjectMeta :: ObjectMeta where
  "zero_ObjectMeta =
     \<lparr>om_Name = '''', om_Namespace = '''', om_DeletionTimestamp = None, om_Annotations = None,
      om_Finalizers = []\<rparr>"

definition zero_MultiRegionProperties :: MultiRegionProperties_m where
  "zero_MultiRegionProperties = \<lparr>mrpm_Clusters = None, mrpm_WitnessRegion = None\<rparr>"

definition zero_EncryptionDetails :: EncryptionDetails_m where
  "zero_EncryptionDetails =
     \<lparr>encm_EncryptionStatus = None, encm_EncryptionType = None, encm_KMSKeyARN = None\<rparr>"

definition zero_ClusterSummary :: ClusterSummary_m where
  "zero_ClusterSummary = \<lparr>summ_ARN = None, summ_Identifier = None\<rparr>"

definition zero_ClusterSpec :: ClusterSpec_m where
  "zero_ClusterSpec =
     \<lparr>specm_DeletionProtectionEnabled = None, specm_KMSEncryptionKey = None,
      specm_KMSEncryptionKeyRef = None, specm_MultiRegionProperties = None, specm_Policy = None,
      specm_Tags = None\<rparr>"

definition zero_ClusterStatus :: ClusterStatus_m where
  "zero_ClusterStatus =
     \<lparr>statm_ACKResourceMetadata = None, statm_Conditions = None, statm_CreationTime = None,
      statm_EncryptionDetails = None, statm_Endpoint = None, statm_Identifier = None,
      statm_Status = None\<rparr>"

definition zero_Cluster :: Cluster_m where
  "zero_Cluster =
     \<lparr>clm_TypeMeta = zero_TypeMeta, clm_ObjectMeta = zero_ObjectMeta, clm_Spec = zero_ClusterSpec,
      clm_Status = zero_ClusterStatus\<rparr>"

definition zero_ClusterList :: ClusterList_m where
  "zero_ClusterList =
     \<lparr>listm_TypeMeta = zero_TypeMeta,
      listm_ListMeta = \<lparr>lm_ResourceVersion = '''', lm_Continue = ''''\<rparr>, listm_Items = None\<rparr>"

text \<open>Reading a cell at its type.\<close>

fun the_Bool :: "cell \<Rightarrow> bool" where
  "the_Bool (BoolCell x) = x"
| "the_Bool _ = False"

fun the_String :: "cell \<Rightarrow> string" where
  "the_String (StringCell x) = x"
| "the_String _ = ''''"

fun the_Time :: "cell \<Rightarrow> time" where
  "the_Time (TimeCell x) = x"
| "the_Time _ = 0"

fun the_Wrapper :: "cell \<Rightarrow> AWSResourceReferenceWrapper" where
  "the_Wrapper (WrapperCell x) = x"
| "the_Wrapper _ = zero_Wrapper"

fun the_Metadata :: "cell \<Rightarrow> ResourceMetadata" where
  "the_Metadata (MetadataCell x) = x"
| "the_Metadata _ = empty_ResourceMetadata"

fun the_Condition :: "cell \<Rightarrow> Condition" where
  "the_Condition (ConditionCell x) = x"
| "the_Condition _ = zero_Condition"

fun the_PtrArray :: "cell \<Rightarrow> ptr list" where
  "the_PtrArray (PtrArray x) = x"
| "the_PtrArray _ = []"

fun the_Table :: "cell \<Rightarrow> ptr gomap" where
  "the_Table (TableCell x) = x"
| "the_Table _ = fmempty"

fun the_MultiRegion :: "cell \<Rightarrow> MultiRegionProperties_m" where
  "the_MultiRegion (MultiRegionCell x) = x"
| "the_MultiRegion _ = zero_MultiRegionProperties"

fun the_Encryption :: "cell \<Rightarrow> EncryptionDetails_m" where
  "the_Encryption (EncryptionCell x) = x"
| "the_Encryption _ = zero_EncryptionDetails"

fun the_Summary :: "cell \<Rightarrow> ClusterSummary_m" where
  "the_Summary (SummaryCell x) = x"
| "the_Summary _ = zero_ClusterSummary"

fun the_Spec :: "cell \<Rightarrow> ClusterSpec_m" where
  "the_Spec (SpecCell x) = x"
| "the_Spec _ = zero_ClusterSpec"

fun the_Status :: "cell \<Rightarrow> ClusterStatus_m" where
  "the_Status (StatusCell x) = x"
| "the_Status _ = zero_ClusterStatus"

fun the_Cluster :: "cell \<Rightarrow> Cluster_m" where
  "the_Cluster (ClusterCell x) = x"
| "the_Cluster _ = zero_Cluster"

fun the_ClusterArray :: "cell \<Rightarrow> Cluster_m list" where
  "the_ClusterArray (ClusterArray x) = x"
| "the_ClusterArray _ = []"

fun the_List :: "cell \<Rightarrow> ClusterList_m" where
  "the_List (ListCell x) = x"
| "the_List _ = zero_ClusterList"

interpretation bool_cell: cell_type BoolCell the_Bool
  by unfold_locales simp

interpretation string_cell: cell_type StringCell the_String
  by unfold_locales simp

interpretation time_cell: cell_type TimeCell the_Time
  by unfold_locales simp

interpretation wrapper_cell: cell_type WrapperCell the_Wrapper
  by unfold_locales simp

interpretation metadata_cell: cell_type MetadataCell the_Metadata
  by unfold_locales simp

interpretation condition_cell: cell_type ConditionCell the_Condition
  by unfold_locales simp

interpretation array_cell: cell_type PtrArray the_PtrArray
  by unfold_locales simp

interpretation table_cell: cell_type TableCell the_Table
  by unfold_locales simp

interpretation multi_region_cell: cell_type MultiRegionCell the_MultiRegion
  by unfold_locales simp

interpretation encryption_cell: cell_type EncryptionCell the_Encryption
  by unfold_locales simp

interpretation summary_cell: cell_type SummaryCell the_Summary
  by unfold_locales simp

interpretation spec_cell: cell_type SpecCell the_Spec
  by unfold_locales simp

interpretation status_cell: cell_type StatusCell the_Status
  by unfold_locales simp

interpretation cluster_cell: cell_type ClusterCell the_Cluster
  by unfold_locales simp

interpretation clusters_cell: cell_type ClusterArray the_ClusterArray
  by unfold_locales simp

interpretation cluster_list_cell: cell_type ListCell the_List
  by unfold_locales simp


section \<open>The copy functions of other packages\<close>

record deepcopy_lib =
  dc_ObjectMeta :: "ObjectMeta \<Rightarrow> ObjectMeta"
  dc_ListMeta :: "ListMeta \<Rightarrow> ListMeta"
  dc_Wrapper :: "AWSResourceReferenceWrapper \<Rightarrow> AWSResourceReferenceWrapper"
  dc_ResourceMetadata :: "ResourceMetadata \<Rightarrow> ResourceMetadata"
  dc_Condition :: "Condition \<Rightarrow> Condition"
  dc_Time :: "time \<Rightarrow> time"
  dc_range :: "ptr gomap \<Rightarrow> (string \<times> ptr) list"

text \<open>Each returns an equal value, and a map is ranged over in some order of its entries.\<close>

definition deepcopy_law :: "deepcopy_lib \<Rightarrow> bool" where
  "deepcopy_law D \<longleftrightarrow>
     (\<forall>x. dc_ObjectMeta D x = x) \<and> (\<forall>x. dc_ListMeta D x = x) \<and> (\<forall>x. dc_Wrapper D x = x) \<and>
     (\<forall>x. dc_ResourceMetadata D x = x) \<and> (\<forall>x. dc_Condition D x = x) \<and> (\<forall>x. dc_Time D x = x) \<and>
     (\<forall>t. is_range (dc_range D t) t)"

section \<open>Pointers, slices and maps\<close>

text \<open>\<open>*out = new(string); **out = **in\<close>\<close>

definition copy_string :: "ptr \<Rightarrow> (memory, ptr) go" where
  "copy_string = copy_pointer the_String StringCell (\<lambda>_. '''') ret"

definition copy_bool :: "ptr \<Rightarrow> (memory, ptr) go" where
  "copy_bool = copy_pointer the_Bool BoolCell (\<lambda>_. False) ret"

text \<open>\<open>*out = make([]*string, len(*in))\<close> and the loop, and the same for a slice of conditions.\<close>

definition copy_strings :: "ptr \<Rightarrow> (memory, ptr) go" where
  "copy_strings =
     copy_pointer the_PtrArray PtrArray (\<lambda>ps. replicate (length ps) None) (copy_each copy_string)"

definition copy_conditions :: "deepcopy_lib \<Rightarrow> ptr \<Rightarrow> (memory, ptr) go" where
  "copy_conditions D =
     copy_pointer the_PtrArray PtrArray (\<lambda>ps. replicate (length ps) None)
       (copy_each (copy_pointer the_Condition ConditionCell (\<lambda>_. zero_Condition)
         (\<lambda>c. ret (dc_Condition D c))))"

text \<open>\<open>*out = make(map[string]*string, len(*in))\<close> and the loop.\<close>

definition copy_tags :: "deepcopy_lib \<Rightarrow> ptr \<Rightarrow> (memory, ptr) go" where
  "copy_tags D = copy_pointer the_Table TableCell (\<lambda>_. fmempty) (copy_table (dc_range D) copy_string)"

section \<open>The functions of the file\<close>

definition DeepCopyInto_EncryptionDetails ::
  "EncryptionDetails_m \<Rightarrow> (memory, EncryptionDetails_m) go" where
  "DeepCopyInto_EncryptionDetails inp =
     (let out = inp in
      bind_go (copy_string (encm_EncryptionStatus inp)) (\<lambda>p.
      let out = out\<lparr>encm_EncryptionStatus := p\<rparr> in
      bind_go (copy_string (encm_EncryptionType inp)) (\<lambda>p.
      let out = out\<lparr>encm_EncryptionType := p\<rparr> in
      bind_go (copy_string (encm_KMSKeyARN inp)) (\<lambda>p.
      ret (out\<lparr>encm_KMSKeyARN := p\<rparr>)))))"

definition DeepCopy_EncryptionDetails :: "ptr \<Rightarrow> (memory, ptr) go" where
  "DeepCopy_EncryptionDetails =
     copy_pointer the_Encryption EncryptionCell (\<lambda>_. zero_EncryptionDetails) DeepCopyInto_EncryptionDetails"

definition DeepCopyInto_MultiRegionProperties ::
  "MultiRegionProperties_m \<Rightarrow> (memory, MultiRegionProperties_m) go" where
  "DeepCopyInto_MultiRegionProperties inp =
     (let out = inp in
      bind_go (copy_strings (mrpm_Clusters inp)) (\<lambda>p.
      let out = out\<lparr>mrpm_Clusters := p\<rparr> in
      bind_go (copy_string (mrpm_WitnessRegion inp)) (\<lambda>p.
      ret (out\<lparr>mrpm_WitnessRegion := p\<rparr>))))"

definition DeepCopy_MultiRegionProperties :: "ptr \<Rightarrow> (memory, ptr) go" where
  "DeepCopy_MultiRegionProperties =
     copy_pointer the_MultiRegion MultiRegionCell (\<lambda>_. zero_MultiRegionProperties)
       DeepCopyInto_MultiRegionProperties"

definition DeepCopyInto_ClusterSummary :: "ClusterSummary_m \<Rightarrow> (memory, ClusterSummary_m) go" where
  "DeepCopyInto_ClusterSummary inp =
     (let out = inp in
      bind_go (copy_string (summ_ARN inp)) (\<lambda>p.
      let out = out\<lparr>summ_ARN := p\<rparr> in
      bind_go (copy_string (summ_Identifier inp)) (\<lambda>p.
      ret (out\<lparr>summ_Identifier := p\<rparr>))))"

definition DeepCopy_ClusterSummary :: "ptr \<Rightarrow> (memory, ptr) go" where
  "DeepCopy_ClusterSummary =
     copy_pointer the_Summary SummaryCell (\<lambda>_. zero_ClusterSummary) DeepCopyInto_ClusterSummary"

definition DeepCopyInto_ClusterSpec :: "deepcopy_lib \<Rightarrow> ClusterSpec_m \<Rightarrow> (memory, ClusterSpec_m) go" where
  "DeepCopyInto_ClusterSpec D inp =
     (let out = inp in
      bind_go (copy_bool (specm_DeletionProtectionEnabled inp)) (\<lambda>p.
      let out = out\<lparr>specm_DeletionProtectionEnabled := p\<rparr> in
      bind_go (copy_string (specm_KMSEncryptionKey inp)) (\<lambda>p.
      let out = out\<lparr>specm_KMSEncryptionKey := p\<rparr> in
      bind_go (copy_pointer the_Wrapper WrapperCell (\<lambda>_. zero_Wrapper) (\<lambda>x. ret (dc_Wrapper D x))
        (specm_KMSEncryptionKeyRef inp)) (\<lambda>p.
      let out = out\<lparr>specm_KMSEncryptionKeyRef := p\<rparr> in
      bind_go (copy_pointer the_MultiRegion MultiRegionCell (\<lambda>_. zero_MultiRegionProperties)
        DeepCopyInto_MultiRegionProperties (specm_MultiRegionProperties inp)) (\<lambda>p.
      let out = out\<lparr>specm_MultiRegionProperties := p\<rparr> in
      bind_go (copy_string (specm_Policy inp)) (\<lambda>p.
      let out = out\<lparr>specm_Policy := p\<rparr> in
      bind_go (copy_tags D (specm_Tags inp)) (\<lambda>p.
      ret (out\<lparr>specm_Tags := p\<rparr>))))))))"

definition DeepCopy_ClusterSpec :: "deepcopy_lib \<Rightarrow> ptr \<Rightarrow> (memory, ptr) go" where
  "DeepCopy_ClusterSpec D =
     copy_pointer the_Spec SpecCell (\<lambda>_. zero_ClusterSpec) (DeepCopyInto_ClusterSpec D)"

definition DeepCopyInto_ClusterStatus ::
  "deepcopy_lib \<Rightarrow> ClusterStatus_m \<Rightarrow> (memory, ClusterStatus_m) go" where
  "DeepCopyInto_ClusterStatus D inp =
     (let out = inp in
      bind_go (copy_pointer the_Metadata MetadataCell (\<lambda>_. empty_ResourceMetadata)
        (\<lambda>x. ret (dc_ResourceMetadata D x)) (statm_ACKResourceMetadata inp)) (\<lambda>p.
      let out = out\<lparr>statm_ACKResourceMetadata := p\<rparr> in
      bind_go (copy_conditions D (statm_Conditions inp)) (\<lambda>p.
      let out = out\<lparr>statm_Conditions := p\<rparr> in
      bind_go (copy_pointer the_Time TimeCell (\<lambda>_. 0) (\<lambda>x. ret (dc_Time D x)) (statm_CreationTime inp)) (\<lambda>p.
      let out = out\<lparr>statm_CreationTime := p\<rparr> in
      bind_go (copy_pointer the_Encryption EncryptionCell (\<lambda>_. zero_EncryptionDetails)
        DeepCopyInto_EncryptionDetails (statm_EncryptionDetails inp)) (\<lambda>p.
      let out = out\<lparr>statm_EncryptionDetails := p\<rparr> in
      bind_go (copy_string (statm_Endpoint inp)) (\<lambda>p.
      let out = out\<lparr>statm_Endpoint := p\<rparr> in
      bind_go (copy_string (statm_Identifier inp)) (\<lambda>p.
      let out = out\<lparr>statm_Identifier := p\<rparr> in
      bind_go (copy_string (statm_Status inp)) (\<lambda>p.
      ret (out\<lparr>statm_Status := p\<rparr>)))))))))"

definition DeepCopy_ClusterStatus :: "deepcopy_lib \<Rightarrow> ptr \<Rightarrow> (memory, ptr) go" where
  "DeepCopy_ClusterStatus D =
     copy_pointer the_Status StatusCell (\<lambda>_. zero_ClusterStatus) (DeepCopyInto_ClusterStatus D)"

definition DeepCopyInto_Cluster :: "deepcopy_lib \<Rightarrow> Cluster_m \<Rightarrow> (memory, Cluster_m) go" where
  "DeepCopyInto_Cluster D inp =
     (let out = inp;
          out = out\<lparr>clm_TypeMeta := clm_TypeMeta inp\<rparr>;
          out = out\<lparr>clm_ObjectMeta := dc_ObjectMeta D (clm_ObjectMeta inp)\<rparr> in
      bind_go (DeepCopyInto_ClusterSpec D (clm_Spec inp)) (\<lambda>s.
      let out = out\<lparr>clm_Spec := s\<rparr> in
      bind_go (DeepCopyInto_ClusterStatus D (clm_Status inp)) (\<lambda>s.
      ret (out\<lparr>clm_Status := s\<rparr>))))"

definition DeepCopy_Cluster :: "deepcopy_lib \<Rightarrow> ptr \<Rightarrow> (memory, ptr) go" where
  "DeepCopy_Cluster D =
     copy_pointer the_Cluster ClusterCell (\<lambda>_. zero_Cluster) (DeepCopyInto_Cluster D)"

text \<open>A \<open>runtime.Object\<close>: the nil interface, or one that holds a pointer.\<close>

definition DeepCopyObject_Cluster :: "deepcopy_lib \<Rightarrow> ptr \<Rightarrow> (memory, ptr option) go" where
  "DeepCopyObject_Cluster D p =
     bind_go (DeepCopy_Cluster D p) (\<lambda>c. if c \<noteq> None then ret (Some c) else ret None)"

definition DeepCopyInto_ClusterList :: "deepcopy_lib \<Rightarrow> ClusterList_m \<Rightarrow> (memory, ClusterList_m) go" where
  "DeepCopyInto_ClusterList D inp =
     (let out = inp;
          out = out\<lparr>listm_TypeMeta := listm_TypeMeta inp\<rparr>;
          out = out\<lparr>listm_ListMeta := dc_ListMeta D (listm_ListMeta inp)\<rparr> in
      bind_go (copy_pointer the_ClusterArray ClusterArray (\<lambda>cs. replicate (length cs) zero_Cluster)
        (copy_each (DeepCopyInto_Cluster D)) (listm_Items inp)) (\<lambda>p.
      ret (out\<lparr>listm_Items := p\<rparr>)))"

definition DeepCopy_ClusterList :: "deepcopy_lib \<Rightarrow> ptr \<Rightarrow> (memory, ptr) go" where
  "DeepCopy_ClusterList D =
     copy_pointer the_List ListCell (\<lambda>_. zero_ClusterList) (DeepCopyInto_ClusterList D)"

definition DeepCopyObject_ClusterList :: "deepcopy_lib \<Rightarrow> ptr \<Rightarrow> (memory, ptr option) go" where
  "DeepCopyObject_ClusterList D p =
     bind_go (DeepCopy_ClusterList D p) (\<lambda>c. if c \<noteq> None then ret (Some c) else ret None)"


section \<open>What a value in memory stands for\<close>

definition view_string :: "memory \<Rightarrow> ptr \<Rightarrow> string option" where
  "view_string = view_pointer the_String (\<lambda>m x. x)"

definition foot_string :: "memory \<Rightarrow> ptr \<Rightarrow> addr set" where
  "foot_string = foot_pointer the_String (\<lambda>m x. {})"

definition view_strings :: "memory \<Rightarrow> ptr \<Rightarrow> string option list option" where
  "view_strings = view_pointer the_PtrArray (\<lambda>m. map (view_string m))"

definition foot_strings :: "memory \<Rightarrow> ptr \<Rightarrow> addr set" where
  "foot_strings = foot_pointer the_PtrArray (\<lambda>m ps. \<Union>p \<in> set ps. foot_string m p)"

definition view_conditions :: "memory \<Rightarrow> ptr \<Rightarrow> conditions" where
  "view_conditions = view_pointer the_PtrArray (\<lambda>m. map (view_pointer the_Condition (\<lambda>m x. x) m))"

definition foot_conditions :: "memory \<Rightarrow> ptr \<Rightarrow> addr set" where
  "foot_conditions =
     foot_pointer the_PtrArray (\<lambda>m ps. \<Union>p \<in> set ps. foot_pointer the_Condition (\<lambda>m x. {}) m p)"

definition view_tags :: "memory \<Rightarrow> ptr \<Rightarrow> tagmap" where
  "view_tags = view_pointer the_Table (\<lambda>m. fmmap (view_string m))"

definition foot_tags :: "memory \<Rightarrow> ptr \<Rightarrow> addr set" where
  "foot_tags = foot_pointer the_Table (\<lambda>m t. \<Union>p \<in> fmran' t. foot_string m p)"

definition view_EncryptionDetails :: "memory \<Rightarrow> EncryptionDetails_m \<Rightarrow> EncryptionDetails" where
  "view_EncryptionDetails m x =
     \<lparr>enc_EncryptionStatus = view_string m (encm_EncryptionStatus x),
      enc_EncryptionType = view_string m (encm_EncryptionType x),
      enc_KMSKeyARN = view_string m (encm_KMSKeyARN x)\<rparr>"

definition foot_EncryptionDetails :: "memory \<Rightarrow> EncryptionDetails_m \<Rightarrow> addr set" where
  "foot_EncryptionDetails m x =
     foot_string m (encm_EncryptionStatus x) \<union>
     (foot_string m (encm_EncryptionType x) \<union> foot_string m (encm_KMSKeyARN x))"

definition view_MultiRegionProperties :: "memory \<Rightarrow> MultiRegionProperties_m \<Rightarrow> MultiRegionProperties" where
  "view_MultiRegionProperties m x =
     \<lparr>mrp_Clusters = view_strings m (mrpm_Clusters x),
      mrp_WitnessRegion = view_string m (mrpm_WitnessRegion x)\<rparr>"

definition foot_MultiRegionProperties :: "memory \<Rightarrow> MultiRegionProperties_m \<Rightarrow> addr set" where
  "foot_MultiRegionProperties m x =
     foot_strings m (mrpm_Clusters x) \<union> foot_string m (mrpm_WitnessRegion x)"

definition view_ClusterSummary :: "memory \<Rightarrow> ClusterSummary_m \<Rightarrow> ClusterSummary" where
  "view_ClusterSummary m x =
     \<lparr>summary_ARN = view_string m (summ_ARN x), summary_Identifier = view_string m (summ_Identifier x)\<rparr>"

definition foot_ClusterSummary :: "memory \<Rightarrow> ClusterSummary_m \<Rightarrow> addr set" where
  "foot_ClusterSummary m x = foot_string m (summ_ARN x) \<union> foot_string m (summ_Identifier x)"

definition view_ClusterSpec :: "memory \<Rightarrow> ClusterSpec_m \<Rightarrow> ClusterSpec" where
  "view_ClusterSpec m x =
     \<lparr>spec_DeletionProtectionEnabled =
        view_pointer the_Bool (\<lambda>m x. x) m (specm_DeletionProtectionEnabled x),
      spec_KMSEncryptionKey = view_string m (specm_KMSEncryptionKey x),
      spec_KMSEncryptionKeyRef = view_pointer the_Wrapper (\<lambda>m x. x) m (specm_KMSEncryptionKeyRef x),
      spec_MultiRegionProperties =
        view_pointer the_MultiRegion view_MultiRegionProperties m (specm_MultiRegionProperties x),
      spec_Policy = view_string m (specm_Policy x),
      spec_Tags = view_tags m (specm_Tags x)\<rparr>"

definition foot_ClusterSpec :: "memory \<Rightarrow> ClusterSpec_m \<Rightarrow> addr set" where
  "foot_ClusterSpec m x =
     foot_pointer the_Bool (\<lambda>m x. {}) m (specm_DeletionProtectionEnabled x) \<union>
     (foot_string m (specm_KMSEncryptionKey x) \<union>
     (foot_pointer the_Wrapper (\<lambda>m x. {}) m (specm_KMSEncryptionKeyRef x) \<union>
     (foot_pointer the_MultiRegion foot_MultiRegionProperties m (specm_MultiRegionProperties x) \<union>
     (foot_string m (specm_Policy x) \<union> foot_tags m (specm_Tags x)))))"

definition view_ClusterStatus :: "memory \<Rightarrow> ClusterStatus_m \<Rightarrow> ClusterStatus" where
  "view_ClusterStatus m x =
     \<lparr>status_ACKResourceMetadata =
        view_pointer the_Metadata (\<lambda>m x. x) m (statm_ACKResourceMetadata x),
      status_Conditions = view_conditions m (statm_Conditions x),
      status_CreationTime = view_pointer the_Time (\<lambda>m x. x) m (statm_CreationTime x),
      status_EncryptionDetails =
        view_pointer the_Encryption view_EncryptionDetails m (statm_EncryptionDetails x),
      status_Endpoint = view_string m (statm_Endpoint x),
      status_Identifier = view_string m (statm_Identifier x),
      status_Status = view_string m (statm_Status x)\<rparr>"

definition foot_ClusterStatus :: "memory \<Rightarrow> ClusterStatus_m \<Rightarrow> addr set" where
  "foot_ClusterStatus m x =
     foot_pointer the_Metadata (\<lambda>m x. {}) m (statm_ACKResourceMetadata x) \<union>
     (foot_conditions m (statm_Conditions x) \<union>
     (foot_pointer the_Time (\<lambda>m x. {}) m (statm_CreationTime x) \<union>
     (foot_pointer the_Encryption foot_EncryptionDetails m (statm_EncryptionDetails x) \<union>
     (foot_string m (statm_Endpoint x) \<union>
     (foot_string m (statm_Identifier x) \<union> foot_string m (statm_Status x))))))"

definition view_Cluster :: "memory \<Rightarrow> Cluster_m \<Rightarrow> Cluster" where
  "view_Cluster m x =
     \<lparr>TypeMeta = clm_TypeMeta x, ObjectMeta = clm_ObjectMeta x,
      Spec = view_ClusterSpec m (clm_Spec x), Status = view_ClusterStatus m (clm_Status x)\<rparr>"

definition foot_Cluster :: "memory \<Rightarrow> Cluster_m \<Rightarrow> addr set" where
  "foot_Cluster m x = foot_ClusterSpec m (clm_Spec x) \<union> foot_ClusterStatus m (clm_Status x)"

definition view_ClusterList :: "memory \<Rightarrow> ClusterList_m \<Rightarrow> ClusterList" where
  "view_ClusterList m x =
     \<lparr>list_TypeMeta = listm_TypeMeta x, list_ListMeta = listm_ListMeta x,
      list_Items = view_pointer the_ClusterArray (\<lambda>m. map (view_Cluster m)) m (listm_Items x)\<rparr>"

definition foot_ClusterList :: "memory \<Rightarrow> ClusterList_m \<Rightarrow> addr set" where
  "foot_ClusterList m x =
     foot_pointer the_ClusterArray (\<lambda>m cs. \<Union>c \<in> set cs. foot_Cluster m c) m (listm_Items x)"

section \<open>The functions are deep copies\<close>

interpretation string_pointer: deep_copy view_string foot_string copy_string
  unfolding view_string_def foot_string_def copy_string_def
  by (rule deep_pointer [OF string_cell.cell_type_axioms deep_value])

interpretation strings: deep_copy view_strings foot_strings copy_strings
  unfolding view_strings_def foot_strings_def copy_strings_def
  by (rule deep_pointer [OF array_cell.cell_type_axioms deep_each [OF string_pointer.deep_copy_axioms]])

lemma deep_conditions:
  assumes "deepcopy_law D" shows "deep_copy view_conditions foot_conditions (copy_conditions D)"
proof -
  have "dc_Condition D c = c" for c using assms by (simp add: deepcopy_law_def)
  note element = deep_pointer [OF condition_cell.cell_type_axioms deep_library [OF this]]
  show ?thesis unfolding view_conditions_def foot_conditions_def copy_conditions_def
    by (rule deep_pointer [OF array_cell.cell_type_axioms deep_each [OF element]])
qed

lemma deep_tags:
  assumes "deepcopy_law D" shows "deep_copy view_tags foot_tags (copy_tags D)"
proof -
  have "is_range (dc_range D t) t" for t using assms by (simp add: deepcopy_law_def)
  note table = deep_table [OF string_pointer.deep_copy_axioms this]
  show ?thesis unfolding view_tags_def foot_tags_def copy_tags_def
    by (rule deep_pointer [OF table_cell.cell_type_axioms table])
qed

lemmas field_simps_copy = copy_both_def bind_assoc Let_def

interpretation encryption: deep_copy view_EncryptionDetails foot_EncryptionDetails
  DeepCopyInto_EncryptionDetails
proof (rule deep_record [OF deep_both [OF string_pointer.deep_copy_axioms
        deep_both [OF string_pointer.deep_copy_axioms string_pointer.deep_copy_axioms]],
      where dest = "\<lambda>x. (encm_EncryptionStatus x, encm_EncryptionType x, encm_KMSKeyARN x)"
        and mk = "\<lambda>x (a, b, c). x\<lparr>encm_EncryptionStatus := a, encm_EncryptionType := b,
          encm_KMSKeyARN := c\<rparr>"
        and conv = "\<lambda>x (a, b, c). \<lparr>enc_EncryptionStatus = a, enc_EncryptionType = b, enc_KMSKeyARN = c\<rparr>"])
qed (auto simp: view_EncryptionDetails_def foot_EncryptionDetails_def
    DeepCopyInto_EncryptionDetails_def field_simps_copy)

interpretation multi_region: deep_copy view_MultiRegionProperties foot_MultiRegionProperties
  DeepCopyInto_MultiRegionProperties
proof (rule deep_record [OF deep_both [OF strings.deep_copy_axioms string_pointer.deep_copy_axioms],
      where dest = "\<lambda>x. (mrpm_Clusters x, mrpm_WitnessRegion x)"
        and mk = "\<lambda>x (a, b). x\<lparr>mrpm_Clusters := a, mrpm_WitnessRegion := b\<rparr>"
        and conv = "\<lambda>x (a, b). \<lparr>mrp_Clusters = a, mrp_WitnessRegion = b\<rparr>"])
qed (auto simp: view_MultiRegionProperties_def foot_MultiRegionProperties_def
    DeepCopyInto_MultiRegionProperties_def field_simps_copy)

interpretation summary: deep_copy view_ClusterSummary foot_ClusterSummary DeepCopyInto_ClusterSummary
proof (rule deep_record [OF deep_both [OF string_pointer.deep_copy_axioms string_pointer.deep_copy_axioms],
      where dest = "\<lambda>x. (summ_ARN x, summ_Identifier x)"
        and mk = "\<lambda>x (a, b). x\<lparr>summ_ARN := a, summ_Identifier := b\<rparr>"
        and conv = "\<lambda>x (a, b). \<lparr>summary_ARN = a, summary_Identifier = b\<rparr>"])
qed (auto simp: view_ClusterSummary_def foot_ClusterSummary_def DeepCopyInto_ClusterSummary_def
    field_simps_copy)


lemma deep_bool: "deep_copy (view_pointer the_Bool (\<lambda>m x. x)) (foot_pointer the_Bool (\<lambda>m x. {})) copy_bool"
  unfolding copy_bool_def by (rule deep_pointer [OF bool_cell.cell_type_axioms deep_value])

lemma deep_spec:
  assumes law: "deepcopy_law D"
  shows "deep_copy view_ClusterSpec foot_ClusterSpec (DeepCopyInto_ClusterSpec D)"
proof -
  have "dc_Wrapper D c = c" for c using law by (simp add: deepcopy_law_def)
  note wrapper = deep_pointer [OF wrapper_cell.cell_type_axioms deep_library [OF this]]
  note multi = deep_pointer [OF multi_region_cell.cell_type_axioms multi_region.deep_copy_axioms]
  note parts = deep_both [OF deep_bool deep_both [OF string_pointer.deep_copy_axioms
    deep_both [OF wrapper deep_both [OF multi
    deep_both [OF string_pointer.deep_copy_axioms deep_tags [OF law]]]]]]
  show ?thesis
  proof (rule deep_record [OF parts,
        where dest = "\<lambda>x. (specm_DeletionProtectionEnabled x, specm_KMSEncryptionKey x,
            specm_KMSEncryptionKeyRef x, specm_MultiRegionProperties x, specm_Policy x, specm_Tags x)"
          and mk = "\<lambda>x (a, b, c, d, e, f). x\<lparr>specm_DeletionProtectionEnabled := a,
            specm_KMSEncryptionKey := b, specm_KMSEncryptionKeyRef := c,
            specm_MultiRegionProperties := d, specm_Policy := e, specm_Tags := f\<rparr>"
          and conv = "\<lambda>x (a, b, c, d, e, f). \<lparr>spec_DeletionProtectionEnabled = a,
            spec_KMSEncryptionKey = b, spec_KMSEncryptionKeyRef = c,
            spec_MultiRegionProperties = d, spec_Policy = e, spec_Tags = f\<rparr>"])
  qed (auto simp: view_ClusterSpec_def foot_ClusterSpec_def DeepCopyInto_ClusterSpec_def
      field_simps_copy)
qed

lemma deep_status:
  assumes law: "deepcopy_law D"
  shows "deep_copy view_ClusterStatus foot_ClusterStatus (DeepCopyInto_ClusterStatus D)"
proof -
  have "dc_ResourceMetadata D c = c" and "dc_Time D t = t" for c t
    using law by (simp_all add: deepcopy_law_def)
  note metadata = deep_pointer [OF metadata_cell.cell_type_axioms deep_library [OF this(1)]]
    and created = deep_pointer [OF time_cell.cell_type_axioms deep_library [OF this(2)]]
  note details = deep_pointer [OF encryption_cell.cell_type_axioms encryption.deep_copy_axioms]
  note parts = deep_both [OF metadata deep_both [OF deep_conditions [OF law]
    deep_both [OF created deep_both [OF details
    deep_both [OF string_pointer.deep_copy_axioms
    deep_both [OF string_pointer.deep_copy_axioms string_pointer.deep_copy_axioms]]]]]]
  show ?thesis
  proof (rule deep_record [OF parts,
        where dest = "\<lambda>x. (statm_ACKResourceMetadata x, statm_Conditions x, statm_CreationTime x,
            statm_EncryptionDetails x, statm_Endpoint x, statm_Identifier x, statm_Status x)"
          and mk = "\<lambda>x (a, b, c, d, e, f, g). x\<lparr>statm_ACKResourceMetadata := a,
            statm_Conditions := b, statm_CreationTime := c, statm_EncryptionDetails := d,
            statm_Endpoint := e, statm_Identifier := f, statm_Status := g\<rparr>"
          and conv = "\<lambda>x (a, b, c, d, e, f, g). \<lparr>status_ACKResourceMetadata = a,
            status_Conditions = b, status_CreationTime = c, status_EncryptionDetails = d,
            status_Endpoint = e, status_Identifier = f, status_Status = g\<rparr>"])
  qed (auto simp: view_ClusterStatus_def foot_ClusterStatus_def DeepCopyInto_ClusterStatus_def
      field_simps_copy)
qed

lemma deep_cluster:
  assumes law: "deepcopy_law D"
  shows "deep_copy view_Cluster foot_Cluster (DeepCopyInto_Cluster D)"
proof (rule deep_record [OF deep_both [OF deep_spec [OF law] deep_status [OF law]],
      where dest = "\<lambda>x. (clm_Spec x, clm_Status x)"
        and mk = "\<lambda>x (a, b). x\<lparr>clm_ObjectMeta := dc_ObjectMeta D (clm_ObjectMeta x),
          clm_Spec := a, clm_Status := b\<rparr>"
        and conv = "\<lambda>x (a, b). \<lparr>TypeMeta = clm_TypeMeta x, ObjectMeta = clm_ObjectMeta x, Spec = a,
          Status = b\<rparr>"])
  have meta: "dc_ObjectMeta D c = c" for c using law by (simp add: deepcopy_law_def)
  show "(\<lambda>(a, b). \<lparr>TypeMeta = clm_TypeMeta ((\<lambda>(a, b). x\<lparr>clm_ObjectMeta := dc_ObjectMeta D (clm_ObjectMeta x),
          clm_Spec := a, clm_Status := b\<rparr>) y),
        ObjectMeta = clm_ObjectMeta ((\<lambda>(a, b). x\<lparr>clm_ObjectMeta := dc_ObjectMeta D (clm_ObjectMeta x),
          clm_Spec := a, clm_Status := b\<rparr>) y), Spec = a, Status = b\<rparr>) z =
      (\<lambda>(a, b). \<lparr>TypeMeta = clm_TypeMeta x, ObjectMeta = clm_ObjectMeta x, Spec = a, Status = b\<rparr>) z"
    for x y z by (cases y, cases z) (simp add: meta)
qed (auto simp: view_Cluster_def foot_Cluster_def DeepCopyInto_Cluster_def field_simps_copy)

lemma deep_list:
  assumes law: "deepcopy_law D"
  shows "deep_copy view_ClusterList foot_ClusterList (DeepCopyInto_ClusterList D)"
proof (rule deep_record [OF deep_pointer [OF clusters_cell.cell_type_axioms deep_each [OF deep_cluster [OF law]]],
      where dest = listm_Items
        and mk = "\<lambda>x a. x\<lparr>listm_ListMeta := dc_ListMeta D (listm_ListMeta x), listm_Items := a\<rparr>"
        and conv = "\<lambda>x a. \<lparr>list_TypeMeta = listm_TypeMeta x, list_ListMeta = listm_ListMeta x,
          list_Items = a\<rparr>"])
qed (use law in \<open>auto simp: deepcopy_law_def view_ClusterList_def foot_ClusterList_def
    DeepCopyInto_ClusterList_def field_simps_copy\<close>)

text \<open>The copy functions on pointers.\<close>

definition view_object :: "memory \<Rightarrow> ptr \<Rightarrow> Cluster option" where
  "view_object = view_pointer the_Cluster view_Cluster"

definition foot_object :: "memory \<Rightarrow> ptr \<Rightarrow> addr set" where
  "foot_object = foot_pointer the_Cluster foot_Cluster"

lemma deep_object: "deepcopy_law D \<Longrightarrow> deep_copy view_object foot_object (DeepCopy_Cluster D)"
  unfolding view_object_def foot_object_def DeepCopy_Cluster_def
  by (rule deep_pointer [OF cluster_cell.cell_type_axioms deep_cluster])

definition view_list_object :: "memory \<Rightarrow> ptr \<Rightarrow> ClusterList option" where
  "view_list_object = view_pointer the_List view_ClusterList"

definition foot_list_object :: "memory \<Rightarrow> ptr \<Rightarrow> addr set" where
  "foot_list_object = foot_pointer the_List foot_ClusterList"

lemma deep_list_object:
  "deepcopy_law D \<Longrightarrow> deep_copy view_list_object foot_list_object (DeepCopy_ClusterList D)"
  unfolding view_list_object_def foot_list_object_def DeepCopy_ClusterList_def
  by (rule deep_pointer [OF cluster_list_cell.cell_type_axioms deep_list])

text \<open>A library that copies as documented.\<close>

definition ref_copy :: deepcopy_lib where
  "ref_copy =
     \<lparr>dc_ObjectMeta = id, dc_ListMeta = id, dc_Wrapper = id, dc_ResourceMetadata = id,
      dc_Condition = id, dc_Time = id, dc_range = go_range\<rparr>"

lemma ref_copy_law: "deepcopy_law ref_copy"
  by (simp add: deepcopy_law_def ref_copy_def go_range_is_range)


section \<open>What a copy is\<close>

text \<open>A cluster with one tag, at the addresses 0 to 2.\<close>

definition ref_memory :: memory where
  "ref_memory =
     \<lparr>cells = (\<lambda>_. BoolCell False)
        (0 := StringCell ''blue'', 1 := TableCell (fmupd ''team'' (Some 0) fmempty),
         2 := ClusterCell (zero_Cluster\<lparr>clm_Spec := zero_ClusterSpec\<lparr>specm_Tags := Some 1\<rparr>\<rparr>)),
      next_addr = 3\<rparr>"

lemma ref_tags_ran: "fmran' (fmupd ''team'' (Some 0) fmempty) = {Some (0 :: nat)}"
  by (auto elim!: fmran'E intro: fmran'I split: if_splits)

lemma ref_foot: "foot_object ref_memory (Some 2) = {0, 1, 2}"
  by (auto simp: foot_object_def foot_pointer_def ref_memory_def foot_Cluster_def foot_ClusterSpec_def
      foot_ClusterStatus_def zero_Cluster_def zero_ClusterSpec_def zero_ClusterStatus_def
      foot_string_def foot_tags_def foot_conditions_def ref_tags_ran)

lemma copied_pointer:
  assumes law: "deepcopy_law D" and low: "foot_object m (Some a) \<subseteq> {..<next_addr m}"
  obtains b m' where "DeepCopy_Cluster D (Some a) m = (Ret (Some b), m')" "next_addr m \<le> b"
    "extends m m'" "view_object m' (Some b) = view_object m (Some a)"
proof -
  obtain q m' where q: "DeepCopy_Cluster D (Some a) m = (Ret q, m')" "extends m m'"
      "view_object m' q = view_object m (Some a)" "foot_object m' q \<subseteq> {next_addr m..<next_addr m'}"
    using deep_copy.copyE [OF deep_object [OF law] low] by blast
  from q(3) obtain b where b: "q = Some b" by (cases q) (auto simp: view_object_def view_pointer_def)
  have "b \<in> foot_object m' q" by (simp add: b foot_object_def foot_pointer_def)
  with q(4) have "next_addr m \<le> b" by auto
  with q b show ?thesis by (intro that [of b m']) simp_all
qed

text \<open>
  C15. The copy and the original share no memory: after the copy, whatever is written through the
  pointers of the original (and wherever else the copy is not) leaves the copy as it was, and
  whatever is written through the copy leaves the original as it was.
\<close>

theorem DeepCopy_Cluster_isolated:
  assumes "deepcopy_law D" "foot_object m (Some a) \<subseteq> {..<next_addr m}"
    and "DeepCopy_Cluster D (Some a) m = (Ret p, m')"
  shows "foot_object m' (Some a) \<inter> foot_object m' p = {} \<and>
    (\<forall>n. agree (- foot_object m' (Some a)) m' n \<longrightarrow> view_object n p = view_object m (Some a)) \<and>
    (\<forall>n. agree (- foot_object m' p) m' n \<longrightarrow> view_object n (Some a) = view_object m (Some a))"
  using deep_copy.isolated [OF deep_object [OF assms(1)] assms(2,3)] by blast

theorem DeepCopy_Cluster_isolated_witness:
  "\<exists>p m'. DeepCopy_Cluster ref_copy (Some 2) ref_memory = (Ret p, m') \<and>
     view_object (m'\<lparr>cells := (cells m')(0 := StringCell ''red'')\<rparr>) p = view_object ref_memory (Some 2)"
proof -
  have low: "foot_object ref_memory (Some 2) \<subseteq> {..<next_addr ref_memory}"
    by (simp add: ref_foot) (simp add: ref_memory_def)
  obtain b m' where run: "DeepCopy_Cluster ref_copy (Some 2) ref_memory = (Ret (Some b), m')"
    and e: "extends ref_memory m'" using copied_pointer [OF ref_copy_law low] .
  have "foot_object m' (Some 2) = {0, 1, 2}"
    using deep_copy.kept [OF deep_object [OF ref_copy_law] e low] ref_foot by simp
  then have "agree (- foot_object m' (Some 2)) m' (m'\<lparr>cells := (cells m')(0 := StringCell ''red'')\<rparr>)"
    by (simp add: agree_def)
  with DeepCopy_Cluster_isolated [OF ref_copy_law low run] run show ?thesis by blast
qed

text \<open>
  Copying a list of clusters as a \<open>runtime.Object\<close> copies every cluster of it, in order and
  apart from the original; a nil list gives the nil interface, never an interface that holds a nil
  pointer.
\<close>

lemma DeepCopyObject_ClusterList_copies:
  assumes "deepcopy_law D" "foot_list_object m p \<subseteq> {..<next_addr m}"
  shows "\<exists>q m'. DeepCopyObject_ClusterList D p m = (Ret q, m') \<and> q \<noteq> Some None \<and>
    view_list_object m' (Option.bind q id) = view_list_object m p \<and>
    foot_list_object m' p \<inter> foot_list_object m' (Option.bind q id) = {}"
proof -
  obtain c m' where c: "DeepCopy_ClusterList D p m = (Ret c, m')"
    using deep_copy.copyE [OF deep_list_object [OF assms(1)] assms(2)] by blast
  from deep_copy.isolated [OF deep_list_object [OF assms(1)] assms(2) c]
  have same: "view_list_object m' c = view_list_object m p"
    and apart: "foot_list_object m' p \<inter> foot_list_object m' c = {}" by simp_all
  show ?thesis
  proof (cases c)
    case None
    with c same apart show ?thesis
      by (intro exI [of _ None] exI [of _ m']) (simp add: DeepCopyObject_ClusterList_def go_run)
  next
    case (Some b)
    with c same apart show ?thesis
      by (intro exI [of _ "Some (Some b)"] exI [of _ m']) (simp add: DeepCopyObject_ClusterList_def go_run)
  qed
qed

end

