(* ===== verification/Startup.thy ===== *)
theory Startup
  imports Ack_Lib
begin

text \<open>
  How the controller starts: \<open>cmd/controller/main.go\<close>, the registry of manager factories
  (\<open>pkg/resource/registry.go\<close>), the group, version and kind of the custom resource
  (\<open>groupversion_info.go\<close>, \<open>descriptor.go\<close>) and \<open>pkg/version\<close>.  Flags, the Kubernetes libraries
  and the ACK runtime are a parameter (\<open>startup_lib\<close>): functions from the arguments the code passes
  to the error or the object they answer with.  The state is what was done so far: the log and the
  calls that change something outside.  \<open>os.Exit(1)\<close> ends the run like a panic does.
\<close>

section \<open>Groups, versions and kinds\<close>

record GroupVersion =
  gv_Group :: string
  gv_Version :: string

record GroupVersionKind =
  gvk_Group :: string
  gvk_Version :: string
  gvk_Kind :: string

record GroupKind =
  gk_Group :: string
  gk_Kind :: string

definition GroupVersion_info :: GroupVersion where
  "GroupVersion_info = \<lparr>gv_Group = ''dsql.services.k8s.aws'', gv_Version = ''v1alpha1''\<rparr>"

definition GroupKind_info :: GroupKind where
  "GroupKind_info = \<lparr>gk_Group = ''dsql.services.k8s.aws'', gk_Kind = ''Cluster''\<rparr>"

text \<open>Of a manager factory \<open>main\<close> uses what its descriptor answers.\<close>

record AWSResourceManagerFactory =
  mf_GroupVersionKind :: GroupVersionKind

section \<open>What the program is given\<close>

record AckConfig =
  ack_WebhookServerAddr :: string
  ack_WatchNamespace :: string
  ack_MetricsAddr :: string
  ack_EnableLeaderElection :: bool
  ack_LeaderElectionNamespace :: string
  ack_HealthzAddr :: string
  ack_EnableWebhookServer :: bool

record VersionInfo =
  vi_GitCommit :: string
  vi_GitVersion :: string
  vi_BuildDate :: string

text \<open>The variables of \<open>pkg/version\<close> that the build sets, and its constants.\<close>

record build_info =
  GitVersion :: string
  GitCommit :: string
  BuildDate :: string

definition ACKGenerateVersion :: string where
  "ACKGenerateVersion = ''v0.67.0''"

definition ACKGenerateBuildDate :: string where
  "ACKGenerateBuildDate = ''2026-10-23T21:29:44Z''"

text \<open>\<open>ctrlrt.Options\<close>, with its nested options laid flat.\<close>

record Options =
  opt_Scheme :: handle
  opt_CacheScheme :: handle
  opt_DefaultNamespaces :: "unit gomap"
  opt_DefaultLabelSelector :: handle
  opt_WebhookPort :: int
  opt_WebhookHost :: string
  opt_MetricsBindAddress :: string
  opt_LeaderElection :: bool
  opt_LeaderElectionID :: string
  opt_LeaderElectionNamespace :: string
  opt_HealthProbeBindAddress :: string
  opt_LivenessEndpointName :: string
  opt_ReadinessEndpointName :: string

record webhook =
  wh_UID :: string
  wh_Setup :: "handle \<Rightarrow> error option"

record 'reg startup_lib =
  lib_Flags :: AckConfig
  lib_NewRegistry :: 'reg
  lib_RegisterFactory :: "AWSResourceManagerFactory \<Rightarrow> 'reg \<Rightarrow> 'reg"
  lib_GetFactories :: "'reg \<Rightarrow> AWSResourceManagerFactory list"
  lib_WithKind :: "GroupVersion \<Rightarrow> string \<Rightarrow> GroupVersionKind"
  lib_Scheme :: handle
  lib_Validate :: "AckConfig \<Rightarrow> GroupVersionKind list \<Rightarrow> error option"
  lib_GetHostPort :: "string \<Rightarrow> error + string \<times> int"
  lib_GetWatchNamespaces :: "AckConfig \<Rightarrow> error + string list"
  lib_ParseWatchSelectors :: "AckConfig \<Rightarrow> error + handle"
  lib_GetConfig :: "handle option"
  lib_NewManager :: "handle \<Rightarrow> Options \<Rightarrow> error + handle"
  lib_BuildDeps :: "(string \<times> string) list option"
  lib_GoVersion :: string
  lib_NewServiceController ::
    "string \<Rightarrow> string \<Rightarrow> VersionInfo \<Rightarrow> AWSResourceManagerFactory list \<Rightarrow> handle"
  lib_GetWebhooks :: "webhook list"
  lib_BindControllerManager :: "handle \<Rightarrow> handle \<Rightarrow> AckConfig \<Rightarrow> error option"
  lib_AddHealthzCheck :: "handle \<Rightarrow> string \<Rightarrow> error option"
  lib_AddReadyzCheck :: "handle \<Rightarrow> string \<Rightarrow> error option"
  lib_Start :: "handle \<Rightarrow> error option"

section \<open>What the program does\<close>

datatype event =
    LogError error string string              \<comment> \<open>error, message, \<open>aws.service\<close>\<close>
  | LogInfo string "(string \<times> string) list"
  | NewManager Options
  | SetupSignalHandler
  | SetupWebhook string
  | BindControllerManager handle handle
  | AddHealthzCheck string
  | AddReadyzCheck string
  | StartManager handle

definition emit :: "event \<Rightarrow> (event list, unit) go" where
  "emit e = (\<lambda>w. (Ret (), w @ [e]))"

definition exit_1 :: string where
  "exit_1 = ''exit status 1''"

definition os_Exit :: "(event list, 'a) go" where
  "os_Exit = panic exit_1"

definition awsServiceAPIGroup :: string where
  "awsServiceAPIGroup = ''dsql.services.k8s.aws''"

definition awsServiceAlias :: string where
  "awsServiceAlias = ''dsql''"

text \<open>\<open>setupLog.Error(...)\<close> followed by \<open>os.Exit(1)\<close>.\<close>

definition fatal :: "error \<Rightarrow> string \<Rightarrow> string \<Rightarrow> (event list, 'a) go" where
  "fatal err msg service = bind_go (emit (LogError err msg service)) (\<lambda>_. os_Exit)"

fun dep_loop :: "string \<Rightarrow> (string \<times> string) list \<Rightarrow> string" where
  "dep_loop path [] = ''unknown''"
| "dep_loop path ((dep, version) # deps) = (if dep = path then version else dep_loop path deps)"

definition depVersion :: "'reg startup_lib \<Rightarrow> string \<Rightarrow> string" where
  "depVersion S path =
     (case lib_BuildDeps S of None \<Rightarrow> ''unknown'' | Some deps \<Rightarrow> dep_loop path deps)"

definition descriptor_GroupVersionKind :: "'reg startup_lib \<Rightarrow> GroupVersionKind" where
  "descriptor_GroupVersionKind S = lib_WithKind S GroupVersion_info (gk_Kind GroupKind_info)"

text \<open>The package's registry after the \<open>init\<close> of \<open>pkg/resource/cluster\<close>.\<close>

definition RegisterManagerFactory :: "'reg startup_lib \<Rightarrow> AWSResourceManagerFactory \<Rightarrow> 'reg \<Rightarrow> 'reg" where
  "RegisterManagerFactory S f reg = lib_RegisterFactory S f reg"

definition cluster_init :: "'reg startup_lib \<Rightarrow> 'reg \<Rightarrow> 'reg" where
  "cluster_init S reg =
     RegisterManagerFactory S \<lparr>mf_GroupVersionKind = descriptor_GroupVersionKind S\<rparr> reg"

definition GetManagerFactories :: "'reg startup_lib \<Rightarrow> AWSResourceManagerFactory list" where
  "GetManagerFactories S = lib_GetFactories S (cluster_init S (lib_NewRegistry S))"

fun gvk_loop :: "AWSResourceManagerFactory list \<Rightarrow> GroupVersionKind list \<Rightarrow> GroupVersionKind list" where
  "gvk_loop [] resourceGVKs = resourceGVKs"
| "gvk_loop (mf # mfs) resourceGVKs = gvk_loop mfs (resourceGVKs @ [mf_GroupVersionKind mf])"

fun namespace_loop :: "string list \<Rightarrow> unit gomap \<Rightarrow> unit gomap" where
  "namespace_loop [] watchNamespaces = watchNamespaces"
| "namespace_loop (namespace # namespaces) watchNamespaces =
     namespace_loop namespaces (fmupd namespace () watchNamespaces)"

definition manager_options ::
  "'reg startup_lib \<Rightarrow> AckConfig \<Rightarrow> unit gomap \<Rightarrow> handle \<Rightarrow> string \<Rightarrow> int \<Rightarrow> Options" where
  "manager_options S ackCfg watchNamespaces watchSelectors host port =
     \<lparr>opt_Scheme = lib_Scheme S, opt_CacheScheme = lib_Scheme S,
      opt_DefaultNamespaces = watchNamespaces, opt_DefaultLabelSelector = watchSelectors,
      opt_WebhookPort = port, opt_WebhookHost = host,
      opt_MetricsBindAddress = ack_MetricsAddr ackCfg,
      opt_LeaderElection = ack_EnableLeaderElection ackCfg,
      opt_LeaderElectionID = ''ack-'' @ awsServiceAPIGroup,
      opt_LeaderElectionNamespace = ack_LeaderElectionNamespace ackCfg,
      opt_HealthProbeBindAddress = ack_HealthzAddr ackCfg,
      opt_LivenessEndpointName = ''/healthz'', opt_ReadinessEndpointName = ''/readyz''\<rparr>"

fun webhook_loop :: "handle \<Rightarrow> webhook list \<Rightarrow> (event list, unit) go" where
  "webhook_loop mgr [] = ret ()"
| "webhook_loop mgr (w # ws) =
     bind_go (emit (SetupWebhook (wh_UID w))) (\<lambda>_.
     bind_go
       (case wh_Setup w mgr of
          Some err \<Rightarrow> emit (LogError err (''unable to register webhook '' @ wh_UID w) awsServiceAlias)
        | None \<Rightarrow> ret ()) (\<lambda>_.
     webhook_loop mgr ws))"


text \<open>\<open>if err = ...; err != nil { setupLog.Error(...); os.Exit(1) }\<close>\<close>

definition or_exit :: "error option \<Rightarrow> string \<Rightarrow> string \<Rightarrow> (event list, unit) go" where
  "or_exit r msg service = (case r of Some err \<Rightarrow> fatal err msg service | None \<Rightarrow> ret ())"

definition value_or_exit :: "error + 'a \<Rightarrow> string \<Rightarrow> string \<Rightarrow> (event list, 'a) go" where
  "value_or_exit r msg service = (case r of Inl err \<Rightarrow> fatal err msg service | Inr x \<Rightarrow> ret x)"

definition build_details :: "'reg startup_lib \<Rightarrow> build_info \<Rightarrow> (string \<times> string) list" where
  "build_details S b =
     [(''aws.service'', awsServiceAlias), (''gitCommit'', GitCommit b), (''buildDate'', BuildDate b),
      (''goVersion'', lib_GoVersion S), (''ackGenerateVersion'', ACKGenerateVersion),
      (''ackRuntimeVersion'', depVersion S ''github.com/aws-controllers-k8s/runtime''),
      (''awsSDKGoV2Version'', depVersion S ''github.com/aws/aws-sdk-go-v2'')]"

definition main :: "'reg startup_lib \<Rightarrow> build_info \<Rightarrow> (event list, unit) go" where
  "main S b =
     (let ackCfg = lib_Flags S;
          resourceGVKs = gvk_loop (GetManagerFactories S) [] in
      bind_go (or_exit (lib_Validate S ackCfg resourceGVKs)
        ''Unable to create controller manager'' awsServiceAlias) (\<lambda>_.
      bind_go (value_or_exit (lib_GetHostPort S (ack_WebhookServerAddr ackCfg))
        ''Unable to parse webhook server address.'' awsServiceAlias) (\<lambda>(host, port).
      bind_go (value_or_exit (lib_GetWatchNamespaces S ackCfg)
        ''Unable to parse watch namespaces.'' (ack_WatchNamespace ackCfg)) (\<lambda>namespaces.
      let watchNamespaces = namespace_loop namespaces fmempty in
      bind_go (value_or_exit (lib_ParseWatchSelectors S ackCfg)
        ''Unable to parse watch selectors.'' awsServiceAlias) (\<lambda>watchSelectors.
      bind_go (case lib_GetConfig S of None \<Rightarrow> os_Exit | Some c \<Rightarrow> ret c) (\<lambda>config.
      let options = manager_options S ackCfg watchNamespaces watchSelectors host port in
      bind_go (emit (NewManager options)) (\<lambda>_.
      bind_go (value_or_exit (lib_NewManager S config options)
        ''unable to create controller manager'' awsServiceAlias) (\<lambda>mgr.
      bind_go (emit SetupSignalHandler) (\<lambda>_.
      bind_go (emit (LogInfo ''initializing service controller''
        [(''aws.service'', awsServiceAlias), (''version'', GitVersion b)])) (\<lambda>_.
      bind_go (emit (LogInfo ''build details'' (build_details S b))) (\<lambda>_.
      let sc = lib_NewServiceController S awsServiceAlias awsServiceAPIGroup
            \<lparr>vi_GitCommit = GitCommit b, vi_GitVersion = GitVersion b, vi_BuildDate = BuildDate b\<rparr>
            (GetManagerFactories S) in
      bind_go (if ack_EnableWebhookServer ackCfg then webhook_loop mgr (lib_GetWebhooks S) else ret ()) (\<lambda>_.
      bind_go (emit (BindControllerManager sc mgr)) (\<lambda>_.
      bind_go (or_exit (lib_BindControllerManager S sc mgr ackCfg)
        ''unable bind to controller manager to service controller'' awsServiceAlias) (\<lambda>_.
      bind_go (emit (AddHealthzCheck ''health'')) (\<lambda>_.
      bind_go (or_exit (lib_AddHealthzCheck S mgr ''health'')
        ''unable to set up health check'' awsServiceAlias) (\<lambda>_.
      bind_go (emit (AddReadyzCheck ''check'')) (\<lambda>_.
      bind_go (or_exit (lib_AddReadyzCheck S mgr ''check'')
        ''unable to set up ready check'' awsServiceAlias) (\<lambda>_.
      bind_go (emit (LogInfo ''starting manager'' [(''aws.service'', awsServiceAlias)])) (\<lambda>_.
      bind_go (emit (StartManager mgr)) (\<lambda>_.
      or_exit (lib_Start S mgr) ''unable to start controller manager'' awsServiceAlias))))))))))))))))))))"

section \<open>Running it\<close>

lemma startup_run [go_run]:
  "emit e w = (Ret (), w @ [e])"
  "os_Exit w = (Panic exit_1, w)"
  "fatal err msg service w = (Panic exit_1, w @ [LogError err msg service])"
  "or_exit None msg service w = (Ret (), w)"
  "or_exit (Some err) msg service w = (Panic exit_1, w @ [LogError err msg service])"
  "value_or_exit (Inr x) msg service w = (Ret x, w)"
  "value_or_exit (Inl err) msg service w = (Panic exit_1, w @ [LogError err msg service])"
  by (simp_all add: emit_def os_Exit_def fatal_def or_exit_def value_or_exit_def go_run)

lemma gvk_loop_map: "gvk_loop mfs acc = acc @ map mf_GroupVersionKind mfs"
  by (induction mfs acc rule: gvk_loop.induct) simp_all

lemma namespace_loop_dom: "fmdom (namespace_loop ns acc) = fmdom acc |\<union>| fset_of_list ns"
  by (induction ns acc rule: namespace_loop.induct) auto

fun webhook_events :: "handle \<Rightarrow> webhook list \<Rightarrow> event list" where
  "webhook_events mgr [] = []"
| "webhook_events mgr (w # ws) =
     SetupWebhook (wh_UID w) #
     (case wh_Setup w mgr of
        Some err \<Rightarrow> [LogError err (''unable to register webhook '' @ wh_UID w) awsServiceAlias]
      | None \<Rightarrow> []) @ webhook_events mgr ws"

lemma webhook_loop_run [go_run]: "webhook_loop mgr ws w = (Ret (), w @ webhook_events mgr ws)"
  by (induction mgr ws arbitrary: w rule: webhook_loop.induct) (simp_all add: go_run split: option.split)

section \<open>What starting guarantees\<close>

text \<open>
  What must be in order before the manager runs: the configuration the flags gave, the address of
  the webhook server, the namespaces and selectors, a Kubernetes configuration, and the manager made
  of them; then, on that manager, the controller and the two probes.
\<close>

definition configured ::
  "'reg startup_lib \<Rightarrow> GroupVersionKind list \<Rightarrow> string \<Rightarrow> int \<Rightarrow> string list \<Rightarrow> handle \<Rightarrow> handle \<Rightarrow> bool" where
  "configured S gvks host port namespaces selectors config \<longleftrightarrow>
     lib_Validate S (lib_Flags S) gvks = None \<and>
     lib_GetHostPort S (ack_WebhookServerAddr (lib_Flags S)) = Inr (host, port) \<and>
     lib_GetWatchNamespaces S (lib_Flags S) = Inr namespaces \<and>
     lib_ParseWatchSelectors S (lib_Flags S) = Inr selectors \<and>
     lib_GetConfig S = Some config"

definition bound :: "'reg startup_lib \<Rightarrow> handle \<Rightarrow> handle \<Rightarrow> bool" where
  "bound S sc mgr \<longleftrightarrow>
     lib_BindControllerManager S sc mgr (lib_Flags S) = None \<and>
     lib_AddHealthzCheck S mgr ''health'' = None \<and> lib_AddReadyzCheck S mgr ''check'' = None"

definition service_controller :: "'reg startup_lib \<Rightarrow> build_info \<Rightarrow> handle" where
  "service_controller S b =
     lib_NewServiceController S awsServiceAlias awsServiceAPIGroup
       \<lparr>vi_GitCommit = GitCommit b, vi_GitVersion = GitVersion b, vi_BuildDate = BuildDate b\<rparr>
       (GetManagerFactories S)"

text \<open>The run on each of its branches, from the first check to the start of the manager.\<close>

definition registry_law :: "'reg startup_lib \<Rightarrow> bool" where
  "registry_law S \<longleftrightarrow>
     (\<forall>f. lib_GetFactories S (lib_RegisterFactory S f (lib_NewRegistry S)) = [f]) \<and>
     (\<forall>gv k. lib_WithKind S gv k =
        \<lparr>gvk_Group = gv_Group gv, gvk_Version = gv_Version gv, gvk_Kind = k\<rparr>)"

definition cluster_GVK :: GroupVersionKind where
  "cluster_GVK =
     \<lparr>gvk_Group = ''dsql.services.k8s.aws'', gvk_Version = ''v1alpha1'', gvk_Kind = ''Cluster''\<rparr>"

lemma registered: "registry_law S \<Longrightarrow> gvk_loop (GetManagerFactories S) [] = [cluster_GVK]"
  by (simp add: registry_law_def GetManagerFactories_def cluster_init_def RegisterManagerFactory_def
      descriptor_GroupVersionKind_def cluster_GVK_def GroupVersion_info_def GroupKind_info_def)

fun is_start :: "event \<Rightarrow> bool" where
  "is_start (StartManager mgr) = True"
| "is_start _ = False"

fun is_error :: "event \<Rightarrow> bool" where
  "is_error (LogError err msg service) = True"
| "is_error _ = False"

fun acts :: "event \<Rightarrow> bool" where
  "acts (LogError err msg service) = False"
| "acts (LogInfo msg kvs) = False"
| "acts _ = True"

lemma webhook_events_facts:
  "\<not> list_ex is_start (webhook_events mgr ws)"
  "filter acts (webhook_events mgr ws) = map (\<lambda>w. SetupWebhook (wh_UID w)) ws"
  by (induction mgr ws rule: webhook_events.induct) (auto split: option.split)


text \<open>The two halves of the run: until the manager is made, and after.\<close>

definition set_up :: "'reg startup_lib \<Rightarrow> build_info \<Rightarrow> handle \<Rightarrow> (event list, unit) go" where
  "set_up S b mgr =
     (let ackCfg = lib_Flags S; sc = service_controller S b in
      bind_go (emit SetupSignalHandler) (\<lambda>_.
      bind_go (emit (LogInfo ''initializing service controller''
        [(''aws.service'', awsServiceAlias), (''version'', GitVersion b)])) (\<lambda>_.
      bind_go (emit (LogInfo ''build details'' (build_details S b))) (\<lambda>_.
      bind_go (if ack_EnableWebhookServer ackCfg then webhook_loop mgr (lib_GetWebhooks S) else ret ()) (\<lambda>_.
      bind_go (emit (BindControllerManager sc mgr)) (\<lambda>_.
      bind_go (or_exit (lib_BindControllerManager S sc mgr ackCfg)
        ''unable bind to controller manager to service controller'' awsServiceAlias) (\<lambda>_.
      bind_go (emit (AddHealthzCheck ''health'')) (\<lambda>_.
      bind_go (or_exit (lib_AddHealthzCheck S mgr ''health'')
        ''unable to set up health check'' awsServiceAlias) (\<lambda>_.
      bind_go (emit (AddReadyzCheck ''check'')) (\<lambda>_.
      bind_go (or_exit (lib_AddReadyzCheck S mgr ''check'')
        ''unable to set up ready check'' awsServiceAlias) (\<lambda>_.
      bind_go (emit (LogInfo ''starting manager'' [(''aws.service'', awsServiceAlias)])) (\<lambda>_.
      bind_go (emit (StartManager mgr)) (\<lambda>_.
      or_exit (lib_Start S mgr) ''unable to start controller manager'' awsServiceAlias)))))))))))))"

lemma main_set_up:
  assumes "registry_law S" "configured S [cluster_GVK] host port ns sel config"
    and "options = manager_options S (lib_Flags S) (namespace_loop ns fmempty) sel host port"
  shows "main S b w =
    (case lib_NewManager S config options of
       Inl err \<Rightarrow> (Panic exit_1, w @ [NewManager options,
         LogError err ''unable to create controller manager'' awsServiceAlias])
     | Inr mgr \<Rightarrow> set_up S b mgr (w @ [NewManager options]))"
  using assms registered [OF assms(1)]
  by (simp add: main_def set_up_def configured_def Let_def go_run service_controller_def split: sum.split)

lemma main_not_configured:
  assumes "registry_law S"
    and "\<nexists>host port ns sel config. configured S [cluster_GVK] host port ns sel config"
  shows "(\<exists>err msg service. main S b w = (Panic exit_1, w @ [LogError err msg service])) \<or>
    lib_GetConfig S = None \<and> main S b w = (Panic exit_1, w)"
proof (cases "lib_Validate S (lib_Flags S) [cluster_GVK]")
  case (Some err)
  then show ?thesis using registered [OF assms(1)] by (simp add: main_def Let_def go_run)
next
  case validated: None
  show ?thesis
  proof (cases "lib_GetHostPort S (ack_WebhookServerAddr (lib_Flags S))")
    case (Inl err)
    then show ?thesis using registered [OF assms(1)] validated by (simp add: main_def Let_def go_run)
  next
    case hp: (Inr hp)
    show ?thesis
    proof (cases "lib_GetWatchNamespaces S (lib_Flags S)")
      case (Inl err)
      then show ?thesis using registered [OF assms(1)] validated hp
        by (simp add: main_def Let_def go_run split: prod.split)
    next
      case ns: (Inr ns)
      show ?thesis
      proof (cases "lib_ParseWatchSelectors S (lib_Flags S)")
        case (Inl err)
        then show ?thesis using registered [OF assms(1)] validated hp ns
          by (simp add: main_def Let_def go_run split: prod.split)
      next
        case sel: (Inr sel)
        have none: "lib_GetConfig S = None"
          using assms(2) validated hp ns sel by (cases hp) (auto simp: configured_def)
        then show ?thesis using registered [OF assms(1)] validated hp ns sel
          by (simp add: main_def Let_def go_run split: prod.split)
      qed
    qed
  qed
qed

text \<open>What setting up a manager does: the calls it makes, and how it ends.\<close>

definition all_calls :: "'reg startup_lib \<Rightarrow> build_info \<Rightarrow> handle \<Rightarrow> event list" where
  "all_calls S b mgr =
     SetupSignalHandler #
     (if ack_EnableWebhookServer (lib_Flags S)
      then map (\<lambda>w. SetupWebhook (wh_UID w)) (lib_GetWebhooks S) else []) @
     [BindControllerManager (service_controller S b) mgr, AddHealthzCheck ''health'',
      AddReadyzCheck ''check'', StartManager mgr]"

lemma set_up_bound:
  assumes "bound S (service_controller S b) mgr"
  shows "\<exists>es. set_up S b mgr w =
      (case lib_Start S mgr of
         None \<Rightarrow> (Ret (), w @ es)
       | Some err \<Rightarrow> (Panic exit_1,
           w @ es @ [LogError err ''unable to start controller manager'' awsServiceAlias])) \<and>
    filter acts es = all_calls S b mgr \<and> list_ex is_start es"
  using assms
  by (intro exI [of _ "[SetupSignalHandler, LogInfo ''initializing service controller''
        [(''aws.service'', awsServiceAlias), (''version'', GitVersion b)],
        LogInfo ''build details'' (build_details S b)] @
      (if ack_EnableWebhookServer (lib_Flags S) then webhook_events mgr (lib_GetWebhooks S) else []) @
      [BindControllerManager (service_controller S b) mgr, AddHealthzCheck ''health'',
       AddReadyzCheck ''check'', LogInfo ''starting manager'' [(''aws.service'', awsServiceAlias)],
       StartManager mgr]"])
    (auto simp: set_up_def Let_def go_run bound_def all_calls_def webhook_events_facts split: option.split)

lemma set_up_not_bound:
  assumes "\<not> bound S (service_controller S b) mgr"
  shows "\<exists>es err msg service. set_up S b mgr w = (Panic exit_1, w @ es @ [LogError err msg service]) \<and>
    \<not> list_ex is_start es"
proof -
  let ?sc = "service_controller S b" and ?cfg = "lib_Flags S"
  let ?webhooks = "if ack_EnableWebhookServer ?cfg then webhook_events mgr (lib_GetWebhooks S) else []"
  let ?start = "[SetupSignalHandler, LogInfo ''initializing service controller''
        [(''aws.service'', awsServiceAlias), (''version'', GitVersion b)],
        LogInfo ''build details'' (build_details S b)] @ ?webhooks @ [BindControllerManager ?sc mgr]"
  have quiet: "\<not> list_ex is_start ?start" by (simp add: webhook_events_facts)
  consider (bind) err where "lib_BindControllerManager S ?sc mgr ?cfg = Some err"
    | (health) err where "lib_BindControllerManager S ?sc mgr ?cfg = None"
        "lib_AddHealthzCheck S mgr ''health'' = Some err"
    | (ready) err where "lib_BindControllerManager S ?sc mgr ?cfg = None"
        "lib_AddHealthzCheck S mgr ''health'' = None" "lib_AddReadyzCheck S mgr ''check'' = Some err"
    using assms unfolding bound_def by (metis not_None_eq)
  then show ?thesis
  proof cases
    case bind
    then have "set_up S b mgr w = (Panic exit_1, w @ ?start @ [LogError err
        ''unable bind to controller manager to service controller'' awsServiceAlias])"
      by (simp add: set_up_def Let_def go_run)
    with quiet show ?thesis by blast
  next
    case health
    then have "set_up S b mgr w = (Panic exit_1, w @ (?start @ [AddHealthzCheck ''health'']) @
        [LogError err ''unable to set up health check'' awsServiceAlias])"
      by (simp add: set_up_def Let_def go_run)
    moreover have "\<not> list_ex is_start (?start @ [AddHealthzCheck ''health''])" using quiet by simp
    ultimately show ?thesis by blast
  next
    case ready
    then have "set_up S b mgr w = (Panic exit_1, w @ (?start @ [AddHealthzCheck ''health'',
        AddReadyzCheck ''check'']) @ [LogError err ''unable to set up ready check'' awsServiceAlias])"
      by (simp add: set_up_def Let_def go_run)
    moreover have "\<not> list_ex is_start (?start @ [AddHealthzCheck ''health'', AddReadyzCheck ''check''])"
      using quiet by simp
    ultimately show ?thesis by blast
  qed
qed


definition ready ::
  "'reg startup_lib \<Rightarrow> build_info \<Rightarrow> string list \<Rightarrow> Options \<Rightarrow> handle \<Rightarrow> bool" where
  "ready S b ns options mgr \<longleftrightarrow>
     (\<exists>host port sel config. configured S [cluster_GVK] host port ns sel config \<and>
        options = manager_options S (lib_Flags S) (namespace_loop ns fmempty) sel host port \<and>
        lib_NewManager S config options = Inr mgr) \<and>
     bound S (service_controller S b) mgr"

text \<open>A process whose Kubernetes configuration and libraries answer, with a webhook that fails.\<close>

definition ref_startup :: "AWSResourceManagerFactory list startup_lib" where
  "ref_startup =
     \<lparr>lib_Flags = \<lparr>ack_WebhookServerAddr = '':9433'', ack_WatchNamespace = ''prod'',
        ack_MetricsAddr = '':8080'', ack_EnableLeaderElection = True,
        ack_LeaderElectionNamespace = ''ack'', ack_HealthzAddr = '':8081'',
        ack_EnableWebhookServer = True\<rparr>,
      lib_NewRegistry = [], lib_RegisterFactory = Cons, lib_GetFactories = id,
      lib_WithKind = (\<lambda>gv k. \<lparr>gvk_Group = gv_Group gv, gvk_Version = gv_Version gv, gvk_Kind = k\<rparr>),
      lib_Scheme = 1, lib_Validate = (\<lambda>_ _. None), lib_GetHostPort = (\<lambda>_. Inr ('''', 9433)),
      lib_GetWatchNamespaces = (\<lambda>_. Inr [''prod'', ''prod'']), lib_ParseWatchSelectors = (\<lambda>_. Inr 2),
      lib_GetConfig = Some 3, lib_NewManager = (\<lambda>_ _. Inr 4), lib_BuildDeps = None,
      lib_GoVersion = ''go1.25'', lib_NewServiceController = (\<lambda>_ _ _ _. 5),
      lib_GetWebhooks = [\<lparr>wh_UID = ''convert'', wh_Setup = (\<lambda>_. Some (fmt_Errorf ''no certificate''))\<rparr>],
      lib_BindControllerManager = (\<lambda>_ _ _. None), lib_AddHealthzCheck = (\<lambda>_ _. None),
      lib_AddReadyzCheck = (\<lambda>_ _. None), lib_Start = (\<lambda>_. None)\<rparr>"

definition ref_build :: build_info where
  "ref_build = \<lparr>GitVersion = ''v1.0.0'', GitCommit = ''c0ffee'', BuildDate = ''2026-10-24''\<rparr>"

lemma ref_registry: "registry_law ref_startup"
  by (simp add: registry_law_def ref_startup_def)

lemma ref_ready:
  "ready ref_startup ref_build [''prod'', ''prod'']
     (manager_options ref_startup (lib_Flags ref_startup) (namespace_loop [''prod'', ''prod''] fmempty) 2 '''' 9433) 4"
  by (auto simp: ready_def configured_def bound_def ref_startup_def)

text \<open>
  C30. When everything it needs is in order, the program validates its configuration for exactly the
  Cluster kind, makes one manager that watches exactly the namespaces asked for, sets up every
  webhook (one that fails is logged and skipped), binds the controller, adds the two probes and
  only then starts the manager; it returns when the manager stops without an error and exits with
  status 1 when it stops with one.
\<close>

theorem main_ready:
  assumes "registry_law S" "ready S b ns options mgr"
  shows "fmdom (opt_DefaultNamespaces options) = fset_of_list ns \<and>
    (\<exists>es. main S b [] =
        (case lib_Start S mgr of
           None \<Rightarrow> (Ret (), es)
         | Some err \<Rightarrow> (Panic exit_1,
             es @ [LogError err ''unable to start controller manager'' awsServiceAlias])) \<and>
      filter acts es = NewManager options # all_calls S b mgr)"
proof -
  from assms(2) obtain host port sel config where
    c: "configured S [cluster_GVK] host port ns sel config"
    and o: "options = manager_options S (lib_Flags S) (namespace_loop ns fmempty) sel host port"
    and m: "lib_NewManager S config options = Inr mgr" and bd: "bound S (service_controller S b) mgr"
    by (auto simp: ready_def)
  have "fmdom (opt_DefaultNamespaces options) = fset_of_list ns"
    by (simp add: o manager_options_def namespace_loop_dom)
  moreover obtain es where "set_up S b mgr [NewManager options] =
      (case lib_Start S mgr of
         None \<Rightarrow> (Ret (), [NewManager options] @ es)
       | Some err \<Rightarrow> (Panic exit_1, [NewManager options] @ es @
           [LogError err ''unable to start controller manager'' awsServiceAlias]))"
    and "filter acts es = all_calls S b mgr" using set_up_bound [OF bd] by blast
  ultimately show ?thesis
    using main_set_up [OF assms(1) c o, of b "[]"] m
    by (intro conjI exI [of _ "NewManager options # es"]) (simp_all split: option.splits)
qed

theorem main_ready_witness:
  "\<exists>es. main ref_startup ref_build [] = (Ret (), es) \<and> list_ex is_start es"
proof -
  have "lib_Start ref_startup 4 = None" by (simp add: ref_startup_def)
  with main_ready [OF ref_registry ref_ready] obtain es options where
    run: "main ref_startup ref_build [] = (Ret (), es)"
    and calls: "filter acts es = NewManager options # all_calls ref_startup ref_build 4" by fastforce
  have "StartManager 4 \<in> set (filter acts es)" unfolding calls by (simp add: all_calls_def)
  then have "list_ex is_start es" unfolding list_ex_iff by force
  with run show ?thesis by blast
qed

text \<open>
  C31. When anything is missing, the program exits with status 1 without having started the manager,
  and the last thing it did was to log the error (the library reports a missing Kubernetes
  configuration itself).
\<close>

theorem main_not_ready:
  assumes "registry_law S" "\<nexists>ns options mgr. ready S b ns options mgr"
  shows "\<exists>w. main S b [] = (Panic exit_1, w) \<and> \<not> list_ex is_start w \<and>
    (w \<noteq> [] \<and> is_error (last w) \<or> lib_GetConfig S = None)"
proof (cases "\<exists>host port ns sel config. configured S [cluster_GVK] host port ns sel config")
  case False
  from main_not_configured [OF assms(1) False, of b "[]"] show ?thesis by auto
next
  case True
  then obtain host port ns sel config where c: "configured S [cluster_GVK] host port ns sel config"
    by blast
  define options where "options = manager_options S (lib_Flags S) (namespace_loop ns fmempty) sel host port"
  note run = main_set_up [OF assms(1) c options_def, of b "[]"]
  show ?thesis
  proof (cases "lib_NewManager S config options")
    case (Inl err)
    with run show ?thesis by simp
  next
    case (Inr mgr)
    with assms(2) c options_def have "\<not> bound S (service_controller S b) mgr"
      unfolding ready_def by blast
    then obtain es err msg service where "set_up S b mgr [NewManager options] =
        (Panic exit_1, [NewManager options] @ es @ [LogError err msg service])" "\<not> list_ex is_start es"
      using set_up_not_bound by blast
    with run Inr show ?thesis by simp
  qed
qed

theorem main_not_ready_witness:
  "\<exists>w. main (ref_startup\<lparr>lib_AddReadyzCheck := \<lambda>_ _. Some (fmt_Errorf ''taken'')\<rparr>) ref_build [] =
     (Panic exit_1, w) \<and> \<not> list_ex is_start w \<and> w \<noteq> [] \<and> is_error (last w)"
proof -
  let ?S = "ref_startup\<lparr>lib_AddReadyzCheck := \<lambda>_ _. Some (fmt_Errorf ''taken'')\<rparr>"
  have law: "registry_law ?S" using ref_registry by (simp add: registry_law_def)
  have no: "\<nexists>ns options mgr. ready ?S ref_build ns options mgr" by (simp add: ready_def bound_def)
  have "lib_GetConfig ?S \<noteq> None" by (simp add: ref_startup_def)
  with main_not_ready [OF law no] show ?thesis by metis
qed

text \<open>\<open>depVersion\<close> is the version of the first dependency with the path, or "unknown".\<close>

lemma depVersion_first:
  "depVersion S path = (case Option.bind (lib_BuildDeps S) (\<lambda>deps. map_of deps path) of
     None \<Rightarrow> ''unknown'' | Some v \<Rightarrow> v)"
proof -
  have "dep_loop path deps = (case map_of deps path of None \<Rightarrow> ''unknown'' | Some v \<Rightarrow> v)" for deps
    by (induction path deps rule: dep_loop.induct) simp_all
  then show ?thesis by (simp add: depVersion_def split: option.split)
qed

end
