(* ===== verification/Scheme.thy ===== *)
theory Scheme
  imports Startup
begin

text \<open>
  The types the program knows: the package variables and the \<open>init\<close> functions of
  \<open>apis/v1alpha1/groupversion_info.go\<close>, \<open>apis/v1alpha1/cluster.go\<close> and \<open>cmd/controller/main.go\<close>, in the order
  Go runs them (the variables of a package before its \<open>init\<close>, an imported package before the one
  that imports it).  The scheme and its builder belong to \<open>apimachinery\<close> and \<open>controller-runtime\<close> and
  are a parameter, as are the \<open>AddToScheme\<close> functions of the other API groups.
\<close>

section \<open>The code\<close>

text \<open>\<open>&Cluster{}\<close> and \<open>&ClusterList{}\<close>, of which a scheme takes the Go type.\<close>

datatype runtime_object = ClusterObject | ClusterListObject

fun type_name :: "runtime_object \<Rightarrow> string" where
  "type_name ClusterObject = ''Cluster''"
| "type_name ClusterListObject = ''ClusterList''"

record ('sch, 'bld) scheme_lib =
  sch_NewScheme :: 'sch
  sch_Builder :: "GroupVersion \<Rightarrow> 'bld"
  sch_Register :: "'bld \<Rightarrow> runtime_object list \<Rightarrow> 'bld"
  sch_AddToScheme :: "'bld \<Rightarrow> 'sch \<Rightarrow> error option \<times> 'sch"
  sch_Recognizes :: "'sch \<Rightarrow> GroupVersionKind \<Rightarrow> bool"
  clientgo_AddToScheme :: "'sch \<Rightarrow> error option \<times> 'sch"
  ack_AddToScheme :: "'sch \<Rightarrow> error option \<times> 'sch"
  kms_AddToScheme :: "'sch \<Rightarrow> error option \<times> 'sch"

definition SchemeBuilder_info :: "('sch, 'bld) scheme_lib \<Rightarrow> 'bld" where
  "SchemeBuilder_info S = sch_Builder S GroupVersion_info"

definition Cluster_init :: "('sch, 'bld) scheme_lib \<Rightarrow> 'bld \<Rightarrow> 'bld" where
  "Cluster_init S builder = sch_Register S builder [ClusterObject, ClusterListObject]"

text \<open>
  \<open>AddToScheme = SchemeBuilder.AddToScheme\<close> is bound before \<open>init\<close> runs, but to a pointer: it adds what
  the builder holds when it is called.
\<close>

definition svctypes_AddToScheme :: "('sch, 'bld) scheme_lib \<Rightarrow> 'sch \<Rightarrow> error option \<times> 'sch" where
  "svctypes_AddToScheme S = sch_AddToScheme S (Cluster_init S (SchemeBuilder_info S))"

definition main_init :: "('sch, 'bld) scheme_lib \<Rightarrow> 'sch \<Rightarrow> 'sch" where
  "main_init S scheme =
     (let (_, scheme) = clientgo_AddToScheme S scheme;
          (_, scheme) = svctypes_AddToScheme S scheme;
          (_, scheme) = ack_AddToScheme S scheme;
          (_, scheme) = kms_AddToScheme S scheme
      in scheme)"

definition program_scheme :: "('sch, 'bld) scheme_lib \<Rightarrow> 'sch" where
  "program_scheme S = main_init S (sch_NewScheme S)"

section \<open>What the scheme knows\<close>

text \<open>
  A builder adds the types registered with it under its group and version, with the name of the Go
  type as kind; and adding a group, also when it fails half way, takes no known type away.
\<close>

definition keeps_kinds :: "('sch, 'bld) scheme_lib \<Rightarrow> ('sch \<Rightarrow> error option \<times> 'sch) \<Rightarrow> bool" where
  "keeps_kinds S add \<longleftrightarrow>
     (\<forall>scheme g. sch_Recognizes S scheme g \<longrightarrow> sch_Recognizes S (snd (add scheme)) g)"

definition scheme_law :: "('sch, 'bld) scheme_lib \<Rightarrow> bool" where
  "scheme_law S \<longleftrightarrow>
     keeps_kinds S (clientgo_AddToScheme S) \<and> keeps_kinds S (ack_AddToScheme S) \<and>
     keeps_kinds S (kms_AddToScheme S) \<and>
     (\<forall>gv objs scheme. \<forall>x \<in> set objs.
        sch_Recognizes S (snd (sch_AddToScheme S (sch_Register S (sch_Builder S gv) objs) scheme))
          \<lparr>gvk_Group = gv_Group gv, gvk_Version = gv_Version gv, gvk_Kind = type_name x\<rparr>)"

text \<open>
  The scheme the manager is created with knows the kind of every resource the program has a manager
  factory for, and the list of it, whatever the errors that \<open>init\<close> drops.
\<close>

lemma scheme_knows_resources:
  assumes "scheme_law S" "registry_law R"
  shows "sch_Recognizes S (program_scheme S) (cluster_GVK\<lparr>gvk_Kind := ''ClusterList''\<rparr>)"
    and "list_all (sch_Recognizes S (program_scheme S)) (gvk_loop (GetManagerFactories R) [])"
proof -
  have own: "sch_Recognizes S (snd (svctypes_AddToScheme S s)) (cluster_GVK\<lparr>gvk_Kind := type_name x\<rparr>)" for s x
  proof -
    have "x \<in> set [ClusterObject, ClusterListObject]" by (cases x) simp_all
    then have "sch_Recognizes S (snd (svctypes_AddToScheme S s))
        \<lparr>gvk_Group = gv_Group GroupVersion_info, gvk_Version = gv_Version GroupVersion_info, gvk_Kind = type_name x\<rparr>"
      using assms(1) unfolding scheme_law_def svctypes_AddToScheme_def Cluster_init_def SchemeBuilder_info_def
      by blast
    then show ?thesis by (simp add: GroupVersion_info_def cluster_GVK_def)
  qed
  have known: "sch_Recognizes S (program_scheme S) (cluster_GVK\<lparr>gvk_Kind := type_name x\<rparr>)" for x
    using assms(1) own [of _ x]
    by (simp add: program_scheme_def main_init_def case_prod_beta scheme_law_def keeps_kinds_def)
  from known [of ClusterListObject]
  show "sch_Recognizes S (program_scheme S) (cluster_GVK\<lparr>gvk_Kind := ''ClusterList''\<rparr>)" by simp
  from known [of ClusterObject] registered [OF assms(2)]
  show "list_all (sch_Recognizes S (program_scheme S)) (gvk_loop (GetManagerFactories R) [])"
    by (simp add: cluster_GVK_def)
qed

end
