(* ===== verification/Spec2Isabelle.thy ===== *)
theory Spec2Isabelle
  imports Deletion Reconcile Requests References Factory DeepCopy Scheme
begin

text \<open>
  A model of the ACK controller for Amazon Aurora DSQL (\<open>src/\<close>), which keeps a Kubernetes custom
  resource of kind \<open>Cluster\<close> and the DSQL cluster it stands for in step.  The ACK runtime calls the
  resource manager of this repository to read, create, update and delete the cluster, to compare the
  desired with the observed resource, to resolve references and to report conditions.

  \<^bold>\<open>How the program is put together.\<close>  \<open>cmd/controller/main.go\<close> starts the controller with the
  manager factories of the registry.  For each account, region and role the factory
  (\<open>manager_factory.go\<close>) hands out a resource manager (\<open>manager.go\<close>).  Its operations wrap those of
  \<open>sdk.go\<close>, which build the requests, call the AWS client, merge the responses into a copy of the
  resource and set the conditions; an update goes through the hook in \<open>hooks.go\<close>, which sends tag
  changes (\<open>pkg/sync/tags.go\<close>) and policy changes of its own.  \<open>delta.go\<close> compares two resources,
  \<open>tags.go\<close> converts and filters tags, \<open>references.go\<close> resolves the reference to a KMS key,
  \<open>resource.go\<close>, \<open>identifiers.go\<close> and \<open>descriptor.go\<close> give the runtime access to a resource.

  \<^bold>\<open>Theories.\<close>
  \<^item> \<open>Go_Prelude\<close>: computations over a state that return or panic (\<open>go\<close>), their before/after
    relations (locale \<open>step_relation\<close>), Go maps as finite maps and \<open>range\<close> loops in any order.
  \<^item> \<open>Go_Errors\<close>: error values with their chains and \<open>errors.As\<close>.
  \<^item> \<open>Api_Types\<close>: \<open>apis/v1alpha1\<close> (\<open>cluster.go\<close>, \<open>types.go\<close>, \<open>enums.go\<close>); \<open>Sdk_Types\<close>: the
    requests and responses of the AWS client and the client itself, a record of functions on the
    state of the service; \<open>Ack_Lib\<close>: the functions of the ACK runtime and of Kubernetes the code
    calls, with their documented behaviour as named laws.
  \<^item> \<open>World\<close>: the state: the service, the objects in memory by address, the requests sent and the
    API calls recorded; a \<open>*Cluster\<close> is an address, so two resources may share an object.
  \<^item> \<open>Tags\<close> (\<open>tags.go\<close>), \<open>Sync\<close> (\<open>pkg/sync/tags.go\<close>), \<open>Conditions\<close> (\<open>updateConditions\<close>,
    \<open>terminalAWSError\<close> of \<open>sdk.go\<close>; \<open>onError\<close>, \<open>onSuccess\<close> of \<open>manager.go\<close>), \<open>Hooks\<close>
    (\<open>hooks.go\<close>), \<open>Delta\<close> (\<open>delta.go\<close>), \<open>Sdk\<close> (\<open>sdkFind\<close>, \<open>sdkCreate\<close>, \<open>sdkUpdate\<close>, \<open>sdkDelete\<close>
    and the request builders of \<open>sdk.go\<close>), \<open>Resource\<close> (\<open>resource.go\<close>, \<open>identifiers.go\<close>,
    \<open>descriptor.go\<close>), \<open>Manager\<close> (\<open>manager.go\<close>), \<open>References\<close> (\<open>references.go\<close>).
  \<^item> \<open>Factory\<close>: \<open>ManagerFor\<close> as a function and as the atomic steps of many goroutines under the
    read-write lock, an inductive step relation with its reachable states.
  \<^item> \<open>Memory\<close> and \<open>DeepCopy\<close>: \<open>zz_generated.deepcopy.go\<close> on a heap of single pointers.
  \<^item> \<open>Startup\<close>: \<open>main.go\<close>, \<open>registry.go\<close>, \<open>version.go\<close>, group, version and kind.  \<open>Scheme\<close>: the \<open>init\<close>
    functions, which register the types of the API with the scheme.
  \<^item> \<open>Reconcile\<close>: a read, a delta and an update one after the other, against a service that accepts
    its calls; \<open>Deletion\<close>: a read, the update before a delete and the delete; \<open>Requests\<close>: how many
    requests an operation sends.
  \<^item> \<open>Reference_Lib\<close>: a runtime and a service that satisfy the laws, used by the witnesses.

  \<^bold>\<open>What the lemmas show.\<close>
  \<^item> Each operation has a \<open>_run\<close> lemma with its result on every branch, \<open>_writes\<close>, \<open>_sends\<close> and
    \<open>_frame\<close> lemmas with the objects and the requests it leaves alone, and, where it cannot panic, a
    \<open>_returns\<close> lemma.
  \<^item> Abstract specifications: \<open>service_answer\<close> (missing, failed or found) and \<open>observed_cluster\<close>
    for reading, \<open>updated_conditions\<close> for conditions, \<open>tags_to_add\<close> and \<open>tags_to_remove\<close> for tags,
    \<open>cluster_fields_differ\<close> for the delta, \<open>reference_target\<close> for references, \<open>view_Cluster\<close> for
    memory; the code is shown to implement each.
  \<^item> Invariants: conditions stay free of nil and duplicates (\<open>sound\<close>); the lock of the factory and
    what its cache holds (\<open>lock_inv\<close>, \<open>data_inv\<close>) in every reachable state.
  \<^item> \<open>reconciliation_stabilizes\<close>: after any sequence of operations and changes of the service
    (\<open>reconciles\<close>), in any state in which the service accepts changes (\<open>changeable\<close>) and from
    which the spec can be reached (\<open>reconcilable\<close>), one round of \<open>ReadOne\<close>, \<open>newResourceDelta\<close> and
    \<open>Update\<close> succeeds and leaves no difference; it is put together from one lemma for each call (\<open>sync_Tags_applies\<close>, \<open>syncPolicy_applies\<close>, \<open>customUpdate_applies\<close>,
    \<open>sdkUpdate_applies\<close>, \<open>Update_applies\<close>); \<open>requests_bounded\<close>: what the operations cost.
  \<^item> \<open>deletion_follows_protection\<close>: the same for the way to a delete, whose update asks for the
    desired deletion protection and otherwise for what was observed (\<open>Update_before_delete\<close>, \<open>Delete_applies\<close>).
  \<^item> This theory has the properties of several components together: what a read guarantees for the
    update and the comparison that follow it, what a create does for later reads and deletes, and
    how the objects of \<open>World\<close> and the memory of \<open>DeepCopy\<close> correspond.

  \<^bold>\<open>Interfaces.\<close>  \<open>step_relation\<close> is interpreted by \<open>writes\<close>, \<open>sends\<close>, \<open>silent\<close>,
  \<open>same_objects\<close>, \<open>agree\<close> and \<open>extends\<close>; \<open>tag_conversion\<close>, what the synchronisation of tags needs of
  the conversion it is given, by \<open>convertToOrderedACKTags\<close>; \<open>keyed_cache\<close> by the map of the factory; \<open>cell_type\<close> and
  \<open>deep_copy\<close>, the contract of a copy function, by the types in memory and the functions on them.

  \<^bold>\<open>Bounds.\<close>  There is no fuel: loops over slices and maps are structural recursions.  A goroutine
  in \<open>ManagerFor\<close> takes at most seven steps (\<open>rank\<close>); an operation sends at most four requests.

  \<^bold>\<open>Parameters.\<close>  The AWS client, the ACK runtime, the Kubernetes libraries and the order in which a
  map is ranged over are arguments.  Properties assume of them only the laws of \<open>Ack_Lib\<close>, \<open>Sync\<close>
  (\<open>tag_service_law\<close>), \<open>Hooks\<close> (\<open>policy_service_law\<close>), \<open>Delta\<close> (\<open>delta_entries_law\<close>), \<open>Reconcile\<close>
  (\<open>dsql_law\<close>), \<open>Deletion\<close> (\<open>delete_law\<close>, \<open>secret_errors_law\<close>), \<open>References\<close>
  (\<open>reader_sound\<close>), \<open>DeepCopy\<close> (\<open>deepcopy_law\<close>), \<open>Startup\<close> (\<open>registry_law\<close>) and \<open>Scheme\<close>
  (\<open>scheme_law\<close>), which the witnesses instantiate.  The laws of the service are about calls for the
  cluster at hand, and only in the states in which DSQL accepts them: nothing is assumed of a change sent
  in CREATING or UPDATING, except that \<open>DeleteCluster\<close> is then answered with a ConflictException.

  \<^bold>\<open>Not modelled.\<close>  Logging and tracing, contexts and their cancellation; fields of
  \<open>ObjectMeta\<close>, \<open>TypeMeta\<close>, \<open>ListMeta\<close> and of the AWS types that the code does not read or write; the
  enumerations of encryption states, encryption types and validation reasons, constants that no code
  reads; writer preference of \<open>sync.RWMutex\<close> (the model allows more
  interleavings); a nil response of the AWS client without an error, which the client does not
  return.  Within one object of \<open>World\<close> pointers are values: that this is what memory with single
  pointers and the generated \<open>DeepCopy\<close> does is \<open>object_store_simulates_memory\<close> below.
  Helm chart, manifests and end-to-end tests hold no program logic.
\<close>

section \<open>From a read to an update\<close>

text \<open>
  C3. A read that found the cluster makes the update safe: with the object \<open>ReadOne\<close> returned as the
  observed one and the object it was given as the desired one, \<open>Update\<close> never panics, whatever the
  delta and whatever the service answers; what the update hook dereferences is there.
\<close>

theorem update_after_read_never_panics:
  assumes "aws_law L" "new_tags_law L" "error_law L" "sound (heap w a)" "a < brk w"
    and "ReadOne L rm (Some (Some \<lparr>ko = Some a\<rparr>)) w = (Ret (Some (Some \<lparr>ko = Some n\<rparr>), None), w')"
  shows "\<not> panics (Update L rm (Some (Some \<lparr>ko = Some a\<rparr>)) (Some (Some \<lparr>ko = Some n\<rparr>)) delta) w'"
proof -
  obtain out p cs where read: "sound (heap w' a)" "a < brk w'"
    "heap w' n = set_conditions cs (observed_cluster rm out p (heap w a))" "sound (heap w' n)" "n < brk w'"
    using ReadOne_found [OF assms] by metis
  have "status_ACKResourceMetadata (Status (heap w' n)) \<noteq> None"
    by (simp add: read(3) observed_cluster_def)
  then have "\<not> panics (customUpdate L rm \<lparr>ko = Some a\<rparr> \<lparr>ko = Some n\<rparr> delta) w'"
    by (simp add: customUpdate_panics_iff)
  with Update_run [OF assms(1,3) read(4,1,5,2), where rm = rm and delta = delta]
  show ?thesis by (auto simp: panics_def split: prod.splits outcome.splits)
qed

theorem update_after_read_never_panics_witness:
  "\<exists>w' n. ReadOne ref_lib ref_rm (Some (Some \<lparr>ko = Some 0\<rparr>)) ref_world =
      (Ret (Some (Some \<lparr>ko = Some n\<rparr>), None), w') \<and>
    \<not> panics (Update ref_lib ref_rm (Some (Some \<lparr>ko = Some 0\<rparr>)) (Some (Some \<lparr>ko = Some n\<rparr>)) []) w'"
proof -
  obtain w' n where "ReadOne ref_lib ref_rm (Some (Some \<lparr>ko = Some 0\<rparr>)) ref_world =
      (Ret (Some (Some \<lparr>ko = Some n\<rparr>), None), w')" using ref_read by blast
  with update_after_read_never_panics [OF ref_aws ref_new_tags ref_error ref_sound ref_allocated this]
  show ?thesis by blast
qed

section \<open>The tags of AWS\<close>

text \<open>
  A request leaves the AWS tags of the service alone: it tags no \<open>aws:\<close> key the service already has
  and untags no \<open>aws:\<close> key at all.
\<close>

fun respects_aws :: "tags \<Rightarrow> request \<Rightarrow> bool" where
  "respects_aws on_service (TagResourceReq i) =
     (fmfilter (\<lambda>k. prefix ''aws:'' k \<and> k |\<in>| fmdom on_service) (tri_Tags i) = fmempty)"
| "respects_aws on_service (UntagResourceReq i) = list_all (\<lambda>k. \<not> prefix ''aws:'' k) (uri_TagKeys i)"
| "respects_aws on_service _ = True"

lemma mirrored_to_add:
  "fmlookup (tags_to_add t (syncAWSTags s t)) k = None" if "prefix ''aws:'' k" "k |\<in>| fmdom t"
  using that by (simp add: tags_to_add_def syncAWSTags_lookup strings_HasPrefix_def aws_prefix_def)

lemma mirrored_to_remove:
  "\<not> prefix ''aws:'' k" if "k |\<in>| fmdom (tags_to_remove t (syncAWSTags s t))"
  using that by (auto simp: tags_to_remove_def syncAWSTags_lookup strings_HasPrefix_def aws_prefix_def
      split: if_splits)

lemma sync_respects_aws:
  assumes laws: "new_tags_law L" "tags_difference_law L" "map_order_law L"
    and tags: "tag_view latest = t" "tag_view desired = syncAWSTags s t"
  shows "sends (respects_aws t) w (snd (sync_Tags L desired latest arn convertToOrderedACKTags api w))"
proof -
  let ?add = "tags_to_add t (syncAWSTags s t)" and ?rem = "tags_to_remove t (syncAWSTags s t)"
  have tag: "respects_aws t (TagResourceReq \<lparr>tri_ResourceArn = arn, tri_Tags = ?add\<rparr>)"
    using mirrored_to_add by (auto intro!: fmap_ext)
  have "\<not> prefix ''aws:'' k" if "k \<in> set (map fst (go_map_order L ?rem))" for k
    using mirrored_to_remove that unfolding order_keys [OF laws(3), of ?rem] by blast
  then have untag: "respects_aws t (UntagResourceReq
      \<lparr>uri_ResourceArn = arn, uri_TagKeys = map fst (go_map_order L ?rem)\<rparr>)"
    by (simp add: list_all_iff)
  note reqs = cluster_tags.sync_Tags_requests [OF laws, of desired latest arn api w, unfolded tags Let_def]
  show ?thesis
    unfolding sends_def by (rule exI, rule conjI, rule reqs) (use tag untag in simp)
qed

text \<open>The rest of an update sends no request about tags.\<close>

lemma update_rest_respects:
  "keeps (sends (respects_aws t)) (custom_policy L rm desired latest delta)"
  "keeps (sends (respects_aws t)) (outcome_of L rm r x)"
  unfolding custom_policy_def by (intro frame keeps_sends_silent [OF outcome_of_silent]; simp)+

lemma custom_tags_respects:
  assumes laws: "new_tags_law L" "tags_difference_law L" "map_order_law L"
    and "tag_view (spec_Tags (Spec (heap w n))) = t"
    and "tag_view (spec_Tags (Spec (heap w a))) = syncAWSTags s t"
  shows "sends (respects_aws t) w (snd (custom_tags L rm \<lparr>ko = Some a\<rparr> \<lparr>ko = Some n\<rparr> delta w))"
  using sync_respects_aws [OF laws assms(4,5)] sends.R_refl
  by (auto simp: custom_tags_def metadata_ARN_def go_run split: option.split)

lemma Update_respects:
  assumes laws: "new_tags_law L" "tags_difference_law L" "map_order_law L"
    and "tag_view (spec_Tags (Spec (heap w n))) = t"
    and "tag_view (spec_Tags (Spec (heap w a))) = syncAWSTags s t"
  shows "sends (respects_aws t) w
    (snd (Update L rm (Some (Some \<lparr>ko = Some a\<rparr>)) (Some (Some \<lparr>ko = Some n\<rparr>)) delta w))"
proof -
  have changes: "sends (respects_aws t) w
      (snd (custom_changes L rm \<lparr>ko = Some a\<rparr> \<lparr>ko = Some n\<rparr> delta w))"
    unfolding custom_changes_def
    by (rule sends.bind_from, rule custom_tags_respects [OF assms]) (intro frame update_rest_respects)
  have hook: "sends (respects_aws t) w (snd (customUpdate L rm \<lparr>ko = Some a\<rparr> \<lparr>ko = Some n\<rparr> delta w))"
    using changes sends.R_refl
    by (auto simp: customUpdate_def bind_go_run [of "requeueIfTransitional L _"] requeue_run ret_run
        split: option.split)
  have "sends (respects_aws t) w (snd (sdkUpdate L rm \<lparr>ko = Some a\<rparr> \<lparr>ko = Some n\<rparr> delta w))"
    unfolding sdkUpdate_def Let_def by (rule sends.bind_from, rule hook) (intro frame; simp)
  then have "sends (respects_aws t) w (snd (bind_go (sdkUpdate L rm \<lparr>ko = Some a\<rparr> \<lparr>ko = Some n\<rparr> delta)
      (outcome_of L rm \<lparr>ko = Some n\<rparr>) w))"
    by (rule sends.bind_from) (rule update_rest_respects(2))
  then show ?thesis by (simp add: Update_def go_run)
qed

text \<open>
  C9. Updates never touch the tags AWS manages: after a read that found the cluster, an update of
  the object it was given removes no \<open>aws:\<close> tag and overwrites no \<open>aws:\<close> tag of the service,
  whatever the delta; reading mirrored those tags into the desired ones, so that they are no
  difference.
\<close>

theorem update_after_read_keeps_aws_tags:
  assumes "aws_law L" "new_tags_law L" "error_law L" "sound (heap w a)" "a < brk w"
    and "ReadOne L rm (Some (Some \<lparr>ko = Some a\<rparr>)) w = (Ret (Some (Some \<lparr>ko = Some n\<rparr>), None), w')"
    and "tags_difference_law L" "map_order_law L"
  shows "sends (respects_aws (tag_view (spec_Tags (Spec (heap w' n))))) w'
    (snd (Update L rm (Some (Some \<lparr>ko = Some a\<rparr>)) (Some (Some \<lparr>ko = Some n\<rparr>)) delta w'))"
proof -
  obtain out p cs where "heap w' a = mirrored out (heap w a)"
    "heap w' n = set_conditions cs (observed_cluster rm out p (heap w a))"
    using ReadOne_found [OF assms(1-6)] by metis
  then have "tag_view (spec_Tags (Spec (heap w' n))) = out_tags out"
    and "tag_view (spec_Tags (Spec (heap w' a))) = syncAWSTags (tag_view (spec_Tags (Spec (heap w a)))) (out_tags out)"
    by simp_all
  with Update_respects [OF assms(2,7,8), of w' n "out_tags out" a] show ?thesis by simp
qed

theorem update_after_read_keeps_aws_tags_witness:
  "\<exists>w' n. ReadOne ref_lib ref_rm (Some (Some \<lparr>ko = Some 0\<rparr>)) ref_world =
      (Ret (Some (Some \<lparr>ko = Some n\<rparr>), None), w') \<and>
    sends (respects_aws (tag_view (spec_Tags (Spec (heap w' n))))) w'
     (snd (Update ref_lib ref_rm (Some (Some \<lparr>ko = Some 0\<rparr>)) (Some (Some \<lparr>ko = Some n\<rparr>)) [] w'))"
proof -
  obtain w' n where "ReadOne ref_lib ref_rm (Some (Some \<lparr>ko = Some 0\<rparr>)) ref_world =
      (Ret (Some (Some \<lparr>ko = Some n\<rparr>), None), w')" using ref_read by blast
  with update_after_read_keeps_aws_tags [OF ref_aws ref_new_tags ref_error ref_sound ref_allocated this
      ref_tags_difference ref_map_order]
  show ?thesis by blast
qed

section \<open>What a delta sees\<close>

text \<open>
  C25. A change of the KMS key is never seen: reading copies the desired key into the observed
  object (the response of the service has it elsewhere), so the delta between the object \<open>ReadOne\<close>
  was given and the one it returned is never different at \<open>Spec.KMSEncryptionKey\<close>, whatever key the
  service uses.
\<close>

theorem kms_key_drift_unseen:
  assumes "aws_law L" "new_tags_law L" "error_law L" "sound (heap w a)" "a < brk w"
    and "ReadOne L rm (Some (Some \<lparr>ko = Some a\<rparr>)) w = (Ret (Some (Some \<lparr>ko = Some n\<rparr>), None), w')"
    and "delta_law L" "compare_law L"
  shows "\<exists>d. newResourceDelta L (Some \<lparr>ko = Some a\<rparr>) (Some \<lparr>ko = Some n\<rparr>) w' = (Ret d, w') \<and>
    \<not> delta_DifferentAt L d ''Spec.KMSEncryptionKey''"
proof -
  obtain out p cs where "heap w' a = mirrored out (heap w a)"
    "heap w' n = set_conditions cs (observed_cluster rm out p (heap w a))"
    using ReadOne_found [OF assms(1-6)] by metis
  then have "spec_KMSEncryptionKey (Spec (heap w' a)) = spec_KMSEncryptionKey (Spec (heap w' n))"
    by (simp add: observed_cluster_def)
  then show ?thesis
    by (simp add: newResourceDelta_run spec_delta_Key [OF assms(7,8,2)])
qed

theorem kms_key_drift_unseen_witness:
  "\<exists>w' n d. ReadOne ref_lib ref_rm (Some (Some \<lparr>ko = Some 0\<rparr>)) ref_world =
      (Ret (Some (Some \<lparr>ko = Some n\<rparr>), None), w') \<and>
    newResourceDelta ref_lib (Some \<lparr>ko = Some 0\<rparr>) (Some \<lparr>ko = Some n\<rparr>) w' = (Ret d, w') \<and>
    \<not> delta_DifferentAt ref_lib d ''Spec.KMSEncryptionKey''"
proof -
  obtain w' n where "ReadOne ref_lib ref_rm (Some (Some \<lparr>ko = Some 0\<rparr>)) ref_world =
      (Ret (Some (Some \<lparr>ko = Some n\<rparr>), None), w')" using ref_read by blast
  with kms_key_drift_unseen [OF ref_aws ref_new_tags ref_error ref_sound ref_allocated this ref_delta
      ref_compare]
  show ?thesis by blast
qed

section \<open>From a create to a read and a delete\<close>

lemma sdkFind_asks:
  assumes "status_Identifier (Status (heap w a)) = Some i"
  shows "\<exists>rs. requests (snd (sdkFind L rm \<lparr>ko = Some a\<rparr> w)) =
    requests w @ GetClusterReq \<lparr>gci_Identifier = Some i\<rparr> # rs"
  using assms
  by (auto simp: sdkFind_def go_run setResourcePolicy_def split: option.split sum.split)

lemma ReadOne_asks:
  assumes "status_Identifier (Status (heap w a)) = Some i"
  shows "\<exists>rs. requests (snd (ReadOne L rm (Some (Some \<lparr>ko = Some a\<rparr>)) w)) =
    requests w @ GetClusterReq \<lparr>gci_Identifier = Some i\<rparr> # rs"
proof -
  obtain f v where find: "sdkFind L rm \<lparr>ko = Some a\<rparr> w = (f, v)"
    by (cases "sdkFind L rm \<lparr>ko = Some a\<rparr> w")
  obtain rs where rs: "requests v = requests w @ GetClusterReq \<lparr>gci_Identifier = Some i\<rparr> # rs"
    using sdkFind_asks [OF assms, of L rm] find by auto
  with ReadOne_after_find [OF find] show ?thesis by (simp add: silent_def)
qed

lemma Delete_asks:
  "requests (snd (Delete L rm (Some (Some \<lparr>ko = Some a\<rparr>)) w)) =
    requests w @ [DeleteClusterReq \<lparr>dci_Identifier = status_Identifier (Status (heap w a))\<rparr>]"
proof -
  have "requests (snd (outcome_of L rm \<lparr>ko = Some a\<rparr> x v)) = requests v" for x v
    using outcome_of_silent [of L rm "\<lparr>ko = Some a\<rparr>" x] by (simp add: keeps_def silent_def)
  then show ?thesis by (simp add: Delete_def go_run sdkDelete_run Let_def)
qed

text \<open>
  C13. The identifier DSQL gives a new cluster is the one the controller works with from then on.  A
  \<open>Create\<close> that gave a resource sent the one request \<open>CreateCluster\<close>; the status of the resource holds
  the identifier of the response, in the object returned and not in the one that was passed in; and
  when the response has one, a later \<open>ReadOne\<close> of that resource first asks \<open>GetCluster\<close>, and a \<open>Delete\<close>
  only asks \<open>DeleteCluster\<close>, for that identifier.
\<close>

theorem create_names_the_cluster:
  assumes "aws_law L" "error_law L" "sound (heap w a)" "a < brk w"
    and "Create L rm (Some (Some \<lparr>ko = Some a\<rparr>)) w = (Ret (Some (Some \<lparr>ko = Some n\<rparr>), None), w')"
  shows "\<exists>out. fst (api_CreateCluster (rm_sdkapi rm) (create_request (heap w a)) (svc w)) = Inr out \<and>
    requests w' = requests w @ [CreateClusterReq (create_request (heap w a))] \<and>
    brk w \<le> n \<and> heap w' a = heap w a \<and> status_Identifier (Status (heap w' n)) = cco_Identifier out \<and>
    requests (snd (Delete L rm (Some (Some \<lparr>ko = Some n\<rparr>)) w')) =
      requests w' @ [DeleteClusterReq \<lparr>dci_Identifier = cco_Identifier out\<rparr>] \<and>
    (cco_Identifier out = None \<or>
     (\<exists>rs. requests (snd (ReadOne L rm (Some (Some \<lparr>ko = Some n\<rparr>)) w')) =
        requests w' @ GetClusterReq \<lparr>gci_Identifier = cco_Identifier out\<rparr> # rs))"
proof -
  obtain out cs where new: "fst (api_CreateCluster (rm_sdkapi rm) (create_request (heap w a)) (svc w)) = Inr out"
    "heap w' n = set_conditions cs (keep_tags (heap w a) (created_cluster rm out (heap w a)))"
    "sound (heap w' n)" "brk w \<le> n"
    and sent: "requests w' = requests w @ [CreateClusterReq (create_request (heap w a))]" "heap w' a = heap w a"
    using Create_run [OF assms(1-4), of rm] assms(5)
    by (cases "fst (api_CreateCluster (rm_sdkapi rm) (create_request (heap w a)) (svc w))") auto
  have id: "status_Identifier (Status (heap w' n)) = cco_Identifier out"
    by (simp add: new(2) keep_tags_def created_cluster_def observed_cluster_def)
  have "cco_Identifier out = None \<or>
      (\<exists>rs. requests (snd (ReadOne L rm (Some (Some \<lparr>ko = Some n\<rparr>)) w')) =
        requests w' @ GetClusterReq \<lparr>gci_Identifier = cco_Identifier out\<rparr> # rs)"
    using ReadOne_asks [where w = w' and a = n and L = L and rm = rm] id by (cases "cco_Identifier out") auto
  with new(1,4) sent id Delete_asks [where w = w' and a = n and L = L and rm = rm, unfolded id] show ?thesis by auto
qed

lemma ref_create:
  "\<exists>n w'. Create ref_lib ref_rm (Some (Some \<lparr>ko = Some 0\<rparr>)) ref_world =
     (Ret (Some (Some \<lparr>ko = Some n\<rparr>), None), w')"
  using Create_run [OF ref_aws ref_error ref_sound ref_allocated, of ref_rm]
  by (auto simp: ref_rm_def ref_api_def Let_def split: prod.splits)

theorem create_names_the_cluster_witness:
  "\<exists>n w'. Create ref_lib ref_rm (Some (Some \<lparr>ko = Some 0\<rparr>)) ref_world =
      (Ret (Some (Some \<lparr>ko = Some n\<rparr>), None), w') \<and>
    status_Identifier (Status (heap w' n)) = Some ''c1'' \<and>
    requests (snd (Delete ref_lib ref_rm (Some (Some \<lparr>ko = Some n\<rparr>)) w')) =
      requests w' @ [DeleteClusterReq \<lparr>dci_Identifier = Some ''c1''\<rparr>]"
proof -
  obtain n w' where run: "Create ref_lib ref_rm (Some (Some \<lparr>ko = Some 0\<rparr>)) ref_world =
      (Ret (Some (Some \<lparr>ko = Some n\<rparr>), None), w')" using ref_create by blast
  have "cco_Identifier out = Some ''c1''"
    if "fst (api_CreateCluster (rm_sdkapi ref_rm) i s) = Inr out" for out i s
    using that by (auto simp: ref_rm_def ref_api_def ref_created_def Let_def)
  with create_names_the_cluster [OF ref_aws ref_error ref_sound ref_allocated run] run
  show ?thesis by metis
qed

section \<open>The object store and the memory\<close>

text \<open>
  A memory represents the objects of a world: each object is at an address of its own, shows its
  content, and shares no cell with another one.
\<close>

definition represents :: "(addr \<Rightarrow> addr) \<Rightarrow> memory \<Rightarrow> 's world \<Rightarrow> bool" where
  "represents f m w \<longleftrightarrow>
     (\<forall>a < brk w. foot_object m (Some (f a)) \<subseteq> {..<next_addr m} \<and>
        view_object m (Some (f a)) = Some (heap w a)) \<and>
     (\<forall>a < brk w. \<forall>b < brk w. a \<noteq> b \<longrightarrow>
        foot_object m (Some (f a)) \<inter> foot_object m (Some (f b)) = {})"

lemma representsD:
  assumes "represents f m w" "a < brk w"
  shows "foot_object m (Some (f a)) \<subseteq> {..<next_addr m}" and "view_object m (Some (f a)) = Some (heap w a)"
    and "b < brk w \<Longrightarrow> a \<noteq> b \<Longrightarrow> foot_object m (Some (f a)) \<inter> foot_object m (Some (f b)) = {}"
  using assms by (auto simp: represents_def)

lemma represents_copy:
  assumes rep: "represents f m w" and a: "a < brk w" and law: "deepcopy_law D"
    and e: "extends m m'" and v: "view_object m' (Some b) = view_object m (Some (f a))"
    and foot: "foot_object m' (Some b) \<subseteq> {next_addr m..<next_addr m'}"
  shows "represents (f(brk w := b)) m' (w\<lparr>heap := (heap w)(brk w := heap w a), brk := Suc (brk w)\<rparr>)"
proof -
  have old: "view_object m' (Some (f c)) = Some (heap w c)" "foot_object m' (Some (f c)) = foot_object m (Some (f c))"
    "foot_object m' (Some (f c)) \<subseteq> {..<next_addr m}" if "c < brk w" for c
    using deep_copy.kept [OF deep_object [OF law] e] representsD [OF rep that] by simp_all
  have low: "{..<next_addr m} \<subseteq> {..<next_addr m'}" "{next_addr m..<next_addr m'} \<subseteq> {..<next_addr m'}"
    using extends_next [OF e] by auto
  have apart: "foot_object m' (Some (f c)) \<inter> foot_object m' (Some b) = {}" if "c < brk w" for c
  proof -
    have "{..<next_addr m} \<inter> {next_addr m..<next_addr m'} = {}" by auto
    with old(3) [OF that] foot show ?thesis by blast
  qed
  have other: "foot_object m' (Some (f c)) \<inter> foot_object m' (Some (f d)) = {}"
    if "c < brk w" "d < brk w" "c \<noteq> d" for c d
    using representsD(3) [OF rep that] old(2) that by simp
  have new: "view_object m' (Some b) = Some (heap w a)" using v representsD(2) [OF rep a] by simp
  have inside: "foot_object m' (Some (f c)) \<subseteq> {..<next_addr m'}" if "c < brk w" for c
    using old(3) [OF that] low(1) by (rule order_trans)
  have inside_b: "foot_object m' (Some b) \<subseteq> {..<next_addr m'}" using foot low(2) by (rule order_trans)
  show ?thesis
    unfolding represents_def
    using new old(1) inside inside_b apart other by (auto simp: less_Suc_eq Int_commute)
qed

lemma represents_write:
  assumes rep: "represents f m w" and a: "a < brk w"
    and out: "agree (- foot_object m (Some (f a))) m n" and size: "next_addr n = next_addr m"
    and foot: "foot_object n (Some (f a)) \<subseteq> foot_object m (Some (f a))"
    and v: "view_object n (Some (f a)) = Some k"
  shows "represents f n (w\<lparr>heap := (heap w)(a := k)\<rparr>)"
proof -
  have kept: "view_object n (Some (f c)) = Some (heap w c) \<and>
      foot_object n (Some (f c)) = foot_object m (Some (f c))" if "c < brk w" "c \<noteq> a" for c
  proof -
    have "foot_object m (Some (f c)) \<subseteq> - foot_object m (Some (f a))"
      using representsD(3) [OF rep that(1) a that(2)] by blast
    from deep_copy.local [OF deep_object [OF ref_copy_law] agree_subset [OF out this]]
    show ?thesis using representsD(2) [OF rep that(1)] by simp
  qed
  have inside: "foot_object n (Some (f c)) \<subseteq> {..<next_addr n}" if "c < brk w" for c
    using representsD(1) [OF rep that] kept [OF that] foot size by (cases "c = a") auto
  have apart: "foot_object n (Some (f c)) \<inter> foot_object n (Some (f d)) = {}"
    if "c < brk w" "d < brk w" "c \<noteq> d" for c d
    using representsD(3) [OF rep that] kept [OF that(1)] kept [OF that(2)] foot that(3)
    by (cases "c = a"; cases "d = a") auto
  show ?thesis
    unfolding represents_def using v kept inside apart by auto
qed

text \<open>
  C14. The object store of the reconciler's model is what memory does: when the memory represents the
  objects of a world, the generated \<open>DeepCopy\<close> and the one on the object store go to states that
  represent each other again, with the new object at the next address; and a write to the cells of
  one object, which shows a new content there, is an assignment to that object alone.
\<close>

theorem object_store_simulates_memory:
  assumes "represents f m w" "a < brk w" "deepcopy_law D"
  shows "(\<exists>b m' w'. DeepCopy_Cluster D (Some (f a)) m = (Ret (Some b), m') \<and>
      Cluster_DeepCopy (Some a) w = (Ret (Some (brk w)), w') \<and> represents (f(brk w := b)) m' w') \<and>
    (\<forall>n k. agree (- foot_object m (Some (f a))) m n \<and> next_addr n = next_addr m \<and>
      foot_object n (Some (f a)) \<subseteq> foot_object m (Some (f a)) \<and> view_object n (Some (f a)) = Some k \<longrightarrow>
      represents f n (snd (modify_obj (\<lambda>_. k) (Some a) w)))"
proof -
  obtain q m' where q: "DeepCopy_Cluster D (Some (f a)) m = (Ret q, m')" "extends m m'"
      "view_object m' q = view_object m (Some (f a))" "foot_object m' q \<subseteq> {next_addr m..<next_addr m'}"
    using deep_copy.copyE [OF deep_object [OF assms(3)] representsD(1) [OF assms(1,2)]] by blast
  from q(3) obtain b where b: "q = Some b" by (cases q) (auto simp: view_object_def view_pointer_def)
  from represents_copy [OF assms q(2) q(3,4) [unfolded b]] q(1) b have
    "\<exists>b m' w'. DeepCopy_Cluster D (Some (f a)) m = (Ret (Some b), m') \<and>
      Cluster_DeepCopy (Some a) w = (Ret (Some (brk w)), w') \<and> represents (f(brk w := b)) m' w'"
    by (simp add: DeepCopy_run)
  moreover have "represents f n (snd (modify_obj (\<lambda>_. k) (Some a) w))"
    if "agree (- foot_object m (Some (f a))) m n" "next_addr n = next_addr m"
      "foot_object n (Some (f a)) \<subseteq> foot_object m (Some (f a))" "view_object n (Some (f a)) = Some k" for n k
    using represents_write [OF assms(1,2) that] by (simp add: modify_obj_run)
  ultimately show ?thesis by blast
qed

text \<open>The memory of \<open>DeepCopy\<close>'s example and the world with that one object.\<close>

definition ref_store :: "ref_svc world" where
  "ref_store = ref_world\<lparr>heap := (\<lambda>_. empty_Cluster\<lparr>Spec := (Spec empty_Cluster)
     \<lparr>spec_Tags := Some (fmupd ''team'' (Some ''blue'') fmempty)\<rparr>\<rparr>)\<rparr>"

lemma ref_represents: "represents (\<lambda>_. 2) ref_memory ref_store"
  by (auto simp: represents_def ref_foot ref_store_def ref_world_def)
    (simp_all add: ref_memory_def view_object_def view_pointer_def view_Cluster_def view_ClusterSpec_def
      view_ClusterStatus_def zero_Cluster_def zero_ClusterSpec_def zero_ClusterStatus_def
      view_string_def view_tags_def view_conditions_def empty_Cluster_def zero_TypeMeta_def
      zero_ObjectMeta_def fmmap_fmupd)

theorem object_store_simulates_memory_witness:
  "\<exists>b m' w'. DeepCopy_Cluster ref_copy (Some 2) ref_memory = (Ret (Some b), m') \<and>
     Cluster_DeepCopy (Some 0) ref_store = (Ret (Some 1), w') \<and> represents ((\<lambda>_. 2)(1 := b)) m' w'"
proof -
  have "brk ref_store = 1" by (simp add: ref_store_def ref_world_def)
  with object_store_simulates_memory [OF ref_represents _ ref_copy_law, of 0] show ?thesis by simp
qed

end
